(* ===== verification/Prelude.thy ===== *)
theory Prelude
  imports Complex_Main
begin

text \<open>
  What every theory of the development shares: the state-and-exception operations in which
  the handlers are written, the rules that evaluate them, the calculus of preserved
  invariants, and generic facts on lists of rows.

  A Python function that may raise and that changes state is an operation \<open>('s, 'a) op\<close>: from
  a state to a result (an exception or a value) and the state it leaves. An exception keeps
  the state changes made before it was raised, as in Python.
\<close>

section \<open>Exceptions\<close>

text \<open>
  The domain errors are the class hierarchy of \<open>backend/web/exceptions.py\<close>, each with the
  arguments of its \<open>__init__\<close> (message, resource, error code); they stand here because every
  operation's type mentions them.
\<close>

datatype domain_error =
    ApplicationError string "string option"
  | ConflictError string string
  | DuplicateResourceError string "string option"
  | NotFoundError string "string option"
  | UnauthorizedError string string
  | ForbiddenError string string
  | ValidationError string string

text \<open>
  The detail of an \<open>HTTPException\<close>: a text; the dict \<open>{message, error_code, detail}\<close> of a
  \<open>DomainHTTPException\<close>; a dict of texts; or a dict of texts and a list of keys.
\<close>

datatype http_detail =
    DetailText string
  | DetailDomain string "string option"
  | DetailDict "(string \<times> string) list"
  | DetailKeys "(string \<times> string) list" "string list"

text \<open>
  Every exception the modelled code raises, its own and the ones of Python and the libraries
  that pass through it. \<open>RemoteError\<close> stands for any other exception of an external call.
\<close>

datatype exn =
    DomainError domain_error
  | HTTPException int http_detail
  | ValueError string
  | TypeError
  | KeyError
  | AttributeError string
  | RuntimeError string
  | MultipleResultsFound
  | IntegrityError
  | TokenStoreUnavailableError
  | RbacPermissionError string
  | CircuitBreakerOpenError
  | BodyTooLarge
  | RemoteError string

section \<open>Operations\<close>

type_synonym ('s, 'a) op = "'s \<Rightarrow> (exn + 'a) \<times> 's"

definition ret :: "'a \<Rightarrow> ('s, 'a) op" where
  "ret a = (\<lambda>s. (Inr a, s))"

definition throw :: "exn \<Rightarrow> ('s, 'a) op" where
  "throw e = (\<lambda>s. (Inl e, s))"

definition bnd :: "('s, 'a) op \<Rightarrow> ('a \<Rightarrow> ('s, 'b) op) \<Rightarrow> ('s, 'b) op" where
  "bnd m f = (\<lambda>s. case m s of (Inl e, s') \<Rightarrow> (Inl e, s') | (Inr a, s') \<Rightarrow> f a s')"

definition look :: "('s \<Rightarrow> 'a) \<Rightarrow> ('s, 'a) op" where
  "look f = (\<lambda>s. (Inr (f s), s))"

definition modify :: "('s \<Rightarrow> 's) \<Rightarrow> ('s, unit) op" where
  "modify f = (\<lambda>s. (Inr (), f s))"

text \<open>A pure computation that may raise.\<close>

definition pure_op :: "exn + 'a \<Rightarrow> ('s, 'a) op" where
  "pure_op r = (\<lambda>s. (r, s))"

text \<open>\<open>try: m except: handler\<close>; the handler sees the exception and decides.\<close>

definition try_except :: "('s, 'a) op \<Rightarrow> (exn \<Rightarrow> ('s, 'a) op) \<Rightarrow> ('s, 'a) op" where
  "try_except m h = (\<lambda>s. case m s of (Inl e, s') \<Rightarrow> h e s' | (Inr a, s') \<Rightarrow> (Inr a, s'))"

definition raise_if :: "bool \<Rightarrow> exn \<Rightarrow> ('s, unit) op" where
  "raise_if b e = (if b then throw e else ret ())"

definition when_op :: "bool \<Rightarrow> ('s, unit) op \<Rightarrow> ('s, unit) op" where
  "when_op b m = (if b then m else ret ())"

text \<open>An operation on a part of the state, run on the whole of it.\<close>

definition zoom :: "('s \<Rightarrow> 't) \<Rightarrow> ('t \<Rightarrow> 's \<Rightarrow> 's) \<Rightarrow> ('t, 'a) op \<Rightarrow> ('s, 'a) op" where
  "zoom get put m = (\<lambda>s. case m (get s) of (r, t) \<Rightarrow> (r, put t s))"

text \<open>A \<open>for\<close> loop over a list, and one that collects results; both stop at an exception.\<close>

fun for_each :: "'a list \<Rightarrow> ('a \<Rightarrow> ('s, unit) op) \<Rightarrow> ('s, unit) op" where
  "for_each [] f = ret ()"
| "for_each (x # xs) f = bnd (f x) (\<lambda>_. for_each xs f)"

fun map_each :: "'a list \<Rightarrow> ('a \<Rightarrow> ('s, 'b) op) \<Rightarrow> ('s, 'b list) op" where
  "map_each [] f = ret []"
| "map_each (x # xs) f = bnd (f x) (\<lambda>y. bnd (map_each xs f) (\<lambda>ys. ret (y # ys)))"

section \<open>Evaluating operations\<close>

named_theorems op_simps "rules that evaluate an operation at a state"

lemma ret_apply [op_simps]: "ret a s = (Inr a, s)"
  by (simp add: ret_def)

lemma throw_apply [op_simps]: "throw e s = (Inl e, s)"
  by (simp add: throw_def)

lemma look_apply [op_simps]: "look f s = (Inr (f s), s)"
  by (simp add: look_def)

lemma modify_apply [op_simps]: "modify f s = (Inr (), f s)"
  by (simp add: modify_def)

lemma pure_op_apply [op_simps]: "pure_op r s = (r, s)"
  by (simp add: pure_op_def)

lemma bnd_ret [op_simps]: "bnd (ret a) f = f a"
  by (simp add: bnd_def ret_def)

lemma bnd_throw [op_simps]: "bnd (throw e) f = throw e"
  by (simp add: bnd_def throw_def)

lemma bnd_look [op_simps]: "bnd (look f) g s = g (f s) s"
  by (simp add: bnd_def look_def)

lemma bnd_modify [op_simps]: "bnd (modify f) g s = g () (f s)"
  by (simp add: bnd_def modify_def)

lemma bnd_pure_op [op_simps]:
  "bnd (pure_op r) g s = (case r of Inl e \<Rightarrow> (Inl e, s) | Inr a \<Rightarrow> g a s)"
  by (simp add: bnd_def pure_op_def split: sum.split)

lemma bnd_assoc: "bnd (bnd m f) g = bnd m (\<lambda>a. bnd (f a) g)"
  by (rule ext) (auto simp: bnd_def split: prod.splits sum.splits)

lemma bnd_apply:
  "bnd m f s = (case m s of (Inl e, s') \<Rightarrow> (Inl e, s') | (Inr a, s') \<Rightarrow> f a s')"
  by (simp add: bnd_def)

lemma bnd_Inr: "m s = (Inr a, s') \<Longrightarrow> bnd m f s = f a s'"
  by (simp add: bnd_def)

lemma bnd_Inl: "m s = (Inl e, s') \<Longrightarrow> bnd m f s = (Inl e, s')"
  by (simp add: bnd_def)

lemma bnd_InrE:
  assumes "bnd m f s = (Inr b, t)"
  obtains a s' where "m s = (Inr a, s')" and "f a s' = (Inr b, t)"
  using assms by (auto simp: bnd_def split: prod.splits sum.splits)

lemma try_except_Inr: "m s = (Inr a, s') \<Longrightarrow> try_except m h s = (Inr a, s')"
  by (simp add: try_except_def)

lemma try_except_Inl: "m s = (Inl e, s') \<Longrightarrow> try_except m h s = h e s'"
  by (simp add: try_except_def)

lemma try_except_apply:
  "try_except m h s = (case m s of (Inl e, s') \<Rightarrow> h e s' | (Inr a, s') \<Rightarrow> (Inr a, s'))"
  by (simp add: try_except_def)

lemma raise_if_apply [op_simps]: "raise_if b e s = (if b then (Inl e, s) else (Inr (), s))"
  by (simp add: raise_if_def throw_def ret_def)

lemma bnd_raise_if [op_simps]: "bnd (raise_if b e) f s = (if b then (Inl e, s) else f () s)"
  by (simp add: raise_if_def bnd_def throw_def ret_def)

lemma when_op_apply [op_simps]: "when_op b m s = (if b then m s else (Inr (), s))"
  by (simp add: when_op_def ret_def)

lemma bnd_when_op [op_simps]: "bnd (when_op b m) f s = (if b then bnd m f s else f () s)"
  by (simp add: when_op_def bnd_def ret_def)

lemma zoom_apply: "zoom get put m s = (fst (m (get s)), put (snd (m (get s))) s)"
  by (simp add: zoom_def split: prod.split)

lemma bnd_zoom:
  "bnd (zoom get put m) f s =
    (case m (get s) of (Inl e, t) \<Rightarrow> (Inl e, put t s) | (Inr a, t) \<Rightarrow> f a (put t s))"
  by (simp add: bnd_def zoom_def split: prod.split sum.split)

lemma bnd_Pair [op_simps]:
  "bnd (Pair (Inr a)) f = f a" "bnd (Pair (Inl e)) f = Pair (Inl e)"
  by (simp_all add: bnd_def fun_eq_iff)

lemma for_each_append: "for_each (xs @ ys) f = bnd (for_each xs f) (\<lambda>_. for_each ys f)"
  by (induction xs) (simp_all add: op_simps bnd_assoc)

section \<open>Invariants that operations preserve\<close>

text \<open>
  \<open>preserves P m\<close>: whatever \<open>m\<close> returns or raises, it leaves a state with \<open>P\<close> when it starts in
  one. The rules follow the shape of an operation, so that a handler's proof is
  \<open>intro preserves_intros\<close> down to the operations that write.
\<close>

definition preserves :: "('s \<Rightarrow> bool) \<Rightarrow> ('s, 'a) op \<Rightarrow> bool" where
  "preserves P m \<longleftrightarrow> (\<forall>s. P s \<longrightarrow> P (snd (m s)))"

named_theorems preserves_intros "invariant rules for operations"

lemma preservesI: "(\<And>s. P s \<Longrightarrow> P (snd (m s))) \<Longrightarrow> preserves P m"
  by (simp add: preserves_def)

lemma preservesD: "preserves P m \<Longrightarrow> P s \<Longrightarrow> P (snd (m s))"
  by (simp add: preserves_def)

lemma preserves_result: "preserves P m \<Longrightarrow> P s \<Longrightarrow> m s = (r, t) \<Longrightarrow> P t"
  by (metis preservesD snd_conv)

lemma preserves_ret [preserves_intros]: "preserves P (ret a)"
  by (simp add: preserves_def ret_def)

lemma preserves_throw [preserves_intros]: "preserves P (throw e)"
  by (simp add: preserves_def throw_def)

lemma preserves_look [preserves_intros]: "preserves P (look f)"
  by (simp add: preserves_def look_def)

lemma preserves_pure_op [preserves_intros]: "preserves P (pure_op r)"
  by (simp add: preserves_def pure_op_def)

lemma preserves_raise_if [preserves_intros]: "preserves P (raise_if b e)"
  by (simp add: preserves_def raise_if_def throw_def ret_def)

lemma preserves_modify: "(\<And>s. P s \<Longrightarrow> P (f s)) \<Longrightarrow> preserves P (modify f)"
  by (simp add: preserves_def modify_def)

lemma preserves_bnd [preserves_intros]:
  "preserves P m \<Longrightarrow> (\<And>a. preserves P (f a)) \<Longrightarrow> preserves P (bnd m f)"
  unfolding preserves_def bnd_def
  by (fastforce split: prod.splits sum.splits dest: spec)

lemma preserves_try_except [preserves_intros]:
  "preserves P m \<Longrightarrow> (\<And>e. preserves P (h e)) \<Longrightarrow> preserves P (try_except m h)"
  unfolding preserves_def try_except_def
  by (fastforce split: prod.splits sum.splits dest: spec)

lemma preserves_if [preserves_intros]:
  "(b \<Longrightarrow> preserves P m) \<Longrightarrow> (\<not> b \<Longrightarrow> preserves P n) \<Longrightarrow> preserves P (if b then m else n)"
  by simp

lemma preserves_when_op [preserves_intros]: "preserves P m \<Longrightarrow> preserves P (when_op b m)"
  by (simp add: when_op_def preserves_ret)

lemma preserves_case_option [preserves_intros]:
  "preserves P m \<Longrightarrow> (\<And>x. preserves P (f x)) \<Longrightarrow> preserves P (case v of None \<Rightarrow> m | Some x \<Rightarrow> f x)"
  by (simp split: option.split)

lemma preserves_for_each [preserves_intros]:
  "(\<And>x. preserves P (f x)) \<Longrightarrow> preserves P (for_each xs f)"
  by (induction xs) (auto intro: preserves_intros)

lemma preserves_map_each [preserves_intros]:
  "(\<And>x. preserves P (f x)) \<Longrightarrow> preserves P (map_each xs f)"
  by (induction xs) (auto intro: preserves_intros)

lemma preserves_zoom:
  "(\<And>s. P s \<Longrightarrow> P (put (snd (m (get s))) s)) \<Longrightarrow> preserves P (zoom get put m)"
  by (simp add: preserves_def zoom_apply)

section \<open>Rows\<close>

text \<open>
  A table is the list of its rows in insertion order. A new row's id is one more than the
  largest in use (SQLite's rule; PostgreSQL's sequence also never hands out an id in use).
\<close>

definition fresh_id :: "int list \<Rightarrow> int" where
  "fresh_id ids = 1 + fold max ids 0"

lemma fold_max_ge: "x \<in> set ids \<Longrightarrow> x \<le> fold max ids (a::int)" and fold_max_init: "a \<le> fold max ids (a::int)"
  by (induction ids arbitrary: a) (auto, (meson max.cobounded1 max.cobounded2 order_trans)+)

lemma fresh_id_notin [simp]: "fresh_id ids \<notin> set ids"
  using fold_max_ge [of "fresh_id ids" ids 0] by (auto simp: fresh_id_def)

lemma fresh_id_image [simp]: "fresh_id (map f rows) \<notin> f ` set rows"
  using fresh_id_notin [of "map f rows"] by (simp only: set_map) simp

lemma fresh_id_pos: "0 < fresh_id ids"
  using fold_max_init [of 0 ids] by (simp add: fresh_id_def)

text \<open>\<open>replace_row key r rows\<close>: the row with the key of \<open>r\<close> becomes \<open>r\<close>.\<close>

definition replace_row :: "('r \<Rightarrow> 'k) \<Rightarrow> 'r \<Rightarrow> 'r list \<Rightarrow> 'r list" where
  "replace_row key r rows = map (\<lambda>x. if key x = key r then r else x) rows"

lemma map_key_replace_row [simp]: "map key (replace_row key r rows) = map key rows"
  by (simp add: replace_row_def)

lemma length_replace_row [simp]: "length (replace_row key r rows) = length rows"
  by (simp add: replace_row_def)

lemma replace_row_self:
  assumes "distinct (map key rows)" "r \<in> set rows"
  shows "replace_row key r rows = rows"
  unfolding replace_row_def using assms
  by (intro map_idI) (auto simp: distinct_map inj_on_def)

lemma set_replace_row:
  "set (replace_row key r rows) =
     {x \<in> set rows. key x \<noteq> key r} \<union> (if key r \<in> key ` set rows then {r} else {})"
  by (auto simp: replace_row_def image_iff)

definition find_row :: "('r \<Rightarrow> bool) \<Rightarrow> 'r list \<Rightarrow> 'r option" where
  "find_row p rows = (case filter p rows of [] \<Rightarrow> None | r # _ \<Rightarrow> Some r)"

lemma find_row_Some: "find_row p rows = Some r \<Longrightarrow> r \<in> set rows \<and> p r"
proof -
  assume "find_row p rows = Some r"
  then obtain rs where "filter p rows = r # rs"
    by (auto simp: find_row_def split: list.splits)
  then have "r \<in> set (filter p rows)" by simp
  then show ?thesis by simp
qed

lemma find_row_None: "find_row p rows = None \<longleftrightarrow> (\<forall>r \<in> set rows. \<not> p r)"
proof -
  have "find_row p rows = None \<longleftrightarrow> filter p rows = []"
    by (simp add: find_row_def split: list.split)
  then show ?thesis by (simp add: filter_empty_conv)
qed

lemma find_row_append:
  "find_row p (xs @ ys) = (case find_row p xs of None \<Rightarrow> find_row p ys | Some r \<Rightarrow> Some r)"
  by (auto simp: find_row_def split: list.splits)

lemma find_row_key:
  "distinct (map key rows) \<Longrightarrow> r \<in> set rows \<Longrightarrow> find_row (\<lambda>x. key x = key r) rows = Some r"
  by (induction rows) (auto simp: find_row_def)

text \<open>\<open>OFFSET skip LIMIT limit\<close> of a query.\<close>

definition page_of :: "nat \<Rightarrow> nat \<Rightarrow> 'r list \<Rightarrow> 'r list" where
  "page_of skip limit rows = take limit (drop skip rows)"

text \<open>\<open>dict.setdefault(k, set()).add(x)\<close> and its kin work on sets kept as lists without repeats.\<close>

definition set_add :: "'a \<Rightarrow> 'a list \<Rightarrow> 'a list" where
  "set_add x xs = (if x \<in> set xs then xs else xs @ [x])"

lemma set_set_add [simp]: "set (set_add x xs) = insert x (set xs)"
  by (auto simp: set_add_def)

lemma distinct_set_add [simp]: "distinct (set_add x xs) = distinct xs"
  by (auto simp: set_add_def)

text \<open>When a join, written as a list comprehension, has a row.\<close>

lemma concat_map_nonempty: "concat (map f xs) \<noteq> [] \<longleftrightarrow> (\<exists>x \<in> set xs. f x \<noteq> [])"
  by auto

lemma if_nonempty: "(if b then xs else []) \<noteq> [] \<longleftrightarrow> b \<and> xs \<noteq> []"
  by simp

lemmas join_nonempty = concat_map_nonempty if_nonempty list.distinct(2) simp_thms

end
