(* ===== verification/PyStr.thy ===== *)
theory PyStr
  imports Prelude
begin

text \<open>
  Python's \<open>str\<close> operations the program uses, on \<open>string\<close>. A character is a code point below
  256 (Latin-1): \<open>lower\<close> and \<open>strip\<close> do what Python does on those. \<open>str(n)\<close> and \<open>int(s)\<close> are
  \<open>show_int\<close> and \<open>parse_int\<close>, with the round trip the token stores rely on.
\<close>

section \<open>Case, white space, prefixes, splitting\<close>

definition lower_char :: "char \<Rightarrow> char" where
  "lower_char c = (let n = of_char c :: nat in
     if 65 \<le> n \<and> n \<le> 90 \<or> 192 \<le> n \<and> n \<le> 222 \<and> n \<noteq> 215 then char_of (n + 32) else c)"

definition lower :: "string \<Rightarrow> string" where
  "lower s = map lower_char s"

definition is_space :: "char \<Rightarrow> bool" where
  "is_space c = (let n = of_char c :: nat in
     9 \<le> n \<and> n \<le> 13 \<or> 28 \<le> n \<and> n \<le> 32 \<or> n = 133 \<or> n = 160)"

definition lstrip :: "string \<Rightarrow> string" where
  "lstrip s = dropWhile is_space s"

definition rstrip :: "string \<Rightarrow> string" where
  "rstrip s = rev (dropWhile is_space (rev s))"

definition strip :: "string \<Rightarrow> string" where
  "strip s = rstrip (lstrip s)"

definition startswith :: "string \<Rightarrow> string \<Rightarrow> bool" where
  "startswith s p \<longleftrightarrow> take (length p) s = p"

text \<open>\<open>s.split(c)\<close> for a one-character separator: always at least one piece.\<close>

fun split_on :: "char \<Rightarrow> string \<Rightarrow> string list" where
  "split_on c [] = [[]]"
| "split_on c (x # xs) =
     (if x = c then [] # split_on c xs
      else (case split_on c xs of [] \<Rightarrow> [[x]] | p # ps \<Rightarrow> (x # p) # ps))"

text \<open>\<open>s.split(c, 1)\<close> where \<open>c\<close> occurs in \<open>s\<close>: what is before it and what is after it.\<close>

definition split_once :: "char \<Rightarrow> string \<Rightarrow> (string \<times> string) option" where
  "split_once c s = (if c \<in> set s
     then Some (takeWhile (\<lambda>x. x \<noteq> c) s, tl (dropWhile (\<lambda>x. x \<noteq> c) s)) else None)"

lemma lower_char_idem [simp]: "lower_char (lower_char c) = lower_char c"
proof -
  have "(of_char c :: nat) < 256" by simp
  then show ?thesis
    by (auto simp: lower_char_def Let_def of_char_of)
qed

lemma lower_idem [simp]: "lower (lower s) = lower s"
  by (simp add: lower_def)

lemma length_lower [simp]: "length (lower s) = length s"
  by (simp add: lower_def)

lemma lower_append [simp]: "lower (s @ t) = lower s @ lower t"
  by (simp add: lower_def)

lemma is_space_lower_char [simp]: "is_space (lower_char c) = is_space c"
proof -
  have "(of_char c :: nat) < 256" by simp
  then show ?thesis
    by (auto simp: lower_char_def is_space_def Let_def of_char_of)
qed

lemma strip_lower: "strip (lower s) = lower (strip s)"
proof -
  have drop: "dropWhile is_space (map lower_char t) = map lower_char (dropWhile is_space t)" for t
    by (induction t) auto
  show ?thesis
    by (simp add: strip_def lstrip_def rstrip_def lower_def drop rev_map)
qed

lemma lstrip_no_space: "\<forall>c \<in> set s. \<not> is_space c \<Longrightarrow> lstrip s = s"
  by (cases s) (auto simp: lstrip_def)

lemma strip_no_space: "\<forall>c \<in> set s. \<not> is_space c \<Longrightarrow> strip s = s"
proof -
  assume a: "\<forall>c \<in> set s. \<not> is_space c"
  then have "dropWhile is_space (rev s) = rev s"
    by (cases "rev s") (simp, metis dropWhile_eq_self_iff list.set_sel(1) list.discI set_rev)
  with a show ?thesis by (simp add: strip_def rstrip_def lstrip_no_space)
qed

lemma rstrip_prefix: "t = rstrip t @ rev (takeWhile is_space (rev t))"
  unfolding rstrip_def by (metis rev_append rev_rev_ident takeWhile_dropWhile_id)

lemma rstrip_idem: "rstrip (rstrip t) = rstrip t"
  by (simp add: rstrip_def)

lemma lstrip_rstrip_lstrip: "lstrip (rstrip (lstrip s)) = rstrip (lstrip s)"
proof (cases "rstrip (lstrip s) = []")
  case False
  then have "hd (rstrip (lstrip s)) = hd (lstrip s)" and "lstrip s \<noteq> []"
    using rstrip_prefix [of "lstrip s"] by (metis hd_append2, metis append_is_Nil_conv)
  then have "\<not> is_space (hd (rstrip (lstrip s)))"
    using hd_dropWhile [of is_space s] by (simp add: lstrip_def)
  then show ?thesis by (simp add: lstrip_def dropWhile_eq_self_iff)
qed (simp add: lstrip_def)

lemma strip_idem [simp]: "strip (strip s) = strip s"
  by (simp add: strip_def lstrip_rstrip_lstrip rstrip_idem)

lemma startswith_append [simp]: "startswith (p @ s) p"
  by (simp add: startswith_def)

lemma startswith_iff: "startswith s p \<longleftrightarrow> (\<exists>t. s = p @ t)"
  unfolding startswith_def by (metis append_eq_conv_conj append_take_drop_id)

lemma split_on_nonempty [simp]: "split_on c s \<noteq> []"
  by (induction s) (auto split: list.splits)

lemma split_once_Some:
  assumes "split_once c s = Some (a, b)"
  shows "s = a @ c # b" and "c \<notin> set a"
proof -
  from assms have c: "c \<in> set s" and ab: "a = takeWhile (\<lambda>x. x \<noteq> c) s"
    "b = tl (dropWhile (\<lambda>x. x \<noteq> c) s)"
    by (auto simp: split_once_def split: if_splits)
  from c have "dropWhile (\<lambda>x. x \<noteq> c) s = c # b"
    unfolding ab by (induction s) auto
  then show "s = a @ c # b" unfolding ab(1) by (metis takeWhile_dropWhile_id)
  show "c \<notin> set a" unfolding ab(1) using set_takeWhileD by fastforce
qed

section \<open>Decimal numbers\<close>

definition digit_char :: "nat \<Rightarrow> char" where
  "digit_char d = char_of (48 + d)"

definition is_digit :: "char \<Rightarrow> bool" where
  "is_digit c = (let n = of_char c :: nat in 48 \<le> n \<and> n \<le> 57)"

definition digit_val :: "char \<Rightarrow> nat" where
  "digit_val c = of_char c - 48"

fun show_nat :: "nat \<Rightarrow> string" where
  "show_nat n = (if n < 10 then [digit_char n] else show_nat (n div 10) @ [digit_char (n mod 10)])"

declare show_nat.simps [simp del]

definition show_int :: "int \<Rightarrow> string" where
  "show_int n = (if n < 0 then ''-'' @ show_nat (nat (- n)) else show_nat (nat n))"

text \<open>The digits of \<open>int(s)\<close>: single underscores may stand between digits.\<close>

fun parse_digits :: "nat \<Rightarrow> bool \<Rightarrow> string \<Rightarrow> nat option" where
  "parse_digits acc prev [] = (if prev then Some acc else None)"
| "parse_digits acc prev (c # cs) =
     (if is_digit c then parse_digits (10 * acc + digit_val c) True cs
      else if c = CHR ''_'' \<and> prev then parse_digits acc False cs
      else None)"

definition parse_int :: "string \<Rightarrow> int option" where
  "parse_int s = (let t = strip s in
     if t \<noteq> [] \<and> hd t = CHR ''-'' then map_option (\<lambda>n. - int n) (parse_digits 0 False (tl t))
     else if t \<noteq> [] \<and> hd t = CHR ''+'' then map_option int (parse_digits 0 False (tl t))
     else map_option int (parse_digits 0 False t))"

lemma digit_char_props:
  assumes "d < 10"
  shows "is_digit (digit_char d)" "digit_val (digit_char d) = d"
    "\<not> is_space (digit_char d)" "digit_char d \<noteq> CHR ''-''" "digit_char d \<noteq> CHR ''+''"
  using assms
  by (auto simp: is_digit_def digit_char_def digit_val_def is_space_def of_char_of
      dest!: arg_cong [where f = "of_char :: char \<Rightarrow> nat"])

lemma show_nat_nonempty [simp]: "show_nat n \<noteq> []"
  by (subst show_nat.simps) simp

lemma show_nat_chars: "c \<in> set (show_nat n) \<Longrightarrow> \<exists>d < 10. c = digit_char d"
proof (induction n rule: show_nat.induct)
  case (1 n)
  show ?case
  proof (cases "n < 10")
    case True
    with 1 show ?thesis by (subst (asm) show_nat.simps) auto
  next
    case False
    with 1 show ?thesis
      by (subst (asm) show_nat.simps) (auto intro: exI [of _ "n mod 10"])
  qed
qed

lemma parse_digits_show_nat:
  "parse_digits acc prev (show_nat n @ ds) =
     parse_digits (acc * 10 ^ length (show_nat n) + n) True ds"
proof (induction n arbitrary: ds rule: show_nat.induct)
  case (1 n)
  show ?case
  proof (cases "n < 10")
    case True
    then show ?thesis
      by (simp add: show_nat.simps [of n] digit_char_props mult.commute)
  next
    case False
    have "show_nat n = show_nat (n div 10) @ [digit_char (n mod 10)]"
      using False by (simp add: show_nat.simps [of n])
    moreover have "10 * (acc * 10 ^ k + n div 10) + n mod 10 = acc * 10 ^ Suc k + n" for k
      by (simp add: algebra_simps)
    ultimately show ?thesis
      using False "1.IH" by (simp add: digit_char_props algebra_simps)
  qed
qed

lemma parse_digits_show_nat' [simp]: "parse_digits 0 False (show_nat n) = Some n"
  using parse_digits_show_nat [of 0 False n "[]"] by simp

lemma show_int_no_space: "c \<in> set (show_int n) \<Longrightarrow> \<not> is_space c"
  using show_nat_chars digit_char_props(3)
  by (auto simp: show_int_def is_space_def split: if_splits)

lemma hd_show_nat: "hd (show_nat n) \<noteq> CHR ''-''" "hd (show_nat n) \<noteq> CHR ''+''"
proof -
  obtain d where "d < 10" "hd (show_nat n) = digit_char d"
    using show_nat_chars [of "hd (show_nat n)" n] by auto
  then show "hd (show_nat n) \<noteq> CHR ''-''" "hd (show_nat n) \<noteq> CHR ''+''"
    by (simp_all add: digit_char_props)
qed

lemma parse_int_show_int [simp]: "parse_int (show_int n) = Some n"
proof -
  have "strip (show_int n) = show_int n"
    by (rule strip_no_space) (use show_int_no_space in blast)
  then show ?thesis
    by (auto simp: parse_int_def show_int_def hd_show_nat)
qed

lemma show_int_inj [simp]: "show_int m = show_int n \<longleftrightarrow> m = n"
  by (metis option.inject parse_int_show_int)

lemma show_int_nonempty [simp]: "show_int n \<noteq> []"
  by (simp add: show_int_def)

lemma show_int_no_letter:
  "c \<in> set (show_int n) \<Longrightarrow> (of_char c :: nat) < 58"
  using show_nat_chars [of c]
  by (fastforce simp: show_int_def digit_char_def of_char_of split: if_splits)

end
