(* ===== verification/Exceptions.thy ===== *)
theory Exceptions
  imports PyStr
begin

text \<open>
  \<open>backend/web/exceptions.py\<close>: the message and error code of each domain error, and its
  translation to an HTTP error (\<open>to_http_exception\<close>, a chain of \<open>isinstance\<close> tests in the
  source, so the subclass \<open>DuplicateResourceError\<close> counts as a \<open>ConflictError\<close>). The handlers of
  \<open>backend/app/factory.py\<close> that turn the exceptions left over into responses follow.
\<close>

section \<open>Messages and codes\<close>

fun error_message :: "domain_error \<Rightarrow> string" where
  "error_message (ApplicationError m c) = m"
| "error_message (ConflictError m c) = m"
| "error_message (DuplicateResourceError r m) =
     (case m of Some t \<Rightarrow> if t \<noteq> [] then t else r @ '' already exists'' | None \<Rightarrow> r @ '' already exists'')"
| "error_message (NotFoundError r m) =
     (case m of Some t \<Rightarrow> if t \<noteq> [] then t else r @ '' not found'' | None \<Rightarrow> r @ '' not found'')"
| "error_message (UnauthorizedError m c) = m"
| "error_message (ForbiddenError m c) = m"
| "error_message (ValidationError m c) = m"

fun error_code :: "domain_error \<Rightarrow> string option" where
  "error_code (ApplicationError m c) = c"
| "error_code (ConflictError m c) = Some c"
| "error_code (DuplicateResourceError r m) = Some (''duplicate_'' @ r)"
| "error_code (NotFoundError r m) = Some ''not_found''"
| "error_code (UnauthorizedError m c) = Some c"
| "error_code (ForbiddenError m c) = Some c"
| "error_code (ValidationError m c) = Some c"

text \<open>The errors with the default code of their class.\<close>

definition unauthorized :: "string \<Rightarrow> exn" where
  "unauthorized m = DomainError (UnauthorizedError m ''unauthorized'')"

definition forbidden :: "string \<Rightarrow> exn" where
  "forbidden m = DomainError (ForbiddenError m ''forbidden'')"

definition not_found :: "string \<Rightarrow> exn" where
  "not_found r = DomainError (NotFoundError r None)"

definition duplicate :: "string \<Rightarrow> string option \<Rightarrow> exn" where
  "duplicate r m = DomainError (DuplicateResourceError r m)"

section \<open>HTTP\<close>

fun status_of :: "domain_error \<Rightarrow> int" where
  "status_of (NotFoundError r m) = 404"
| "status_of (UnauthorizedError m c) = 401"
| "status_of (ForbiddenError m c) = 403"
| "status_of (ConflictError m c) = 409"
| "status_of (DuplicateResourceError r m) = 409"
| "status_of (ValidationError m c) = 422"
| "status_of (ApplicationError m c) = 400"

definition to_http_exception :: "domain_error \<Rightarrow> exn" where
  "to_http_exception e = HTTPException (status_of e) (DetailDomain (error_message e) (error_code e))"

text \<open>\<open>except DomainError as exc: raise to_http_exception(exc) from exc\<close>\<close>

definition http_errors :: "('s, 'a) op \<Rightarrow> ('s, 'a) op" where
  "http_errors m = try_except m (\<lambda>e. case e of
     DomainError d \<Rightarrow> throw (to_http_exception d) | _ \<Rightarrow> throw e)"

text \<open>
  What the client sees of an exception that reaches the application: the status of an
  \<open>HTTPException\<close>, 409 for an \<open>IntegrityError\<close> (the handler of \<open>create_app\<close>), and 500 for
  everything without a handler.
\<close>

fun response_status :: "exn \<Rightarrow> int" where
  "response_status (HTTPException st d) = st"
| "response_status IntegrityError = 409"
| "response_status e = 500"

lemma status_of_client_error: "400 \<le> status_of e \<and> status_of e < 500"
  by (cases e) auto

lemma http_errors_Inr [simp]: "http_errors m s = (Inr a, t) \<longleftrightarrow> m s = (Inr a, t)"
  by (auto simp: http_errors_def try_except_def throw_def split: prod.splits sum.splits exn.splits)

lemma http_errors_state [simp]: "snd (http_errors m s) = snd (m s)"
  by (auto simp: http_errors_def try_except_def throw_def split: prod.splits sum.splits exn.splits)

lemma preserves_http_errors [preserves_intros]: "preserves P m \<Longrightarrow> preserves P (http_errors m)"
  by (simp add: preserves_def)

lemma http_errors_no_domain: "fst (http_errors m s) \<noteq> Inl (DomainError d)"
  by (auto simp: http_errors_def try_except_def throw_def to_http_exception_def
      split: prod.splits sum.splits exn.splits)

end
