(* ===== verification/Json.thy ===== *)
theory Json
  imports PyStr "HOL-Library.Multiset" "HOL-Library.Char_ord" "HOL-Library.List_Lexorder"
begin

text \<open>
  JSON values as Python holds them after parsing a request body, the dynamic conversions the
  handlers apply to them (\<open>int(...)\<close>, \<open>str(...)\<close>, \<open>bool(...)\<close>, truth values), and \<open>json.dumps\<close>
  in the two forms the program uses: as it is, and compact with sorted keys (the form that is
  signed). How a float prints (\<open>float.__repr__\<close>) and how a list or dict prints under \<open>str\<close> are
  arguments, \<open>fr\<close> and \<open>repr\<close>.
\<close>

datatype json =
    JNull
  | JBool bool
  | JInt int
  | JFloat real
  | JStr string
  | JList "json list"
  | JObj "(string \<times> json) list"

type_synonym payload = "(string \<times> json) list"

section \<open>Reading a payload\<close>

text \<open>\<open>payload.get(k, default)\<close> and \<open>k in payload\<close>.\<close>

definition payload_get :: "payload \<Rightarrow> string \<Rightarrow> json \<Rightarrow> json" where
  "payload_get p k d = (case map_of p k of None \<Rightarrow> d | Some v \<Rightarrow> v)"

definition payload_has :: "payload \<Rightarrow> string \<Rightarrow> bool" where
  "payload_has p k \<longleftrightarrow> k \<in> fst ` set p"

fun truthy :: "json \<Rightarrow> bool" where
  "truthy JNull = False"
| "truthy (JBool b) = b"
| "truthy (JInt n) = (n \<noteq> 0)"
| "truthy (JFloat x) = (x \<noteq> 0)"
| "truthy (JStr s) = (s \<noteq> [])"
| "truthy (JList xs) = (xs \<noteq> [])"
| "truthy (JObj kvs) = (kvs \<noteq> [])"

text \<open>\<open>int(v)\<close>: floats are cut towards zero, texts are parsed, anything else is a \<open>TypeError\<close>.\<close>

fun py_int :: "json \<Rightarrow> exn + int" where
  "py_int (JInt n) = Inr n"
| "py_int (JBool b) = Inr (if b then 1 else 0)"
| "py_int (JFloat x) = Inr (if x < 0 then \<lceil>x\<rceil> else \<lfloor>x\<rfloor>)"
| "py_int (JStr s) = (case parse_int s of
     None \<Rightarrow> Inl (ValueError ''invalid literal for int()'') | Some n \<Rightarrow> Inr n)"
| "py_int v = Inl TypeError"

fun py_str :: "(json \<Rightarrow> string) \<Rightarrow> json \<Rightarrow> string" where
  "py_str repr JNull = ''None''"
| "py_str repr (JBool b) = (if b then ''True'' else ''False'')"
| "py_str repr (JInt n) = show_int n"
| "py_str repr (JStr s) = s"
| "py_str repr v = repr v"

section \<open>json.dumps\<close>

definition hex_digit :: "nat \<Rightarrow> char" where
  "hex_digit d = (if d < 10 then char_of (48 + d) else char_of (87 + d))"

text \<open>Escapes with \<open>ensure_ascii\<close>, the default: everything outside the printable ASCII range.\<close>

definition escape_char :: "char \<Rightarrow> string" where
  "escape_char c = (let n = of_char c :: nat in
     if n = 34 then [char_of (92::nat), char_of (34::nat)]
     else if n = 92 then [char_of (92::nat), char_of (92::nat)]
     else if n = 10 then char_of (92::nat) # ''n''
     else if n = 13 then char_of (92::nat) # ''r''
     else if n = 9 then char_of (92::nat) # ''t''
     else if n = 8 then char_of (92::nat) # ''b''
     else if n = 12 then char_of (92::nat) # ''f''
     else if 32 \<le> n \<and> n \<le> 126 then [c]
     else char_of (92::nat) # ''u00'' @ [hex_digit (n div 16), hex_digit (n mod 16)])"

definition dump_string :: "string \<Rightarrow> string" where
  "dump_string s = char_of (34::nat) # concat (map escape_char s) @ [char_of (34::nat)]"

fun join :: "string \<Rightarrow> string list \<Rightarrow> string" where
  "join sep [] = []"
| "join sep [x] = x"
| "join sep (x # y # xs) = x @ sep @ join sep (y # xs)"

fun dumps :: "(real \<Rightarrow> string) \<Rightarrow> string \<Rightarrow> string \<Rightarrow> json \<Rightarrow> string" where
  "dumps fr isep ksep JNull = ''null''"
| "dumps fr isep ksep (JBool b) = (if b then ''true'' else ''false'')"
| "dumps fr isep ksep (JInt n) = show_int n"
| "dumps fr isep ksep (JFloat x) = fr x"
| "dumps fr isep ksep (JStr s) = dump_string s"
| "dumps fr isep ksep (JList xs) = ''['' @ join isep (map (dumps fr isep ksep) xs) @ '']''"
| "dumps fr isep ksep (JObj kvs) =
     ''{'' @ join isep (map (\<lambda>kv. dump_string (fst kv) @ ksep @ dumps fr isep ksep (snd kv)) kvs) @ ''}''"

text \<open>\<open>sort_keys=True\<close>: the keys of every dict in code-point order.\<close>

fun sort_keys :: "json \<Rightarrow> json" where
  "sort_keys (JList xs) = JList (map sort_keys xs)"
| "sort_keys (JObj kvs) = JObj (sort_key fst (map (\<lambda>kv. (fst kv, sort_keys (snd kv))) kvs))"
| "sort_keys v = v"

definition json_dumps :: "(real \<Rightarrow> string) \<Rightarrow> json \<Rightarrow> string" where
  "json_dumps fr v = dumps fr '', '' '': '' v"

definition json_dumps_sorted :: "(real \<Rightarrow> string) \<Rightarrow> json \<Rightarrow> string" where
  "json_dumps_sorted fr v = dumps fr '','' '':'' (sort_keys v)"

text \<open>
  The sorted form depends on a dict's items only, not on their order: what the sender and the
  receiver of a signed payload need.
\<close>

lemma sort_key_perm_eq:
  assumes "mset xs = mset ys" and "distinct (map f xs)"
  shows "sort_key f xs = sort_key f ys"
proof (rule properties_for_sort_key)
  show "mset (sort_key f ys) = mset xs" using assms(1) by simp
  show "sorted (map f (sort_key f ys))" by simp
  have unique: "filter (\<lambda>x. f k = f x) zs = [k]"
    if "distinct zs" "inj_on f (set zs)" "k \<in> set zs" for zs k
    using that by (induction zs) (auto simp: filter_empty_conv inj_on_def)
  have set: "set ys = set xs" using assms(1) by (metis set_mset_mset)
  have "distinct xs" "inj_on f (set xs)" using assms(2) by (simp_all add: distinct_map)
  moreover have "distinct ys"
    using calculation(1) assms(1) by (metis mset_eq_imp_distinct_iff)
  ultimately show "filter (\<lambda>x. f k = f x) (sort_key f ys) = filter (\<lambda>x. f k = f x) xs"
    if "k \<in> set (sort_key f ys)" for k
    using that unique [of "sort_key f ys" k] unique [of xs k] set by simp
qed

lemma json_dumps_sorted_perm:
  assumes "mset p = mset q" and "distinct (map fst p)"
  shows "json_dumps_sorted fr (JObj p) = json_dumps_sorted fr (JObj q)"
proof -
  let ?h = "\<lambda>kv. (fst kv, sort_keys (snd kv))"
  have "sort_key fst (map ?h p) = sort_key fst (map ?h q)"
    by (rule sort_key_perm_eq) (use assms in \<open>simp_all add: comp_def\<close>)
  then show ?thesis by (simp add: json_dumps_sorted_def)
qed

lemma payload_get_Nil [simp]: "payload_get [] k d = d"
  by (simp add: payload_get_def)

lemma payload_get_Cons [simp]:
  "payload_get ((k', v) # p) k d = (if k = k' then v else payload_get p k d)"
  by (simp add: payload_get_def)

end
