(* ===== verification/JsonLoads.thy ===== *)
theory JsonLoads
  imports Json
begin

text \<open>
  \<open>json.loads\<close>, the inverse of \<open>json.dumps\<close> for what the program stores as text (idempotency
  records, job envelopes, payment events). The parser follows Python's: white space between
  tokens, strict strings (no raw control character), escapes, integers, floats through the
  argument \<open>rf\<close> (\<open>float(token)\<close>), the later of two equal keys. A text outside Latin-1 (an escape
  above \<open>\u00ff\<close>) is outside the model's strings and is refused. The theorem at the end is the
  round trip for values without floats.
\<close>

section \<open>Tokens\<close>

definition is_ws :: "char \<Rightarrow> bool" where
  "is_ws c \<longleftrightarrow> of_char c \<in> {32, 9, 10, 13 :: nat}"

definition skip_ws :: "string \<Rightarrow> string" where
  "skip_ws cs = dropWhile is_ws cs"

definition hex_val :: "char \<Rightarrow> nat option" where
  "hex_val c = (let n = of_char c :: nat in
     if 48 \<le> n \<and> n \<le> 57 then Some (n - 48)
     else if 97 \<le> n \<and> n \<le> 102 then Some (n - 87)
     else if 65 \<le> n \<and> n \<le> 70 then Some (n - 55) else None)"

definition unescape :: "char \<Rightarrow> char option" where
  "unescape e = (let n = of_char e :: nat in
     if n = 34 \<or> n = 92 \<or> n = 47 then Some e
     else if n = 110 then Some (char_of (10::nat))
     else if n = 114 then Some (char_of (13::nat))
     else if n = 116 then Some (char_of (9::nat))
     else if n = 98 then Some (char_of (8::nat))
     else if n = 102 then Some (char_of (12::nat)) else None)"

text \<open>The rest of a string after its opening quote: its characters, and what follows it.\<close>

fun scan_string :: "string \<Rightarrow> (string \<times> string) option" where
  "scan_string [] = None"
| "scan_string (c # cs) =
     (if of_char c = (34::nat) then Some ([], cs)
      else if of_char c = (92::nat) then
        (case cs of
           [] \<Rightarrow> None
         | e # cs' \<Rightarrow>
             if of_char e = (117::nat) then
               (case cs' of
                  h1 # h2 # h3 # h4 # cs'' \<Rightarrow>
                    (case (hex_val h1, hex_val h2, hex_val h3, hex_val h4) of
                       (Some 0, Some 0, Some a, Some b) \<Rightarrow>
                         map_option (\<lambda>(t, r). (char_of (16 * a + b) # t, r)) (scan_string cs'')
                     | _ \<Rightarrow> None)
                | _ \<Rightarrow> None)
             else (case unescape e of
                None \<Rightarrow> None
              | Some d \<Rightarrow> map_option (\<lambda>(t, r). (d # t, r)) (scan_string cs')))
      else if of_char c < (32::nat) then None
      else map_option (\<lambda>(t, r). (c # t, r)) (scan_string cs))"

text \<open>An integer part: a zero, or digits that do not start with one.\<close>

definition scan_digits :: "string \<Rightarrow> string \<times> string" where
  "scan_digits cs = (case cs of
     [] \<Rightarrow> ([], [])
   | c # r \<Rightarrow> if c = CHR ''0'' then ([c], r) else (takeWhile is_digit cs, dropWhile is_digit cs))"

definition scan_frac :: "string \<Rightarrow> string \<times> string" where
  "scan_frac cs = (case cs of
     p # d # r \<Rightarrow> if p = CHR ''.'' \<and> is_digit d
       then (p # takeWhile is_digit (d # r), dropWhile is_digit (d # r)) else ([], cs)
   | _ \<Rightarrow> ([], cs))"

definition scan_exp :: "string \<Rightarrow> string \<times> string" where
  "scan_exp cs = (case cs of
     e # r \<Rightarrow> if e = CHR ''e'' \<or> e = CHR ''E'' then
         (let (sg, r') = (case r of s # r' \<Rightarrow> if s = CHR ''+'' \<or> s = CHR ''-'' then ([s], r') else ([], r) | [] \<Rightarrow> ([], r))
          in if takeWhile is_digit r' = [] then ([], cs)
             else (e # sg @ takeWhile is_digit r', dropWhile is_digit r'))
       else ([], cs)
   | [] \<Rightarrow> ([], cs))"

definition scan_number :: "(string \<Rightarrow> real) \<Rightarrow> string \<Rightarrow> (json \<times> string) option" where
  "scan_number rf cs =
     (let (sg, r) = (if cs \<noteq> [] \<and> hd cs = CHR ''-'' then (''-'', tl cs) else ([], cs));
          (ds, r1) = scan_digits r
      in if ds = [] \<or> \<not> is_digit (hd ds) then None
         else (let (fr, r2) = scan_frac r1; (ex, r3) = scan_exp r2
               in if fr = [] \<and> ex = []
                  then map_option (\<lambda>n. (JInt n, r1)) (parse_int (sg @ ds))
                  else Some (JFloat (rf (sg @ ds @ fr @ ex)), r3)))"

text \<open>\<open>d[k] = v\<close>: an existing key keeps its place.\<close>

fun put_key :: "string \<Rightarrow> json \<Rightarrow> payload \<Rightarrow> payload" where
  "put_key k v [] = [(k, v)]"
| "put_key k v ((k', v') # p) = (if k = k' then (k, v) # p else (k', v') # put_key k v p)"

section \<open>The parser\<close>

text \<open>Fuel: one unit per value or item, which never exceed the characters of the text.\<close>

fun parse_value :: "(string \<Rightarrow> real) \<Rightarrow> nat \<Rightarrow> string \<Rightarrow> (json \<times> string) option"
  and parse_items :: "(string \<Rightarrow> real) \<Rightarrow> nat \<Rightarrow> string \<Rightarrow> (json list \<times> string) option"
  and parse_members :: "(string \<Rightarrow> real) \<Rightarrow> nat \<Rightarrow> payload \<Rightarrow> string \<Rightarrow> (payload \<times> string) option" where
  "parse_value rf 0 cs = None"
| "parse_value rf (Suc n) cs =
     (case cs of
        [] \<Rightarrow> None
      | c # r \<Rightarrow>
          if c = CHR 0x22 then map_option (\<lambda>(t, q). (JStr t, q)) (scan_string r)
          else if c = CHR ''{'' then
            (case skip_ws r of
               [] \<Rightarrow> None
             | d # q \<Rightarrow> if d = CHR ''}'' then Some (JObj [], q)
                 else map_option (\<lambda>(p, q). (JObj p, q)) (parse_members rf n [] (d # q)))
          else if c = CHR ''['' then
            (case skip_ws r of
               [] \<Rightarrow> None
             | d # q \<Rightarrow> if d = CHR '']'' then Some (JList [], q)
                 else map_option (\<lambda>(xs, q). (JList xs, q)) (parse_items rf n (d # q)))
          else if startswith cs ''null'' then Some (JNull, drop 4 cs)
          else if startswith cs ''true'' then Some (JBool True, drop 4 cs)
          else if startswith cs ''false'' then Some (JBool False, drop 5 cs)
          else scan_number rf cs)"
| "parse_items rf 0 cs = None"
| "parse_items rf (Suc n) cs =
     (case parse_value rf n cs of
        None \<Rightarrow> None
      | Some (v, r) \<Rightarrow> (case skip_ws r of
          [] \<Rightarrow> None
        | c # q \<Rightarrow> if c = CHR '']'' then Some ([v], q)
            else if c = CHR '','' then map_option (\<lambda>(vs, q). (v # vs, q)) (parse_items rf n (skip_ws q))
            else None))"
| "parse_members rf 0 acc cs = None"
| "parse_members rf (Suc n) acc cs =
     (case cs of
        [] \<Rightarrow> None
      | c # r \<Rightarrow> if c \<noteq> CHR 0x22 then None
          else (case scan_string r of
            None \<Rightarrow> None
          | Some (k, r1) \<Rightarrow> (case skip_ws r1 of
              [] \<Rightarrow> None
            | d # r2 \<Rightarrow> if d \<noteq> CHR '':'' then None
                else (case parse_value rf n (skip_ws r2) of
                  None \<Rightarrow> None
                | Some (v, r3) \<Rightarrow> (case skip_ws r3 of
                    [] \<Rightarrow> None
                  | e # q \<Rightarrow> if e = CHR ''}'' then Some (put_key k v acc, q)
                      else if e = CHR '','' then parse_members rf n (put_key k v acc) (skip_ws q)
                      else None)))))"

definition json_loads :: "(string \<Rightarrow> real) \<Rightarrow> string \<Rightarrow> exn + json" where
  "json_loads rf cs = (case parse_value rf (length cs + 1) (skip_ws cs) of
     Some (v, r) \<Rightarrow> if skip_ws r = [] then Inr v else Inl (ValueError ''Extra data'')
   | None \<Rightarrow> Inl (ValueError ''Expecting value''))"

section \<open>The round trip\<close>

fun plain :: "json \<Rightarrow> bool" where
  "plain (JFloat x) = False"
| "plain (JList xs) = (\<forall>x \<in> set xs. plain x)"
| "plain (JObj kvs) = (distinct (map fst kvs) \<and> (\<forall>kv \<in> set kvs. plain (snd kv)))"
| "plain v = True"

lemma char_lits: "char_of (34::nat) = CHR 0x22" "char_of (48::nat) = CHR ''0''"
  by code_simp+

lemma hex_val_hex_digit: "d < 16 \<Longrightarrow> hex_val (hex_digit d) = Some d"
  by (auto simp: hex_val_def hex_digit_def of_char_of Let_def)

lemma char_of_nibbles: "char_of (16 * ((of_char c :: nat) div 16) + of_char c mod 16) = c"
  by (simp add: mult.commute)

lemma of_char_less: "(of_char (c :: char) :: nat) < 256"
  using of_char_mod_256 [of c, where ?'a = nat] by (metis mod_less_divisor zero_less_numeral)

lemma scan_escape: "scan_string (escape_char c @ r) = map_option (\<lambda>(t, q). (c # t, q)) (scan_string r)"
proof -
  define n where "n = (of_char c :: nat)"
  have c: "c = char_of n" by (simp add: n_def)
  have lt: "n < 256" using of_char_less [of c] by (simp add: n_def)
  consider "n = 34 \<or> n = 92" | "n \<in> {10, 13, 9, 8, 12}"
    | "32 \<le> n \<and> n \<le> 126 \<and> n \<noteq> 34 \<and> n \<noteq> 92"
    | "\<not> (32 \<le> n \<and> n \<le> 126)" "n \<notin> {10, 13, 9, 8, 12}" by fastforce
  then show ?thesis
  proof cases
    case 1
    then show ?thesis by (auto simp: c escape_char_def Let_def of_char_of unescape_def)
  next
    case 2
    then show ?thesis by (auto simp: c escape_char_def Let_def of_char_of unescape_def)
  next
    case 3
    have "escape_char c = [c]" using 3 by (auto simp: escape_char_def Let_def n_def)
    then show ?thesis using 3 by (simp add: n_def)
  next
    case 4
    have esc: "escape_char c = char_of (92::nat) # ''u00'' @ [hex_digit (n div 16), hex_digit (n mod 16)]"
      using 4 by (auto simp: escape_char_def Let_def n_def [symmetric])
    have "hex_val (hex_digit (n div 16)) = Some (n div 16)" "hex_val (hex_digit (n mod 16)) = Some (n mod 16)"
      using lt by (auto intro!: hex_val_hex_digit)
    moreover have "hex_val (CHR ''0'') = Some 0" by (simp add: hex_val_def Let_def)
    moreover have "(of_char (CHR ''u'') :: nat) = 117" by simp
    moreover have "char_of (16 * (n div 16) + n mod 16) = c" by (simp add: c)
    ultimately show ?thesis unfolding esc by (simp add: of_char_of)
  qed
qed

lemma scan_dump_string:
  "scan_string (concat (map escape_char t) @ CHR 0x22 # r) = Some (t, r)"
  by (induction t) (simp_all add: scan_escape of_char_of)

text \<open>What may follow a number without becoming part of it.\<close>

definition ends_number :: "string \<Rightarrow> bool" where
  "ends_number r \<longleftrightarrow> (case r of [] \<Rightarrow> True
     | c # _ \<Rightarrow> \<not> is_digit c \<and> c \<noteq> CHR ''.'' \<and> c \<noteq> CHR ''e'' \<and> c \<noteq> CHR ''E'')"

lemma show_nat_digits: "c \<in> set (show_nat n) \<Longrightarrow> is_digit c"
  using show_nat_chars digit_char_props(1) by blast

lemma show_nat_hd: "0 < n \<Longrightarrow> hd (show_nat n) \<noteq> CHR ''0''"
proof (induction n rule: show_nat.induct)
  case (1 n)
  have inj: "digit_char d \<noteq> CHR ''0''" if "0 < d" "d < 10" for d
  proof
    assume "digit_char d = CHR ''0''"
    then have "d = digit_val (CHR ''0'')" using that digit_char_props(2) by metis
    then show False using that by (simp add: digit_val_def)
  qed
  show ?case
  proof (cases "n < 10")
    case True
    then show ?thesis using 1 inj by (simp add: show_nat.simps [of n])
  next
    case False
    then show ?thesis using 1 by (simp add: show_nat.simps [of n] hd_append)
  qed
qed

lemma scan_digits_show_nat:
  assumes "ends_number r"
  shows "scan_digits (show_nat n @ r) = (show_nat n, r)"
proof (cases "n = 0")
  case True
  then show ?thesis by (simp add: scan_digits_def show_nat.simps digit_char_def char_lits)
next
  case False
  obtain c cs where c: "show_nat n = c # cs" by (cases "show_nat n") auto
  have "takeWhile is_digit r = []" "dropWhile is_digit r = r"
    using assms by (auto simp: ends_number_def split: list.splits)
  then have "takeWhile is_digit (show_nat n @ r) = show_nat n" "dropWhile is_digit (show_nat n @ r) = r"
    by (auto simp: takeWhile_append2 dropWhile_append2 show_nat_digits)
  then show ?thesis using show_nat_hd [of n] False by (simp add: scan_digits_def c)
qed

lemma ends_number_no_rest: "ends_number r \<Longrightarrow> scan_frac r = ([], r) \<and> scan_exp r = ([], r)"
  by (auto simp: ends_number_def scan_frac_def scan_exp_def split: list.splits)

lemma hd_show_nat_digit: "is_digit (hd (show_nat n))"
  by (rule show_nat_digits [of _ n]) simp

lemma scan_number_show_int:
  assumes "ends_number r"
  shows "scan_number rf (show_int n @ r) = Some (JInt n, r)"
proof (cases "n < 0")
  case True
  then have sn: "show_int n = CHR ''-'' # show_nat (nat (- n))" by (simp add: show_int_def)
  then have "parse_int (CHR ''-'' # show_nat (nat (- n))) = Some n" by (metis parse_int_show_int)
  then show ?thesis using assms
    by (simp add: scan_number_def sn scan_digits_show_nat ends_number_no_rest hd_show_nat_digit)
next
  case False
  then have sn: "show_int n = show_nat (nat n)" by (simp add: show_int_def)
  then have "parse_int (show_nat (nat n)) = Some n" by (metis parse_int_show_int)
  moreover have "hd (show_nat (nat n) @ r) \<noteq> CHR ''-''" using hd_show_nat(1) [of "nat n"] by (simp add: hd_append)
  ultimately show ?thesis using assms
    by (simp add: scan_number_def sn scan_digits_show_nat ends_number_no_rest hd_show_nat_digit)
qed

text \<open>The first character of a dumped value decides how it is parsed.\<close>

lemma show_int_hd: "\<exists>c cs. show_int n = c # cs \<and> (is_digit c \<or> c = CHR ''-'')"
  using hd_show_nat_digit by (cases "show_int n") (auto simp: show_int_def split: if_splits, metis list.sel(1))

lemma digit_not_token:
  "is_digit c \<or> c = CHR ''-'' \<Longrightarrow> \<not> is_ws c \<and> c \<noteq> CHR 0x22 \<and> c \<noteq> CHR ''{'' \<and> c \<noteq> CHR ''['' \<and> c \<noteq> CHR '']'' \<and>
     c \<noteq> CHR ''}'' \<and> c \<noteq> CHR ''n'' \<and> c \<noteq> CHR ''t'' \<and> c \<noteq> CHR ''f''"
  by (auto simp: is_digit_def is_ws_def Let_def of_char_of)

definition opens_value :: "string \<Rightarrow> bool" where
  "opens_value cs \<longleftrightarrow> (\<exists>c r. cs = c # r \<and> \<not> is_ws c \<and> c \<noteq> CHR '']'' \<and> c \<noteq> CHR ''}'')"

lemma dumps_opens: "plain v \<Longrightarrow> opens_value (dumps fr i k v)"
proof (cases v)
  case (JInt n)
  then show ?thesis using show_int_hd [of n] digit_not_token by (fastforce simp: opens_value_def)
qed (auto simp: opens_value_def is_ws_def dump_string_def char_lits)

lemma skip_ws_opens: "opens_value cs \<Longrightarrow> skip_ws (cs @ r) = cs @ r \<and> skip_ws (CHR '' '' # cs @ r) = cs @ r"
  by (auto simp: opens_value_def skip_ws_def is_ws_def)

lemma put_key_new: "k \<notin> fst ` set p \<Longrightarrow> put_key k v p = p @ [(k, v)]"
  by (induction k v p rule: put_key.induct) auto

abbreviation dumped :: "(real \<Rightarrow> string) \<Rightarrow> json \<Rightarrow> string" where
  "dumped fr \<equiv> dumps fr '', '' '': ''"

abbreviation dumped_member :: "(real \<Rightarrow> string) \<Rightarrow> string \<times> json \<Rightarrow> string" where
  "dumped_member fr kv \<equiv> dump_string (fst kv) @ '': '' @ dumped fr (snd kv)"

text \<open>Parsing a dumped value, followed by anything that does not continue a number.\<close>

definition parses :: "(real \<Rightarrow> string) \<Rightarrow> (string \<Rightarrow> real) \<Rightarrow> json \<Rightarrow> bool" where
  "parses fr rf v \<longleftrightarrow> (\<forall>n r. length (dumped fr v) < n \<longrightarrow> ends_number r \<longrightarrow>
     parse_value rf n (dumped fr v @ r) = Some (v, r))"

lemma parsesD:
  "parses fr rf v \<Longrightarrow> length (dumped fr v) < n \<Longrightarrow> ends_number r \<Longrightarrow> parse_value rf n (dumped fr v @ r) = Some (v, r)"
  by (simp add: parses_def)

lemma ends_number_delims [simp]:
  "ends_number (CHR '']'' # r)" "ends_number (CHR ''}'' # r)" "ends_number (CHR '','' # r)" "ends_number []"
  by (simp_all add: ends_number_def is_digit_def)

lemma skip_ws_delims [simp]:
  "skip_ws (CHR '']'' # r) = CHR '']'' # r" "skip_ws (CHR ''}'' # r) = CHR ''}'' # r"
  "skip_ws (CHR '','' # r) = CHR '','' # r" "skip_ws (CHR '':'' # r) = CHR '':'' # r"
  "skip_ws (CHR '' '' # r) = skip_ws r" "skip_ws (CHR 0x22 # r) = CHR 0x22 # r" "skip_ws [] = []"
  by (simp_all add: skip_ws_def is_ws_def)

lemma join_opens: "xs \<noteq> [] \<Longrightarrow> opens_value (hd xs) \<Longrightarrow> opens_value (join sep xs)"
  by (induction sep xs rule: join.induct) (auto simp: opens_value_def)

lemma parse_items_dump:
  assumes "xs \<noteq> []" "\<forall>x \<in> set xs. parses fr rf x \<and> plain x"
    and "length (join '', '' (map (dumped fr) xs)) + 1 < n"
  shows "parse_items rf n (join '', '' (map (dumped fr) xs) @ CHR '']'' # r) = Some (xs, r)"
  using assms
proof (induction xs arbitrary: n)
  case Nil
  then show ?case by simp
next
  case (Cons x xs)
  obtain m where n: "n = Suc m" using Cons.prems(3) by (cases n) auto
  have px: "parses fr rf x" using Cons.prems by simp
  show ?case
  proof (cases xs)
    case Nil
    then show ?thesis using Cons.prems(3) parsesD [OF px, of m "CHR '']'' # r"] by (simp add: n)
  next
    case (Cons y ys)
    let ?rest = "join '', '' (map (dumped fr) xs) @ CHR '']'' # r"
    have "opens_value (join '', '' (map (dumped fr) xs))"
      using Cons.prems(2) Cons dumps_opens by (intro join_opens) auto
    then have skip: "skip_ws ?rest = ?rest" using skip_ws_opens by blast
    have "parse_value rf m (dumped fr x @ CHR '','' # CHR '' '' # ?rest) = Some (x, CHR '','' # CHR '' '' # ?rest)"
      using Cons.prems(3) Cons by (intro parsesD [OF px]) (simp_all add: n)
    moreover have "parse_items rf m ?rest = Some (xs, r)"
      using Cons.prems Cons by (intro Cons.IH) (simp_all add: n)
    ultimately show ?thesis using Cons skip by (simp add: n)
  qed
qed

lemma parse_members_dump:
  assumes "kvs \<noteq> []" "\<forall>kv \<in> set kvs. parses fr rf (snd kv) \<and> plain (snd kv)"
    and "distinct (map fst (acc @ kvs))"
    and "length (join '', '' (map (dumped_member fr) kvs)) + 1 < n"
  shows "parse_members rf n acc (join '', '' (map (dumped_member fr) kvs) @ CHR ''}'' # r) = Some (acc @ kvs, r)"
  using assms
proof (induction kvs arbitrary: n acc)
  case Nil
  then show ?case by simp
next
  case (Cons kv kvs)
  obtain k v where kv: "kv = (k, v)" by (cases kv)
  obtain m where n: "n = Suc m" using Cons.prems(4) by (cases n) auto
  have pv: "parses fr rf v" and "plain v" using Cons.prems(2) by (simp_all add: kv)
  then have skip_v: "skip_ws (dumped fr v @ q) = dumped fr v @ q" for q
    using skip_ws_opens [OF dumps_opens] by blast
  have put: "put_key k v acc = acc @ [(k, v)]"
    using Cons.prems(3) by (intro put_key_new) (auto simp: kv)
  have scan: "scan_string (concat (map escape_char k) @ CHR 0x22 # q) = Some (k, q)" for q
    using scan_dump_string by (simp add: char_lits)
  show ?case
  proof (cases kvs)
    case Nil
    have "parse_value rf m (dumped fr v @ CHR ''}'' # r) = Some (v, CHR ''}'' # r)"
      using Cons.prems(4) Nil by (intro parsesD [OF pv]) (simp_all add: n kv)
    then show ?thesis using Nil put scan skip_v by (simp add: n kv dump_string_def char_lits)
  next
    case (Cons kv' kvs')
    let ?rest = "join '', '' (map (dumped_member fr) kvs) @ CHR ''}'' # r"
    have rest: "?rest = CHR 0x22 # drop 1 ?rest" using Cons by (cases kvs') (simp_all add: dump_string_def char_lits)
    have skip: "skip_ws ?rest = ?rest" by (subst rest) (subst rest, simp)
    have "parse_value rf m (dumped fr v @ CHR '','' # CHR '' '' # ?rest) = Some (v, CHR '','' # CHR '' '' # ?rest)"
      using Cons.prems(4) Cons by (intro parsesD [OF pv]) (simp_all add: n kv)
    moreover have "parse_members rf m (acc @ [(k, v)]) ?rest = Some ((acc @ [(k, v)]) @ kvs, r)"
      using Cons.prems Cons by (intro Cons.IH) (simp_all add: n kv)
    ultimately show ?thesis using Cons put scan skip_v skip by (simp add: n kv dump_string_def char_lits)
  qed
qed

lemma parses_plain: "plain v \<Longrightarrow> parses fr rf v"
proof (induction v)
  case JNull
  then show ?case by (auto simp: parses_def startswith_def gr0_conv_Suc dest!: less_imp_Suc_add)
next
  case (JBool b)
  then show ?case by (auto simp: parses_def startswith_def gr0_conv_Suc dest!: less_imp_Suc_add)
next
  case (JInt i)
  obtain c cs where c: "show_int i = c # cs" "is_digit c \<or> c = CHR ''-''" using show_int_hd by blast
  show ?case
  proof (unfold parses_def, intro allI impI)
    fix n r
    assume "length (dumped fr (JInt i)) < n" and r: "ends_number r"
    then obtain m where n: "n = Suc m" by (cases n) auto
    have "scan_number rf (show_int i @ r) = Some (JInt i, r)" using scan_number_show_int [OF r] .
    then show "parse_value rf n (dumped fr (JInt i) @ r) = Some (JInt i, r)"
      using c digit_not_token [OF c(2)] by (simp add: n startswith_def char_lits)
  qed
next
  case (JFloat x)
  then show ?case by simp
next
  case (JStr t)
  then show ?case
    using scan_dump_string
    by (auto simp: parses_def dump_string_def char_lits gr0_conv_Suc dest!: less_imp_Suc_add)
next
  case (JList xs)
  show ?case
  proof (cases "xs = []")
    case True
    then show ?thesis by (auto simp: parses_def dest!: less_imp_Suc_add)
  next
    case False
    have all: "\<forall>x \<in> set xs. parses fr rf x \<and> plain x" using JList by simp
    have "opens_value (join '', '' (map (dumped fr) xs))"
      using False all dumps_opens by (intro join_opens) (auto simp: hd_map)
    then obtain c q where c: "join '', '' (map (dumped fr) xs) = c # q" "\<not> is_ws c" "c \<noteq> CHR '']''"
      by (auto simp: opens_value_def)
    then have skip: "skip_ws (c # q @ r) = c # q @ r" for r by (simp add: skip_ws_def)
    show ?thesis
    proof (unfold parses_def, intro allI impI)
      fix n r
      assume n: "length (dumped fr (JList xs)) < n"
      then obtain m where m: "n = Suc m" by (cases n) auto
      have "parse_items rf m (join '', '' (map (dumped fr) xs) @ CHR '']'' # r) = Some (xs, r)"
        using n m by (intro parse_items_dump [OF False all]) simp
      then show "parse_value rf n (dumped fr (JList xs) @ r) = Some (JList xs, r)"
        using c skip by (simp add: m)
    qed
  qed
next
  case (JObj kvs)
  show ?case
  proof (cases "kvs = []")
    case True
    then show ?thesis by (auto simp: parses_def dest!: less_imp_Suc_add)
  next
    case False
    have all: "\<forall>kv \<in> set kvs. parses fr rf (snd kv) \<and> plain (snd kv)"
      using JObj by (auto simp: snds.simps)
    obtain q where q: "join '', '' (map (dumped_member fr) kvs) = CHR 0x22 # q"
      using False by (cases kvs; cases "tl kvs") (auto simp: dump_string_def char_lits)
    show ?thesis
    proof (unfold parses_def, intro allI impI)
      fix n r
      assume n: "length (dumped fr (JObj kvs)) < n"
      then obtain m where m: "n = Suc m" by (cases n) auto
      have "parse_members rf m [] (join '', '' (map (dumped_member fr) kvs) @ CHR ''}'' # r) = Some ([] @ kvs, r)"
        using n m JObj.prems by (intro parse_members_dump [OF False all]) simp_all
      then show "parse_value rf n (dumped fr (JObj kvs) @ r) = Some (JObj kvs, r)"
        using q by (simp add: m)
    qed
  qed
qed

lemma dumped_loads:
  assumes "plain v"
  shows "json_loads rf (json_dumps fr v) = Inr v"
proof -
  have "skip_ws (json_dumps fr v @ []) = json_dumps fr v @ []"
    using skip_ws_opens [OF dumps_opens [OF assms]] unfolding json_dumps_def by blast
  then show ?thesis
    using parsesD [OF parses_plain [OF assms, of fr rf], of "length (json_dumps fr v) + 1" "[]"]
    by (simp add: json_loads_def json_dumps_def)
qed

text \<open>
  \<open>json.loads(json.dumps(v)) == v\<close> for every value without floats whose
  dicts have distinct keys (every Python dict): strings with any characters, nested lists and
  dicts, integers of any size.
\<close>

theorem json_roundtrip:
  assumes "plain v"
  shows "json_loads rf (json_dumps fr v) = Inr v"
  using dumped_loads [OF assms] .

theorem json_roundtrip_witness:
  "json_loads (\<lambda>_. 0) (json_dumps (\<lambda>_. []) (JObj [(''event_id'', JStr ''evt_1''), (''tries'', JList [JInt (-3), JNull])])) =
    Inr (JObj [(''event_id'', JStr ''evt_1''), (''tries'', JList [JInt (-3), JNull])])"
  by (rule json_roundtrip) simp

end
