(* ===== verification/Models.thy ===== *)
theory Models
  imports Exceptions Json
begin

text \<open>
  The rows of the program's tables: one record per ORM class of \<open>backend/domain/*/model*.py\<close>,
  its fields the mapped columns in their order, each prefixed with the class. A nullable column
  is an \<open>option\<close>. A \<open>datetime\<close> is naive or aware, in microseconds (of UTC for an aware one):
  comparing the two kinds raises a \<open>TypeError\<close> in Python.
\<close>

section \<open>Datetimes\<close>

datatype datetime = Naive int | Aware int

text \<open>\<open>a <= b\<close> and \<open>a > b\<close>.\<close>

fun dt_le :: "datetime \<Rightarrow> datetime \<Rightarrow> exn + bool" where
  "dt_le (Naive a) (Naive b) = Inr (a \<le> b)"
| "dt_le (Aware a) (Aware b) = Inr (a \<le> b)"
| "dt_le _ _ = Inl TypeError"

fun dt_gt :: "datetime \<Rightarrow> datetime \<Rightarrow> exn + bool" where
  "dt_gt (Naive a) (Naive b) = Inr (a > b)"
| "dt_gt (Aware a) (Aware b) = Inr (a > b)"
| "dt_gt _ _ = Inl TypeError"

definition seconds :: "int \<Rightarrow> int" where
  "seconds n = n * 1000000"

section \<open>Users\<close>

text \<open>The JSON column \<open>permissions\<close> may hold the JSON \<open>null\<close> (\<open>None\<close>), which is not SQL's null.\<close>

record user =
  user_id :: int
  user_email :: string
  user_username :: string
  user_hashed_password :: string
  user_is_active :: bool
  user_is_verified :: bool
  user_is_superuser :: bool
  user_failed_login_attempts :: int
  user_locked_until :: "datetime option"
  user_role :: string
  user_permissions :: "string list option"
  user_created_at :: datetime
  user_updated_at :: datetime
  user_deleted_at :: "datetime option"

text \<open>
  The user a request acts as: the row, and the two attributes \<open>get_current_user\<close> sets on the
  object when the request carries an API key.
\<close>

record principal = user +
  api_key_scopes :: "string list option"
  api_key_id :: "int option"

section \<open>API keys and the audit log\<close>

record api_key =
  apikey_id :: int
  apikey_owner_id :: int
  apikey_name :: string
  apikey_key_prefix :: string
  apikey_hashed_secret :: string
  apikey_scopes :: "string list"
  apikey_expires_at :: "datetime option"
  apikey_last_used_at :: "datetime option"
  apikey_revoked_at :: "datetime option"
  apikey_created_at :: datetime

record audit_log_entry =
  audit_id :: int
  audit_actor_id :: "int option"
  audit_actor_username :: "string option"
  audit_action :: string
  audit_resource :: string
  audit_details :: json
  audit_request_id :: "string option"
  audit_trace_id :: "string option"
  audit_method :: "string option"
  audit_path :: "string option"
  audit_status_code :: "int option"
  audit_success :: bool
  audit_error :: "string option"
  audit_created_at :: datetime

section \<open>Billing\<close>

record plan =
  plan_id :: int
  plan_key :: string
  plan_name :: string
  plan_price_cents :: int
  plan_billing_interval :: string
  plan_is_active :: bool

record feature =
  feature_id :: int
  feature_key :: string
  feature_name :: string
  feature_description :: "string option"

record plan_feature =
  pf_plan_id :: int
  pf_feature_id :: int

record subscription =
  sub_id :: int
  sub_user_id :: int
  sub_plan_id :: int
  sub_status :: string
  sub_provider :: string
  sub_trial_ends_at :: "datetime option"

record invoice =
  inv_id :: int
  inv_subscription_id :: "int option"
  inv_user_id :: int
  inv_plan_id :: int
  inv_amount_cents :: int
  inv_currency :: string
  inv_status :: string
  inv_description :: "string option"

record notification =
  notif_id :: int
  notif_user_id :: int
  notif_channel :: string
  notif_kind :: string
  notif_title :: string
  notif_body :: string
  notif_is_read :: bool

record payment_event =
  pe_id :: int
  pe_provider :: string
  pe_provider_event_id :: string
  pe_event_type :: string
  pe_payload :: string
  pe_processed_at :: "datetime option"

section \<open>Products\<close>

record product =
  product_id :: int
  product_name :: string
  product_description :: "string option"
  product_price_cents :: int
  product_created_at :: datetime
  product_updated_at :: datetime
  product_deleted_at :: "datetime option"

section \<open>Roles and permissions\<close>

record role =
  role_id :: int
  role_key :: string
  role_name :: string
  role_description :: "string option"
  role_is_system :: bool

record permission =
  perm_id :: int
  perm_key :: string
  perm_name :: string
  perm_description :: "string option"

record role_permission =
  rp_role_id :: int
  rp_permission_id :: int

record user_role_link =
  ur_user_id :: int
  ur_role_id :: int

section \<open>Webhooks\<close>

record webhook_endpoint =
  ep_id :: int
  ep_owner_id :: int
  ep_name :: string
  ep_url :: string
  ep_subscribed_events :: "string list"
  ep_signing_secret :: string
  ep_is_active :: bool
  ep_created_at :: datetime

record webhook_delivery =
  deliv_id :: int
  deliv_endpoint_id :: int
  deliv_event_type :: string
  deliv_payload :: payload
  deliv_attempt_count :: int
  deliv_last_attempt_at :: "datetime option"
  deliv_last_status_code :: "int option"
  deliv_delivered_at :: "datetime option"
  deliv_created_at :: datetime

end
