(* ===== verification/Database.thy ===== *)
theory Database
  imports Models
begin

text \<open>
  The database as the program sees it through a SQLAlchemy session: the tables; the session's
  own view of them and what is committed (\<open>backend/database/session.py\<close>); and the statements
  the repositories are made of, over a description of an ORM class (its rows, primary key,
  \<open>deleted_at\<close> column if it has one, unique constraints, foreign keys). \<open>Repository\<close> models
  \<open>BaseRepository\<close> on top of them.

  An insertion or a changed row takes effect where the source flushes or commits it, and there
  a violated constraint raises \<open>IntegrityError\<close>. Foreign keys are checked when \<open>fk_on\<close> holds:
  PostgreSQL enforces them, SQLite (the test database) does not.
\<close>

section \<open>Tables and sessions\<close>

record db =
  users :: "user list"
  api_keys :: "api_key list"
  audit_log_entries :: "audit_log_entry list"
  plans :: "plan list"
  features :: "feature list"
  plan_features :: "plan_feature list"
  subscriptions :: "subscription list"
  invoices :: "invoice list"
  notifications :: "notification list"
  payment_events :: "payment_event list"
  products :: "product list"
  roles :: "role list"
  permissions :: "permission list"
  role_permissions :: "role_permission list"
  user_roles :: "user_role_link list"
  webhook_endpoints :: "webhook_endpoint list"
  webhook_deliveries :: "webhook_delivery list"

definition empty_db :: db where
  "empty_db = \<lparr>users = [], api_keys = [], audit_log_entries = [], plans = [], features = [],
     plan_features = [], subscriptions = [], invoices = [], notifications = [],
     payment_events = [], products = [], roles = [], permissions = [], role_permissions = [],
     user_roles = [], webhook_endpoints = [], webhook_deliveries = []\<rparr>"

text \<open>\<open>work\<close> is what the session reads and writes, \<open>stored\<close> what the last commit left.\<close>

record session =
  work :: db
  stored :: db
  fk_on :: bool

definition commit :: "(session, unit) op" where
  "commit = modify (\<lambda>s. s\<lparr>stored := work s\<rparr>)"

definition rollback :: "(session, unit) op" where
  "rollback = modify (\<lambda>s. s\<lparr>work := stored s\<rparr>)"

text \<open>
  \<open>get_db\<close>: the handler runs in a session that is committed when it returns and rolled back
  when it raises, the exception going on.
\<close>

definition get_db :: "(session, 'a) op \<Rightarrow> (session, 'a) op" where
  "get_db handler = try_except
     (bnd handler (\<lambda>r. bnd commit (\<lambda>_. ret r)))
     (\<lambda>e. bnd rollback (\<lambda>_. throw e))"

text \<open>
  \<open>async with SessionLocal() as db: ...\<close>: another session, which starts from what is committed;
  closing it drops what it did not commit.
\<close>

definition session_local :: "(session, 'a) op \<Rightarrow> (session, 'a) op" where
  "session_local m = (\<lambda>s. case m (s\<lparr>work := stored s\<rparr>) of
     (r, t) \<Rightarrow> (r, t\<lparr>work := stored t\<rparr>))"

lemma get_db_Inr: "handler s = (Inr r, t) \<Longrightarrow> get_db handler s = (Inr r, t\<lparr>stored := work t\<rparr>)"
  by (simp add: get_db_def try_except_def commit_def op_simps bnd_Inr)

lemma get_db_Inl: "handler s = (Inl e, t) \<Longrightarrow> get_db handler s = (Inl e, t\<lparr>work := stored t\<rparr>)"
  by (simp add: get_db_def try_except_def rollback_def op_simps bnd_Inl)

lemma get_db_synced: "work (snd (get_db handler s)) = stored (snd (get_db handler s))"
  by (cases "handler s"; cases "fst (handler s)") (auto simp: get_db_Inr get_db_Inl)

section \<open>ORM classes\<close>

record 'r model_class =
  mc_rows :: "db \<Rightarrow> 'r list"
  mc_put :: "'r list \<Rightarrow> db \<Rightarrow> db"
  mc_id :: "'r \<Rightarrow> int"
  mc_set_id :: "int \<Rightarrow> 'r \<Rightarrow> 'r"
  mc_deleted_at :: "('r \<Rightarrow> datetime option) option"
  mc_set_deleted :: "datetime \<Rightarrow> 'r \<Rightarrow> 'r"
  mc_conflict :: "'r \<Rightarrow> 'r \<Rightarrow> bool"
  mc_refs_ok :: "db \<Rightarrow> 'r \<Rightarrow> bool"

text \<open>\<open>SELECT ... WHERE p\<close> in insertion order, and the ways the source takes its result.\<close>

definition select :: "'r model_class \<Rightarrow> ('r \<Rightarrow> bool) \<Rightarrow> (session, 'r list) op" where
  "select mc p = look (\<lambda>s. filter p (mc_rows mc (work s)))"

text \<open>\<open>result.scalar_one_or_none()\<close> raises when there are several rows.\<close>

definition one_or_none :: "'r list \<Rightarrow> exn + 'r option" where
  "one_or_none rows = (case rows of
     [] \<Rightarrow> Inr None | [r] \<Rightarrow> Inr (Some r) | _ \<Rightarrow> Inl MultipleResultsFound)"

text \<open>\<open>db.scalar(select(...))\<close> takes the first row.\<close>

definition scalar :: "'r model_class \<Rightarrow> ('r \<Rightarrow> bool) \<Rightarrow> (session, 'r option) op" where
  "scalar mc p = look (\<lambda>s. find_row p (mc_rows mc (work s)))"

text \<open>\<open>db.get(Model, id)\<close>.\<close>

definition db_get :: "'r model_class \<Rightarrow> int \<Rightarrow> (session, 'r option) op" where
  "db_get mc i = scalar mc (\<lambda>r. mc_id mc r = i)"

definition violates :: "'r model_class \<Rightarrow> session \<Rightarrow> 'r \<Rightarrow> 'r list \<Rightarrow> bool" where
  "violates mc s r others \<longleftrightarrow>
     (\<exists>x \<in> set others. mc_conflict mc x r) \<or> (fk_on s \<and> \<not> mc_refs_ok mc (work s) r)"

text \<open>\<open>db.add(row)\<close> of a new row, flushed: it gets an id.\<close>

definition db_insert :: "'r model_class \<Rightarrow> 'r \<Rightarrow> (session, 'r) op" where
  "db_insert mc r = (\<lambda>s. let rows = mc_rows mc (work s);
       r' = mc_set_id mc (fresh_id (map (mc_id mc) rows)) r
     in if violates mc s r' rows then (Inl IntegrityError, s)
        else (Inr r', s\<lparr>work := mc_put mc (rows @ [r']) (work s)\<rparr>))"

text \<open>A row of a link table has no id of its own; its primary key is the pair.\<close>

definition db_link :: "'r model_class \<Rightarrow> 'r \<Rightarrow> (session, unit) op" where
  "db_link mc r = (\<lambda>s. let rows = mc_rows mc (work s)
     in if violates mc s r rows then (Inl IntegrityError, s)
        else (Inr (), s\<lparr>work := mc_put mc (rows @ [r]) (work s)\<rparr>))"

text \<open>A row whose attributes changed, flushed.\<close>

definition db_save :: "'r model_class \<Rightarrow> 'r \<Rightarrow> (session, unit) op" where
  "db_save mc r = (\<lambda>s. let rows = mc_rows mc (work s)
     in if violates mc s r (filter (\<lambda>x. mc_id mc x \<noteq> mc_id mc r) rows) then (Inl IntegrityError, s)
        else (Inr (), s\<lparr>work := mc_put mc (replace_row (mc_id mc) r rows) (work s)\<rparr>))"

text \<open>\<open>DELETE FROM ... WHERE p\<close>.\<close>

definition db_delete_where :: "'r model_class \<Rightarrow> ('r \<Rightarrow> bool) \<Rightarrow> (session, unit) op" where
  "db_delete_where mc p =
     modify (\<lambda>s. s\<lparr>work := mc_put mc (filter (\<lambda>r. \<not> p r) (mc_rows mc (work s))) (work s)\<rparr>)"

section \<open>The program's ORM classes\<close>

definition has_user :: "db \<Rightarrow> int \<Rightarrow> bool" where
  "has_user d i \<longleftrightarrow> i \<in> user_id ` set (users d)"

definition has_plan :: "db \<Rightarrow> int \<Rightarrow> bool" where
  "has_plan d i \<longleftrightarrow> i \<in> plan_id ` set (plans d)"

definition has_role :: "db \<Rightarrow> int \<Rightarrow> bool" where
  "has_role d i \<longleftrightarrow> i \<in> role_id ` set (roles d)"

definition User :: "user model_class" where
  "User = \<lparr>mc_rows = users, mc_put = (\<lambda>rs d. d\<lparr>users := rs\<rparr>),
     mc_id = user_id, mc_set_id = (\<lambda>i r. r\<lparr>user_id := i\<rparr>),
     mc_deleted_at = Some user_deleted_at, mc_set_deleted = (\<lambda>t r. r\<lparr>user_deleted_at := Some t\<rparr>),
     mc_conflict = (\<lambda>a b. user_email a = user_email b \<or> user_username a = user_username b),
     mc_refs_ok = (\<lambda>d r. True)\<rparr>"

definition ApiKey :: "api_key model_class" where
  "ApiKey = \<lparr>mc_rows = api_keys, mc_put = (\<lambda>rs d. d\<lparr>api_keys := rs\<rparr>),
     mc_id = apikey_id, mc_set_id = (\<lambda>i r. r\<lparr>apikey_id := i\<rparr>),
     mc_deleted_at = None, mc_set_deleted = (\<lambda>t r. r),
     mc_conflict = (\<lambda>a b. False), mc_refs_ok = (\<lambda>d r. has_user d (apikey_owner_id r))\<rparr>"

definition AuditLogEntry :: "audit_log_entry model_class" where
  "AuditLogEntry = \<lparr>mc_rows = audit_log_entries, mc_put = (\<lambda>rs d. d\<lparr>audit_log_entries := rs\<rparr>),
     mc_id = audit_id, mc_set_id = (\<lambda>i r. r\<lparr>audit_id := i\<rparr>),
     mc_deleted_at = None, mc_set_deleted = (\<lambda>t r. r),
     mc_conflict = (\<lambda>a b. False),
     mc_refs_ok = (\<lambda>d r. case audit_actor_id r of None \<Rightarrow> True | Some i \<Rightarrow> has_user d i)\<rparr>"

definition Plan :: "plan model_class" where
  "Plan = \<lparr>mc_rows = plans, mc_put = (\<lambda>rs d. d\<lparr>plans := rs\<rparr>),
     mc_id = plan_id, mc_set_id = (\<lambda>i r. r\<lparr>plan_id := i\<rparr>),
     mc_deleted_at = None, mc_set_deleted = (\<lambda>t r. r),
     mc_conflict = (\<lambda>a b. plan_key a = plan_key b), mc_refs_ok = (\<lambda>d r. True)\<rparr>"

definition Feature :: "feature model_class" where
  "Feature = \<lparr>mc_rows = features, mc_put = (\<lambda>rs d. d\<lparr>features := rs\<rparr>),
     mc_id = feature_id, mc_set_id = (\<lambda>i r. r\<lparr>feature_id := i\<rparr>),
     mc_deleted_at = None, mc_set_deleted = (\<lambda>t r. r),
     mc_conflict = (\<lambda>a b. feature_key a = feature_key b), mc_refs_ok = (\<lambda>d r. True)\<rparr>"

definition PlanFeature :: "plan_feature model_class" where
  "PlanFeature = \<lparr>mc_rows = plan_features, mc_put = (\<lambda>rs d. d\<lparr>plan_features := rs\<rparr>),
     mc_id = pf_plan_id, mc_set_id = (\<lambda>i r. r),
     mc_deleted_at = None, mc_set_deleted = (\<lambda>t r. r),
     mc_conflict = (=),
     mc_refs_ok = (\<lambda>d r. has_plan d (pf_plan_id r) \<and> pf_feature_id r \<in> feature_id ` set (features d))\<rparr>"

definition Subscription :: "subscription model_class" where
  "Subscription = \<lparr>mc_rows = subscriptions, mc_put = (\<lambda>rs d. d\<lparr>subscriptions := rs\<rparr>),
     mc_id = sub_id, mc_set_id = (\<lambda>i r. r\<lparr>sub_id := i\<rparr>),
     mc_deleted_at = None, mc_set_deleted = (\<lambda>t r. r),
     mc_conflict = (\<lambda>a b. False),
     mc_refs_ok = (\<lambda>d r. has_user d (sub_user_id r) \<and> has_plan d (sub_plan_id r))\<rparr>"

definition Invoice :: "invoice model_class" where
  "Invoice = \<lparr>mc_rows = invoices, mc_put = (\<lambda>rs d. d\<lparr>invoices := rs\<rparr>),
     mc_id = inv_id, mc_set_id = (\<lambda>i r. r\<lparr>inv_id := i\<rparr>),
     mc_deleted_at = None, mc_set_deleted = (\<lambda>t r. r),
     mc_conflict = (\<lambda>a b. False),
     mc_refs_ok = (\<lambda>d r. has_user d (inv_user_id r) \<and> has_plan d (inv_plan_id r) \<and>
       (case inv_subscription_id r of None \<Rightarrow> True | Some i \<Rightarrow> i \<in> sub_id ` set (subscriptions d)))\<rparr>"

definition Notification :: "notification model_class" where
  "Notification = \<lparr>mc_rows = notifications, mc_put = (\<lambda>rs d. d\<lparr>notifications := rs\<rparr>),
     mc_id = notif_id, mc_set_id = (\<lambda>i r. r\<lparr>notif_id := i\<rparr>),
     mc_deleted_at = None, mc_set_deleted = (\<lambda>t r. r),
     mc_conflict = (\<lambda>a b. False), mc_refs_ok = (\<lambda>d r. has_user d (notif_user_id r))\<rparr>"

definition PaymentEvent :: "payment_event model_class" where
  "PaymentEvent = \<lparr>mc_rows = payment_events, mc_put = (\<lambda>rs d. d\<lparr>payment_events := rs\<rparr>),
     mc_id = pe_id, mc_set_id = (\<lambda>i r. r\<lparr>pe_id := i\<rparr>),
     mc_deleted_at = None, mc_set_deleted = (\<lambda>t r. r),
     mc_conflict = (\<lambda>a b. pe_provider a = pe_provider b \<and> pe_provider_event_id a = pe_provider_event_id b),
     mc_refs_ok = (\<lambda>d r. True)\<rparr>"

definition Product :: "product model_class" where
  "Product = \<lparr>mc_rows = products, mc_put = (\<lambda>rs d. d\<lparr>products := rs\<rparr>),
     mc_id = product_id, mc_set_id = (\<lambda>i r. r\<lparr>product_id := i\<rparr>),
     mc_deleted_at = Some product_deleted_at, mc_set_deleted = (\<lambda>t r. r\<lparr>product_deleted_at := Some t\<rparr>),
     mc_conflict = (\<lambda>a b. False), mc_refs_ok = (\<lambda>d r. True)\<rparr>"

definition Role :: "role model_class" where
  "Role = \<lparr>mc_rows = roles, mc_put = (\<lambda>rs d. d\<lparr>roles := rs\<rparr>),
     mc_id = role_id, mc_set_id = (\<lambda>i r. r\<lparr>role_id := i\<rparr>),
     mc_deleted_at = None, mc_set_deleted = (\<lambda>t r. r),
     mc_conflict = (\<lambda>a b. role_key a = role_key b), mc_refs_ok = (\<lambda>d r. True)\<rparr>"

definition Permission :: "permission model_class" where
  "Permission = \<lparr>mc_rows = permissions, mc_put = (\<lambda>rs d. d\<lparr>permissions := rs\<rparr>),
     mc_id = perm_id, mc_set_id = (\<lambda>i r. r\<lparr>perm_id := i\<rparr>),
     mc_deleted_at = None, mc_set_deleted = (\<lambda>t r. r),
     mc_conflict = (\<lambda>a b. perm_key a = perm_key b), mc_refs_ok = (\<lambda>d r. True)\<rparr>"

definition RolePermission :: "role_permission model_class" where
  "RolePermission = \<lparr>mc_rows = role_permissions, mc_put = (\<lambda>rs d. d\<lparr>role_permissions := rs\<rparr>),
     mc_id = rp_role_id, mc_set_id = (\<lambda>i r. r),
     mc_deleted_at = None, mc_set_deleted = (\<lambda>t r. r),
     mc_conflict = (=),
     mc_refs_ok = (\<lambda>d r. has_role d (rp_role_id r) \<and> rp_permission_id r \<in> perm_id ` set (permissions d))\<rparr>"

definition UserRole :: "user_role_link model_class" where
  "UserRole = \<lparr>mc_rows = user_roles, mc_put = (\<lambda>rs d. d\<lparr>user_roles := rs\<rparr>),
     mc_id = ur_user_id, mc_set_id = (\<lambda>i r. r),
     mc_deleted_at = None, mc_set_deleted = (\<lambda>t r. r),
     mc_conflict = (=),
     mc_refs_ok = (\<lambda>d r. has_user d (ur_user_id r) \<and> has_role d (ur_role_id r))\<rparr>"

definition WebhookEndpoint :: "webhook_endpoint model_class" where
  "WebhookEndpoint = \<lparr>mc_rows = webhook_endpoints, mc_put = (\<lambda>rs d. d\<lparr>webhook_endpoints := rs\<rparr>),
     mc_id = ep_id, mc_set_id = (\<lambda>i r. r\<lparr>ep_id := i\<rparr>),
     mc_deleted_at = None, mc_set_deleted = (\<lambda>t r. r),
     mc_conflict = (\<lambda>a b. False), mc_refs_ok = (\<lambda>d r. has_user d (ep_owner_id r))\<rparr>"

definition WebhookDelivery :: "webhook_delivery model_class" where
  "WebhookDelivery = \<lparr>mc_rows = webhook_deliveries, mc_put = (\<lambda>rs d. d\<lparr>webhook_deliveries := rs\<rparr>),
     mc_id = deliv_id, mc_set_id = (\<lambda>i r. r\<lparr>deliv_id := i\<rparr>),
     mc_deleted_at = None, mc_set_deleted = (\<lambda>t r. r),
     mc_conflict = (\<lambda>a b. False),
     mc_refs_ok = (\<lambda>d r. deliv_endpoint_id r \<in> ep_id ` set (webhook_endpoints d))\<rparr>"

lemmas model_class_defs =
  User_def ApiKey_def AuditLogEntry_def Plan_def Feature_def PlanFeature_def Subscription_def
  Invoice_def Notification_def PaymentEvent_def Product_def Role_def Permission_def
  RolePermission_def UserRole_def WebhookEndpoint_def WebhookDelivery_def

section \<open>Evaluating statements\<close>

lemma commit_apply [op_simps]: "commit s = (Inr (), s\<lparr>stored := work s\<rparr>)"
  by (simp add: commit_def modify_def)

lemma rollback_apply [op_simps]: "rollback s = (Inr (), s\<lparr>work := stored s\<rparr>)"
  by (simp add: rollback_def modify_def)

lemma bnd_commit [op_simps]: "bnd commit f s = f () (s\<lparr>stored := work s\<rparr>)"
  by (simp add: commit_def op_simps)

lemma bnd_rollback [op_simps]: "bnd rollback f s = f () (s\<lparr>work := stored s\<rparr>)"
  by (simp add: rollback_def op_simps)

lemma bnd_select [op_simps]: "bnd (select mc p) f s = f (filter p (mc_rows mc (work s))) s"
  by (simp add: select_def op_simps)

lemma bnd_scalar [op_simps]: "bnd (scalar mc p) f s = f (find_row p (mc_rows mc (work s))) s"
  by (simp add: scalar_def op_simps)

lemma bnd_db_get [op_simps]:
  "bnd (db_get mc i) f s = f (find_row (\<lambda>r. mc_id mc r = i) (mc_rows mc (work s))) s"
  by (simp add: db_get_def op_simps)

lemma bnd_db_delete_where [op_simps]:
  "bnd (db_delete_where mc p) f s =
     f () (s\<lparr>work := mc_put mc (filter (\<lambda>r. \<not> p r) (mc_rows mc (work s))) (work s)\<rparr>)"
  by (simp add: db_delete_where_def op_simps)

lemma db_insert_InrD:
  assumes "db_insert mc r s = (Inr r', t)"
  shows "r' = mc_set_id mc (fresh_id (map (mc_id mc) (mc_rows mc (work s)))) r"
    and "t = s\<lparr>work := mc_put mc (mc_rows mc (work s) @ [r']) (work s)\<rparr>"
    and "\<not> violates mc s r' (mc_rows mc (work s))"
  using assms by (auto simp: db_insert_def Let_def split: if_splits)

lemma db_save_InrD:
  assumes "db_save mc r s = (Inr u, t)"
  shows "t = s\<lparr>work := mc_put mc (replace_row (mc_id mc) r (mc_rows mc (work s))) (work s)\<rparr>"
    and "\<not> violates mc s r (filter (\<lambda>x. mc_id mc x \<noteq> mc_id mc r) (mc_rows mc (work s)))"
  using assms by (auto simp: db_save_def Let_def split: if_splits)

lemma db_link_InrD:
  assumes "db_link mc r s = (Inr u, t)"
  shows "t = s\<lparr>work := mc_put mc (mc_rows mc (work s) @ [r]) (work s)\<rparr>"
    and "\<not> violates mc s r (mc_rows mc (work s))"
  using assms by (auto simp: db_link_def Let_def split: if_splits)

lemma one_or_none_None: "one_or_none rows = Inr None \<longleftrightarrow> rows = []"
  by (auto simp: one_or_none_def split: list.splits)

lemma one_or_none_Some: "one_or_none rows = Inr (Some r) \<longleftrightarrow> rows = [r]"
  by (auto simp: one_or_none_def split: list.splits)

lemma one_or_none_Inl: "one_or_none rows = Inl e \<longleftrightarrow> e = MultipleResultsFound \<and> 2 \<le> length rows"
  by (auto simp: one_or_none_def split: list.splits)

lemma preserves_select [preserves_intros]: "preserves P (select mc p)"
  by (simp add: select_def preserves_look)

lemma preserves_scalar [preserves_intros]: "preserves P (scalar mc p)"
  by (simp add: scalar_def preserves_look)

lemma preserves_db_get [preserves_intros]: "preserves P (db_get mc i)"
  by (simp add: db_get_def preserves_scalar)

end
