(* ===== verification/Repository.thy ===== *)
theory Repository
  imports Database
begin

text \<open>
  \<open>backend/common/base_repository.py\<close> (and \<open>base_service.py\<close>, which only forwards to it):
  the operations every repository inherits, over an ORM class. A class with a \<open>deleted_at\<close>
  column is deleted softly: its rows stay, and \<open>get_by_id\<close>, \<open>list\<close> and \<open>count\<close> pass over them.

  The interface the rest relies on is the locale \<open>repository\<close> (what an ORM class must be like)
  and its extension \<open>soft_delete\<close>; both are interpreted on the program's classes at the end.
\<close>

section \<open>The operations\<close>

definition alive :: "'r model_class \<Rightarrow> 'r \<Rightarrow> bool" where
  "alive mc r \<longleftrightarrow> (case mc_deleted_at mc of None \<Rightarrow> True | Some f \<Rightarrow> f r = None)"

definition get_by_id :: "'r model_class \<Rightarrow> int \<Rightarrow> (session, 'r option) op" where
  "get_by_id mc item_id = bnd (select mc (\<lambda>r. mc_id mc r = item_id \<and> alive mc r)) (\<lambda>result.
     pure_op (one_or_none result))"

definition list_rows :: "'r model_class \<Rightarrow> nat \<Rightarrow> nat \<Rightarrow> (session, 'r list) op" where
  "list_rows mc skip limit = bnd (select mc (alive mc)) (\<lambda>rows. ret (page_of skip limit rows))"

text \<open>What \<open>create\<close> may be given: an instance of the model, a schema (here the row its
  \<open>model_dump\<close> makes), or something else.\<close>

datatype 'r create_arg = Instance 'r | Schema 'r | Unsupported

definition create :: "'r model_class \<Rightarrow> 'r create_arg \<Rightarrow> (session, 'r) op" where
  "create mc obj_in = (case obj_in of
     Instance r \<Rightarrow> db_insert mc r
   | Schema r \<Rightarrow> db_insert mc r
   | Unsupported \<Rightarrow> throw TypeError)"

text \<open>
  \<open>update\<close> sets the fields a schema carries, one by one; \<open>None\<close> is an argument without
  \<open>model_dump\<close>. The object returned is the row after \<open>refresh\<close>.
\<close>

definition update :: "'r model_class \<Rightarrow> 'r \<Rightarrow> ('r \<Rightarrow> 'r) list option \<Rightarrow> (session, 'r) op" where
  "update mc db_obj obj_in = (case obj_in of
     None \<Rightarrow> throw TypeError
   | Some update_data \<Rightarrow> (let r = fold (\<lambda>set_field obj. set_field obj) update_data db_obj in
       bnd (db_save mc r) (\<lambda>_. ret r)))"

definition delete_row :: "'r model_class \<Rightarrow> datetime \<Rightarrow> 'r \<Rightarrow> (session, unit) op" where
  "delete_row mc now db_obj = (case mc_deleted_at mc of
     None \<Rightarrow> ret ()
   | Some _ \<Rightarrow> db_save mc (mc_set_deleted mc now db_obj))"

definition count_rows :: "'r model_class \<Rightarrow> (session, nat) op" where
  "count_rows mc = bnd (select mc (alive mc)) (\<lambda>rows. ret (length rows))"

section \<open>The contract of an ORM class\<close>

definition ids_distinct :: "'r model_class \<Rightarrow> session \<Rightarrow> bool" where
  "ids_distinct mc s \<longleftrightarrow> distinct (map (mc_id mc) (mc_rows mc (work s)))"

locale repository =
  fixes mc :: "'r model_class"
  assumes rows_put: "mc_rows mc (mc_put mc rs d) = rs"
    and id_set_id: "mc_id mc (mc_set_id mc i r) = i"
    and alive_set_id: "alive mc (mc_set_id mc i r) = alive mc r"
    and put_put: "mc_put mc rs (mc_put mc rs' d) = mc_put mc rs d"
    and put_rows: "mc_put mc (mc_rows mc d) d = d"
    and refs_put: "mc_refs_ok mc (mc_put mc rs d) r = mc_refs_ok mc d r"
begin

lemma insert_rows:
  assumes "db_insert mc r s = (Inr r', t)"
  shows "mc_rows mc (work t) = mc_rows mc (work s) @ [r']"
    and "mc_id mc r' \<notin> mc_id mc ` set (mc_rows mc (work s))"
    and "0 < mc_id mc r'"
  using db_insert_InrD [OF assms] fresh_id_notin [of "map (mc_id mc) (mc_rows mc (work s))"]
    fresh_id_pos [of "map (mc_id mc) (mc_rows mc (work s))"]
  by (simp_all add: rows_put id_set_id)

lemma insert_ids_distinct: "preserves (ids_distinct mc) (db_insert mc r)"
  by (rule preservesI) (simp add: ids_distinct_def db_insert_def Let_def rows_put id_set_id)

lemma save_rows:
  assumes "db_save mc r s = (Inr u, t)"
  shows "mc_rows mc (work t) = replace_row (mc_id mc) r (mc_rows mc (work s))"
  using db_save_InrD(1) [OF assms] by (simp add: rows_put)

lemma save_ids_distinct: "preserves (ids_distinct mc) (db_save mc r)"
  by (rule preservesI) (auto simp: ids_distinct_def db_save_def Let_def rows_put)

text \<open>A loop that changes some rows, none of which can then conflict, changes just those.\<close>

lemma save_all:
  assumes "distinct (map (mc_id mc) (mc_rows mc (work s)))" and "set xs \<subseteq> set (mc_rows mc (work s))" and "distinct xs"
    and "\<And>r. mc_id mc (f r) = mc_id mc r" and "\<And>a b. \<not> mc_conflict mc a b"
    and "\<And>r. fk_on s \<Longrightarrow> r \<in> set xs \<Longrightarrow> mc_refs_ok mc (work s) (f r)"
  shows "for_each xs (\<lambda>r. db_save mc (f r)) s =
    (Inr (), s\<lparr>work := mc_put mc (map (\<lambda>r. if r \<in> set xs then f r else r) (mc_rows mc (work s))) (work s)\<rparr>)"
  using assms
proof (induction xs arbitrary: s)
  case Nil
  then show ?case by (simp add: ret_apply put_rows)
next
  case (Cons x xs)
  let ?rows = "mc_rows mc (work s)"
  let ?s1 = "s\<lparr>work := mc_put mc (replace_row (mc_id mc) (f x) ?rows) (work s)\<rparr>"
  have save: "db_save mc (f x) s = (Inr (), ?s1)"
    using Cons.prems(5,6) by (auto simp: db_save_def violates_def Let_def)
  have uniq: "r = x" if "r \<in> set ?rows" "mc_id mc r = mc_id mc x" for r
    using that Cons.prems(1,2) by (simp add: distinct_map inj_on_def)
  have sub: "set xs \<subseteq> set (mc_rows mc (work ?s1))"
    using Cons.prems(2,3) uniq by (auto simp: rows_put set_replace_row Cons.prems(4))
  have "for_each xs (\<lambda>r. db_save mc (f r)) ?s1 = (Inr (), ?s1\<lparr>work :=
      mc_put mc (map (\<lambda>r. if r \<in> set xs then f r else r) (mc_rows mc (work ?s1))) (work ?s1)\<rparr>)"
    using Cons.prems sub by (intro Cons.IH) (auto simp: rows_put refs_put)
  moreover have "map (\<lambda>r. if r \<in> set xs then f r else r) (replace_row (mc_id mc) (f x) ?rows) =
      map (\<lambda>r. if r \<in> set (x # xs) then f r else r) ?rows"
  proof -
    have "f x \<notin> set xs"
      using Cons.prems(2,3,4) uniq [of "f x"] by auto
    then show ?thesis
      using uniq by (auto simp: replace_row_def Cons.prems(4))
  qed
  ultimately show ?case using save by (simp add: bnd_apply rows_put put_put)
qed

lemma delete_where_ids_distinct: "preserves (ids_distinct mc) (db_delete_where mc p)"
  unfolding db_delete_where_def
  by (rule preserves_modify) (simp add: ids_distinct_def rows_put distinct_map_filter)

lemma get_by_id_unique:
  assumes "ids_distinct mc s"
  shows "get_by_id mc i s =
    (Inr (find_row (\<lambda>r. mc_id mc r = i \<and> alive mc r) (mc_rows mc (work s))), s)"
proof -
  have "length (filter (\<lambda>r. mc_id mc r = i \<and> alive mc r) rows) \<le> 1"
    if "distinct (map (mc_id mc) rows)" for rows
  proof -
    have "mset (map (mc_id mc) (filter (\<lambda>r. mc_id mc r = i \<and> alive mc r) rows)) \<subseteq># {#i#}"
      using that by (induction rows) (auto simp: filter_empty_conv image_iff)
    then show ?thesis by (metis One_nat_def length_map size_mset size_mset_mono size_single)
  qed
  then have "one_or_none (filter (\<lambda>r. mc_id mc r = i \<and> alive mc r) (mc_rows mc (work s))) =
      Inr (find_row (\<lambda>r. mc_id mc r = i \<and> alive mc r) (mc_rows mc (work s)))"
    using assms unfolding ids_distinct_def one_or_none_def find_row_def
    by (fastforce split: list.splits)
  then show ?thesis by (simp add: get_by_id_def op_simps)
qed

lemma get_by_id_Some:
  assumes "get_by_id mc i s = (Inr (Some r), t)"
  shows "r \<in> set (mc_rows mc (work s))" "mc_id mc r = i" "alive mc r" "t = s"
proof -
  from assms have "filter (\<lambda>r. mc_id mc r = i \<and> alive mc r) (mc_rows mc (work s)) = [r]" and "t = s"
    by (auto simp: get_by_id_def op_simps one_or_none_Some)
  then have "r \<in> set (filter (\<lambda>r. mc_id mc r = i \<and> alive mc r) (mc_rows mc (work s)))" by simp
  then show "r \<in> set (mc_rows mc (work s))" "mc_id mc r = i" "alive mc r" by simp_all
  show "t = s" by fact
qed

text \<open>A row created is found under its id, and creating it changes no other lookup.\<close>

lemma create_get:
  assumes "ids_distinct mc s" and "create mc (Instance r) s = (Inr r', t)" and "alive mc r"
  shows "get_by_id mc (mc_id mc r') t = (Inr (Some r'), t)"
proof -
  from assms(2) have ins: "db_insert mc r s = (Inr r', t)" by (simp add: create_def)
  have "alive mc r'" using db_insert_InrD(1) [OF ins] assms(3) by (simp add: alive_set_id)
  moreover have "find_row (\<lambda>x. mc_id mc x = mc_id mc r' \<and> alive mc x) (mc_rows mc (work s)) = None"
    using insert_rows(2) [OF ins] unfolding find_row_None by (metis image_eqI)
  moreover have "ids_distinct mc t"
    using preserves_result [OF insert_ids_distinct assms(1) ins] .
  ultimately show ?thesis
    by (simp add: get_by_id_unique insert_rows(1) [OF ins] find_row_append)
      (simp add: find_row_def)
qed

lemma create_get_other:
  assumes "ids_distinct mc s" and "create mc (Instance r) s = (Inr r', t)" and "i \<noteq> mc_id mc r'"
  shows "fst (get_by_id mc i t) = fst (get_by_id mc i s)"
proof -
  from assms(2) have ins: "db_insert mc r s = (Inr r', t)" by (simp add: create_def)
  have "ids_distinct mc t"
    using preserves_result [OF insert_ids_distinct assms(1) ins] .
  with assms(1,3) show ?thesis
    by (simp add: get_by_id_unique insert_rows(1) [OF ins] find_row_append)
      (simp add: find_row_def split: option.split)
qed

text \<open>Pages of any size, read one after the other, are the list of live rows.\<close>

lemma list_rows_apply:
  "list_rows mc skip limit s = (Inr (page_of skip limit (filter (alive mc) (mc_rows mc (work s)))), s)"
  by (simp add: list_rows_def op_simps)

lemma count_rows_apply:
  "count_rows mc s = (Inr (length (filter (alive mc) (mc_rows mc (work s)))), s)"
  by (simp add: count_rows_def op_simps)

end

locale soft_delete = repository mc for mc :: "'r model_class" +
  fixes deleted_at :: "'r \<Rightarrow> datetime option"
  assumes has_deleted_at: "mc_deleted_at mc = Some deleted_at"
    and deleted_set: "deleted_at (mc_set_deleted mc t r) = Some t"
    and id_set_deleted: "mc_id mc (mc_set_deleted mc t r) = mc_id mc r"
begin

lemma alive_iff: "alive mc r \<longleftrightarrow> deleted_at r = None"
  by (simp add: alive_def has_deleted_at)

lemma delete_rows:
  assumes "delete_row mc now r s = (Inr u, t)"
  shows "mc_rows mc (work t) =
    replace_row (mc_id mc) (mc_set_deleted mc now r) (mc_rows mc (work s))"
  using assms save_rows by (simp add: delete_row_def has_deleted_at)

lemma delete_ids_distinct: "preserves (ids_distinct mc) (delete_row mc now r)"
  by (simp add: delete_row_def has_deleted_at save_ids_distinct)

text \<open>After a delete the row is not found, every other one is found as before.\<close>

lemma delete_get:
  assumes "ids_distinct mc s" and "delete_row mc now r s = (Inr u, t)"
  shows "get_by_id mc (mc_id mc r) t = (Inr None, t)"
proof -
  have "ids_distinct mc t"
    using preserves_result [OF delete_ids_distinct assms] .
  moreover have "find_row (\<lambda>x. mc_id mc x = mc_id mc r \<and> alive mc x) (mc_rows mc (work t)) = None"
    unfolding find_row_None delete_rows [OF assms(2)]
    by (auto simp: set_replace_row id_set_deleted alive_iff deleted_set split: if_splits)
  ultimately show ?thesis by (simp add: get_by_id_unique)
qed

lemma find_row_replace_other:
  "i \<noteq> mc_id mc r \<Longrightarrow> find_row (\<lambda>x. mc_id mc x = i \<and> Q x) (replace_row (mc_id mc) r rows) =
     find_row (\<lambda>x. mc_id mc x = i \<and> Q x) rows"
  by (induction rows) (auto simp: find_row_def replace_row_def)

lemma delete_get_other:
  assumes "ids_distinct mc s" and "delete_row mc now r s = (Inr u, t)" and "i \<noteq> mc_id mc r"
  shows "fst (get_by_id mc i t) = fst (get_by_id mc i s)"
proof -
  have "ids_distinct mc t"
    using preserves_result [OF delete_ids_distinct assms(1,2)] .
  with assms show ?thesis
    by (simp add: get_by_id_unique delete_rows find_row_replace_other id_set_deleted)
qed

text \<open>Deleting a live row of the table lowers the count by one.\<close>

lemma delete_count:
  assumes "ids_distinct mc s" and "delete_row mc now r s = (Inr u, t)"
    and "r \<in> set (mc_rows mc (work s))" and "alive mc r"
  shows "fst (count_rows mc s) = Inr n \<Longrightarrow> fst (count_rows mc t) = Inr (n - 1)"
proof -
  have "length (filter (alive mc) (replace_row (mc_id mc) (mc_set_deleted mc now r) rows)) =
      length (filter (alive mc) rows) - 1"
    if "distinct (map (mc_id mc) rows)" "r \<in> set rows" for rows
    using that
  proof (induction rows)
    case (Cons x xs)
    show ?case
    proof (cases "mc_id mc x = mc_id mc r")
      case True
      with Cons.prems have "x = r" by (auto simp: image_iff)
      moreover from True Cons.prems(1)
      have "replace_row (mc_id mc) (mc_set_deleted mc now r) xs = xs"
        unfolding replace_row_def by (intro map_idI) (auto simp: id_set_deleted image_iff)
      ultimately show ?thesis
        using assms(4) by (simp add: replace_row_def id_set_deleted alive_iff deleted_set)
    next
      case False
      with Cons have "r \<in> set xs" by auto
      with assms(4) have "0 < length (filter (alive mc) xs)"
        by (metis filter_empty_conv length_greater_0_conv)
      with False Cons \<open>r \<in> set xs\<close> show ?thesis
        by (simp add: replace_row_def id_set_deleted)
    qed
  qed simp
  with assms show "fst (count_rows mc s) = Inr n \<Longrightarrow> fst (count_rows mc t) = Inr (n - 1)"
    by (simp add: count_rows_apply delete_rows [OF assms(2)] ids_distinct_def)
qed

end

section \<open>The program's classes meet the contract\<close>

interpretation users: soft_delete User user_deleted_at
  by unfold_locales (auto simp: User_def alive_def has_user_def has_plan_def has_role_def split: option.split)

interpretation products: soft_delete Product product_deleted_at
  by unfold_locales (auto simp: Product_def alive_def has_user_def has_plan_def has_role_def split: option.split)

interpretation api_keys: repository ApiKey
  by unfold_locales (auto simp: ApiKey_def alive_def has_user_def has_plan_def has_role_def split: option.split)

interpretation plans: repository Plan
  by unfold_locales (auto simp: Plan_def alive_def has_user_def has_plan_def has_role_def split: option.split)

interpretation features: repository Feature
  by unfold_locales (auto simp: Feature_def alive_def has_user_def has_plan_def has_role_def split: option.split)

interpretation subscriptions: repository Subscription
  by unfold_locales (auto simp: Subscription_def alive_def has_user_def has_plan_def has_role_def split: option.split)

interpretation invoices: repository Invoice
  by unfold_locales (auto simp: Invoice_def alive_def has_user_def has_plan_def has_role_def split: option.split)

interpretation notifications: repository Notification
  by unfold_locales (auto simp: Notification_def alive_def has_user_def has_plan_def has_role_def split: option.split)

interpretation payment_events: repository PaymentEvent
  by unfold_locales (auto simp: PaymentEvent_def alive_def has_user_def has_plan_def has_role_def split: option.split)

interpretation roles: repository Role
  by unfold_locales (auto simp: Role_def alive_def has_user_def has_plan_def has_role_def split: option.split)

interpretation permissions: repository Permission
  by unfold_locales (auto simp: Permission_def alive_def has_user_def has_plan_def has_role_def split: option.split)

interpretation endpoints: repository WebhookEndpoint
  by unfold_locales (auto simp: WebhookEndpoint_def alive_def has_user_def has_plan_def has_role_def split: option.split)

interpretation deliveries: repository WebhookDelivery
  by unfold_locales (auto simp: WebhookDelivery_def alive_def has_user_def has_plan_def has_role_def split: option.split)

interpretation audit_entries: repository AuditLogEntry
  by unfold_locales (auto simp: AuditLogEntry_def alive_def has_user_def has_plan_def has_role_def split: option.split)

section \<open>Reading pages\<close>

text \<open>The pages \<open>0, k, 2k, ...\<close> that a client walks through.\<close>

definition page_starts :: "nat \<Rightarrow> nat \<Rightarrow> nat list" where
  "page_starts limit n = map (\<lambda>p. p * limit) [0..<(n + limit - 1) div limit]"

lemma pages_cover:
  assumes "0 < limit"
  shows "concat (map (\<lambda>skip. page_of skip limit rows) (page_starts limit (length rows))) = rows"
proof -
  have walk: "concat (map (\<lambda>p. page_of (p * limit) limit rows) [0..<n]) = take (n * limit) rows" for n
    by (induction n) (simp_all add: page_of_def take_add add.commute [of limit])
  have "length rows \<le> ((length rows + limit - 1) div limit) * limit"
  proof -
    have "length rows + limit - 1 < ((length rows + limit - 1) div limit) * limit + limit"
      using dividend_less_div_times [OF assms, of "length rows + limit - 1"] by (simp add: add.commute)
    then show ?thesis by linarith
  qed
  then show ?thesis by (simp add: page_starts_def comp_def walk)
qed

end
