(* ===== verification/TokenStore.thy ===== *)
theory TokenStore
  imports Config
begin

text \<open>
  \<open>backend/core/security/token_store.py\<close>: the stores of refresh tokens, one-time tokens and
  revoked access tokens, on Redis, with each store's own dictionary as the fallback when Redis
  raises and the environment is \<open>dev\<close>.

  Redis is a parameter: the record of the client's operations the program calls, each \<open>None\<close>
  where the call raises. What the code relies on is the locale \<open>redis_service\<close>; a client that
  always raises is \<open>redis_outage\<close>. Both give the contract \<open>token_backend\<close> under which the
  store's lemmas are proved once. Tokens that the code draws with \<open>uuid4\<close> are arguments.
\<close>

section \<open>Redis and the stores' state\<close>

record 'r redis_ops =
  rd_set :: "string \<Rightarrow> string \<Rightarrow> int \<Rightarrow> 'r \<Rightarrow> 'r option"
  rd_get :: "string \<Rightarrow> 'r \<Rightarrow> string option option"
  rd_delete :: "string \<Rightarrow> 'r \<Rightarrow> 'r option"
  rd_sadd :: "string \<Rightarrow> string \<Rightarrow> 'r \<Rightarrow> 'r option"
  rd_expire :: "string \<Rightarrow> int \<Rightarrow> 'r \<Rightarrow> 'r option"
  rd_smembers :: "string \<Rightarrow> 'r \<Rightarrow> string list option"

text \<open>What a fallback dictionary holds: texts and sets.\<close>

datatype pyval = PStr string | PSet "string list"

text \<open>The six \<open>TokenStore\<close> objects of the program.\<close>

datatype store =
    RefreshStore
  | SessionRevocationStore
  | PasswordResetStore
  | EmailVerificationStore
  | RevocationStore
  | WsRevocationStore

definition prefix_of :: "store \<Rightarrow> string" where
  "prefix_of self = (case self of
     RefreshStore \<Rightarrow> ''tier4:tokens''
   | SessionRevocationStore \<Rightarrow> ''tier4:tokens''
   | PasswordResetStore \<Rightarrow> ''tier4:password-reset''
   | EmailVerificationStore \<Rightarrow> ''tier4:email-verification''
   | RevocationStore \<Rightarrow> ''tier4:revocations''
   | WsRevocationStore \<Rightarrow> ''tier4:revocations'')"

record 'r token_state =
  redis :: 'r
  mem :: "store \<Rightarrow> string \<Rightarrow> pyval option"

definition mem_put :: "store \<Rightarrow> string \<Rightarrow> pyval option \<Rightarrow> 'r token_state \<Rightarrow> 'r token_state" where
  "mem_put self k v s = s\<lparr>mem := (mem s)(self := (mem s self)(k := v))\<rparr>"

section \<open>Keys and markers\<close>

definition key :: "store \<Rightarrow> string \<Rightarrow> string" where
  "key self token = prefix_of self @ '':'' @ token"

definition user_index_key :: "store \<Rightarrow> int \<Rightarrow> string" where
  "user_index_key self uid = prefix_of self @ '':by-user:'' @ show_int uid"

definition access_index_key :: "store \<Rightarrow> int \<Rightarrow> string" where
  "access_index_key self uid = prefix_of self @ '':access-by-user:'' @ show_int uid"

definition used_token_prefix :: string where
  "used_token_prefix = ''used:''"

definition used_token_value :: "int \<Rightarrow> string" where
  "used_token_value uid = used_token_prefix @ show_int uid"

text \<open>\<open>bool(value and value.startswith("used:"))\<close>; a set has no \<open>startswith\<close>.\<close>

definition is_used_value :: "pyval option \<Rightarrow> exn + bool" where
  "is_used_value v = (case v of
     None \<Rightarrow> Inr False
   | Some (PStr t) \<Rightarrow> Inr (startswith t used_token_prefix)
   | Some (PSet xs) \<Rightarrow> if xs = [] then Inr False else Inl (AttributeError ''startswith''))"

text \<open>\<open>int(value)\<close> of a stored value.\<close>

definition int_value :: "pyval \<Rightarrow> exn + int" where
  "int_value v = (case v of
     PStr t \<Rightarrow> (case parse_int t of None \<Rightarrow> Inl (ValueError ''invalid literal for int()'') | Some n \<Rightarrow> Inr n)
   | PSet xs \<Rightarrow> Inl TypeError)"

definition used_token_user_id :: "pyval option \<Rightarrow> exn + int option" where
  "used_token_user_id v = bind_sum (is_used_value v) (\<lambda>used.
     if \<not> used then Inr None
     else (case v of
       Some (PStr t) \<Rightarrow> map_sum id Some (int_value (PStr (drop (length used_token_prefix) t)))
     | _ \<Rightarrow> Inr None))"

section \<open>Redis with the fallback\<close>

definition unavailable :: "settings \<Rightarrow> ('r token_state, 'a) op \<Rightarrow> ('r token_state, 'a) op" where
  "unavailable c fallback =
     (if environment c = ''dev'' then fallback else throw TokenStoreUnavailableError)"

definition set_token :: "'r redis_ops \<Rightarrow> settings \<Rightarrow> store \<Rightarrow> string \<Rightarrow> string \<Rightarrow> int \<Rightarrow> ('r token_state, unit) op" where
  "set_token rc c self token v ttl = (\<lambda>s.
     case rd_set rc (key self token) v ttl (redis s) of
       Some r \<Rightarrow> (Inr (), s\<lparr>redis := r\<rparr>)
     | None \<Rightarrow> unavailable c (modify (mem_put self (key self token) (Some (PStr v)))) s)"

definition get_token :: "'r redis_ops \<Rightarrow> settings \<Rightarrow> store \<Rightarrow> string \<Rightarrow> ('r token_state, pyval option) op" where
  "get_token rc c self token = (\<lambda>s.
     case rd_get rc (key self token) (redis s) of
       Some v \<Rightarrow> (Inr (map_option PStr v), s)
     | None \<Rightarrow> unavailable c (look (\<lambda>s. mem s self (key self token))) s)"

definition delete_token :: "'r redis_ops \<Rightarrow> settings \<Rightarrow> store \<Rightarrow> string \<Rightarrow> ('r token_state, unit) op" where
  "delete_token rc c self token = (\<lambda>s.
     case rd_delete rc (key self token) (redis s) of
       Some r \<Rightarrow> (Inr (), s\<lparr>redis := r\<rparr>)
     | None \<Rightarrow> unavailable c (modify (mem_put self (key self token) None)) s)"

text \<open>\<open>self._memory_store.setdefault(k, set()).add(m)\<close>.\<close>

definition mem_add :: "store \<Rightarrow> string \<Rightarrow> string \<Rightarrow> ('r token_state, unit) op" where
  "mem_add self k m = (\<lambda>s. case mem s self k of
     None \<Rightarrow> (Inr (), mem_put self k (Some (PSet [m])) s)
   | Some (PSet xs) \<Rightarrow> (Inr (), mem_put self k (Some (PSet (set_add m xs))) s)
   | Some (PStr t) \<Rightarrow> (Inl (AttributeError ''add''), s))"

text \<open>The body of \<open>_track_for_user\<close> and \<open>track_access_token\<close>: add to the set under \<open>k\<close>.\<close>

definition track_at :: "'r redis_ops \<Rightarrow> settings \<Rightarrow> store \<Rightarrow> string \<Rightarrow> string \<Rightarrow> int \<Rightarrow> ('r token_state, unit) op" where
  "track_at rc c self k m ttl = (\<lambda>s.
     case rd_sadd rc k m (redis s) of
       None \<Rightarrow> unavailable c (mem_add self k m) s
     | Some r \<Rightarrow> (case rd_expire rc k ttl r of
         None \<Rightarrow> unavailable c (mem_add self k m) (s\<lparr>redis := r\<rparr>)
       | Some r' \<Rightarrow> (Inr (), s\<lparr>redis := r'\<rparr>)))"

text \<open>
  The set under \<open>k\<close> that the revocations walk through: from Redis, or, in any environment,
  from the dictionary when Redis raises (iterating a text would yield its characters).
\<close>

definition members_of :: "pyval option \<Rightarrow> string list" where
  "members_of v = (case v of None \<Rightarrow> [] | Some (PSet xs) \<Rightarrow> xs | Some (PStr t) \<Rightarrow> map (\<lambda>ch. [ch]) t)"

definition index_members :: "'r redis_ops \<Rightarrow> store \<Rightarrow> string \<Rightarrow> 'r token_state \<Rightarrow> string list" where
  "index_members rc self k s = (case rd_smembers rc k (redis s) of
     Some ts \<Rightarrow> ts | None \<Rightarrow> members_of (mem s self k))"

section \<open>The public methods\<close>

definition add_refresh_token :: "'r redis_ops \<Rightarrow> settings \<Rightarrow> store \<Rightarrow> string \<Rightarrow> int \<Rightarrow> int \<Rightarrow> ('r token_state, string) op" where
  "add_refresh_token rc c self token uid ttl =
     bnd (set_token rc c self token (show_int uid) ttl) (\<lambda>_.
     bnd (track_at rc c self (user_index_key self uid) token ttl) (\<lambda>_.
     ret token))"

definition rotate_refresh_token :: "'r redis_ops \<Rightarrow> settings \<Rightarrow> store \<Rightarrow> string \<Rightarrow> string \<Rightarrow> int \<Rightarrow> int \<Rightarrow> ('r token_state, string) op" where
  "rotate_refresh_token rc c self token old_token uid ttl =
     bnd (set_token rc c self old_token (used_token_value uid) (min 60 ttl)) (\<lambda>_.
     add_refresh_token rc c self token uid ttl)"

definition add_password_reset_token :: "'r redis_ops \<Rightarrow> settings \<Rightarrow> store \<Rightarrow> string \<Rightarrow> int \<Rightarrow> int \<Rightarrow> ('r token_state, string) op" where
  "add_password_reset_token rc c self token uid ttl =
     bnd (set_token rc c self token (show_int uid) ttl) (\<lambda>_. ret token)"

definition consume_password_reset_token :: "'r redis_ops \<Rightarrow> settings \<Rightarrow> store \<Rightarrow> string \<Rightarrow> ('r token_state, int option) op" where
  "consume_password_reset_token rc c self token =
     bnd (get_token rc c self token) (\<lambda>v. case v of
       None \<Rightarrow> ret None
     | Some x \<Rightarrow> bnd (pure_op (is_used_value v)) (\<lambda>used.
         if used then ret None
         else bnd (delete_token rc c self token) (\<lambda>_.
           bnd (pure_op (int_value x)) (\<lambda>n. ret (Some n)))))"

definition revoke :: "'r redis_ops \<Rightarrow> settings \<Rightarrow> store \<Rightarrow> string \<Rightarrow> ('r token_state, unit) op" where
  "revoke rc c self token = delete_token rc c self token"

definition revoke_jti :: "'r redis_ops \<Rightarrow> settings \<Rightarrow> store \<Rightarrow> string \<Rightarrow> int option \<Rightarrow> ('r token_state, unit) op" where
  "revoke_jti rc c self jti ttl = set_token rc c self jti ''revoked''
     (case ttl of Some t \<Rightarrow> if t \<noteq> 0 then t else 24 * 60 * 60 | None \<Rightarrow> 24 * 60 * 60)"

definition is_revoked :: "'r redis_ops \<Rightarrow> settings \<Rightarrow> store \<Rightarrow> string \<Rightarrow> ('r token_state, bool) op" where
  "is_revoked rc c self jti =
     bnd (get_token rc c self jti) (\<lambda>v. ret (v = Some (PStr ''revoked'')))"

definition revoke_all_for_user :: "'r redis_ops \<Rightarrow> settings \<Rightarrow> store \<Rightarrow> int \<Rightarrow> ('r token_state, unit) op" where
  "revoke_all_for_user rc c self uid =
     bnd (look (index_members rc self (user_index_key self uid))) (\<lambda>tokens.
     for_each tokens (delete_token rc c self))"

definition mark_refresh_token_replayed :: "'r redis_ops \<Rightarrow> settings \<Rightarrow> store \<Rightarrow> string \<Rightarrow> ('r token_state, unit) op" where
  "mark_refresh_token_replayed rc c self token =
     bnd (get_token rc c self token) (\<lambda>v. case v of
       None \<Rightarrow> ret ()
     | Some x \<Rightarrow> bnd (pure_op (is_used_value v)) (\<lambda>used.
         if used then ret ()
         else bnd (pure_op (int_value x)) (\<lambda>uid.
           set_token rc c self token (used_token_value uid) 60)))"

definition track_access_token :: "'r redis_ops \<Rightarrow> settings \<Rightarrow> store \<Rightarrow> int \<Rightarrow> string \<Rightarrow> int \<Rightarrow> ('r token_state, unit) op" where
  "track_access_token rc c self uid jti ttl = track_at rc c self (access_index_key self uid) jti ttl"

definition revoke_all_access_tokens_for_user :: "'r redis_ops \<Rightarrow> settings \<Rightarrow> store \<Rightarrow> int \<Rightarrow> ('r token_state, unit) op" where
  "revoke_all_access_tokens_for_user rc c self uid =
     bnd (look (index_members rc self (access_index_key self uid))) (\<lambda>jtis.
     for_each jtis (\<lambda>jti. revoke_jti rc c self jti None))"

section \<open>Keys do not meet, except where they do\<close>

lemma key_inj [simp]: "key self a = key self b \<longleftrightarrow> a = b"
  by (simp add: key_def)

lemma user_index_key_is_key: "user_index_key self uid = key self (''by-user:'' @ show_int uid)"
  by (simp add: user_index_key_def key_def)

lemma access_index_key_is_key:
  "access_index_key self uid = key self (''access-by-user:'' @ show_int uid)"
  by (simp add: access_index_key_def key_def)

lemma index_keys_inj [simp]:
  "user_index_key self a = user_index_key self b \<longleftrightarrow> a = b"
  "access_index_key self a = access_index_key self b \<longleftrightarrow> a = b"
  "user_index_key self a \<noteq> access_index_key self b"
  "access_index_key self a \<noteq> user_index_key self b"
  by (simp_all add: user_index_key_def access_index_key_def)

lemma used_value_is_used [simp]: "is_used_value (Some (PStr (used_token_value uid))) = Inr True"
  by (simp add: is_used_value_def used_token_value_def)

lemma used_value_user [simp]:
  "used_token_user_id (Some (PStr (used_token_value uid))) = Inr (Some uid)"
  by (simp add: used_token_user_id_def bind_sum_def) (simp add: used_token_value_def int_value_def)

lemma show_int_not_used [simp]: "is_used_value (Some (PStr (show_int uid))) = Inr False"
proof -
  have "\<not> startswith (show_int uid) used_token_prefix"
  proof
    assume "startswith (show_int uid) used_token_prefix"
    then have "CHR ''u'' \<in> set (show_int uid)"
      by (auto simp: startswith_iff used_token_prefix_def)
    then show False using show_int_no_letter [of "CHR ''u''" uid] by simp
  qed
  then show ?thesis by (simp add: is_used_value_def)
qed

lemma int_value_show_int [simp]: "int_value (PStr (show_int uid)) = Inr uid"
  by (simp add: int_value_def)

lemma show_int_not_revoked [simp]: "show_int uid \<noteq> ''revoked''"
proof
  assume "show_int uid = ''revoked''"
  then have "CHR ''v'' \<in> set (show_int uid)" by simp
  then show False using show_int_no_letter [of "CHR ''v''" uid] by simp
qed

text \<open>A token without a colon (every \<open>uuid4\<close> text) is never an index key.\<close>

lemma no_colon_not_index [simp]:
  assumes "CHR '':'' \<notin> set t"
  shows "key self t \<noteq> user_index_key self uid" "key self t \<noteq> access_index_key self uid"
    "user_index_key self uid \<noteq> key self t" "access_index_key self uid \<noteq> key self t"
  using assms by (auto simp: user_index_key_is_key access_index_key_is_key)

section \<open>The contract of a backend\<close>

text \<open>
  What the public methods rely on, for the value under each key as \<open>look_up\<close> reads it: \<open>SET\<close>
  and \<open>DEL\<close> change one key, \<open>GET\<close> reads a text, \<open>SADD\<close> extends a set or makes one, \<open>SMEMBERS\<close>
  reads it. Keys may expire between two calls; the laws speak of one call.
\<close>

locale token_backend =
  fixes rc :: "'r redis_ops" and c :: settings and self :: store
    and look_up :: "'r token_state \<Rightarrow> string \<Rightarrow> pyval option"
  assumes set_law: "0 < ttl \<Longrightarrow> \<exists>s'. set_token rc c self t v ttl s = (Inr (), s') \<and>
            look_up s' = (look_up s)(key self t \<mapsto> PStr v)"
    and get_law: "(\<forall>xs. look_up s (key self t) \<noteq> Some (PSet xs)) \<Longrightarrow>
            get_token rc c self t s = (Inr (look_up s (key self t)), s)"
    and delete_law: "\<exists>s'. delete_token rc c self t s = (Inr (), s') \<and>
            look_up s' = (look_up s)(key self t := None)"
    and track_law: "0 < ttl \<Longrightarrow> (\<forall>v. look_up s k \<noteq> Some (PStr v)) \<Longrightarrow>
            \<exists>s' xs. track_at rc c self k m ttl s = (Inr (), s') \<and>
              look_up s' = (look_up s)(k \<mapsto> PSet xs) \<and>
              set xs = insert m (set (members_of (look_up s k)))"
    and members_law: "(\<forall>v. look_up s k \<noteq> Some (PStr v)) \<Longrightarrow>
            set (index_members rc self k s) = set (members_of (look_up s k))"
begin

lemma delete_each:
  "\<exists>s'. for_each ts (delete_token rc c self) s = (Inr (), s') \<and>
     look_up s' = (\<lambda>k. if k \<in> key self ` set ts then None else look_up s k)"
proof (induction ts arbitrary: s)
  case Nil
  then show ?case by (simp add: op_simps)
next
  case (Cons t ts)
  obtain s1 where s1: "delete_token rc c self t s = (Inr (), s1)"
      "look_up s1 = (look_up s)(key self t := None)"
    using delete_law [of t s] by blast
  obtain s2 where "for_each ts (delete_token rc c self) s1 = (Inr (), s2)"
      "look_up s2 = (\<lambda>k. if k \<in> key self ` set ts then None else look_up s1 k)"
    using Cons [of s1] by blast
  then show ?case using s1 by (auto simp: bnd_Inr fun_eq_iff)
qed

lemma revoke_each:
  "\<exists>s'. for_each js (\<lambda>j. revoke_jti rc c self j None) s = (Inr (), s') \<and>
     look_up s' = (\<lambda>k. if k \<in> key self ` set js then Some (PStr ''revoked'') else look_up s k)"
proof (induction js arbitrary: s)
  case Nil
  then show ?case by (simp add: op_simps)
next
  case (Cons j js)
  obtain s1 where s1: "revoke_jti rc c self j None s = (Inr (), s1)"
      "look_up s1 = (look_up s)(key self j \<mapsto> PStr ''revoked'')"
    using set_law [of "24 * 60 * 60" j "''revoked''" s] by (auto simp: revoke_jti_def)
  obtain s2 where "for_each js (\<lambda>j. revoke_jti rc c self j None) s1 = (Inr (), s2)"
      "look_up s2 = (\<lambda>k. if k \<in> key self ` set js then Some (PStr ''revoked'') else look_up s1 k)"
    using Cons [of s1] by blast
  then show ?case using s1 by (auto simp: bnd_Inr fun_eq_iff)
qed

text \<open>A one-time token gives its user once, and nothing the second time.\<close>

lemma consume_once:
  assumes "look_up s (key self t) = Some (PStr (show_int uid))"
  shows "\<exists>s'. consume_password_reset_token rc c self t s = (Inr (Some uid), s') \<and>
           look_up s' = (look_up s)(key self t := None) \<and>
           consume_password_reset_token rc c self t s' = (Inr None, s')"
proof -
  obtain s' where d: "delete_token rc c self t s = (Inr (), s')"
      "look_up s' = (look_up s)(key self t := None)"
    using delete_law [of t s] by blast
  have g: "get_token rc c self t s = (Inr (look_up s (key self t)), s)"
    using get_law assms by simp
  have g': "get_token rc c self t s' = (Inr None, s')"
    using get_law [of s' t] d by simp
  have "consume_password_reset_token rc c self t s = (Inr (Some uid), s')"
    unfolding consume_password_reset_token_def
    by (simp add: bnd_apply g assms op_simps d(1))
  moreover have "consume_password_reset_token rc c self t s' = (Inr None, s')"
    unfolding consume_password_reset_token_def by (simp add: bnd_apply g' op_simps)
  ultimately show ?thesis using d by auto
qed

lemma consume_absent:
  assumes "look_up s (key self t) = None"
  shows "consume_password_reset_token rc c self t s = (Inr None, s)"
  using get_law [of s t] assms
  by (simp add: consume_password_reset_token_def bnd_apply op_simps)

text \<open>A new token is stored with its user and found under the user's index.\<close>

lemma add_refresh:
  assumes "0 < ttl" "CHR '':'' \<notin> set t"
    and "\<forall>v. look_up s (user_index_key self uid) \<noteq> Some (PStr v)"
  shows "\<exists>s' xs. add_refresh_token rc c self t uid ttl s = (Inr t, s') \<and>
           look_up s' = (look_up s)(key self t \<mapsto> PStr (show_int uid), user_index_key self uid \<mapsto> PSet xs) \<and>
           set xs = insert t (set (members_of (look_up s (user_index_key self uid))))"
proof -
  obtain s1 where 1: "set_token rc c self t (show_int uid) ttl s = (Inr (), s1)"
      "look_up s1 = (look_up s)(key self t \<mapsto> PStr (show_int uid))"
    using set_law [OF assms(1)] by blast
  have "\<forall>v. look_up s1 (user_index_key self uid) \<noteq> Some (PStr v)"
    using 1(2) assms by simp
  then obtain s2 xs where 2: "track_at rc c self (user_index_key self uid) t ttl s1 = (Inr (), s2)"
      "look_up s2 = (look_up s1)(user_index_key self uid \<mapsto> PSet xs)"
      "set xs = insert t (set (members_of (look_up s1 (user_index_key self uid))))"
    using track_law [OF assms(1)] by blast
  have "add_refresh_token rc c self t uid ttl s = (Inr t, s2)"
    by (simp add: add_refresh_token_def bnd_apply 1(1) 2(1) op_simps)
  then show ?thesis using 1(2) 2 assms(2) by auto
qed

text \<open>
  Rotation leaves the old token marked as used by its user and the new one live and indexed.
\<close>

lemma rotate:
  assumes "0 < ttl" "CHR '':'' \<notin> set new" "CHR '':'' \<notin> set old" "new \<noteq> old"
    and "\<forall>v. look_up s (user_index_key self uid) \<noteq> Some (PStr v)"
  shows "\<exists>s' xs. rotate_refresh_token rc c self new old uid ttl s = (Inr new, s') \<and>
           look_up s' = (look_up s)(key self old \<mapsto> PStr (used_token_value uid),
             key self new \<mapsto> PStr (show_int uid), user_index_key self uid \<mapsto> PSet xs) \<and>
           set xs = insert new (set (members_of (look_up s (user_index_key self uid))))"
proof -
  have "0 < min 60 ttl" using assms(1) by simp
  then obtain s1 where 1: "set_token rc c self old (used_token_value uid) (min 60 ttl) s = (Inr (), s1)"
      "look_up s1 = (look_up s)(key self old \<mapsto> PStr (used_token_value uid))"
    using set_law by blast
  have "\<forall>v. look_up s1 (user_index_key self uid) \<noteq> Some (PStr v)"
    using 1(2) assms(3,5) by simp
  from add_refresh [OF assms(1,2) this] show ?thesis
    using 1 assms(3) by (auto simp: rotate_refresh_token_def bnd_Inr)
qed

text \<open>Every token that the user's index holds is gone after \<open>revoke_all_for_user\<close>.\<close>

lemma revoke_all:
  assumes "\<forall>v. look_up s (user_index_key self uid) \<noteq> Some (PStr v)"
  shows "\<exists>s'. revoke_all_for_user rc c self uid s = (Inr (), s') \<and>
           look_up s' = (\<lambda>k. if k \<in> key self ` set (members_of (look_up s (user_index_key self uid)))
             then None else look_up s k)"
  using delete_each [of "index_members rc self (user_index_key self uid) s" s]
  unfolding members_law [OF assms] by (auto simp: revoke_all_for_user_def op_simps)

lemma rotate_then_revoke:
  assumes "0 < ttl" "CHR '':'' \<notin> set new" "CHR '':'' \<notin> set old" "new \<noteq> old"
    and ts: "look_up s (user_index_key self uid) = Some (PSet ts)"
  shows "\<exists>s1 s2. rotate_refresh_token rc c self new old uid ttl s = (Inr new, s1) \<and>
      look_up s1 (key self old) = Some (PStr (used_token_value uid)) \<and>
      look_up s1 (key self new) = Some (PStr (show_int uid)) \<and>
      revoke_all_for_user rc c self uid s1 = (Inr (), s2) \<and>
      (\<forall>t \<in> insert new (set ts). look_up s2 (key self t) = None)"
proof -
  obtain s1 xs where 1: "rotate_refresh_token rc c self new old uid ttl s = (Inr new, s1)"
      "look_up s1 = (look_up s)(key self old \<mapsto> PStr (used_token_value uid),
         key self new \<mapsto> PStr (show_int uid), user_index_key self uid \<mapsto> PSet xs)"
      "set xs = insert new (set ts)"
    using rotate [OF assms(1-4), of s uid] ts by (auto simp: members_of_def)
  obtain s2 where "revoke_all_for_user rc c self uid s1 = (Inr (), s2)"
      "look_up s2 = (\<lambda>k. if k \<in> key self ` set (members_of (look_up s1 (user_index_key self uid)))
         then None else look_up s1 k)"
    using revoke_all [of s1 uid] 1(2) by auto
  then show ?thesis using 1 assms by (auto simp: members_of_def)
qed

lemma revoke_then_revoked:
  assumes "t = None \<or> 0 \<le> the t"
  shows "\<exists>s'. revoke_jti rc c self j t s = (Inr (), s') \<and> is_revoked rc c self j s' = (Inr True, s')"
proof -
  define ttl where "ttl = (case t of Some t \<Rightarrow> if t \<noteq> 0 then t else 24 * 60 * 60 | None \<Rightarrow> (24 * 60 * 60 :: int))"
  have "0 < ttl" using assms by (auto simp: ttl_def split: option.split)
  then obtain s' where 1: "set_token rc c self j ''revoked'' ttl s = (Inr (), s')"
      "look_up s' = (look_up s)(key self j \<mapsto> PStr ''revoked'')"
    using set_law by blast
  have "get_token rc c self j s' = (Inr (Some (PStr ''revoked'')), s')"
    using get_law [of s' j] 1(2) by simp
  then show ?thesis using 1 by (auto simp: revoke_jti_def ttl_def [symmetric] is_revoked_def bnd_Inr op_simps)
qed

lemma is_revoked_iff:
  assumes "\<forall>xs. look_up s (key self j) \<noteq> Some (PSet xs)"
  shows "is_revoked rc c self j s = (Inr (look_up s (key self j) = Some (PStr ''revoked'')), s)"
  by (simp add: is_revoked_def bnd_apply get_law [OF assms] op_simps)

text \<open>Every access token that the user's index holds reads as revoked afterwards.\<close>

lemma revoke_all_access:
  assumes "\<forall>v. look_up s (access_index_key self uid) \<noteq> Some (PStr v)"
  shows "\<exists>s'. revoke_all_access_tokens_for_user rc c self uid s = (Inr (), s') \<and>
           look_up s' = (\<lambda>k. if k \<in> key self ` set (members_of (look_up s (access_index_key self uid)))
             then Some (PStr ''revoked'') else look_up s k)"
  using revoke_each [of "index_members rc self (access_index_key self uid) s" s]
  unfolding members_law [OF assms] by (auto simp: revoke_all_access_tokens_for_user_def op_simps)

lemma access_revoked:
  assumes js: "look_up s (access_index_key self uid) = Some (PSet js)" and "j \<in> set js"
  shows "\<exists>s'. revoke_all_access_tokens_for_user rc c self uid s = (Inr (), s') \<and>
           is_revoked rc c self j s' = (Inr True, s') \<and>
           (\<forall>k. k \<notin> key self ` set js \<longrightarrow> look_up s' k = look_up s k)"
proof -
  obtain s' where 1: "revoke_all_access_tokens_for_user rc c self uid s = (Inr (), s')"
      "look_up s' = (\<lambda>k. if k \<in> key self ` set js then Some (PStr ''revoked'') else look_up s k)"
    using revoke_all_access [of s uid] js by (auto simp: members_of_def)
  then have "is_revoked rc c self j s' = (Inr True, s')"
    using is_revoked_iff [of s' j] assms(2) by simp
  then show ?thesis using 1 by auto
qed

text \<open>Deleting the index makes the revocation of the user a no-op.\<close>

lemma index_wiped:
  "\<exists>s1 s2. delete_token rc c self (''by-user:'' @ show_int uid) s = (Inr (), s1) \<and>
     revoke_all_for_user rc c self uid s1 = (Inr (), s2) \<and>
     (\<forall>t. key self t \<noteq> user_index_key self uid \<longrightarrow> look_up s2 (key self t) = look_up s (key self t))"
proof -
  obtain s1 where 1: "delete_token rc c self (''by-user:'' @ show_int uid) s = (Inr (), s1)"
      "look_up s1 = (look_up s)(user_index_key self uid := None)"
    using delete_law by (metis user_index_key_is_key)
  obtain s2 where "revoke_all_for_user rc c self uid s1 = (Inr (), s2)"
      "look_up s2 = (\<lambda>k. if k \<in> key self ` set (members_of (look_up s1 (user_index_key self uid)))
         then None else look_up s1 k)"
    using revoke_all [of s1 uid] 1(2) by auto
  then show ?thesis using 1 by (auto simp: members_of_def)
qed

lemma mark_replayed:
  assumes "look_up s (key self t) = Some (PStr (show_int uid))"
  shows "\<exists>s'. mark_refresh_token_replayed rc c self t s = (Inr (), s') \<and>
           look_up s' = (look_up s)(key self t \<mapsto> PStr (used_token_value uid))"
proof -
  have g: "get_token rc c self t s = (Inr (look_up s (key self t)), s)"
    using get_law assms by simp
  show ?thesis
    using set_law [of 60 t "used_token_value uid" s]
    by (simp add: mark_refresh_token_replayed_def bnd_apply g assms op_simps)
qed

end

section \<open>The two backends\<close>

text \<open>
  Redis when it answers: \<open>view\<close> is its key space, texts and sets. \<open>GET\<close> on a set raises
  (\<open>WRONGTYPE\<close>); an expiry in the future changes no value now.
\<close>

locale redis_service =
  fixes rc :: "'r redis_ops" and view :: "'r \<Rightarrow> string \<Rightarrow> pyval option"
  assumes rd_set_law: "0 < ttl \<Longrightarrow> \<exists>r'. rd_set rc k v ttl r = Some r' \<and> view r' = (view r)(k \<mapsto> PStr v)"
    and rd_get_law: "rd_get rc k r = (case view r k of
            None \<Rightarrow> Some None | Some (PStr v) \<Rightarrow> Some (Some v) | Some (PSet xs) \<Rightarrow> None)"
    and rd_delete_law: "\<exists>r'. rd_delete rc k r = Some r' \<and> view r' = (view r)(k := None)"
    and rd_sadd_law: "(\<forall>v. view r k \<noteq> Some (PStr v)) \<Longrightarrow>
            \<exists>r' xs. rd_sadd rc k m r = Some r' \<and> view r' = (view r)(k \<mapsto> PSet xs) \<and>
              set xs = insert m (set (members_of (view r k)))"
    and rd_expire_law: "0 < ttl \<Longrightarrow> \<exists>r'. rd_expire rc k ttl r = Some r' \<and> view r' = view r"
    and rd_smembers_law: "(\<forall>v. view r k \<noteq> Some (PStr v)) \<Longrightarrow>
            \<exists>ts. rd_smembers rc k r = Some ts \<and> set ts = set (members_of (view r k))"

sublocale redis_service \<subseteq> backend: token_backend rc c self "\<lambda>s. view (redis s)" for c self
proof unfold_locales
  fix ttl :: int and t v and s :: "'r token_state"
  assume "0 < ttl"
  then show "\<exists>s'. set_token rc c self t v ttl s = (Inr (), s') \<and>
      view (redis s') = (view (redis s))(key self t \<mapsto> PStr v)"
    using rd_set_law [of ttl "key self t" v "redis s"] by (auto simp: set_token_def)
next
  fix s :: "'r token_state" and t
  assume "\<forall>xs. view (redis s) (key self t) \<noteq> Some (PSet xs)"
  then show "get_token rc c self t s = (Inr (view (redis s) (key self t)), s)"
    by (auto simp: get_token_def rd_get_law split: option.splits pyval.splits)
next
  fix t and s :: "'r token_state"
  show "\<exists>s'. delete_token rc c self t s = (Inr (), s') \<and>
      view (redis s') = (view (redis s))(key self t := None)"
    using rd_delete_law [of "key self t" "redis s"] by (auto simp: delete_token_def)
next
  fix ttl :: int and k m and s :: "'r token_state"
  assume "0 < ttl" and "\<forall>v. view (redis s) k \<noteq> Some (PStr v)"
  then obtain r xs where r: "rd_sadd rc k m (redis s) = Some r" "view r = (view (redis s))(k \<mapsto> PSet xs)"
      "set xs = insert m (set (members_of (view (redis s) k)))"
    using rd_sadd_law by blast
  obtain r' where "rd_expire rc k ttl r = Some r'" "view r' = view r"
    using rd_expire_law [OF \<open>0 < ttl\<close>] by blast
  then show "\<exists>s' xs. track_at rc c self k m ttl s = (Inr (), s') \<and>
      view (redis s') = (view (redis s))(k \<mapsto> PSet xs) \<and> set xs = insert m (set (members_of (view (redis s) k)))"
    using r by (auto simp: track_at_def)
next
  fix s :: "'r token_state" and k
  assume "\<forall>v. view (redis s) k \<noteq> Some (PStr v)"
  then show "set (index_members rc self k s) = set (members_of (view (redis s) k))"
    using rd_smembers_law by (fastforce simp: index_members_def)
qed

text \<open>Redis when every call raises, in the environment that may fall back to the dictionaries.\<close>

locale redis_outage =
  fixes rc :: "'r redis_ops" and c :: settings
  assumes all_raise: "rd_set rc k v ttl r = None" "rd_get rc k r = None" "rd_delete rc k r = None"
      "rd_sadd rc k m r = None" "rd_smembers rc k r = None"
    and dev: "environment c = ''dev''"

sublocale redis_outage \<subseteq> backend: token_backend rc c self "\<lambda>s. mem s self" for self
proof unfold_locales
  fix ttl :: int and k m and s :: "'r token_state"
  assume "\<forall>v. mem s self k \<noteq> Some (PStr v)"
  then show "\<exists>s' xs. track_at rc c self k m ttl s = (Inr (), s') \<and>
      mem s' self = (mem s self)(k \<mapsto> PSet xs) \<and> set xs = insert m (set (members_of (mem s self k)))"
    by (cases "mem s self k")
      (auto simp: track_at_def all_raise unavailable_def dev mem_add_def mem_put_def members_of_def
        split: pyval.splits)
qed (auto simp: set_token_def get_token_def delete_token_def index_members_def all_raise
      unavailable_def dev mem_put_def op_simps)

text \<open>
  A key space as Redis keeps it, without the clock, and a client that cannot connect: the
  contract holds for both.
\<close>

definition redis_map :: "(string \<Rightarrow> pyval option) redis_ops" where
  "redis_map = \<lparr>
     rd_set = (\<lambda>k v ttl r. if 0 < ttl then Some (r(k \<mapsto> PStr v)) else None),
     rd_get = (\<lambda>k r. case r k of
        None \<Rightarrow> Some None | Some (PStr v) \<Rightarrow> Some (Some v) | Some (PSet xs) \<Rightarrow> None),
     rd_delete = (\<lambda>k r. Some (r(k := None))),
     rd_sadd = (\<lambda>k m r. case r k of
        None \<Rightarrow> Some (r(k \<mapsto> PSet [m]))
      | Some (PSet xs) \<Rightarrow> Some (r(k \<mapsto> PSet (set_add m xs)))
      | Some (PStr v) \<Rightarrow> None),
     rd_expire = (\<lambda>k ttl r. Some (if 0 < ttl then r else r(k := None))),
     rd_smembers = (\<lambda>k r. case r k of
        None \<Rightarrow> Some [] | Some (PSet xs) \<Rightarrow> Some xs | Some (PStr v) \<Rightarrow> None)\<rparr>"

definition redis_unreachable :: "'r redis_ops" where
  "redis_unreachable = \<lparr>
     rd_set = (\<lambda>k v ttl r. None), rd_get = (\<lambda>k r. None), rd_delete = (\<lambda>k r. None),
     rd_sadd = (\<lambda>k m r. None), rd_expire = (\<lambda>k ttl r. None), rd_smembers = (\<lambda>k r. None)\<rparr>"

interpretation live: redis_service redis_map "\<lambda>r. r"
  by unfold_locales (auto simp: redis_map_def members_of_def split: option.splits pyval.splits)

interpretation outage: redis_outage redis_unreachable default_settings
  by unfold_locales (simp_all add: redis_unreachable_def default_settings_def)

lemma show_int_7: "show_int 7 = ''7''"
  by code_simp

section \<open>Outside dev, and a key that is not a token\<close>

lemma outage_raises:
  assumes "environment c \<noteq> ''dev''"
  shows "set_token redis_unreachable c self t v ttl s = (Inl TokenStoreUnavailableError, s)"
    and "get_token redis_unreachable c self t s = (Inl TokenStoreUnavailableError, s)"
    and "delete_token redis_unreachable c self t s = (Inl TokenStoreUnavailableError, s)"
  using assms by (simp_all add: set_token_def get_token_def delete_token_def redis_unreachable_def
      unavailable_def op_simps)

text \<open>
  While Redis does not answer and the environment is not \<open>dev\<close>, the two
  revocations of a whole user (\<open>revoke_all_for_user\<close>, \<open>revoke_all_access_tokens_for_user\<close>)
  report success and change nothing: the store's dictionary, empty outside \<open>dev\<close>, stands in
  for the index. Reading and storing a token raise in the same state.
\<close>

theorem outage_revocation_is_silent:
  fixes s :: "'r token_state"
  assumes "environment c \<noteq> ''dev''" and "mem s self = (\<lambda>_. None)"
  shows "revoke_all_for_user redis_unreachable c self uid s = (Inr (), s) \<and>
    revoke_all_access_tokens_for_user redis_unreachable c self uid s = (Inr (), s) \<and>
    get_token redis_unreachable c self t s = (Inl TokenStoreUnavailableError, s) \<and>
    set_token redis_unreachable c self t v ttl s = (Inl TokenStoreUnavailableError, s)"
proof (intro conjI)
  have none: "rd_smembers redis_unreachable k r = None" for k and r :: 'r
    by (simp add: redis_unreachable_def)
  show "revoke_all_for_user redis_unreachable c self uid s = (Inr (), s)"
    and "revoke_all_access_tokens_for_user redis_unreachable c self uid s = (Inr (), s)"
    using assms by (simp_all add: revoke_all_for_user_def revoke_all_access_tokens_for_user_def
        index_members_def none members_of_def op_simps)
qed (rule outage_raises [OF assms(1)])+

theorem outage_revocation_is_silent_witness:
  "revoke_all_for_user redis_unreachable (default_settings\<lparr>environment := ''prod''\<rparr>) RefreshStore 7
     \<lparr>redis = (), mem = \<lambda>_ _. None\<rparr> = (Inr (), \<lparr>redis = (), mem = \<lambda>_ _. None\<rparr>)"
  using outage_revocation_is_silent [of "default_settings\<lparr>environment := ''prod''\<rparr>"
      "\<lparr>redis = (), mem = \<lambda>_ _. None\<rparr>" RefreshStore 7 "''t''" "''v''" 1]
  by simp

text \<open>
  A one-time token (password reset, e-mail verification) that the store holds
  for a user is consumed exactly once: the first call returns the user's id and removes the
  entry, no other key changes, and a second call returns nothing.
\<close>

theorem one_time_token:
  assumes "token_backend rc c self look_up"
    and "look_up s (key self t) = Some (PStr (show_int uid))"
  shows "\<exists>s'. consume_password_reset_token rc c self t s = (Inr (Some uid), s') \<and>
           look_up s' = (look_up s)(key self t := None) \<and>
           consume_password_reset_token rc c self t s' = (Inr None, s')"
  using token_backend.consume_once [OF assms] .

theorem one_time_token_witness:
  "\<exists>s'. consume_password_reset_token redis_map default_settings PasswordResetStore ''abc''
      \<lparr>redis = [''tier4:password-reset:abc'' \<mapsto> PStr ''7''], mem = \<lambda>_ _. None\<rparr> = (Inr (Some 7), s') \<and>
    redis s' = Map.empty"
  using one_time_token [OF live.backend.token_backend_axioms,
      of "\<lparr>redis = [''tier4:password-reset:abc'' \<mapsto> PStr ''7''], mem = \<lambda>_ _. None\<rparr>"
      PasswordResetStore "''abc''" 7 default_settings]
  by (auto simp: key_def prefix_of_def show_int_7)

text \<open>
  Rotating a refresh token leaves the old token marked as used by its user (so
  that its replay is recognised), the new token live for the same user and in the user's
  index; when the whole user is revoked afterwards, both the new token and every token indexed
  before are gone.
\<close>

theorem rotation_then_revocation:
  assumes "token_backend rc c self look_up" and "0 < ttl"
    and "CHR '':'' \<notin> set new" and "CHR '':'' \<notin> set old" and "new \<noteq> old"
    and "look_up s (user_index_key self uid) = Some (PSet ts)"
  shows "\<exists>s1 s2. rotate_refresh_token rc c self new old uid ttl s = (Inr new, s1) \<and>
      look_up s1 (key self old) = Some (PStr (used_token_value uid)) \<and>
      look_up s1 (key self new) = Some (PStr (show_int uid)) \<and>
      revoke_all_for_user rc c self uid s1 = (Inr (), s2) \<and>
      (\<forall>t \<in> insert new (set ts). look_up s2 (key self t) = None)"
  by (rule token_backend.rotate_then_revoke [OF assms])

theorem rotation_then_revocation_witness:
  "\<exists>s1. rotate_refresh_token redis_unreachable default_settings RefreshStore ''new'' ''old'' 7 100
      \<lparr>redis = (), mem = (\<lambda>_ _. None)(RefreshStore := [''tier4:tokens:by-user:7'' \<mapsto> PSet [''old'']])\<rparr>
      = (Inr ''new'', s1) \<and> mem s1 RefreshStore ''tier4:tokens:old'' = Some (PStr ''used:7'')"
  using rotation_then_revocation [OF outage.backend.token_backend_axioms,
      of 100 "''new''" "''old''"
      "\<lparr>redis = (), mem = (\<lambda>_ _. None)(RefreshStore := [''tier4:tokens:by-user:7'' \<mapsto> PSet [''old'']])\<rparr>"
      RefreshStore 7 "[''old'']"]
  by (auto simp: key_def user_index_key_def prefix_of_def used_token_value_def used_token_prefix_def
      show_int_7)

text \<open>
  Revoking every access token of a user makes each jti that the user's index
  holds read as revoked, and changes no other key.
\<close>

theorem revoked_access_tokens:
  assumes "token_backend rc c self look_up"
    and "look_up s (access_index_key self uid) = Some (PSet js)" and "j \<in> set js"
  shows "\<exists>s'. revoke_all_access_tokens_for_user rc c self uid s = (Inr (), s') \<and>
           is_revoked rc c self j s' = (Inr True, s') \<and>
           (\<forall>k. k \<notin> key self ` set js \<longrightarrow> look_up s' k = look_up s k)"
  using token_backend.access_revoked [OF assms] .

theorem revoked_access_tokens_witness:
  "\<exists>s'. revoke_all_access_tokens_for_user redis_map default_settings RevocationStore 7
      \<lparr>redis = [''tier4:revocations:access-by-user:7'' \<mapsto> PSet [''j1'', ''j2'']], mem = \<lambda>_ _. None\<rparr> = (Inr (), s') \<and>
    is_revoked redis_map default_settings RevocationStore ''j2'' s' = (Inr True, s')"
  using revoked_access_tokens [OF live.backend.token_backend_axioms,
      of "\<lparr>redis = [''tier4:revocations:access-by-user:7'' \<mapsto> PSet [''j1'', ''j2'']], mem = \<lambda>_ _. None\<rparr>"
      RevocationStore 7 "[''j1'', ''j2'']" "''j2''" default_settings]
  by (clarsimp simp: access_index_key_def prefix_of_def show_int_7)

text \<open>
  The index of a user's refresh tokens is itself an entry of the store: the
  token text \<open>by-user:<id>\<close> names it. Deleting that ``token'' (which \<open>POST /auth/logout\<close> does with
  the text of the request) removes the index, and a later \<open>revoke_all_for_user\<close> returns
  without removing any of the user's tokens.
\<close>

theorem index_key_is_a_token:
  assumes "token_backend rc c self look_up"
  shows "\<exists>s1 s2. delete_token rc c self (''by-user:'' @ show_int uid) s = (Inr (), s1) \<and>
           revoke_all_for_user rc c self uid s1 = (Inr (), s2) \<and>
           (\<forall>t. key self t \<noteq> user_index_key self uid \<longrightarrow> look_up s2 (key self t) = look_up s (key self t))"
  using token_backend.index_wiped [OF assms] .

theorem index_key_is_a_token_witness:
  "\<exists>s1 s2. delete_token redis_map default_settings RefreshStore ''by-user:7''
      \<lparr>redis = [''tier4:tokens:by-user:7'' \<mapsto> PSet [''a''], ''tier4:tokens:a'' \<mapsto> PStr ''7''], mem = \<lambda>_ _. None\<rparr>
      = (Inr (), s1) \<and>
    revoke_all_for_user redis_map default_settings RefreshStore 7 s1 = (Inr (), s2) \<and>
    redis s2 ''tier4:tokens:a'' = Some (PStr ''7'')"
proof -
  obtain s1 s2 where "delete_token redis_map default_settings RefreshStore (''by-user:'' @ show_int 7)
      \<lparr>redis = [''tier4:tokens:by-user:7'' \<mapsto> PSet [''a''], ''tier4:tokens:a'' \<mapsto> PStr ''7''], mem = \<lambda>_ _. None\<rparr>
      = (Inr (), s1)" "revoke_all_for_user redis_map default_settings RefreshStore 7 s1 = (Inr (), s2)"
    and *: "\<forall>t. key RefreshStore t \<noteq> user_index_key RefreshStore 7 \<longrightarrow> redis s2 (key RefreshStore t) =
      [''tier4:tokens:by-user:7'' \<mapsto> PSet [''a''], ''tier4:tokens:a'' \<mapsto> PStr ''7''] (key RefreshStore t)"
    using index_key_is_a_token [OF live.backend.token_backend_axioms, of default_settings RefreshStore 7
      "\<lparr>redis = [''tier4:tokens:by-user:7'' \<mapsto> PSet [''a''], ''tier4:tokens:a'' \<mapsto> PStr ''7''], mem = \<lambda>_ _. None\<rparr>"]
    by auto
  moreover have "redis s2 ''tier4:tokens:a'' = Some (PStr ''7'')"
    using * [rule_format, of "''a''"] by (simp add: key_def user_index_key_def prefix_of_def)
  moreover have "''by-user:'' @ show_int 7 = ''by-user:7''"
    by (simp add: show_int_7)
  ultimately show ?thesis by metis
qed

end
