(* ===== verification/RateLimit.thy ===== *)
theory RateLimit
  imports Config
begin

text \<open>
  \<open>backend/resilience/rate_limit.py\<close> and the counters of \<open>backend/observability/metrics.py\<close>
  that it calls. Times are microseconds on one clock (\<open>time()\<close> of a call is an argument); the
  60 second window is \<open>window\<close>. The pipelined commands of Redis are a parameter, run as one
  batch that either returns every reply or raises.
\<close>

section \<open>MetricsCollector\<close>

record metrics =
  request_count :: int
  status_codes :: "string \<rightharpoonup> int"
  methods :: "string \<rightharpoonup> int"
  paths :: "string \<rightharpoonup> int"
  rate_limiter_fallbacks :: "int option"

text \<open>\<open>__init__\<close> sets four attributes; \<open>rate_limiter_fallbacks\<close> is not one of them.\<close>

definition new_metrics :: metrics where
  "new_metrics = \<lparr>request_count = 0, status_codes = Map.empty, methods = Map.empty,
     paths = Map.empty, rate_limiter_fallbacks = None\<rparr>"

definition bump :: "string \<Rightarrow> (string \<rightharpoonup> int) \<Rightarrow> (string \<rightharpoonup> int)" where
  "bump k counter = counter(k \<mapsto> (case counter k of None \<Rightarrow> 0 | Some n \<Rightarrow> n) + 1)"

definition upper_char :: "char \<Rightarrow> char" where
  "upper_char ch = (if of_char ch \<ge> (97::nat) \<and> of_char ch \<le> (122::nat) then char_of (of_char ch - 32 :: nat) else ch)"

definition upper :: "string \<Rightarrow> string" where
  "upper t = map upper_char t"

definition record_request :: "string \<Rightarrow> int \<Rightarrow> string \<Rightarrow> metrics \<Rightarrow> metrics" where
  "record_request meth status_code path m = m\<lparr>
     request_count := request_count m + 1,
     status_codes := bump (show_int status_code) (status_codes m),
     methods := bump (upper meth) (methods m),
     paths := bump path (paths m)\<rparr>"

definition record_rate_limiter_fallback :: "(metrics, unit) op" where
  "record_rate_limiter_fallback = (\<lambda>m. case rate_limiter_fallbacks m of
     None \<Rightarrow> (Inl (AttributeError ''rate_limiter_fallbacks''), m)
   | Some n \<Rightarrow> (Inr (), m\<lparr>rate_limiter_fallbacks := Some (n + 1)\<rparr>))"

definition snapshot :: "metrics \<Rightarrow> int \<times> (string \<rightharpoonup> int) \<times> (string \<rightharpoonup> int) \<times> (string \<rightharpoonup> int)" where
  "snapshot m = (request_count m, status_codes m, methods m, paths m)"

definition reset_metrics :: "metrics \<Rightarrow> metrics" where
  "reset_metrics m = m\<lparr>request_count := 0, status_codes := Map.empty, methods := Map.empty, paths := Map.empty\<rparr>"

text \<open>The three counters count the same requests.\<close>

definition count_of :: "(string \<rightharpoonup> int) \<Rightarrow> string \<Rightarrow> int" where
  "count_of counter k = (case counter k of None \<Rightarrow> 0 | Some n \<Rightarrow> n)"

lemma count_of_bump [simp]: "count_of (bump k f) j = count_of f j + (if j = k then 1 else 0)"
  by (simp add: count_of_def bump_def)

fun record_all :: "(string \<times> int \<times> string) list \<Rightarrow> metrics \<Rightarrow> metrics" where
  "record_all [] m = m"
| "record_all ((meth, status_code, path) # rs) m = record_all rs (record_request meth status_code path m)"

text \<open>
  After any sequence of recorded requests the total is their number, and each
  counter holds, for each key, the number of requests with that status code, upper-cased
  method or path.
\<close>

theorem metrics_count:
  "request_count (record_all rs new_metrics) = int (length rs) \<and>
   count_of (status_codes (record_all rs new_metrics)) code = int (length (filter (\<lambda>(m, st, p). show_int st = code) rs)) \<and>
   count_of (methods (record_all rs new_metrics)) meth = int (length (filter (\<lambda>(m, st, p). upper m = meth) rs)) \<and>
   count_of (paths (record_all rs new_metrics)) path = int (length (filter (\<lambda>(m, st, p). p = path) rs))"
proof -
  have "request_count (record_all rs m) = request_count m + int (length rs) \<and>
     count_of (status_codes (record_all rs m)) code = count_of (status_codes m) code +
       int (length (filter (\<lambda>(m, st, p). show_int st = code) rs)) \<and>
     count_of (methods (record_all rs m)) meth = count_of (methods m) meth +
       int (length (filter (\<lambda>(m, st, p). upper m = meth) rs)) \<and>
     count_of (paths (record_all rs m)) path = count_of (paths m) path +
       int (length (filter (\<lambda>(m, st, p). p = path) rs))" for m
    by (induction rs m rule: record_all.induct) (auto simp: record_request_def)
  from this [of new_metrics] show ?thesis by (simp add: new_metrics_def count_of_def)
qed

section \<open>RateLimiter\<close>

record rate_limiter =
  requests :: "string \<times> string \<Rightarrow> int list"

definition new_limiter :: rate_limiter where
  "new_limiter = \<lparr>requests = \<lambda>_. []\<rparr>"

definition window :: int where
  "window = 60 * 1000000"

definition allow_request :: "string \<Rightarrow> string \<Rightarrow> nat \<Rightarrow> int \<Rightarrow> rate_limiter \<Rightarrow> bool \<times> rate_limiter" where
  "allow_request client_id path limit now rl =
     (let k = (client_id, path);
          cutoff = now - window;
          recent = filter (\<lambda>ts. cutoff < ts) (requests rl k)
      in if limit \<le> length recent then (False, rl\<lparr>requests := (requests rl)(k := recent)\<rparr>)
         else (True, rl\<lparr>requests := (requests rl)(k := recent @ [now])\<rparr>))"

definition reset_limiter :: "rate_limiter \<Rightarrow> rate_limiter" where
  "reset_limiter rl = rl\<lparr>requests := \<lambda>_. []\<rparr>"

text \<open>The times of the accepted requests of one client on one path, in a run of many clients' calls.\<close>

fun accepted :: "string \<times> string \<Rightarrow> nat \<Rightarrow> (string \<times> string \<times> int) list \<Rightarrow> rate_limiter \<Rightarrow> int list" where
  "accepted k limit [] rl = []"
| "accepted k limit ((cl, p, now) # calls) rl =
     (case allow_request cl p limit now rl of
        (ok, rl') \<Rightarrow> (if ok \<and> (cl, p) = k then [now] else []) @ accepted k limit calls rl')"

definition in_window :: "int \<Rightarrow> int list \<Rightarrow> int list" where
  "in_window w ts = filter (\<lambda>x. w - window < x \<and> x \<le> w) ts"

definition times :: "(string \<times> string \<times> int) list \<Rightarrow> int list" where
  "times calls = map (\<lambda>(cl, p, now). now) calls"

lemma allow_other:
  "(cl, p) \<noteq> k \<Longrightarrow> requests (snd (allow_request cl p limit now rl)) k = requests rl k"
  by (auto simp: allow_request_def Let_def)

lemma in_window_accept:
  assumes "\<forall>x \<in> set acc. x \<le> now" "length (filter (\<lambda>x. now - window < x) acc) < limit"
    and "length (in_window w acc) \<le> limit"
  shows "length (in_window w (acc @ [now])) \<le> limit"
proof (cases "w - window < now \<and> now \<le> w")
  case True
  have "in_window w acc = filter (\<lambda>x. w - window < x \<and> x \<le> w) (filter (\<lambda>x. now - window < x) acc)"
    using True by (auto simp: in_window_def intro!: filter_cong)
  then have "length (in_window w acc) \<le> length (filter (\<lambda>x. now - window < x) acc)"
    by (simp only: length_filter_le)
  then show ?thesis using assms(2) by (simp add: in_window_def)
next
  case False
  then have "in_window w (acc @ [now]) = in_window w acc" by (simp add: in_window_def)
  then show ?thesis using assms(3) by simp
qed

lemma filter_later:
  fixes T :: int
  assumes "T \<le> now"
  shows "filter (\<lambda>x. now - window < x) (filter (\<lambda>x. T - window < x) acc) = filter (\<lambda>x. now - window < x) acc"
  using assms by (auto intro!: filter_cong)

lemma accepted_bound:
  assumes "sorted (T # times calls)" "\<forall>x \<in> set acc. x \<le> T"
    and "requests rl k = filter (\<lambda>x. T' - window < x) acc" "T' \<le> T"
    and "\<forall>w. length (in_window w acc) \<le> limit"
  shows "length (in_window w (acc @ accepted k limit calls rl)) \<le> limit"
  using assms
proof (induction calls arbitrary: acc rl T T')
  case Nil
  then show ?case by simp
next
  case (Cons call calls)
  obtain cl p now where call: "call = (cl, p, now)" by (cases call)
  obtain ok rl' where step: "allow_request cl p limit now rl = (ok, rl')" by fastforce
  have le: "T \<le> now" and sorted: "sorted (now # times calls)"
    using Cons.prems(1) by (auto simp: times_def call)
  have acc_now: "\<forall>x \<in> set acc. x \<le> now" using Cons.prems(2) le by auto
  show ?case
  proof (cases "(cl, p) = k")
    case False
    then have "requests rl' k = requests rl k"
      using allow_other [of cl p k limit now rl] step by simp
    then show ?thesis
      using Cons.IH [OF sorted acc_now, of rl' T'] Cons.prems False le by (simp add: call step)
  next
    case True
    define recent where "recent = filter (\<lambda>x. now - window < x) acc"
    have rec: "filter (\<lambda>ts. now - window < ts) (requests rl (cl, p)) = recent"
      using filter_later [of T' now acc] Cons.prems(3,4) le by (simp add: recent_def True)
    show ?thesis
    proof (cases ok)
      case True
      then have "length recent < limit" "requests rl' k = recent @ [now]"
        using step \<open>(cl, p) = k\<close> by (auto simp: allow_request_def Let_def rec split: if_splits)
      moreover from this(2) have "requests rl' k = filter (\<lambda>x. now - window < x) (acc @ [now])"
        by (simp add: recent_def window_def)
      ultimately show ?thesis
        using Cons.IH [OF sorted, of "acc @ [now]" rl' now] acc_now Cons.prems(5) \<open>(cl, p) = k\<close> True
        by (simp add: call step in_window_accept recent_def)
    next
      case False
      then have "requests rl' k = recent"
        using step \<open>(cl, p) = k\<close> by (auto simp: allow_request_def Let_def rec split: if_splits)
      then show ?thesis
        using Cons.IH [OF sorted acc_now, of rl' now] Cons.prems(5) False
        by (simp add: call step recent_def)
    qed
  qed
qed

text \<open>
  Property C21. On any run of calls whose clock does not go back, whoever the clients are and
  however their calls interleave, at most \<open>limit\<close> requests of a client on a path are accepted
  in any 60 second window (not only in windows that end at a call).
\<close>

theorem sliding_window:
  assumes "sorted (times calls)"
  shows "length (in_window w (accepted k limit calls new_limiter)) \<le> limit"
proof (cases calls)
  case Nil
  then show ?thesis by (simp add: in_window_def)
next
  case (Cons call rest)
  then have "sorted (hd (times calls) # times calls)" using assms by (auto simp: times_def)
  from accepted_bound [OF this, of "[]" new_limiter k "hd (times calls)" limit w]
  show ?thesis by (simp add: new_limiter_def in_window_def)
qed

theorem sliding_window_witness:
  "accepted (''a'', ''/x'') 2 [(''a'', ''/x'', 0), (''b'', ''/x'', 1), (''a'', ''/x'', 2), (''a'', ''/x'', 3),
      (''a'', ''/x'', 60000001)] new_limiter = [0, 2, 60000001] \<and>
   length (in_window 60000001 (accepted (''a'', ''/x'') 2 [(''a'', ''/x'', 0), (''b'', ''/x'', 1),
      (''a'', ''/x'', 2), (''a'', ''/x'', 3), (''a'', ''/x'', 60000001)] new_limiter)) \<le> 2"
  using sliding_window [of "[(''a'', ''/x'', 0), (''b'', ''/x'', 1), (''a'', ''/x'', 2), (''a'', ''/x'', 3),
      (''a'', ''/x'', 60000001)]" 60000001 "(''a'', ''/x'')" 2]
  by (simp add: times_def allow_request_def new_limiter_def window_def Let_def)

text \<open>A call is refused only when the window that ends at it is full.\<close>

lemma allow_iff:
  "fst (allow_request cl p limit now rl) \<longleftrightarrow> length (filter (\<lambda>x. now - window < x) (requests rl (cl, p))) < limit"
  by (auto simp: allow_request_def Let_def)

section \<open>RedisRateLimiter\<close>

datatype redis_command =
    ZRemRangeByScore string int int
  | ZAdd string string int
  | ZCard string
  | Expire string int

record 'r limiter_state =
  lim_redis :: 'r
  lim_fallback :: rate_limiter
  lim_metrics :: metrics

definition ratelimit_key :: "string \<Rightarrow> string \<Rightarrow> string" where
  "ratelimit_key client_id path = ''ratelimit:'' @ client_id @ '':'' @ path"

text \<open>
  \<open>execute\<close> runs a pipeline: its replies and the new Redis state, or \<open>None\<close> where it raises
  (also when the replies are not four: the unpacking raises inside the same \<open>try\<close>). \<open>str_float\<close>
  is Python's text of a time.
\<close>

definition redis_allow_request ::
  "(redis_command list \<Rightarrow> 'r \<Rightarrow> (int list \<times> 'r) option) \<Rightarrow> (int \<Rightarrow> string) \<Rightarrow>
   string \<Rightarrow> string \<Rightarrow> int \<Rightarrow> int \<Rightarrow> int \<Rightarrow> ('r limiter_state, bool) op" where
  "redis_allow_request execute str_float client_id path limit window_seconds now = (\<lambda>s.
     let k = ratelimit_key client_id path;
         fallback = bnd (zoom lim_metrics (\<lambda>m s. s\<lparr>lim_metrics := m\<rparr>) record_rate_limiter_fallback) (\<lambda>_. \<lambda>s.
           case allow_request client_id path (nat limit) now (lim_fallback s) of
             (ok, rl) \<Rightarrow> (Inr ok, s\<lparr>lim_fallback := rl\<rparr>))
     in case execute [ZRemRangeByScore k 0 (now - window_seconds * 1000000), ZAdd k (str_float now) now,
          ZCard k, Expire k window_seconds] (lim_redis s) of
       Some ([a, b, card_now, d], r) \<Rightarrow> (Inr (card_now \<le> limit), s\<lparr>lim_redis := r\<rparr>)
     | Some (_, r) \<Rightarrow> fallback (s\<lparr>lim_redis := r\<rparr>)
     | None \<Rightarrow> fallback s)"

datatype limiter_kind = SharedLimiter | RedisLimiter

definition get_rate_limiter :: "settings \<Rightarrow> limiter_kind" where
  "get_rate_limiter c = (if environment c \<in> {''dev'', ''test''} then SharedLimiter else RedisLimiter)"

text \<open>
  When Redis raises, \<open>RedisRateLimiter\<close> does not fall back to the in-process
  limiter: counting the fallback raises \<open>AttributeError\<close>, since \<open>MetricsCollector.__init__\<close>
  never sets the counter, and no method sets it afterwards. The fallback's log stays as it was.
\<close>

theorem redis_fallback_raises:
  assumes "\<And>cmds. execute cmds (lim_redis s) = None"
    and "lim_metrics s = record_all rs new_metrics \<or> lim_metrics s = reset_metrics (record_all rs new_metrics)"
  shows "redis_allow_request execute str_float client_id path limit w now s =
    (Inl (AttributeError ''rate_limiter_fallbacks''), s)"
proof -
  have "rate_limiter_fallbacks (record_all rs m) = rate_limiter_fallbacks m" for m
    by (induction rs m rule: record_all.induct) (auto simp: record_request_def)
  then have "rate_limiter_fallbacks (lim_metrics s) = None"
    using assms(2) by (auto simp: new_metrics_def reset_metrics_def)
  then show ?thesis
    by (simp add: redis_allow_request_def assms(1) record_rate_limiter_fallback_def bnd_apply zoom_apply)
qed

theorem redis_fallback_raises_witness:
  "redis_allow_request (\<lambda>_ _. None) (\<lambda>_. ''0.0'') ''1.2.3.4'' ''/auth/login'' 10 60 0
     \<lparr>lim_redis = (), lim_fallback = new_limiter, lim_metrics = record_request ''get'' 200 ''/'' new_metrics\<rparr>
   = (Inl (AttributeError ''rate_limiter_fallbacks''),
      \<lparr>lim_redis = (), lim_fallback = new_limiter, lim_metrics = record_request ''get'' 200 ''/'' new_metrics\<rparr>)"
  by (rule redis_fallback_raises [where rs = "[(''get'', 200, ''/'')]"]) simp_all

end
