(* ===== verification/Retry.thy ===== *)
theory Retry
  imports Prelude
begin

text \<open>
  \<open>backend/resilience/retry.py\<close>: the circuit breaker, and the loop that \<open>retry\<close> and
  \<open>retry_async\<close> share. Times and delays are whole microseconds; \<open>time.monotonic()\<close> of a call is
  an argument, and sleeping is an operation of the caller's state.
\<close>

section \<open>CircuitBreaker\<close>

record breaker =
  failure_threshold :: int
  reset_timeout :: int
  failure_count :: int
  opened_at :: "int option"

definition new_breaker :: "int \<Rightarrow> int \<Rightarrow> breaker" where
  "new_breaker threshold timeout = \<lparr>failure_threshold = threshold, reset_timeout = timeout,
     failure_count = 0, opened_at = None\<rparr>"

definition is_open :: "int \<Rightarrow> breaker \<Rightarrow> bool \<times> breaker" where
  "is_open now b = (case opened_at b of
     None \<Rightarrow> (False, b)
   | Some t \<Rightarrow> if now - t \<ge> reset_timeout b then (False, b\<lparr>failure_count := 0, opened_at := None\<rparr>)
       else (True, b))"

definition before_call :: "int \<Rightarrow> (breaker, unit) op" where
  "before_call now = (\<lambda>b. case is_open now b of
     (True, b') \<Rightarrow> (Inl CircuitBreakerOpenError, b') | (False, b') \<Rightarrow> (Inr (), b'))"

definition record_success :: "breaker \<Rightarrow> breaker" where
  "record_success b = b\<lparr>failure_count := 0, opened_at := None\<rparr>"

definition record_failure :: "int \<Rightarrow> breaker \<Rightarrow> breaker" where
  "record_failure now b = (let b' = b\<lparr>failure_count := failure_count b + 1\<rparr>
     in if failure_count b' \<ge> failure_threshold b' then b'\<lparr>opened_at := Some now\<rparr> else b')"

text \<open>What is done to a breaker, in order; \<open>Before\<close> is a \<open>before_call\<close>.\<close>

datatype breaker_event = Before int | Succeeded | Failed int

fun breaker_step :: "breaker_event \<Rightarrow> breaker \<Rightarrow> breaker" where
  "breaker_step (Before now) b = snd (before_call now b)"
| "breaker_step Succeeded b = record_success b"
| "breaker_step (Failed now) b = record_failure now b"

text \<open>How many failures came since the last success.\<close>

fun recent_failures :: "breaker_event list \<Rightarrow> nat" where
  "recent_failures [] = 0"
| "recent_failures (Succeeded # es) = 0"
| "recent_failures (Failed t # es) = Suc (recent_failures es)"
| "recent_failures (Before t # es) = recent_failures es"

definition breaker_run :: "breaker_event list \<Rightarrow> breaker \<Rightarrow> breaker" where
  "breaker_run es b = fold breaker_step es b"

lemma breaker_constants:
  "failure_threshold (breaker_step e b) = failure_threshold b"
  "reset_timeout (breaker_step e b) = reset_timeout b"
  by (cases e; simp add: before_call_def is_open_def record_success_def record_failure_def Let_def
      split: option.split)+

lemma breaker_inv:
  "failure_threshold (breaker_run es (new_breaker n timeout)) = n \<and>
   failure_count (breaker_run es (new_breaker n timeout)) \<le> int (recent_failures (rev es)) \<and>
   (opened_at (breaker_run es (new_breaker n timeout)) \<noteq> None \<longrightarrow>
     n \<le> failure_count (breaker_run es (new_breaker n timeout)))"
proof (induction es rule: rev_induct)
  case Nil
  then show ?case by (simp add: breaker_run_def new_breaker_def)
next
  case (snoc e es)
  then show ?case
    by (cases e) (auto simp: breaker_run_def before_call_def is_open_def record_success_def
        record_failure_def Let_def split: option.splits if_splits)
qed

text \<open>
  Property C32. In any history of a circuit breaker, a call is refused only when at least
  \<open>failure_threshold\<close> failures were recorded since the last success, and the breaker opened
  less than \<open>reset_timeout\<close> before the call.
\<close>

theorem breaker_refuses_only_after_failures:
  assumes "fst (before_call now (breaker_run es (new_breaker n timeout))) = Inl e"
  shows "e = CircuitBreakerOpenError \<and> n \<le> int (recent_failures (rev es)) \<and>
    (\<exists>t. opened_at (breaker_run es (new_breaker n timeout)) = Some t \<and> now - t < timeout)"
proof -
  let ?b = "breaker_run es (new_breaker n timeout)"
  have timeout: "reset_timeout ?b = timeout"
    by (induction es rule: rev_induct) (simp_all add: breaker_run_def new_breaker_def breaker_constants)
  from assms obtain t where "e = CircuitBreakerOpenError" "opened_at ?b = Some t" "now - t < timeout"
    by (auto simp: before_call_def is_open_def timeout split: option.splits if_splits)
  then show ?thesis using breaker_inv [of es n timeout] by auto
qed

theorem breaker_refuses_only_after_failures_witness:
  "fst (before_call 5 (breaker_run [Failed 1, Failed 2, Failed 3] (new_breaker 3 60))) = Inl CircuitBreakerOpenError \<and>
   3 \<le> int (recent_failures (rev [Failed 1, Failed 2, Failed 3]))"
  using breaker_refuses_only_after_failures [of 5 "[Failed 1, Failed 2, Failed 3]" 3 60 CircuitBreakerOpenError]
  by (simp add: before_call_def is_open_def breaker_run_def new_breaker_def record_failure_def)

text \<open>Threshold consecutive failures open it, until the timeout has passed.\<close>

lemma breaker_opens:
  assumes "failure_count b + 1 \<ge> failure_threshold b" "now - t < reset_timeout b"
  shows "fst (before_call now (record_failure t b)) = Inl CircuitBreakerOpenError"
  using assms by (simp add: before_call_def record_failure_def Let_def is_open_def)

lemma breaker_recovers:
  assumes "opened_at b = Some t" "reset_timeout b \<le> now - t"
  shows "before_call now b = (Inr (), b\<lparr>failure_count := 0, opened_at := None\<rparr>)"
  using assms by (simp add: before_call_def is_open_def)

section \<open>retry_async\<close>

text \<open>
  The body of the \<open>for attempt in range(retries + 1)\<close> loop with \<open>n\<close> attempts left, the current
  delay, and the last error. After the loop (reached only with \<open>retries < 0\<close>) comes the
  \<open>RuntimeError\<close>.
\<close>

fun retry_loop :: "nat \<Rightarrow> ('s, 'a) op \<Rightarrow> (exn \<Rightarrow> ('s, unit) op) \<Rightarrow> (int \<Rightarrow> ('s, unit) op) \<Rightarrow>
    int \<Rightarrow> int \<Rightarrow> exn option \<Rightarrow> ('s, 'a) op" where
  "retry_loop 0 func on_error sleep attempt_delay backoff last_error = (case last_error of
     Some e \<Rightarrow> throw e
   | None \<Rightarrow> throw (RuntimeError ''retry_async failed without an exception''))"
| "retry_loop (Suc n) func on_error sleep attempt_delay backoff last_error =
     try_except func (\<lambda>e.
       bnd (on_error e) (\<lambda>_.
       if n = 0 then throw e
       else bnd (sleep attempt_delay) (\<lambda>_.
         retry_loop n func on_error sleep (attempt_delay * backoff) backoff (Some e))))"

definition retry_async :: "('s, 'a) op \<Rightarrow> int \<Rightarrow> int \<Rightarrow> int \<Rightarrow> (exn \<Rightarrow> ('s, unit) op) \<Rightarrow>
    (int \<Rightarrow> ('s, unit) op) \<Rightarrow> ('s, 'a) op" where
  "retry_async func retries delay backoff on_error sleep =
     retry_loop (nat (retries + 1)) func on_error sleep delay backoff None"

text \<open>
  A function whose successive calls have given outcomes, in a state that counts the calls and
  logs the sleeps.
\<close>

definition scripted :: "(nat \<Rightarrow> exn + 'a) \<Rightarrow> (nat \<times> int list, 'a) op" where
  "scripted outcome = (\<lambda>(n, ds). (outcome n, (Suc n, ds)))"

definition log_sleep :: "int \<Rightarrow> (nat \<times> int list, unit) op" where
  "log_sleep d = (\<lambda>(n, ds). (Inr (), (n, ds @ [d])))"

lemma retry_loop_scripted:
  assumes "n > 0"
  shows "retry_loop n (scripted outcome) (\<lambda>_. ret ()) log_sleep d b le (k, ds) =
    (if \<exists>i<n. \<not> isl (outcome (k + i))
     then (let i = LEAST i. \<not> isl (outcome (k + i)) in (outcome (k + i), (k + i + 1, ds @ map (\<lambda>j. d * b ^ j) [0..<i])))
     else (outcome (k + n - 1), (k + n, ds @ map (\<lambda>j. d * b ^ j) [0..<n - 1])))"
  using assms
proof (induction n arbitrary: d k ds le)
  case 0
  then show ?case by simp
next
  case (Suc n)
  show ?case
  proof (cases "outcome k")
    case (Inr a)
    then have "(LEAST i. \<not> isl (outcome (k + i))) = 0" by (intro Least_equality) auto
    moreover have "\<exists>i<Suc n. \<not> isl (outcome (k + i))" using Inr by (intro exI [of _ 0]) simp
    ultimately show ?thesis using Inr by (simp add: try_except_def scripted_def Let_def)
  next
    case (Inl e)
    have shift: "(\<exists>i<Suc n. \<not> isl (outcome (k + i))) \<longleftrightarrow> (\<exists>i<n. \<not> isl (outcome (Suc k + i)))"
      using Inl by (auto simp: less_Suc_eq_0_disj)
    have powers: "map (\<lambda>j. d * b * b ^ j) [0..<m] = map (\<lambda>j. d * b ^ j) [1..<Suc m]" for m
      by (simp add: map_Suc_upt [symmetric] comp_def mult.assoc del: upt_Suc)
    have upt: "map (\<lambda>j. d * b ^ j) [0..<Suc m] = d # map (\<lambda>j. d * b ^ j) [1..<Suc m]" for m
      by (simp add: upt_conv_Cons del: upt_Suc)
    show ?thesis
    proof (cases n)
      case 0
      then show ?thesis using Inl by (simp add: try_except_def scripted_def op_simps throw_def)
    next
      case (Suc n')
      have step: "retry_loop (Suc n) (scripted outcome) (\<lambda>_. ret ()) log_sleep d b le (k, ds) =
          retry_loop n (scripted outcome) (\<lambda>_. ret ()) log_sleep (d * b) b (Some e) (Suc k, ds @ [d])"
        using Inl Suc by (simp add: try_except_def scripted_def log_sleep_def op_simps bnd_apply)
      have least: "(LEAST i. \<not> isl (outcome (k + i))) = Suc (LEAST i. \<not> isl (outcome (Suc k + i)))"
        if "\<exists>i<n. \<not> isl (outcome (Suc k + i))"
      proof -
        from that obtain i where "\<not> isl (outcome (k + Suc i))" by auto
        from Least_Suc [of "\<lambda>i. \<not> isl (outcome (k + i))", OF this] Inl show ?thesis by simp
      qed
      show ?thesis
        unfolding step shift
        using Suc.IH [of "d * b" "Some e" "Suc k" "ds @ [d]"] Suc
        by (auto simp: least Let_def powers upt simp del: upt_Suc retry_loop.simps)
    qed
  qed
qed

text \<open>
  Property C33. \<open>retry_async\<close> calls the function until it first succeeds, at most
  \<open>retries + 1\<close> times, sleeping \<open>delay * backoff^i\<close> after the i-th failure and never after the
  last; it returns the first success, and raises the last error when every call failed.
\<close>

theorem retry_schedule:
  assumes "0 \<le> retries"
  shows "retry_async (scripted outcome) retries delay backoff (\<lambda>_. ret ()) log_sleep (0, []) =
    (if \<exists>i. i \<le> nat retries \<and> \<not> isl (outcome i)
     then (let i = LEAST i. \<not> isl (outcome i) in (outcome i, (i + 1, map (\<lambda>j. delay * backoff ^ j) [0..<i])))
     else (outcome (nat retries), (nat retries + 1, map (\<lambda>j. delay * backoff ^ j) [0..<nat retries])))"
proof -
  have n: "nat (retries + 1) = Suc (nat retries)" using assms by simp
  show ?thesis
    unfolding retry_async_def n
    using retry_loop_scripted [of "Suc (nat retries)" outcome delay backoff None 0 "[]"]
    by (auto simp: less_Suc_eq_le Let_def simp del: retry_loop.simps upt_Suc)
qed

theorem retry_schedule_witness:
  "retry_async (scripted (\<lambda>n. if n = 5 then Inr () else Inl (RemoteError ''timeout''))) 2 50000 2 (\<lambda>_. ret ()) log_sleep (0, []) =
    (Inl (RemoteError ''timeout''), (3, [50000, 100000]))"
  using retry_schedule [of 2 "\<lambda>n. if n = 5 then Inr () else Inl (RemoteError ''timeout'')" 50000 2]
  by (simp add: upt_rec)

text \<open>With a negative number of retries the function is never called.\<close>

lemma retry_negative:
  "retries < 0 \<Longrightarrow> retry_async f retries d b oe sl s =
    (Inl (RuntimeError ''retry_async failed without an exception''), s)"
  by (simp add: retry_async_def op_simps)

section \<open>retry\<close>

text \<open>The synchronous twin: the same loop over \<open>time.sleep\<close>, with its own message at the end.\<close>

fun sync_loop :: "nat \<Rightarrow> ('s, 'a) op \<Rightarrow> (exn \<Rightarrow> ('s, unit) op) \<Rightarrow> (int \<Rightarrow> ('s, unit) op) \<Rightarrow>
    int \<Rightarrow> int \<Rightarrow> exn option \<Rightarrow> ('s, 'a) op" where
  "sync_loop 0 func on_error sleep attempt_delay backoff last_error = (case last_error of
     Some e \<Rightarrow> throw e
   | None \<Rightarrow> throw (RuntimeError ''retry failed without an exception''))"
| "sync_loop (Suc n) func on_error sleep attempt_delay backoff last_error =
     try_except func (\<lambda>e.
       bnd (on_error e) (\<lambda>_.
       if n = 0 then throw e
       else bnd (sleep attempt_delay) (\<lambda>_.
         sync_loop n func on_error sleep (attempt_delay * backoff) backoff (Some e))))"

definition retry :: "('s, 'a) op \<Rightarrow> int \<Rightarrow> int \<Rightarrow> int \<Rightarrow> (exn \<Rightarrow> ('s, unit) op) \<Rightarrow>
    (int \<Rightarrow> ('s, unit) op) \<Rightarrow> ('s, 'a) op" where
  "retry func retries delay backoff on_error sleep =
     sync_loop (nat (retries + 1)) func on_error sleep delay backoff None"

lemma sync_loop_agrees:
  "n \<noteq> 0 \<or> le \<noteq> None \<Longrightarrow> sync_loop n f oe sl d b le = retry_loop n f oe sl d b le"
proof (induction n arbitrary: d le)
  case 0
  then show ?case by (cases le) simp_all
next
  case (Suc n)
  have IH: "sync_loop n f oe sl (d * b) b (Some e) = retry_loop n f oe sl (d * b) b (Some e)" for e
    by (rule Suc.IH) simp
  show ?case by (simp only: sync_loop.simps retry_loop.simps IH)
qed

text \<open>The two are the same program but for the message of a loop that never runs.\<close>

theorem retry_is_retry_async:
  "0 \<le> retries \<Longrightarrow> retry f retries d b oe sl = retry_async f retries d b oe sl"
  by (simp add: retry_def retry_async_def sync_loop_agrees)

theorem retry_is_retry_async_witness:
  "retry (scripted (\<lambda>n. if n = 2 then Inr n else Inl (RemoteError ''timeout''))) 3 50000 2 (\<lambda>_. ret ()) log_sleep (0, []) =
    (Inr 2, (3, [50000, 100000]))"
  unfolding retry_is_retry_async [of 3, simplified]
  by (simp add: retry_async_def try_except_def scripted_def log_sleep_def op_simps bnd_apply eval_nat_numeral)

lemma sync_retry_negative:
  "retries < 0 \<Longrightarrow> retry f retries d b oe sl s = (Inl (RuntimeError ''retry failed without an exception''), s)"
  by (simp add: retry_def op_simps)

end
