(* ===== verification/Idempotency.thy ===== *)
theory Idempotency
  imports TokenStore JsonLoads
begin

text \<open>
  \<open>backend/resilience/idempotency.py\<close>: the store in which a route remembers what it has
  processed, in memory or on Redis. The locale \<open>idempotency_store\<close> is what the routes rely on;
  both stores are interpretations of it (Redis under the laws of \<open>redis_service\<close>).
\<close>

section \<open>The two stores\<close>

type_synonym memory_store = "string \<rightharpoonup> json"

definition memory_get :: "string \<Rightarrow> (memory_store, json option) op" where
  "memory_get k = look (\<lambda>st. st k)"

definition memory_set :: "string \<Rightarrow> json \<Rightarrow> (memory_store, unit) op" where
  "memory_set k payload = modify (\<lambda>st. st(k \<mapsto> payload))"

definition redis_idem_get :: "'r redis_ops \<Rightarrow> (string \<Rightarrow> real) \<Rightarrow> string \<Rightarrow> ('r, json option) op" where
  "redis_idem_get rc rf k = (\<lambda>r. case rd_get rc k r of
     None \<Rightarrow> (Inl (RemoteError ''redis''), r)
   | Some None \<Rightarrow> (Inr None, r)
   | Some (Some t) \<Rightarrow> (map_sum id Some (json_loads rf t), r))"

definition redis_idem_set :: "'r redis_ops \<Rightarrow> (real \<Rightarrow> string) \<Rightarrow> string \<Rightarrow> json \<Rightarrow> int \<Rightarrow> ('r, unit) op" where
  "redis_idem_set rc fr k payload ttl_seconds = (\<lambda>r. case rd_set rc k (json_dumps fr payload) ttl_seconds r of
     None \<Rightarrow> (Inl (RemoteError ''redis''), r)
   | Some r' \<Rightarrow> (Inr (), r'))"

text \<open>The default of \<open>set\<close>'s \<open>ttl_seconds\<close>, which every route uses.\<close>

definition idempotency_ttl :: int where
  "idempotency_ttl = 86400"

datatype idempotency_backend = InMemory | OnRedis

definition get_idempotency_store :: "settings \<Rightarrow> idempotency_backend" where
  "get_idempotency_store c = (if environment c \<in> {''dev'', ''test''} then InMemory else OnRedis)"

section \<open>What a route relies on\<close>

text \<open>
  \<open>known st k\<close> is the value remembered under one of the store's own keys: reading returns it and
  changes nothing, writing a storable value changes that one key.
\<close>

locale idempotency_store =
  fixes get :: "string \<Rightarrow> ('st, json option) op"
    and set_payload :: "string \<Rightarrow> json \<Rightarrow> ('st, unit) op"
    and known :: "'st \<Rightarrow> string \<Rightarrow> json option"
    and storable :: "json \<Rightarrow> bool"
    and own :: "string \<Rightarrow> bool"
    and sound :: "'st \<Rightarrow> bool"
  assumes get_known: "sound st \<Longrightarrow> own k \<Longrightarrow> get k st = (Inr (known st k), st)"
    and set_known: "sound st \<Longrightarrow> own k \<Longrightarrow> storable p \<Longrightarrow>
      \<exists>st'. set_payload k p st = (Inr (), st') \<and> sound st' \<and> known st' = (known st)(k \<mapsto> p)"
begin

text \<open>The first of two requests with one key sees nothing, the second sees the first's payload.\<close>

lemma second_sees_first:
  assumes "sound st" "own k" "storable p" "known st k = None"
  shows "\<exists>st'. bnd (get k) (\<lambda>a. bnd (set_payload k p) (\<lambda>_. bnd (get k) (\<lambda>b. ret (a, b)))) st =
    (Inr (None, Some p), st') \<and> sound st' \<and> (\<forall>j. j \<noteq> k \<longrightarrow> known st' j = known st j)"
  using set_known [OF assms(1-3)] assms by (auto simp: bnd_apply get_known op_simps)

end

interpretation memory_idem: idempotency_store memory_get memory_set "\<lambda>st. st" "\<lambda>_. True" "\<lambda>_. True" "\<lambda>_. True"
  by unfold_locales (auto simp: memory_get_def memory_set_def op_simps)

text \<open>
  On Redis the contract holds while every value under the store's own keys is a text that
  \<open>json.loads\<close> reads, which is what the store itself writes (\<open>json_roundtrip\<close>).
\<close>

definition json_at :: "(string \<Rightarrow> real) \<Rightarrow> pyval option \<Rightarrow> json option" where
  "json_at rf v = (case v of
     Some (PStr t) \<Rightarrow> (case json_loads rf t of Inr p \<Rightarrow> Some p | Inl e \<Rightarrow> None) | _ \<Rightarrow> None)"

definition json_ok :: "(string \<Rightarrow> real) \<Rightarrow> pyval option \<Rightarrow> bool" where
  "json_ok rf v = (case v of None \<Rightarrow> True | Some (PStr t) \<Rightarrow> \<not> isl (json_loads rf t) | Some (PSet xs) \<Rightarrow> False)"

lemma loads_dumps: "plain v \<Longrightarrow> json_loads rf (json_dumps fr v) = Inr v"
  by (rule dumped_loads)

sublocale redis_service \<subseteq> redis_idem: idempotency_store "redis_idem_get rc rf"
  "\<lambda>k p. redis_idem_set rc fr k p idempotency_ttl" "\<lambda>r k. json_at rf (view r k)" plain own
  "\<lambda>r. \<forall>k. own k \<longrightarrow> json_ok rf (view r k)" for rf fr own
proof unfold_locales
  fix r k
  assume "\<forall>k. own k \<longrightarrow> json_ok rf (view r k)" "own k"
  then have "json_ok rf (view r k)" by blast
  then show "redis_idem_get rc rf k r = (Inr (json_at rf (view r k)), r)"
    by (auto simp: redis_idem_get_def rd_get_law json_ok_def json_at_def split: option.splits pyval.splits sum.splits)
next
  fix r k p
  assume sound: "\<forall>k. own k \<longrightarrow> json_ok rf (view r k)" and "own k" "plain p"
  obtain r' where r': "rd_set rc k (json_dumps fr p) idempotency_ttl r = Some r'"
      "view r' = (view r)(k \<mapsto> PStr (json_dumps fr p))"
    using rd_set_law [of idempotency_ttl k "json_dumps fr p" r] by (auto simp: idempotency_ttl_def)
  then show "\<exists>r'. redis_idem_set rc fr k p idempotency_ttl r = (Inr (), r') \<and>
      (\<forall>k. own k \<longrightarrow> json_ok rf (view r' k)) \<and>
      (\<lambda>k. json_at rf (view r' k)) = (\<lambda>k. json_at rf (view r k))(k \<mapsto> p)"
    using sound by (auto simp: redis_idem_set_def loads_dumps [OF \<open>plain p\<close>] json_ok_def json_at_def fun_eq_iff)
qed

text \<open>
  With either idempotency store, the first request with a key finds nothing
  remembered, and after it has stored its payload a second request with the key reads that
  payload back; no other key changes.
\<close>

theorem idempotency_second_sees_first:
  assumes "idempotency_store get set_payload known storable own sound"
    and "sound st" and "own k" and "storable p" and "known st k = None"
  shows "\<exists>st'. bnd (get k) (\<lambda>a. bnd (set_payload k p) (\<lambda>_. bnd (get k) (\<lambda>b. ret (a, b)))) st =
    (Inr (None, Some p), st') \<and> sound st' \<and> (\<forall>j. j \<noteq> k \<longrightarrow> known st' j = known st j)"
  using idempotency_store.second_sees_first [OF assms] .

theorem idempotency_second_sees_first_witness:
  "\<exists>r. bnd (redis_idem_get redis_map (\<lambda>_. 0) ''stripe:e1'') (\<lambda>a.
     bnd (redis_idem_set redis_map (\<lambda>_. []) ''stripe:e1'' (JObj [(''event_id'', JStr ''e1'')]) idempotency_ttl) (\<lambda>_.
     bnd (redis_idem_get redis_map (\<lambda>_. 0) ''stripe:e1'') (\<lambda>b. ret (a, b)))) Map.empty =
    (Inr (None, Some (JObj [(''event_id'', JStr ''e1'')])), r)"
  using idempotency_second_sees_first [OF live.redis_idem.idempotency_store_axioms, of "\<lambda>_. True" "\<lambda>_. 0" Map.empty
      "''stripe:e1''" "JObj [(''event_id'', JStr ''e1'')]" "\<lambda>_. []"]
  by (auto simp: json_ok_def json_at_def)

end
