(* ===== verification/Jobs.thy ===== *)
theory Jobs
  imports Retry Config JsonLoads
begin

text \<open>
  The in-process job queue of \<open>backend/common/background_jobs.py\<close> (\<open>QueueBackend\<close>,
  \<open>BackgroundJobManager\<close>) as a state machine, the job registry and the two queues of
  \<open>backend/infrastructure/queue/\<close>, and the worker of \<open>backend/scripts/worker.py\<close>.

  An event loop is a number; a call made where no loop runs (a worker thread) has none. The
  manager's task is idle, waiting for a job, running one, or over. The bookkeeping of
  \<open>asyncio.Queue.task_done\<close>, whose errors the source swallows, has no effect and is left out.
\<close>

section \<open>QueueBackend\<close>

record 'j queue_backend =
  q_queue :: "'j list option"
  q_pending :: "'j list"
  q_loop :: "nat option"

definition new_queue_backend :: "'j queue_backend" where
  "new_queue_backend = \<lparr>q_queue = None, q_pending = [], q_loop = None\<rparr>"

definition ensure_queue :: "nat \<Rightarrow> 'j queue_backend \<Rightarrow> 'j queue_backend" where
  "ensure_queue loop q =
     (if q_queue q = None \<or> q_loop q \<noteq> Some loop
      then q\<lparr>q_queue := Some (q_pending q), q_pending := [], q_loop := Some loop\<rparr>
      else q)"

definition put_nowait :: "'j \<Rightarrow> 'j queue_backend \<Rightarrow> 'j queue_backend" where
  "put_nowait job q = q\<lparr>q_queue := map_option (\<lambda>js. js @ [job]) (q_queue q)\<rparr>"

definition qb_enqueue :: "nat option \<Rightarrow> 'j \<Rightarrow> 'j queue_backend \<Rightarrow> 'j queue_backend" where
  "qb_enqueue running job q = (case running of
     None \<Rightarrow> q\<lparr>q_pending := q_pending q @ [job]\<rparr>
   | Some loop \<Rightarrow> put_nowait job (ensure_queue loop q))"

text \<open>\<open>await self._queue_backend.get()\<close>: \<open>None\<close> while it waits.\<close>

definition qb_get :: "nat \<Rightarrow> 'j queue_backend \<Rightarrow> 'j option \<times> 'j queue_backend" where
  "qb_get loop q = (let q' = ensure_queue loop q in case q_queue q' of
     Some (j # js) \<Rightarrow> (Some j, q'\<lparr>q_queue := Some js\<rparr>)
   | _ \<Rightarrow> (None, q'))"

section \<open>BackgroundJobManager\<close>

datatype 'j task = Waiting nat | Busy nat 'j | Over

record 'j job_manager =
  backend :: "'j queue_backend"
  task :: "'j task option"
  dead_letter :: "('j \<times> exn) list"
  dead_letter_limit :: nat
  m_loop :: "nat option"
  active_jobs :: int
  pending_job_count :: int
  idle_event :: bool

definition new_job_manager :: "'j job_manager" where
  "new_job_manager = \<lparr>backend = new_queue_backend, task = None, dead_letter = [], dead_letter_limit = 50,
     m_loop = None, active_jobs = 0, pending_job_count = 0, idle_event = True\<rparr>"

definition no_live_task :: "'j job_manager \<Rightarrow> bool" where
  "no_live_task m \<longleftrightarrow> task m = None \<or> task m = Some Over"

definition start :: "nat option \<Rightarrow> 'j job_manager \<Rightarrow> 'j job_manager" where
  "start running m = (case running of
     None \<Rightarrow> m
   | Some loop \<Rightarrow>
       if \<not> no_live_task m \<and> m_loop m = Some loop then m
       else m\<lparr>m_loop := Some loop, backend := ensure_queue loop (backend m), task := Some (Waiting loop)\<rparr>)"

definition enqueue :: "nat option \<Rightarrow> 'j \<Rightarrow> 'j job_manager \<Rightarrow> 'j job_manager" where
  "enqueue running job m =
     (let m1 = m\<lparr>idle_event := False, pending_job_count := pending_job_count m + 1\<rparr>
      in case running of
        None \<Rightarrow> m1\<lparr>backend := qb_enqueue None job (backend m1)\<rparr>
      | Some loop \<Rightarrow>
          (let m2 = (if m_loop m1 \<noteq> Some loop
                     then m1\<lparr>m_loop := Some loop, backend := ensure_queue loop (backend m1), task := None\<rparr>
                     else m1);
               m3 = m2\<lparr>backend := qb_enqueue (Some loop) job (backend m2)\<rparr>
           in if no_live_task m3 then m3\<lparr>task := Some (Waiting loop)\<rparr> else m3))"

text \<open>One turn of \<open>_run\<close>: the waiting task takes a job, if there is one.\<close>

definition take_job :: "'j job_manager \<Rightarrow> 'j job_manager" where
  "take_job m = (case task m of
     Some (Waiting loop) \<Rightarrow>
       (case qb_get loop (backend m) of
          (None, q) \<Rightarrow> m\<lparr>backend := q\<rparr>
        | (Some j, q) \<Rightarrow> m\<lparr>backend := q, task := Some (Busy loop j),
            pending_job_count := pending_job_count m - 1, active_jobs := active_jobs m + 1\<rparr>)
   | _ \<Rightarrow> m)"

text \<open>
  The end of that turn, after \<open>retry_async\<close>: \<open>Some e\<close> when the last attempt raised. The job goes
  to the dead letters, of which the newest \<open>dead_letter_limit\<close> are kept.
\<close>

definition last_of :: "nat \<Rightarrow> 'a list \<Rightarrow> 'a list" where
  "last_of n xs = drop (length xs - n) xs"

definition finish_job :: "exn option \<Rightarrow> 'j job_manager \<Rightarrow> 'j job_manager" where
  "finish_job result m = (case task m of
     Some (Busy loop j) \<Rightarrow>
       (let m1 = (case result of
              None \<Rightarrow> m
            | Some e \<Rightarrow> (let dl = dead_letter m @ [(j, e)] in
                m\<lparr>dead_letter := if length dl > dead_letter_limit m then last_of (dead_letter_limit m) dl else dl\<rparr>));
            m2 = m1\<lparr>active_jobs := active_jobs m1 - 1, task := Some (Waiting loop)\<rparr>
        in if active_jobs m2 = 0 \<and> pending_job_count m2 = 0 then m2\<lparr>idle_event := True\<rparr> else m2)
   | _ \<Rightarrow> m)"

text \<open>
  A cancellation of the task. While a job runs, the handler of \<open>CancelledError\<close> sets \<open>job\<close> to
  \<open>None\<close>, so that the \<open>finally\<close> block does not count the job as ended.
\<close>

definition cancel_task :: "'j job_manager \<Rightarrow> 'j job_manager" where
  "cancel_task m = (if task m = None then m else m\<lparr>task := Some Over\<rparr>)"

definition stop :: "'j job_manager \<Rightarrow> 'j job_manager" where
  "stop m = (if task m = None then m
     else (let m1 = (cancel_task m)\<lparr>task := None\<rparr>
           in if pending_job_count m1 = 0 \<and> active_jobs m1 = 0 then m1\<lparr>idle_event := True\<rparr> else m1))"

definition reset :: "'j job_manager \<Rightarrow> 'j job_manager" where
  "reset m = (stop m)\<lparr>backend := new_queue_backend, dead_letter := [], dead_letter_limit := 50,
     m_loop := None, active_jobs := 0, pending_job_count := 0, idle_event := True\<rparr>"

definition wait_until_idle :: "'j job_manager \<Rightarrow> bool" where
  "wait_until_idle m = idle_event m"

section \<open>Its runs\<close>

datatype 'j job_event =
    Start
  | Enqueued 'j
  | EnqueuedOffLoop 'j
  | Turn
  | Finished 'j "exn option"
  | Cancelled
  | Stopped

text \<open>What can happen on one event loop, step by step.\<close>

inductive job_step :: "nat \<Rightarrow> 'j job_manager \<Rightarrow> 'j job_event \<Rightarrow> 'j job_manager \<Rightarrow> bool" for loop where
  "job_step loop m Start (start (Some loop) m)"
| "job_step loop m (Enqueued j) (enqueue (Some loop) j m)"
| "job_step loop m (EnqueuedOffLoop j) (enqueue None j m)"
| "task m = Some (Waiting l) \<Longrightarrow> job_step loop m Turn (take_job m)"
| "task m = Some (Busy l j) \<Longrightarrow> job_step loop m (Finished j r) (finish_job r m)"
| "job_step loop m Cancelled (cancel_task m)"
| "job_step loop m Stopped (stop m)"

inductive_cases job_stepE: "job_step loop m ev m'"

inductive job_steps :: "nat \<Rightarrow> 'j job_manager \<Rightarrow> 'j job_event list \<Rightarrow> 'j job_manager \<Rightarrow> bool" for loop m where
  job_steps_Nil: "job_steps loop m [] m"
| job_steps_snoc: "job_steps loop m es m' \<Longrightarrow> job_step loop m' e m'' \<Longrightarrow> job_steps loop m (es @ [e]) m''"

definition queued :: "'j job_manager \<Rightarrow> 'j list" where
  "queued m = (case q_queue (backend m) of None \<Rightarrow> [] | Some js \<Rightarrow> js)"

definition running_job :: "'j job_manager \<Rightarrow> 'j list" where
  "running_job m = (case task m of Some (Busy l j) \<Rightarrow> [j] | _ \<Rightarrow> [])"

definition enqueued_in :: "'j job_event list \<Rightarrow> 'j list" where
  "enqueued_in es = concat (map (\<lambda>e. case e of Enqueued j \<Rightarrow> [j] | _ \<Rightarrow> []) es)"

text \<open>No cancellation of a running job: neither the task nor the manager is stopped.\<close>

definition undisturbed :: "'j job_event list \<Rightarrow> bool" where
  "undisturbed es \<longleftrightarrow> (\<forall>e \<in> set es. e \<noteq> Cancelled \<and> e \<noteq> Stopped \<and> (\<forall>j. e \<noteq> EnqueuedOffLoop j))"

definition job_inv :: "nat \<Rightarrow> 'j job_manager \<Rightarrow> bool" where
  "job_inv loop m \<longleftrightarrow>
     pending_job_count m = int (length (queued m)) \<and>
     active_jobs m = int (length (running_job m)) \<and>
     (idle_event m \<longleftrightarrow> pending_job_count m = 0 \<and> active_jobs m = 0) \<and>
     length (dead_letter m) \<le> 50 \<and> dead_letter_limit m = 50 \<and>
     q_pending (backend m) = [] \<and>
     (q_queue (backend m) = None \<or> q_loop (backend m) = Some loop) \<and>
     (m_loop m = None \<longrightarrow> task m = None) \<and> (m_loop m = None \<or> m_loop m = Some loop) \<and>
     (\<forall>l. task m = Some (Waiting l) \<longrightarrow> l = loop) \<and> (\<forall>l j. task m = Some (Busy l j) \<longrightarrow> l = loop)"

lemmas job_defs = start_def enqueue_def take_job_def finish_job_def qb_enqueue_def put_nowait_def
  ensure_queue_def qb_get_def no_live_task_def queued_def running_job_def Let_def

lemma job_inv_start: "job_inv loop m \<Longrightarrow> job_inv loop (start (Some loop) m)"
  by (cases "task m"; cases "the (task m)"; cases "q_queue (backend m)") (auto simp: job_inv_def job_defs)

lemma job_inv_enqueue: "job_inv loop m \<Longrightarrow> job_inv loop (enqueue (Some loop) j m)"
  by (cases "task m"; cases "the (task m)"; cases "q_queue (backend m)") (auto simp: job_inv_def job_defs)

lemma job_inv_take: "job_inv loop m \<Longrightarrow> job_inv loop (take_job m)"
  by (cases "task m"; cases "the (task m)"; cases "q_queue (backend m)")
    (auto simp: job_inv_def job_defs split: list.splits)

lemma job_inv_finish: "job_inv loop m \<Longrightarrow> job_inv loop (finish_job r m)"
  by (cases "task m"; cases "the (task m)"; cases "q_queue (backend m)")
    (auto simp: job_inv_def job_defs last_of_def split: option.splits)

lemma job_inv_new: "job_inv loop new_job_manager"
  by (simp add: job_inv_def new_job_manager_def new_queue_backend_def queued_def running_job_def)

lemma job_inv_steps:
  "job_steps loop new_job_manager es m \<Longrightarrow> undisturbed es \<Longrightarrow> job_inv loop m"
  by (induction rule: job_steps.induct)
    (auto simp: job_inv_new undisturbed_def elim!: job_stepE
      intro: job_inv_start job_inv_enqueue job_inv_take job_inv_finish)

definition finished_in :: "'j job_event list \<Rightarrow> 'j list" where
  "finished_in es = concat (map (\<lambda>e. case e of Finished j r \<Rightarrow> [j] | _ \<Rightarrow> []) es)"

lemma enqueued_in_simps [simp]:
  "enqueued_in (es @ [e]) = enqueued_in es @ (case e of Enqueued j \<Rightarrow> [j] | _ \<Rightarrow> [])"
  "finished_in (es @ [e]) = finished_in es @ (case e of Finished j r \<Rightarrow> [j] | _ \<Rightarrow> [])"
  "enqueued_in [] = []" "finished_in [] = []"
  by (simp_all add: enqueued_in_def finished_in_def)

lemma fifo_start: "job_inv loop m \<Longrightarrow> running_job (start (Some loop) m) @ queued (start (Some loop) m) = running_job m @ queued m"
  by (cases "task m"; cases "the (task m)"; cases "q_queue (backend m)") (auto simp: job_inv_def job_defs)

lemma fifo_enqueue:
  "job_inv loop m \<Longrightarrow> running_job (enqueue (Some loop) j m) @ queued (enqueue (Some loop) j m) = running_job m @ queued m @ [j]"
  by (cases "task m"; cases "the (task m)"; cases "q_queue (backend m)") (auto simp: job_inv_def job_defs)

lemma fifo_take: "job_inv loop m \<Longrightarrow> running_job (take_job m) @ queued (take_job m) = running_job m @ queued m"
  by (cases "task m"; cases "the (task m)"; cases "q_queue (backend m)")
    (auto simp: job_inv_def job_defs split: list.splits)

lemma fifo_finish:
  "job_inv loop m \<Longrightarrow> task m = Some (Busy l j) \<Longrightarrow>
     j # running_job (finish_job r m) @ queued (finish_job r m) = running_job m @ queued m"
  by (cases "q_queue (backend m)") (auto simp: job_inv_def job_defs split: option.splits)

lemma fifo_steps:
  "job_steps loop new_job_manager es m \<Longrightarrow> undisturbed es \<Longrightarrow>
     enqueued_in es = finished_in es @ running_job m @ queued m"
proof (induction rule: job_steps.induct)
  case job_steps_Nil
  then show ?case by (simp add: new_job_manager_def new_queue_backend_def queued_def running_job_def)
next
  case (job_steps_snoc es m' e m'')
  have und: "undisturbed es" using job_steps_snoc.prems by (simp add: undisturbed_def)
  have inv: "job_inv loop m'" using job_inv_steps [OF job_steps_snoc.hyps(1) und] .
  show ?case
    using job_steps_snoc.hyps(2) job_steps_snoc.prems job_steps_snoc.IH [OF und]
    by (cases rule: job_step.cases)
      (auto simp: undisturbed_def fifo_start [OF inv] fifo_enqueue [OF inv] fifo_take [OF inv]
        fifo_finish [OF inv, symmetric])
qed

text \<open>
  Property C30. In every run on one event loop in which jobs are enqueued on that loop and the
  task is not cancelled, jobs are run in the order they were enqueued, each once, and none is
  lost: those enqueued are those finished, the one running and those queued. The idle event is
  set exactly when none of the latter is left, and at most 50 failures are kept.
\<close>

theorem jobs_fifo_and_idle:
  assumes "job_steps loop new_job_manager es m" and "undisturbed es"
  shows "enqueued_in es = finished_in es @ running_job m @ queued m \<and>
    (wait_until_idle m \<longleftrightarrow> finished_in es = enqueued_in es) \<and> length (dead_letter m) \<le> 50"
  using fifo_steps [OF assms] job_inv_steps [OF assms]
  by (auto simp: job_inv_def wait_until_idle_def)

lemma job_steps_one:
  "job_steps loop m es m' \<Longrightarrow> job_step loop m' e m'' \<Longrightarrow> es' = es @ [e] \<Longrightarrow> job_steps loop m es' m''"
  by (auto intro: job_steps_snoc)

theorem jobs_fifo_and_idle_witness:
  "enqueued_in [Enqueued ''a'', Enqueued ''b'', Turn, Finished ''a'' (Some TypeError), Turn] =
     [''a''] @ running_job (take_job (finish_job (Some TypeError) (take_job (enqueue (Some 0) ''b''
       (enqueue (Some 0) ''a'' new_job_manager))))) @ []"
proof -
  let ?m1 = "enqueue (Some 0) ''a'' new_job_manager"
  let ?m2 = "enqueue (Some 0) ''b'' ?m1"
  let ?m3 = "take_job ?m2"
  let ?m4 = "finish_job (Some TypeError) ?m3"
  have 1: "job_steps 0 new_job_manager [Enqueued ''a''] ?m1"
    by (rule job_steps_one [OF job_steps_Nil]) (auto intro: job_step.intros)
  have 2: "job_steps 0 new_job_manager [Enqueued ''a'', Enqueued ''b''] ?m2"
    by (rule job_steps_one [OF 1]) (auto intro: job_step.intros)
  have 3: "job_steps 0 new_job_manager [Enqueued ''a'', Enqueued ''b'', Turn] ?m3"
    by (rule job_steps_one [OF 2 job_step.intros(4)]) (simp_all add: job_defs new_job_manager_def new_queue_backend_def)
  have 4: "job_steps 0 new_job_manager [Enqueued ''a'', Enqueued ''b'', Turn, Finished ''a'' (Some TypeError)] ?m4"
    by (rule job_steps_one [OF 3 job_step.intros(5)]) (simp_all add: job_defs new_job_manager_def new_queue_backend_def)
  have 5: "job_steps 0 new_job_manager [Enqueued ''a'', Enqueued ''b'', Turn, Finished ''a'' (Some TypeError), Turn] (take_job ?m4)"
    by (rule job_steps_one [OF 4 job_step.intros(4)]) (simp_all add: job_defs new_job_manager_def new_queue_backend_def)
  show ?thesis
    using jobs_fifo_and_idle [OF 5]
    by (simp add: undisturbed_def job_defs new_job_manager_def new_queue_backend_def enqueued_in_def finished_in_def)
qed

section \<open>Two ways to wait for ever\<close>

text \<open>
  A job enqueued where no loop runs goes to the pending list, which only the creation of a
  queue empties: on a loop that already has its queue the job stays there.
\<close>

definition stuck :: "nat \<Rightarrow> 'j \<Rightarrow> 'j job_manager \<Rightarrow> bool" where
  "stuck loop j m \<longleftrightarrow> j \<in> set (q_pending (backend m)) \<and> q_queue (backend m) \<noteq> None \<and>
     q_loop (backend m) = Some loop \<and> m_loop m = Some loop \<and>
     (\<forall>l. task m = Some (Waiting l) \<longrightarrow> l = loop) \<and> (\<forall>l j. task m = Some (Busy l j) \<longrightarrow> l = loop) \<and>
     pending_job_count m \<ge> int (length (queued m)) + 1 \<and> \<not> idle_event m"

lemma stuck_start: "stuck loop j m \<Longrightarrow> stuck loop j (start (Some loop) m)"
  by (auto simp: stuck_def start_def ensure_queue_def queued_def)

lemma stuck_enqueue: "stuck loop j m \<Longrightarrow> stuck loop j (enqueue (Some loop) j' m)"
  by (auto simp: stuck_def enqueue_def qb_enqueue_def put_nowait_def ensure_queue_def no_live_task_def queued_def Let_def)

lemma stuck_enqueue_off: "stuck loop j m \<Longrightarrow> stuck loop j (enqueue None j' m)"
  by (auto simp: stuck_def enqueue_def qb_enqueue_def queued_def Let_def)

lemma stuck_take: "stuck loop j m \<Longrightarrow> task m = Some (Waiting l) \<Longrightarrow> stuck loop j (take_job m)"
  by (auto simp: stuck_def take_job_def qb_get_def ensure_queue_def queued_def Let_def split: list.splits)

lemma stuck_finish: "stuck loop j m \<Longrightarrow> task m = Some (Busy l j') \<Longrightarrow> stuck loop j (finish_job r m)"
  by (auto simp: stuck_def finish_job_def queued_def Let_def split: option.splits)

lemma stuck_cancel: "stuck loop j m \<Longrightarrow> stuck loop j (cancel_task m)"
  by (auto simp: stuck_def cancel_task_def queued_def)

lemma stuck_stop: "stuck loop j m \<Longrightarrow> stuck loop j (stop m)"
  by (auto simp: stuck_def stop_def cancel_task_def queued_def Let_def)

lemma stuck_step: "job_step loop m e m' \<Longrightarrow> stuck loop j m \<Longrightarrow> stuck loop j m'"
  by (erule job_stepE)
    (simp_all add: stuck_start stuck_enqueue stuck_enqueue_off stuck_take stuck_finish stuck_cancel stuck_stop)

lemma stuck_steps: "job_steps loop m es m' \<Longrightarrow> stuck loop j m \<Longrightarrow> stuck loop j m'"
  by (induction rule: job_steps.induct) (auto intro: stuck_step)

text \<open>
  Once the loop has its queue, a job that a thread without a running loop
  enqueues is never taken on that loop, whatever follows (restarts of the task included): it
  stays pending and the idle event stays unset.
\<close>

theorem off_loop_job_is_stuck:
  assumes "job_inv loop m" and "q_queue (backend m) \<noteq> None" and "m_loop m = Some loop"
    and "job_steps loop (enqueue None j m) es m'"
  shows "j \<in> set (q_pending (backend m')) \<and> \<not> wait_until_idle m'"
proof -
  have "stuck loop j (enqueue None j m)"
    using assms(1-3) by (auto simp: stuck_def job_inv_def enqueue_def qb_enqueue_def Let_def queued_def)
  then have "stuck loop j m'" by (rule stuck_steps [OF assms(4)])
  then show ?thesis by (simp add: stuck_def wait_until_idle_def)
qed

theorem off_loop_job_is_stuck_witness:
  "''b'' \<in> set (q_pending (backend (take_job (enqueue None ''b'' (start (Some 0) new_job_manager))))) \<and>
   \<not> wait_until_idle (take_job (enqueue None ''b'' (start (Some 0) new_job_manager)))"
proof (rule off_loop_job_is_stuck [of 0 "start (Some 0) new_job_manager"])
  show "job_inv 0 (start (Some 0) new_job_manager)" by (intro job_inv_start job_inv_new)
  show "job_steps 0 (enqueue None ''b'' (start (Some 0) new_job_manager)) [Turn]
      (take_job (enqueue None ''b'' (start (Some 0) new_job_manager)))"
    by (rule job_steps_one [OF job_steps_Nil job_step.intros(4)]) (simp_all add: job_defs new_job_manager_def new_queue_backend_def)
qed (simp_all add: job_defs new_job_manager_def new_queue_backend_def)

text \<open>Cancelling the task while it runs a job leaves that job counted as active.\<close>

definition leaked :: "'j job_manager \<Rightarrow> bool" where
  "leaked m \<longleftrightarrow> active_jobs m \<ge> 1 + int (length (running_job m)) \<and> \<not> idle_event m"

lemma leaked_start: "leaked m \<Longrightarrow> leaked (start (Some loop) m)"
  by (auto simp: leaked_def start_def running_job_def)

lemma leaked_enqueue: "leaked m \<Longrightarrow> leaked (enqueue running j m)"
  by (auto simp: leaked_def enqueue_def running_job_def no_live_task_def Let_def split: option.splits task.splits)

lemma leaked_take: "leaked m \<Longrightarrow> task m = Some (Waiting l) \<Longrightarrow> leaked (take_job m)"
  by (auto simp: leaked_def take_job_def running_job_def split: prod.splits option.splits)

lemma leaked_finish: "leaked m \<Longrightarrow> task m = Some (Busy l j) \<Longrightarrow> leaked (finish_job r m)"
  by (auto simp: leaked_def finish_job_def running_job_def Let_def split: option.splits)

lemma leaked_cancel: "leaked m \<Longrightarrow> leaked (cancel_task m)"
  by (auto simp: leaked_def cancel_task_def running_job_def)

lemma leaked_stop: "leaked m \<Longrightarrow> leaked (stop m)"
  by (auto simp: leaked_def stop_def cancel_task_def running_job_def Let_def)

lemma leaked_step: "job_step loop m e m' \<Longrightarrow> leaked m \<Longrightarrow> leaked m'"
  by (erule job_stepE)
    (simp_all add: leaked_start leaked_enqueue leaked_take leaked_finish leaked_cancel leaked_stop)

lemma leaked_steps: "job_steps loop m es m' \<Longrightarrow> leaked m \<Longrightarrow> leaked m'"
  by (induction rule: job_steps.induct) (auto intro: leaked_step)

text \<open>
  When the manager is stopped while its task runs a job, the idle event is unset
  and no later step but \<open>reset\<close> sets it again: \<open>wait_until_idle\<close> waits for ever, though the
  queue may be empty and every job finished.
\<close>

theorem stop_while_busy_never_idle:
  assumes "job_inv loop m" and "task m = Some (Busy l j)" and "job_steps loop (stop m) es m'"
  shows "\<not> wait_until_idle m'"
proof -
  have "leaked (stop m)"
    using assms(1,2) by (auto simp: leaked_def job_inv_def stop_def cancel_task_def running_job_def Let_def)
  then show ?thesis using leaked_steps [OF assms(3)] by (simp add: leaked_def wait_until_idle_def)
qed

theorem stop_while_busy_never_idle_witness:
  "\<not> wait_until_idle (start (Some 0) (stop (take_job (enqueue (Some 0) ''a'' new_job_manager))))"
proof (rule stop_while_busy_never_idle [of 0])
  show "job_inv 0 (take_job (enqueue (Some 0) ''a'' new_job_manager))"
    by (intro job_inv_take job_inv_enqueue job_inv_new)
  show "job_steps 0 (stop (take_job (enqueue (Some 0) ''a'' new_job_manager))) [Start]
      (start (Some 0) (stop (take_job (enqueue (Some 0) ''a'' new_job_manager))))"
    by (rule job_steps_one [OF job_steps_Nil]) (auto intro: job_step.intros)
qed (simp add: job_defs new_job_manager_def new_queue_backend_def)

section \<open>The registry and the two queues\<close>

text \<open>
  \<open>infrastructure/queue/__init__.py\<close>: which queue the program uses.
\<close>

datatype queue_kind = InProcessJobQueue | RedisJobQueue

definition job_queue :: "settings \<Rightarrow> queue_kind" where
  "job_queue c = (if job_queue_backend c = InprocessJobs \<or>
       (environment c = ''dev'' \<and> job_queue_backend c \<noteq> RedisJobs)
     then InProcessJobQueue else RedisJobQueue)"

text \<open>
  The handler an in-process job runs: the registered one, looked up when the job runs. The
  manager runs it with two retries.
\<close>

type_synonym ('s) registry = "string \<rightharpoonup> (payload \<Rightarrow> ('s, unit) op)"

definition inprocess_handler :: "'s registry \<Rightarrow> string \<Rightarrow> payload \<Rightarrow> ('s, unit) op" where
  "inprocess_handler registry job_type payload = (case registry job_type of
     None \<Rightarrow> throw (ValueError (''Unknown job type: '' @ job_type))
   | Some handler \<Rightarrow> handler payload)"

definition no_sleep :: "int \<Rightarrow> ('s, unit) op" where
  "no_sleep d = ret ()"

definition run_job :: "('s, unit) op \<Rightarrow> ('s, unit) op" where
  "run_job job = retry_async job 2 50000 2 (\<lambda>_. ret ()) no_sleep"

definition execute_job :: "settings \<Rightarrow> 's registry \<Rightarrow> payload \<Rightarrow> ('s, unit) op" where
  "execute_job c registry envelope =
     (case payload_get envelope ''job_type'' JNull of
        JStr job_type \<Rightarrow>
          (case registry job_type of
             None \<Rightarrow> throw (ValueError (''Unknown job type: '' @ job_type))
           | Some handler \<Rightarrow>
               retry_async (case payload_get envelope ''payload'' (JObj []) of JObj p \<Rightarrow> handler p | _ \<Rightarrow> throw TypeError)
                 (max (job_max_attempts c - 1) 0) 500000 2 (\<lambda>_. ret ()) no_sleep)
      | _ \<Rightarrow> throw (ValueError ''Unknown job type''))"

text \<open>
  \<open>redis_queue.py\<close> calls the asynchronous client (\<open>redis.asyncio\<close>) without awaiting it: the
  commands are coroutine objects that never run. \<open>lpush\<close>'s is dropped; unpacking \<open>brpop\<close>'s
  raises a \<open>TypeError\<close>.
\<close>

datatype coroutine = Unawaited string

definition brpop :: "string \<Rightarrow> int \<Rightarrow> coroutine option" where
  "brpop k timeout = Some (Unawaited k)"

definition redis_enqueue :: "string \<Rightarrow> payload \<Rightarrow> int \<Rightarrow> string \<Rightarrow> ('s, unit) op" where
  "redis_enqueue job_type payload attempts enqueued_at =
     (let envelope = [(''job_type'', JStr job_type), (''payload'', JObj payload), (''attempts'', JInt attempts),
            (''enqueued_at'', JStr enqueued_at)];
          command = Unawaited ''lpush''
      in ret ())"

definition unpack_pair :: "coroutine \<Rightarrow> exn + (string \<times> string)" where
  "unpack_pair raw = Inl TypeError"

definition redis_dequeue :: "(string \<Rightarrow> real) \<Rightarrow> int \<Rightarrow> ('s, json option) op" where
  "redis_dequeue rf timeout = (case brpop ''jobs:pending'' timeout of
     None \<Rightarrow> ret None
   | Some raw \<Rightarrow> bnd (pure_op (unpack_pair raw)) (\<lambda>(_, payload).
       bnd (pure_op (json_loads rf payload)) (\<lambda>envelope. ret (Some envelope))))"

text \<open>One round of \<open>_run_redis_worker\<close>; a failed job's envelope is pushed to the dead letters,
  again without awaiting.\<close>

definition redis_worker_round :: "settings \<Rightarrow> 's registry \<Rightarrow> (string \<Rightarrow> real) \<Rightarrow> ('s, unit) op" where
  "redis_worker_round c registry rf =
     bnd (redis_dequeue rf 5) (\<lambda>envelope. case envelope of
       Some (JObj env) \<Rightarrow> try_except (execute_job c registry env) (\<lambda>e. ret ())
     | Some v \<Rightarrow> ret ()
     | None \<Rightarrow> ret ())"

text \<open>
  With the Redis queue (the production setting) no job ever runs: enqueueing
  changes nothing, and the worker ends with a \<open>TypeError\<close> at its first poll.
\<close>

theorem redis_queue_runs_nothing:
  "redis_enqueue job_type p attempts enqueued_at s = (Inr (), s) \<and>
   redis_worker_round c registry rf t = (Inl TypeError, t)"
  by (simp add: redis_enqueue_def redis_worker_round_def redis_dequeue_def brpop_def unpack_pair_def Let_def bnd_apply pure_op_apply ret_apply)

section \<open>The worker process\<close>

text \<open>The dead letters: two more commands that never run, and an iteration over a coroutine.\<close>

definition redis_dead_letter :: "payload \<Rightarrow> ('s, unit) op" where
  "redis_dead_letter envelope = (let command = Unawaited ''lpush'' in ret ())"

definition redis_get_dead_letter :: "int \<Rightarrow> ('s, json list) op" where
  "redis_get_dead_letter n = (let items = Unawaited ''lrange'' in throw TypeError)"

definition redis_purge_dead_letter :: "('s, unit) op" where
  "redis_purge_dead_letter = (let command = Unawaited ''delete'' in ret ())"

text \<open>
  \<open>main\<close> of \<open>backend/scripts/worker.py\<close>, on the handlers' state and the job manager of its own
  process: with the Redis queue the polling loop, which never gets past its first round; otherwise the
  manager is started and the process sleeps.
\<close>

definition worker_main :: "settings \<Rightarrow> 's registry \<Rightarrow> (string \<Rightarrow> real) \<Rightarrow> nat \<Rightarrow> ('s \<times> 'j job_manager, unit) op" where
  "worker_main c registry rf loop = (case job_queue c of
     RedisJobQueue \<Rightarrow> zoom fst (\<lambda>t s. (t, snd s)) (redis_worker_round c registry rf)
   | InProcessJobQueue \<Rightarrow> modify (\<lambda>s. (fst s, start (Some loop) (snd s))))"

text \<open>
  Under neither queue does a worker process run a job: with Redis it dies of a \<open>TypeError\<close>, and with
  the in-process queue it waits on an empty queue, for the jobs are in the memory of the web process.
\<close>

theorem worker_process_runs_nothing:
  "worker_main c registry rf loop (s, new_job_manager) =
    (if job_queue c = RedisJobQueue then (Inl TypeError, (s, new_job_manager))
     else (Inr (), (s, start (Some loop) new_job_manager))) \<and>
   queued (start (Some loop) (new_job_manager :: 'j job_manager)) = []"
proof -
  have "queued (start (Some loop) (new_job_manager :: 'j job_manager)) = []"
    by (simp add: queued_def job_defs new_job_manager_def new_queue_backend_def ensure_queue_def)
  then show ?thesis
    using conjunct2 [OF redis_queue_runs_nothing [of undefined undefined undefined undefined undefined c registry rf s]]
    by (cases "job_queue c") (simp_all add: worker_main_def zoom_apply modify_apply)
qed

end
