(* ===== verification/Email.thy ===== *)
theory Email
  imports Retry Config
begin

text \<open>
  \<open>backend/infrastructure/email/transport.py\<close> and its adapter
  \<open>backend/integrations/email_adapter.py\<close>: the two transports, the SMTP one behind a circuit
  breaker, and the messages the service sends. The SMTP session (\<open>smtplib\<close>: connecting, TLS,
  login, sending) is a parameter: given host, port, sender, recipient, subject and body, the
  exception it raises, if any. Header values hold no line breaks.
\<close>

section \<open>Transports\<close>

record mail =
  mail_to :: string
  mail_subject :: string
  mail_body :: string

record mailer =
  smtp_breaker :: breaker
  outbox :: "mail list"

definition new_mailer :: mailer where
  "new_mailer = \<lparr>smtp_breaker = new_breaker 3 60000000, outbox = []\<rparr>"

datatype transport = ConsoleTransport | SMTPTransport

definition transport_of :: "settings \<Rightarrow> transport" where
  "transport_of c = (if lower (email_backend c) = ''smtp'' then SMTPTransport else ConsoleTransport)"

text \<open>What the SMTP transport reads of the settings when it is made.\<close>

record smtp_config =
  sc_host :: string
  sc_port :: int
  sc_login :: "(string \<times> string) option"
  sc_tls :: bool
  sc_ssl :: bool
  sc_from :: string

definition smtp_config_of :: "settings \<Rightarrow> smtp_config" where
  "smtp_config_of c = \<lparr>sc_host = (if blank (smtp_host c) then ''localhost'' else the (smtp_host c)),
     sc_port = smtp_port c,
     sc_login = (if blank (smtp_username c) \<or> blank (smtp_password c) then None
       else Some (the (smtp_username c), the (smtp_password c))),
     sc_tls = smtp_use_tls c, sc_ssl = smtp_use_ssl c, sc_from = smtp_from_email c\<rparr>"

type_synonym smtp_server = "smtp_config \<Rightarrow> mail \<Rightarrow> exn option"

definition deliver :: "mail \<Rightarrow> mailer \<Rightarrow> mailer" where
  "deliver m s = s\<lparr>outbox := outbox s @ [m]\<rparr>"

definition smtp_send :: "smtp_server \<Rightarrow> settings \<Rightarrow> int \<Rightarrow> mail \<Rightarrow> (mailer, unit) op" where
  "smtp_send server c now m =
     bnd (zoom smtp_breaker (\<lambda>b s. s\<lparr>smtp_breaker := b\<rparr>) (before_call now)) (\<lambda>_ s.
       case server (smtp_config_of c) m of
         Some e \<Rightarrow> (Inl e, s\<lparr>smtp_breaker := record_failure now (smtp_breaker s)\<rparr>)
       | None \<Rightarrow> (Inr (), deliver m (s\<lparr>smtp_breaker := record_success (smtp_breaker s)\<rparr>)))"

definition console_send :: "mail \<Rightarrow> (mailer, unit) op" where
  "console_send m = modify (deliver m)"

definition send :: "smtp_server \<Rightarrow> settings \<Rightarrow> int \<Rightarrow> mail \<Rightarrow> (mailer, unit) op" where
  "send server c now m = (case transport_of c of
     ConsoleTransport \<Rightarrow> console_send m | SMTPTransport \<Rightarrow> smtp_send server c now m)"

section \<open>The messages\<close>

definition nl :: string where
  "nl = [char_of (10::nat)]"

definition password_reset_mail :: "string \<Rightarrow> string \<Rightarrow> mail" where
  "password_reset_mail address token = \<lparr>mail_to = address, mail_subject = ''Password reset requested'',
     mail_body = ''A password reset was requested for your account.'' @ nl @
       ''Use this token to complete the reset: '' @ token\<rparr>"

definition verification_mail :: "string \<Rightarrow> string \<Rightarrow> mail" where
  "verification_mail address token = \<lparr>mail_to = address, mail_subject = ''Verify your email address'',
     mail_body = ''Please verify your email address to activate your account.'' @ nl @
       ''Use this token to confirm your email: '' @ token\<rparr>"

definition billing_event_mail :: "string \<Rightarrow> string \<Rightarrow> string option \<Rightarrow> mail" where
  "billing_event_mail address event_type plan_name =
     (let named = (\<lambda>prefix. if blank plan_name then '''' else prefix @ the plan_name @ ''.'');
          subjects = [''subscription_assigned'' \<mapsto> ''Your billing plan is now active'',
            ''plan_changed'' \<mapsto> ''Your billing plan has been updated'',
            ''payment_failed'' \<mapsto> ''We need to update your billing details''];
          bodies = [''subscription_assigned'' \<mapsto> ''Your subscription is active and ready to use.'' @ named '' Plan: '',
            ''plan_changed'' \<mapsto> ''Your billing plan has been updated.'' @ named '' New plan: '',
            ''payment_failed'' \<mapsto> ''We could not process your most recent payment.'' @ named '' Plan: '']
      in \<lparr>mail_to = address,
          mail_subject = (case subjects event_type of Some t \<Rightarrow> t | None \<Rightarrow> ''Billing update''),
          mail_body = (case bodies event_type of Some t \<Rightarrow> t
            | None \<Rightarrow> ''A billing update is available for your account. Plan: '' @
                (if blank plan_name then ''your current plan'' else the plan_name) @ ''.'')\<rparr>)"

section \<open>The breaker spares a failing server\<close>

lemma smtp_send_fails:
  assumes "opened_at (smtp_breaker s) = None" and "server (smtp_config_of c) m = Some e"
  shows "smtp_send server c now m s = (Inl e, s\<lparr>smtp_breaker := record_failure now (smtp_breaker s)\<rparr>)"
  using assms by (simp add: smtp_send_def bnd_apply zoom_apply before_call_def is_open_def)

lemma smtp_send_open:
  assumes "opened_at (smtp_breaker s) = Some t" and "now - t < reset_timeout (smtp_breaker s)"
  shows "smtp_send server c now m s = (Inl CircuitBreakerOpenError, s)"
  using assms by (simp add: smtp_send_def bnd_apply zoom_apply before_call_def is_open_def)

text \<open>
  After three failed sends in a row the SMTP transport leaves the server alone: for
  the sixty seconds after the third, every send raises \<open>CircuitBreakerOpenError\<close> whatever the
  server would answer, and changes nothing; the first send after that reaches the server again,
  and when it succeeds the message is in the outbox and the breaker closed.
\<close>

theorem failing_smtp_is_spared:
  assumes "transport_of c = SMTPTransport"
    and "server1 (smtp_config_of c) m1 = Some e1" and "server2 (smtp_config_of c) m2 = Some e2"
    and "server3 (smtp_config_of c) m3 = Some e3"
    and "now < t3 + 60000000" and "t3 + 60000000 \<le> later" and "server5 (smtp_config_of c) m5 = None"
  shows "\<exists>s. try_except (send server1 c t1 m1) (\<lambda>_. try_except (send server2 c t2 m2) (\<lambda>_. send server3 c t3 m3)) new_mailer
      = (Inl e3, s) \<and>
    send server4 c now m4 s = (Inl CircuitBreakerOpenError, s) \<and>
    send server5 c later m5 s = (Inr (), \<lparr>smtp_breaker = new_breaker 3 60000000, outbox = [m5]\<rparr>)"
proof -
  let ?b = "\<lambda>n. \<lparr>failure_threshold = 3, reset_timeout = 60000000, failure_count = n, opened_at = None\<rparr>"
  let ?s3 = "\<lparr>smtp_breaker = \<lparr>failure_threshold = 3, reset_timeout = 60000000, failure_count = 3, opened_at = Some t3\<rparr>, outbox = []\<rparr>"
  have 1: "send server1 c t1 m1 new_mailer = (Inl e1, \<lparr>smtp_breaker = ?b 1, outbox = []\<rparr>)"
    using assms(1,2) smtp_send_fails [of new_mailer server1 c m1 e1 t1]
    by (simp add: send_def new_mailer_def new_breaker_def record_failure_def)
  have 2: "send server2 c t2 m2 \<lparr>smtp_breaker = ?b 1, outbox = []\<rparr> = (Inl e2, \<lparr>smtp_breaker = ?b 2, outbox = []\<rparr>)"
    using assms(1,3) smtp_send_fails [of "\<lparr>smtp_breaker = ?b 1, outbox = []\<rparr>" server2 c m2 e2 t2]
    by (simp add: send_def record_failure_def)
  have 3: "send server3 c t3 m3 \<lparr>smtp_breaker = ?b 2, outbox = []\<rparr> = (Inl e3, ?s3)"
    using assms(1,4) smtp_send_fails [of "\<lparr>smtp_breaker = ?b 2, outbox = []\<rparr>" server3 c m3 e3 t3]
    by (simp add: send_def record_failure_def)
  have "send server4 c now m4 ?s3 = (Inl CircuitBreakerOpenError, ?s3)"
    using assms(1,5) smtp_send_open [of ?s3 t3 now server4 c m4] by (simp add: send_def)
  moreover have "send server5 c later m5 ?s3 = (Inr (), \<lparr>smtp_breaker = new_breaker 3 60000000, outbox = [m5]\<rparr>)"
    using assms(1,6,7)
    by (simp add: send_def smtp_send_def bnd_apply zoom_apply before_call_def is_open_def deliver_def record_success_def
        new_breaker_def)
  ultimately show ?thesis using 1 2 3 by (simp add: try_except_apply)
qed

theorem failing_smtp_is_spared_witness:
  "\<exists>s. send (\<lambda>_ _. None) (default_settings\<lparr>email_backend := ''smtp''\<rparr>) 4 (verification_mail ''a@b.c'' ''t'') s =
    (Inl CircuitBreakerOpenError, s)"
proof -
  have "transport_of (default_settings\<lparr>email_backend := ''smtp''\<rparr>) = SMTPTransport"
    by (simp add: transport_of_def lower_def lower_char_def)
  from failing_smtp_is_spared [OF this, of "\<lambda>_ _. Some TypeError" undefined TypeError "\<lambda>_ _. Some TypeError" undefined TypeError
      "\<lambda>_ _. Some TypeError" undefined TypeError 4 3 60000003 "\<lambda>_ _. None" undefined 1 2 "\<lambda>_ _. None" "verification_mail ''a@b.c'' ''t''"]
  show ?thesis by auto
qed

end
