(* ===== verification/App.thy ===== *)
theory App
  imports TokenStore RateLimit Idempotency Jobs Repository Email
begin

text \<open>
  What the handlers share: the state of the running program (the request's database session,
  the token stores, the limiter, the idempotency stores, the background jobs waiting to run, the events emitted on the socket,
  the settings object, which a route may change, and the module-level caches), the lifting of
  the components' operations to it, and what comes with a request.
\<close>

section \<open>Background jobs\<close>

text \<open>The jobs the program enqueues, each with what it captured.\<close>

datatype job =
    SendVerificationEmail string string
  | SendPasswordResetEmail string string
  | LogInfo string
  | PersistAuditLogEntry "audit_log_entry"
  | BillingNotification int string string string
  | DeliverWebhook int

section \<open>The state\<close>

record 'r app =
  sess :: session
  toks :: "'r token_state"
  lim :: "rate_limiter"
  lim_counts :: metrics
  idem :: "memory_store"
  jobs :: "job list"
  conf :: settings
  dummy_hash :: "string option"
  rbac_seeded :: bool
  billing_seeded :: bool
  mail_service :: mailer
  emitted :: "(string \<times> json \<times> string) list"

definition in_db :: "(session, 'a) op \<Rightarrow> ('r app, 'a) op" where
  "in_db m = zoom sess (\<lambda>t s. s\<lparr>sess := t\<rparr>) m"

text \<open>A token-store operation, under the settings of the moment.\<close>

definition in_toks :: "(settings \<Rightarrow> ('r token_state, 'a) op) \<Rightarrow> ('r app, 'a) op" where
  "in_toks m = (\<lambda>s. zoom toks (\<lambda>t s. s\<lparr>toks := t\<rparr>) (m (conf s)) s)"

definition in_idem :: "(memory_store, 'a) op \<Rightarrow> ('r app, 'a) op" where
  "in_idem m = zoom idem (\<lambda>t s. s\<lparr>idem := t\<rparr>) m"

definition enqueue_job :: "job \<Rightarrow> ('r app, unit) op" where
  "enqueue_job j = modify (\<lambda>s. s\<lparr>jobs := jobs s @ [j]\<rparr>)"

text \<open>
  \<open>job_queue.enqueue(...)\<close>, the queue of the settings: the in-process one hands the job to the
  manager; on the Redis one nothing is ever queued (\<open>redis_queue_runs_nothing\<close>).
\<close>

definition queued_job :: "job \<Rightarrow> 'r app \<Rightarrow> 'r app" where
  "queued_job j s = (case job_queue (conf s) of
     InProcessJobQueue \<Rightarrow> s\<lparr>jobs := jobs s @ [j]\<rparr> | RedisJobQueue \<Rightarrow> s)"

definition queue_job :: "job \<Rightarrow> ('r app, unit) op" where
  "queue_job j = modify (queued_job j)"

lemma queued_job_simps [simp]:
  "sess (queued_job j s) = sess s" "toks (queued_job j s) = toks s" "lim (queued_job j s) = lim s"
  "lim_counts (queued_job j s) = lim_counts s" "idem (queued_job j s) = idem s" "conf (queued_job j s) = conf s"
  "dummy_hash (queued_job j s) = dummy_hash s" "rbac_seeded (queued_job j s) = rbac_seeded s"
  "billing_seeded (queued_job j s) = billing_seeded s" "mail_service (queued_job j s) = mail_service s"
  "emitted (queued_job j s) = emitted s"
  by (simp_all add: queued_job_def split: queue_kind.split)

lemma queue_job_apply [op_simps]: "queue_job j s = (Inr (), queued_job j s)"
  by (simp add: queue_job_def op_simps)

lemma bnd_queue_job [op_simps]: "bnd (queue_job j) f s = f () (queued_job j s)"
  by (simp add: queue_job_def op_simps)

text \<open>
  The limiter of a route. In \<open>dev\<close> and \<open>test\<close> it is the shared in-process one; elsewhere the
  pipelined one on Redis, with \<open>execute\<close> and \<open>str_float\<close> as in \<open>RateLimit\<close>.
\<close>

record 'r limiter_env =
  pipeline :: "redis_command list \<Rightarrow> 'r \<Rightarrow> (int list \<times> 'r) option"
  float_text :: "int \<Rightarrow> string"

definition route_allow :: "'r limiter_env \<Rightarrow> int \<Rightarrow> string \<Rightarrow> string \<Rightarrow> nat \<Rightarrow> ('r app, bool) op" where
  "route_allow le now client_id path limit = (\<lambda>s. case get_rate_limiter (conf s) of
     SharedLimiter \<Rightarrow>
       (case allow_request client_id path limit now (lim s) of (ok, l) \<Rightarrow> (Inr ok, s\<lparr>lim := l\<rparr>))
   | RedisLimiter \<Rightarrow>
       (case redis_allow_request (pipeline le) (float_text le) client_id path (int limit) 60 now
              \<lparr>lim_redis = redis (toks s), lim_fallback = lim s, lim_metrics = lim_counts s\<rparr> of
          (r, l) \<Rightarrow> (r, s\<lparr>toks := (toks s)\<lparr>redis := lim_redis l\<rparr>, lim := lim_fallback l, lim_counts := lim_metrics l\<rparr>)))"

text \<open>
  \<open>Depends(get_db)\<close> around a handler: the session is committed when the handler returns and
  rolled back when it raises; the rest of the state stays as the handler left it.
\<close>

definition with_db :: "('r app, 'a) op \<Rightarrow> ('r app, 'a) op" where
  "with_db handler = try_except
     (bnd handler (\<lambda>r. bnd (in_db commit) (\<lambda>_. ret r)))
     (\<lambda>e. bnd (in_db rollback) (\<lambda>_. throw e))"

text \<open>What a handler reads of the request.\<close>

record request =
  req_client_host :: "string option"
  req_method :: string
  req_path :: string
  req_request_id :: "string option"
  req_trace_id :: "string option"

definition client_ip :: "request \<Rightarrow> string" where
  "client_ip r = (case req_client_host r of None \<Rightarrow> ''unknown'' | Some h \<Rightarrow> h)"

section \<open>The audit logger\<close>

text \<open>
  \<open>AuditLogger.log\<close> (\<open>backend/observability/audit.py\<close>): the entry it builds and hands to the
  queue, whose errors it swallows. The actor is a user, a text, or nobody; without a request the
  request id is the logging context's, \<open>ctx_id\<close>. The file it also writes is \<open>AuditFile\<close>'s.
\<close>

datatype actor = ActorUser int string | ActorText string | Nobody

definition audit_entry :: "string option \<Rightarrow> actor \<Rightarrow> string \<Rightarrow> string \<Rightarrow> json \<Rightarrow> request option \<Rightarrow> int option \<Rightarrow>
    bool \<Rightarrow> string option \<Rightarrow> datetime \<Rightarrow> audit_log_entry" where
  "audit_entry ctx_id who action resource details req status_code success error now =
     (let request_id = (case req of Some r \<Rightarrow> (case req_request_id r of Some i \<Rightarrow> Some i | None \<Rightarrow> ctx_id) | None \<Rightarrow> ctx_id);
          trace_id = (case req of Some r \<Rightarrow> (case req_trace_id r of Some i \<Rightarrow> Some i | None \<Rightarrow> request_id) | None \<Rightarrow> request_id)
      in \<lparr>audit_id = 0,
          audit_actor_id = (case who of ActorUser i n \<Rightarrow> Some i | _ \<Rightarrow> None),
          audit_actor_username = (case who of ActorUser i n \<Rightarrow> Some n | ActorText t \<Rightarrow> Some t | Nobody \<Rightarrow> None),
          audit_action = action, audit_resource = resource, audit_details = details,
          audit_request_id = request_id, audit_trace_id = trace_id,
          audit_method = map_option req_method req, audit_path = map_option req_path req,
          audit_status_code = status_code, audit_success = success, audit_error = error,
          audit_created_at = now\<rparr>)"

definition audit_log :: "actor \<Rightarrow> string \<Rightarrow> string \<Rightarrow> json \<Rightarrow> request option \<Rightarrow> int option \<Rightarrow> bool \<Rightarrow> int \<Rightarrow> ('r app, unit) op" where
  "audit_log who action resource details req status_code success now =
     queue_job (PersistAuditLogEntry
       (audit_entry None who action resource details req status_code success None (Aware now)))"

definition user_actor :: "'a user_scheme \<Rightarrow> actor" where
  "user_actor u = ActorUser (user_id u) (user_username u)"

text \<open>
  The job's handler: another session, which commits the entry. The timestamp of the entry is not
  passed on: \<open>created_at\<close> is the server default, the database's \<open>now()\<close> when the job runs.
\<close>

definition persist_audit_log_entry :: "datetime \<Rightarrow> audit_log_entry \<Rightarrow> (session, unit) op" where
  "persist_audit_log_entry db_now entry = session_local
     (bnd (db_insert AuditLogEntry (entry\<lparr>audit_created_at := db_now\<rparr>)) (\<lambda>_. commit))"

section \<open>Evaluating and preserving\<close>

lemma in_db_apply: "in_db m s = (fst (m (sess s)), s\<lparr>sess := snd (m (sess s))\<rparr>)"
  by (simp add: in_db_def zoom_apply)

lemma in_toks_apply: "in_toks m s = (fst (m (conf s) (toks s)), s\<lparr>toks := snd (m (conf s) (toks s))\<rparr>)"
  by (simp add: in_toks_def zoom_apply)

lemma in_idem_apply: "in_idem m s = (fst (m (idem s)), s\<lparr>idem := snd (m (idem s))\<rparr>)"
  by (simp add: in_idem_def zoom_apply)

lemma enqueue_job_apply [op_simps]: "enqueue_job j s = (Inr (), s\<lparr>jobs := jobs s @ [j]\<rparr>)"
  by (simp add: enqueue_job_def op_simps)

lemma bnd_enqueue_job [op_simps]: "bnd (enqueue_job j) f s = f () (s\<lparr>jobs := jobs s @ [j]\<rparr>)"
  by (simp add: enqueue_job_def op_simps)

lemma bnd_audit_log [op_simps]:
  "bnd (audit_log who action resource details req st ok now) f s = f () (queued_job
     (PersistAuditLogEntry (audit_entry None who action resource details req st ok None (Aware now))) s)"
  by (simp add: audit_log_def op_simps)

lemma with_db_apply:
  "with_db handler s = (case handler s of
     (Inl e, t) \<Rightarrow> (Inl e, t\<lparr>sess := (sess t)\<lparr>work := stored (sess t)\<rparr>\<rparr>)
   | (Inr r, t) \<Rightarrow> (Inr r, t\<lparr>sess := (sess t)\<lparr>stored := work (sess t)\<rparr>\<rparr>))"
  by (simp add: with_db_def try_except_def bnd_apply in_db_apply commit_apply rollback_apply ret_apply throw_apply
      split: prod.split sum.split)

lemma with_db_Inr: "handler s = (Inr r, t) \<Longrightarrow> with_db handler s = (Inr r, t\<lparr>sess := (sess t)\<lparr>stored := work (sess t)\<rparr>\<rparr>)"
  by (simp add: with_db_def try_except_def bnd_apply in_db_apply commit_apply ret_apply)

lemma with_db_Inl: "handler s = (Inl e, t) \<Longrightarrow> with_db handler s = (Inl e, t\<lparr>sess := (sess t)\<lparr>work := stored (sess t)\<rparr>\<rparr>)"
  by (simp add: with_db_def try_except_def bnd_apply in_db_apply rollback_apply throw_apply)

text \<open>An invariant of the database alone.\<close>

lemma preserves_in_db: "preserves P m \<Longrightarrow> preserves (\<lambda>s. P (sess s)) (in_db m)"
  by (simp add: preserves_def in_db_apply)

lemma preserves_other [preserves_intros]:
  "preserves (\<lambda>s. P (sess s)) (in_toks n)" "preserves (\<lambda>s. P (sess s)) (enqueue_job j)" "preserves (\<lambda>s. P (sess s)) (queue_job j)"
  "preserves (\<lambda>s. P (sess s)) (audit_log who action resource details req st ok now)"
  "preserves (\<lambda>s. P (sess s)) (route_allow le t client_id path limit)" "preserves (\<lambda>s. P (sess s)) (in_idem i)"
  by (auto simp: preserves_def in_toks_apply in_idem_apply enqueue_job_def audit_log_def op_simps route_allow_def
      split: limiter_kind.split prod.splits)

end
