(* ===== verification/Users.thy ===== *)
theory Users
  imports App
begin

text \<open>
  \<open>backend/domain/users/repository.py\<close> and \<open>backend/domain/users/service.py\<close>: lookups, password
  hashes, the operations of \<open>UserService\<close> and its login with the lockout.

  bcrypt, PBKDF2 and the JWT library are parameters (the record \<open>crypto\<close>, which also carries
  \<open>repr\<close> of a list or dict, \<open>py_repr\<close>); a salt the code draws
  is an argument, and so is the current time. A password hash made by the service is accepted by
  it: for bcrypt that is the documented behaviour (\<open>crypto_ok\<close>), for PBKDF2 it is proved.
\<close>

section \<open>Cryptography as the service uses it\<close>

record bcrypt_module =
  hashpw :: "string \<Rightarrow> string \<Rightarrow> string"
  checkpw :: "string \<Rightarrow> string \<Rightarrow> exn + bool"

record crypto =
  bcrypt :: "bcrypt_module option"
  pbkdf2_hex :: "string \<Rightarrow> string \<Rightarrow> int \<Rightarrow> string"
  jwt_encode :: "payload \<Rightarrow> string \<Rightarrow> string \<Rightarrow> string"
  jwt_decode :: "int \<Rightarrow> string \<Rightarrow> string \<Rightarrow> string \<Rightarrow> payload option"
  jwt_unverified :: "string \<Rightarrow> exn + payload"
  py_repr :: "json \<Rightarrow> string"

definition hash_password :: "crypto \<Rightarrow> string \<Rightarrow> string \<Rightarrow> string" where
  "hash_password cr salt password = (case bcrypt cr of
     Some b \<Rightarrow> hashpw b password salt
   | None \<Rightarrow> ''pbkdf2_sha256$100000$'' @ salt @ ''$'' @ pbkdf2_hex cr password salt 100000)"

text \<open>\<open>s.split("$", 3)\<close> unpacked into four names.\<close>

definition split_hash :: "string \<Rightarrow> exn + (string \<times> string \<times> string \<times> string)" where
  "split_hash h = (case split_once (CHR ''$'') h of
     None \<Rightarrow> Inl (ValueError ''not enough values to unpack'')
   | Some (a, r) \<Rightarrow> (case split_once (CHR ''$'') r of
       None \<Rightarrow> Inl (ValueError ''not enough values to unpack'')
     | Some (b, r') \<Rightarrow> (case split_once (CHR ''$'') r' of
         None \<Rightarrow> Inl (ValueError ''not enough values to unpack'')
       | Some (c, d) \<Rightarrow> Inr (a, b, c, d))))"

definition verify_password :: "crypto \<Rightarrow> string \<Rightarrow> string \<Rightarrow> exn + bool" where
  "verify_password cr password hashed = (case bcrypt cr of
     Some b \<Rightarrow> checkpw b password hashed
   | None \<Rightarrow>
       if \<not> startswith hashed ''pbkdf2_sha256$'' then Inr False
       else bind_sum (split_hash hashed) (\<lambda>(_, iterations, salt, expected).
         (case parse_int iterations of
            None \<Rightarrow> Inl (ValueError ''invalid literal for int()'')
          | Some n \<Rightarrow> Inr (pbkdf2_hex cr password salt n = expected))))"

definition crypto_ok :: "crypto \<Rightarrow> bool" where
  "crypto_ok cr \<longleftrightarrow> (\<forall>b. bcrypt cr = Some b \<longrightarrow> (\<forall>p salt. checkpw b p (hashpw b p salt) = Inr True))"

lemma split_once_app: "c \<notin> set a \<Longrightarrow> split_once c (a @ c # b) = Some (a, b)"
  by (induction a) (auto simp: split_once_def)

lemma verify_own_hash:
  assumes "crypto_ok cr" and "CHR ''$'' \<notin> set salt"
  shows "verify_password cr p (hash_password cr salt p) = Inr True"
proof (cases "bcrypt cr")
  case (Some b)
  then show ?thesis using assms(1) by (simp add: verify_password_def hash_password_def crypto_ok_def)
next
  case None
  define hx where "hx = pbkdf2_hex cr p salt 100000"
  have 1: "split_once (CHR ''$'') (''pbkdf2_sha256$100000$'' @ salt @ ''$'' @ hx) =
      Some (''pbkdf2_sha256'', ''100000$'' @ salt @ ''$'' @ hx)"
    using split_once_app [of "CHR ''$''" "''pbkdf2_sha256''" "''100000$'' @ salt @ ''$'' @ hx"] by simp
  have 2: "split_once (CHR ''$'') (''100000$'' @ salt @ ''$'' @ hx) = Some (''100000'', salt @ ''$'' @ hx)"
    using split_once_app [of "CHR ''$''" "''100000''" "salt @ ''$'' @ hx"] by simp
  have 3: "split_once (CHR ''$'') (salt @ ''$'' @ hx) = Some (salt, hx)"
    using split_once_app [OF assms(2), of hx] by simp
  have "split_hash (''pbkdf2_sha256$100000$'' @ salt @ ''$'' @ hx) = Inr (''pbkdf2_sha256'', ''100000'', salt, hx)"
    by (simp only: split_hash_def 1 2 3 prod.case option.case)
  moreover have "parse_int ''100000'' = Some 100000"
    by (simp add: parse_int_def strip_no_space is_space_def is_digit_def digit_val_def Let_def)
  ultimately show ?thesis
    using None unfolding hx_def verify_password_def hash_password_def
    by (simp add: bind_sum_def startswith_def)
qed

section \<open>UserRepository\<close>

definition get_by_email :: "string \<Rightarrow> (session, user option) op" where
  "get_by_email email = bnd (select User (\<lambda>u. user_email u = email \<and> user_deleted_at u = None)) (\<lambda>result.
     pure_op (one_or_none result))"

definition get_by_username :: "string \<Rightarrow> (session, user option) op" where
  "get_by_username username = bnd (select User (\<lambda>u. user_username u = username \<and> user_deleted_at u = None)) (\<lambda>result.
     pure_op (one_or_none result))"

section \<open>UserService\<close>

record user_create =
  uc_email :: string
  uc_username :: string
  uc_password :: string

text \<open>\<open>UserUpdate\<close>: a field is unset (\<open>None\<close>), null, or a value.\<close>

record user_update =
  uu_email :: "string option option"
  uu_username :: "string option option"
  uu_password :: "string option option"
  uu_is_superuser :: "bool option option"
  uu_is_active :: "bool option option"
  uu_role :: "string option option"
  uu_permissions :: "string list option option"

definition new_user :: "crypto \<Rightarrow> string \<Rightarrow> int \<Rightarrow> user_create \<Rightarrow> user" where
  "new_user cr salt now obj_in = \<lparr>user_id = 0, user_email = uc_email obj_in, user_username = uc_username obj_in,
     user_hashed_password = hash_password cr salt (uc_password obj_in),
     user_is_active = True, user_is_verified = False, user_is_superuser = False,
     user_failed_login_attempts = 0, user_locked_until = None, user_role = ''user'',
     user_permissions = Some [], user_created_at = Aware now, user_updated_at = Aware now,
     user_deleted_at = None\<rparr>"

definition create_user_row :: "crypto \<Rightarrow> string \<Rightarrow> int \<Rightarrow> user_create \<Rightarrow> (session, user) op" where
  "create_user_row cr salt now obj_in = create User (Instance (new_user cr salt now obj_in))"

definition delete_user_row :: "int \<Rightarrow> user \<Rightarrow> (session, unit) op" where
  "delete_user_row now db_obj =
     db_save User (db_obj\<lparr>user_deleted_at := Some (Aware now), user_updated_at := Aware now\<rparr>)"

text \<open>
  \<open>setattr\<close> of one field: a null for a column that is not nullable is refused at the flush, so
  the whole row is then \<open>None\<close>.
\<close>

definition set_column :: "'a option option \<Rightarrow> ('a \<Rightarrow> user \<Rightarrow> user) \<Rightarrow> user option \<Rightarrow> user option" where
  "set_column v f row = (case v of
     None \<Rightarrow> row
   | Some None \<Rightarrow> None
   | Some (Some x) \<Rightarrow> map_option (f x) row)"

definition set_fields :: "user_update \<Rightarrow> user \<Rightarrow> user option" where
  "set_fields d u = map_option
     (\<lambda>r. case uu_permissions d of None \<Rightarrow> r | Some p \<Rightarrow> r\<lparr>user_permissions := p\<rparr>)
     (set_column (uu_role d) (\<lambda>x r. r\<lparr>user_role := x\<rparr>)
     (set_column (uu_is_active d) (\<lambda>x r. r\<lparr>user_is_active := x\<rparr>)
     (set_column (uu_is_superuser d) (\<lambda>x r. r\<lparr>user_is_superuser := x\<rparr>)
     (set_column (uu_username d) (\<lambda>x r. r\<lparr>user_username := x\<rparr>)
     (set_column (uu_email d) (\<lambda>x r. r\<lparr>user_email := x\<rparr>) (Some u))))))"

definition flush_user :: "user option \<Rightarrow> (session, user) op" where
  "flush_user row = (case row of
     None \<Rightarrow> throw IntegrityError
   | Some r \<Rightarrow> bnd (db_save User r) (\<lambda>_. ret r))"

definition update_user_row :: "'r redis_ops \<Rightarrow> crypto \<Rightarrow> string \<Rightarrow> int \<Rightarrow> user \<Rightarrow> user_update \<Rightarrow> ('r app, user) op" where
  "update_user_row rc cr salt now db_obj obj_in = (case uu_password obj_in of
     Some (Some p) \<Rightarrow>
       if p \<noteq> [] then
         bnd (in_toks (\<lambda>c. revoke_all_for_user rc c SessionRevocationStore (user_id db_obj))) (\<lambda>_.
         in_db (flush_user (map_option (\<lambda>r. r\<lparr>user_updated_at := Aware now\<rparr>)
           (set_fields obj_in (db_obj\<lparr>user_hashed_password := hash_password cr salt p\<rparr>)))))
       else in_db (flush_user (map_option (\<lambda>r. r\<lparr>user_updated_at := Aware now\<rparr>) (set_fields obj_in db_obj)))
   | _ \<Rightarrow> in_db (flush_user (map_option (\<lambda>r. r\<lparr>user_updated_at := Aware now\<rparr>) (set_fields obj_in db_obj))))"

definition mark_verified :: "int \<Rightarrow> user \<Rightarrow> (session, user) op" where
  "mark_verified now u = (let u' = u\<lparr>user_is_verified := True, user_updated_at := Aware now\<rparr> in
     bnd (db_save User u') (\<lambda>_. ret u'))"

definition normalize_datetime :: "datetime option \<Rightarrow> int option" where
  "normalize_datetime v = (case v of None \<Rightarrow> None | Some (Naive t) \<Rightarrow> Some t | Some (Aware t) \<Rightarrow> Some t)"

text \<open>The claims of an access token; \<open>exp\<close> is the time in seconds.\<close>

definition access_claims :: "settings \<Rightarrow> int \<Rightarrow> string \<Rightarrow> 'a user_scheme \<Rightarrow> payload" where
  "access_claims c now jti u = [
     (''sub'', JStr (show_int (user_id u))), (''jti'', JStr jti), (''email'', JStr (user_email u)),
     (''username'', JStr (user_username u)), (''is_superuser'', JBool (user_is_superuser u)),
     (''exp'', JFloat (real_of_int now / 1000000 + real_of_int (access_token_expire_minutes c * 60)))]"

definition create_access_token :: "crypto \<Rightarrow> settings \<Rightarrow> int \<Rightarrow> string \<Rightarrow> 'a user_scheme \<Rightarrow> string" where
  "create_access_token cr c now jti u = jwt_encode cr (access_claims c now jti u) (secret_key c) (algorithm c)"

section \<open>Login\<close>

definition dummy_password :: string where
  "dummy_password = ''not-a-real-password-used-only-for-timing''"

definition lockout :: int where
  "lockout = 15 * 60 * 1000000"

definition save_and_commit :: "user \<Rightarrow> (session, unit) op" where
  "save_and_commit u = bnd (db_save User u) (\<lambda>_. commit)"

definition after_failure :: "int \<Rightarrow> user \<Rightarrow> user" where
  "after_failure now u = (let n = user_failed_login_attempts u + 1 in
     if n \<ge> 5 then u\<lparr>user_failed_login_attempts := n, user_locked_until := Some (Aware (now + lockout))\<rparr>
     else u\<lparr>user_failed_login_attempts := n\<rparr>)"

definition after_success :: "user \<Rightarrow> user" where
  "after_success u = u\<lparr>user_failed_login_attempts := 0, user_locked_until := None\<rparr>"

definition is_locked :: "int \<Rightarrow> user \<Rightarrow> bool" where
  "is_locked now u \<longleftrightarrow> (case normalize_datetime (user_locked_until u) of None \<Rightarrow> False | Some t \<Rightarrow> t > now)"

definition authenticate :: "crypto \<Rightarrow> string \<Rightarrow> int \<Rightarrow> string \<Rightarrow> string \<Rightarrow> ('r app, user option) op" where
  "authenticate cr salt now email password =
     bnd (in_db (get_by_email email)) (\<lambda>found. case found of
       None \<Rightarrow>
         bnd (modify (\<lambda>s. if dummy_hash s = None then s\<lparr>dummy_hash := Some (hash_password cr salt dummy_password)\<rparr> else s)) (\<lambda>_.
         bnd (look (\<lambda>s. case dummy_hash s of None \<Rightarrow> [] | Some h \<Rightarrow> h)) (\<lambda>h.
         bnd (pure_op (verify_password cr password h)) (\<lambda>_.
         ret None)))
     | Some u \<Rightarrow>
         if is_locked now u then ret None
         else bnd (pure_op (verify_password cr password (user_hashed_password u))) (\<lambda>ok.
           if \<not> ok then bnd (in_db (save_and_commit (after_failure now u))) (\<lambda>_. ret None)
           else bnd (in_db (save_and_commit (after_success u))) (\<lambda>_. ret (Some (after_success u)))))"

section \<open>Lookups\<close>

text \<open>What the unique constraints keep: no two rows share an e-mail, a name or an id.\<close>

definition users_ok :: "session \<Rightarrow> bool" where
  "users_ok s \<longleftrightarrow> distinct (map user_id (users (work s))) \<and> distinct (map user_email (users (work s))) \<and>
     distinct (map user_username (users (work s)))"

lemma filter_unique:
  "distinct (map f xs) \<Longrightarrow> x \<in> set xs \<Longrightarrow> q x \<Longrightarrow> filter (\<lambda>y. f y = f x \<and> q y) xs = [x]"
proof (induction xs)
  case (Cons a xs)
  have none: "filter (\<lambda>y. f y = f a \<and> q y) xs = []"
  proof -
    have "f y \<noteq> f a" if "y \<in> set xs" for y
      using Cons.prems(1) that by (metis distinct.simps(2) image_eqI list.set_map list.simps(9))
    then show ?thesis by (simp add: filter_empty_conv)
  qed
  show ?case
  proof (cases "x = a")
    case True
    then show ?thesis using none Cons.prems(3) by simp
  next
    case False
    then have "f a \<noteq> f x" using Cons.prems by (auto simp: image_iff)
    then show ?thesis using Cons False by simp
  qed
qed simp

lemma get_by_email_found:
  assumes "users_ok s" "u \<in> set (users (work s))" "user_deleted_at u = None"
  shows "get_by_email (user_email u) s = (Inr (Some u), s)"
  using filter_unique [of user_email "users (work s)" u "\<lambda>y. user_deleted_at y = None"] assms
  by (simp add: get_by_email_def op_simps User_def users_ok_def one_or_none_def)

lemma get_by_email_Some:
  assumes "get_by_email email s = (Inr (Some u), t)"
  shows "u \<in> set (users (work s)) \<and> user_email u = email \<and> user_deleted_at u = None \<and> t = s"
proof -
  from assms have eq: "filter (\<lambda>u. user_email u = email \<and> user_deleted_at u = None) (users (work s)) = [u]" and "t = s"
    by (auto simp: get_by_email_def op_simps User_def one_or_none_Some)
  have "u \<in> set (filter (\<lambda>u. user_email u = email \<and> user_deleted_at u = None) (users (work s)))"
    by (simp add: eq)
  then show ?thesis using \<open>t = s\<close> by simp
qed

lemma get_by_email_None:
  assumes "get_by_email email s = (Inr None, t)"
  shows "\<forall>u \<in> set (users (work s)). user_email u = email \<longrightarrow> user_deleted_at u \<noteq> None" "t = s"
  using assms by (auto simp: get_by_email_def op_simps User_def one_or_none_None filter_empty_conv)

lemma get_by_email_ok: "users_ok s \<Longrightarrow> \<exists>r. get_by_email email s = (Inr r, s)"
proof (cases "\<exists>u \<in> set (users (work s)). user_email u = email \<and> user_deleted_at u = None")
  case True
  assume "users_ok s"
  with True show ?thesis using get_by_email_found by blast
next
  case False
  then have "filter (\<lambda>u. user_email u = email \<and> user_deleted_at u = None) (users (work s)) = []"
    by (auto simp: filter_empty_conv)
  then show ?thesis by (simp add: get_by_email_def op_simps User_def one_or_none_def)
qed

section \<open>Saving a row that keeps its identity\<close>

definition put_user :: "user \<Rightarrow> session \<Rightarrow> session" where
  "put_user u s = s\<lparr>work := (work s)\<lparr>users := replace_row user_id u (users (work s))\<rparr>\<rparr>"

definition same_identity :: "user \<Rightarrow> user \<Rightarrow> bool" where
  "same_identity u u' \<longleftrightarrow> user_id u' = user_id u \<and> user_email u' = user_email u \<and>
     user_username u' = user_username u \<and> user_deleted_at u' = user_deleted_at u"

lemma distinct_replace_row:
  assumes "distinct (map kf rows)" "r \<in> set rows" "kf r' = kf r" "distinct (map f rows)" "f r' = f r"
  shows "distinct (map f (replace_row kf r' rows))"
proof -
  have "map f (replace_row kf r' rows) = map f rows"
    unfolding replace_row_def using assms by (auto simp: distinct_map inj_on_def)
  then show ?thesis using assms(4) by simp
qed

lemma put_user_ok:
  assumes "users_ok s" "u \<in> set (users (work s))" "same_identity u u'"
  shows "users_ok (put_user u' s)" "u' \<in> set (users (work (put_user u' s)))"
  using assms distinct_replace_row [of user_id "users (work s)" u u']
  by (auto simp: users_ok_def put_user_def same_identity_def set_replace_row)

lemma save_user:
  assumes "users_ok s" "u \<in> set (users (work s))" "same_identity u u'"
  shows "db_save User u' s = (Inr (), put_user u' s)"
proof -
  have "\<not> violates User s u' (filter (\<lambda>x. user_id x \<noteq> user_id u') (users (work s)))"
    using assms by (auto simp: violates_def User_def users_ok_def same_identity_def distinct_map inj_on_def)
  then show ?thesis by (simp add: db_save_def put_user_def User_def Let_def)
qed

lemma save_and_commit_user:
  assumes "users_ok s" "u \<in> set (users (work s))" "same_identity u u'"
  shows "save_and_commit u' s = (Inr (), (put_user u' s)\<lparr>stored := work (put_user u' s)\<rparr>)"
  by (simp add: save_and_commit_def bnd_apply save_user [OF assms] commit_apply)

text \<open>The row under which a login looks: the one live row with the e-mail.\<close>

definition account :: "'r app \<Rightarrow> user \<Rightarrow> bool" where
  "account s u \<longleftrightarrow> users_ok (sess s) \<and> u \<in> set (users (work (sess s))) \<and> user_deleted_at u = None"

definition commit_user :: "user \<Rightarrow> 'r app \<Rightarrow> 'r app" where
  "commit_user u s = s\<lparr>sess := (put_user u (sess s))\<lparr>stored := work (put_user u (sess s))\<rparr>\<rparr>"

lemma commit_user_account:
  assumes "account s u" "same_identity u u'"
  shows "account (commit_user u' s) u'"
  using put_user_ok [of "sess s" u u'] assms
  by (auto simp: account_def commit_user_def users_ok_def same_identity_def)

lemma commit_user_stored: "u' \<in> set (users (work (sess (commit_user u' s)))) \<Longrightarrow>
    u' \<in> set (users (stored (sess (commit_user u' s))))"
  by (simp add: commit_user_def)

lemma after_failure_identity: "same_identity u (after_failure now u)"
  by (simp add: same_identity_def after_failure_def Let_def)

lemma after_success_identity: "same_identity u (after_success u)"
  by (simp add: same_identity_def after_success_def)

lemma authenticate_fails:
  assumes "account s u" "\<not> is_locked now u" "verify_password cr pw (user_hashed_password u) = Inr False"
  shows "authenticate cr salt now (user_email u) pw s = (Inr None, commit_user (after_failure now u) s)"
proof -
  have "get_by_email (user_email u) (sess s) = (Inr (Some u), sess s)"
    using assms(1) get_by_email_found by (simp add: account_def)
  moreover have "save_and_commit (after_failure now u) (sess s) =
      (Inr (), (put_user (after_failure now u) (sess s))\<lparr>stored := work (put_user (after_failure now u) (sess s))\<rparr>)"
    using assms(1) save_and_commit_user [OF _ _ after_failure_identity] by (simp add: account_def)
  ultimately show ?thesis
    using assms(2,3) by (simp add: authenticate_def bnd_apply in_db_apply pure_op_apply ret_apply commit_user_def)
qed

lemma authenticate_succeeds:
  assumes "account s u" "\<not> is_locked now u" "verify_password cr pw (user_hashed_password u) = Inr True"
  shows "authenticate cr salt now (user_email u) pw s = (Inr (Some (after_success u)), commit_user (after_success u) s)"
proof -
  have "get_by_email (user_email u) (sess s) = (Inr (Some u), sess s)"
    using assms(1) get_by_email_found by (simp add: account_def)
  moreover have "save_and_commit (after_success u) (sess s) =
      (Inr (), (put_user (after_success u) (sess s))\<lparr>stored := work (put_user (after_success u) (sess s))\<rparr>)"
    using assms(1) save_and_commit_user [OF _ _ after_success_identity] by (simp add: account_def)
  ultimately show ?thesis
    using assms(2,3) by (simp add: authenticate_def bnd_apply in_db_apply pure_op_apply ret_apply commit_user_def)
qed

lemma authenticate_locked:
  assumes "account s u" "is_locked now u"
  shows "authenticate cr salt now (user_email u) pw s = (Inr None, s)"
proof -
  have "get_by_email (user_email u) (sess s) = (Inr (Some u), sess s)"
    using assms(1) get_by_email_found by (simp add: account_def)
  then show ?thesis
    using assms(2) by (simp add: authenticate_def bnd_apply in_db_apply ret_apply)
qed

section \<open>The lockout\<close>

text \<open>Logins one after another, each with its time and password.\<close>

fun logins :: "crypto \<Rightarrow> string \<Rightarrow> string \<Rightarrow> (int \<times> string) list \<Rightarrow> 'r app \<Rightarrow> 'r app" where
  "logins cr salt email [] s = s"
| "logins cr salt email ((now, pw) # as) s = logins cr salt email as (snd (authenticate cr salt now email pw s))"

lemma logins_below_five:
  assumes "account s u" "user_locked_until u = None" "user_failed_login_attempts u + int (length as) < 5"
    and "\<forall>(now, pw) \<in> set as. verify_password cr pw (user_hashed_password u) = Inr False"
  shows "\<exists>u'. account (logins cr salt (user_email u) as s) u' \<and>
    u' = u\<lparr>user_failed_login_attempts := user_failed_login_attempts u + int (length as)\<rparr>"
  using assms
proof (induction as arbitrary: s u)
  case Nil
  then show ?case by simp
next
  case (Cons a as)
  obtain now pw where a: "a = (now, pw)" by (cases a)
  let ?u = "after_failure now u"
  have u: "?u = u\<lparr>user_failed_login_attempts := user_failed_login_attempts u + 1\<rparr>"
    using Cons.prems(3) by (simp add: after_failure_def Let_def)
  have step: "authenticate cr salt now (user_email u) pw s = (Inr None, commit_user ?u s)"
    using Cons.prems by (intro authenticate_fails) (auto simp: a is_locked_def normalize_datetime_def)
  have "account (commit_user ?u s) ?u"
    using commit_user_account [OF Cons.prems(1) after_failure_identity] .
  from Cons.IH [OF this] show ?case
    using Cons.prems by (simp add: a step u add.assoc)
qed

text \<open>
  Property C6. Five logins in a row with a wrong password lock the account: for the fifteen
  minutes after the fifth, every login with its e-mail fails and changes nothing, even with the
  right password; and the counter and the lock are committed, so that the rollback of the failed
  request does not undo them.
\<close>

theorem five_failures_lock:
  assumes "account s u" and "user_locked_until u = None" and "user_failed_login_attempts u = 0"
    and "length as = 4"
    and "\<forall>(now, pw) \<in> set (as @ [(t5, pw5)]). verify_password cr pw (user_hashed_password u) = Inr False"
    and "now < t5 + lockout"
  shows "\<exists>s' u'. s' = logins cr salt (user_email u) (as @ [(t5, pw5)]) s \<and>
    authenticate cr salt now (user_email u) pw s' = (Inr None, s') \<and>
    u' \<in> set (users (stored (sess s'))) \<and> user_id u' = user_id u \<and> user_failed_login_attempts u' = 5 \<and>
    user_locked_until u' = Some (Aware (t5 + lockout))"
proof -
  let ?s4 = "logins cr salt (user_email u) as s"
  let ?u4 = "u\<lparr>user_failed_login_attempts := 4\<rparr>"
  let ?u5 = "after_failure t5 ?u4"
  have 4: "account ?s4 ?u4"
    using logins_below_five [OF assms(1,2), of as cr salt] assms(3-5) by simp
  have step: "authenticate cr salt t5 (user_email u) pw5 ?s4 = (Inr None, commit_user ?u5 ?s4)"
    using authenticate_fails [OF 4, of t5 cr pw5 salt] assms(2,5) by (simp add: is_locked_def normalize_datetime_def)
  have split: "logins cr salt (user_email u) (as @ [(t5, pw5)]) s = commit_user ?u5 ?s4"
    using step by (induction as arbitrary: s) auto
  have 5: "account (commit_user ?u5 ?s4) ?u5" by (rule commit_user_account [OF 4 after_failure_identity])
  have u5: "?u5 = u\<lparr>user_failed_login_attempts := 5, user_locked_until := Some (Aware (t5 + lockout))\<rparr>"
    by (simp add: after_failure_def Let_def)
  then have "is_locked now ?u5" using assms(6) by (simp add: is_locked_def normalize_datetime_def)
  then have "authenticate cr salt now (user_email u) pw (commit_user ?u5 ?s4) = (Inr None, commit_user ?u5 ?s4)"
    using authenticate_locked [OF 5] u5 by simp
  moreover have "?u5 \<in> set (users (stored (sess (commit_user ?u5 ?s4))))"
    using 5 by (intro commit_user_stored) (simp add: account_def)
  ultimately show ?thesis using split u5 by auto
qed

section \<open>A small instance for the witnesses\<close>

definition demo_crypto :: crypto where
  "demo_crypto = \<lparr>bcrypt = Some \<lparr>hashpw = (\<lambda>p salt. p), checkpw = (\<lambda>p h. Inr (p = h))\<rparr>,
     pbkdf2_hex = (\<lambda>p salt n. p @ salt), jwt_encode = (\<lambda>claims k alg. ''token''),
     jwt_decode = (\<lambda>now token k alg. if token = ''token'' then Some [(''sub'', JStr ''7''), (''jti'', JStr ''j1'')] else None),
     jwt_unverified = (\<lambda>token. Inr [(''sub'', JStr ''7''), (''jti'', JStr ''j1'')]), py_repr = (\<lambda>v. [])\<rparr>"

definition demo_user :: user where
  "demo_user = \<lparr>user_id = 7, user_email = ''a@b.c'', user_username = ''ann'', user_hashed_password = ''pw'',
     user_is_active = True, user_is_verified = True, user_is_superuser = False,
     user_failed_login_attempts = 0, user_locked_until = None, user_role = ''user'',
     user_permissions = Some [], user_created_at = Aware 0, user_updated_at = Aware 0, user_deleted_at = None\<rparr>"

definition demo_app :: "db \<Rightarrow> (string \<Rightarrow> pyval option) app" where
  "demo_app d = \<lparr>sess = \<lparr>work = d, stored = d, fk_on = False\<rparr>,
     toks = \<lparr>redis = Map.empty, mem = \<lambda>_ _. None\<rparr>, lim = new_limiter, lim_counts = new_metrics,
     idem = Map.empty, jobs = [], conf = default_settings, dummy_hash = None, rbac_seeded = False,
     billing_seeded = False, mail_service = new_mailer, emitted = []\<rparr>"

lemma crypto_ok_demo: "crypto_ok demo_crypto"
  by (simp add: crypto_ok_def demo_crypto_def)

lemma account_demo: "account (demo_app (empty_db\<lparr>users := [demo_user]\<rparr>)) demo_user"
  by (simp add: account_def demo_app_def users_ok_def demo_user_def)

theorem five_failures_lock_witness:
  "\<exists>s'. s' = logins demo_crypto [] ''a@b.c'' [(1, ''x''), (2, ''x''), (3, ''x''), (4, ''x''), (5, ''x'')]
      (demo_app (empty_db\<lparr>users := [demo_user]\<rparr>)) \<and>
    authenticate demo_crypto [] 6 ''a@b.c'' ''pw'' s' = (Inr None, s')"
proof -
  have "\<exists>s' u'. s' = logins demo_crypto [] (user_email demo_user) ([(1, ''x''), (2, ''x''), (3, ''x''), (4, ''x'')] @ [(5, ''x'')])
      (demo_app (empty_db\<lparr>users := [demo_user]\<rparr>)) \<and>
    authenticate demo_crypto [] 6 (user_email demo_user) ''pw'' s' = (Inr None, s') \<and>
    u' \<in> set (users (stored (sess s'))) \<and> user_id u' = user_id demo_user \<and> user_failed_login_attempts u' = 5 \<and>
    user_locked_until u' = Some (Aware (5 + lockout))"
    by (rule five_failures_lock [OF account_demo])
      (simp_all add: demo_user_def demo_crypto_def verify_password_def lockout_def)
  then show ?thesis by (auto simp: demo_user_def)
qed

end
