(* ===== verification/ApiKeys.thy ===== *)
theory ApiKeys
  imports Users
begin

text \<open>
  \<open>backend/domain/api_keys/\<close> (repository and service), \<open>backend/application/api_keys/use_cases.py\<close>
  and \<open>backend/app/api/v1/api_keys/router.py\<close>. The secret and the salt that the code draws are
  arguments. \<open>datetime.now()\<close> is naive, \<open>datetime.now(timezone.utc)\<close> aware.
\<close>

section \<open>ApiKeyRepository\<close>

definition get_by_prefix :: "string \<Rightarrow> (session, api_key option) op" where
  "get_by_prefix prefix = bnd (select ApiKey (\<lambda>k. apikey_key_prefix k = prefix)) (\<lambda>result.
     pure_op (one_or_none result))"

definition list_for_owner :: "int \<Rightarrow> nat \<Rightarrow> nat \<Rightarrow> (session, api_key list) op" where
  "list_for_owner owner_id skip limit =
     bnd (select ApiKey (\<lambda>k. apikey_owner_id k = owner_id \<and> apikey_revoked_at k = None)) (\<lambda>rows.
     ret (page_of skip limit rows))"

definition revoke_key_row :: "int \<Rightarrow> api_key \<Rightarrow> (session, unit) op" where
  "revoke_key_row now k = db_save ApiKey (k\<lparr>apikey_revoked_at := Some (Naive now)\<rparr>)"

definition touch_last_used :: "int \<Rightarrow> api_key \<Rightarrow> (session, api_key) op" where
  "touch_last_used now k = (let k' = k\<lparr>apikey_last_used_at := Some (Naive now)\<rparr> in
     bnd (db_save ApiKey k') (\<lambda>_. ret k'))"

section \<open>ApiKeyService\<close>

definition new_api_key :: "crypto \<Rightarrow> string \<Rightarrow> int \<Rightarrow> string \<Rightarrow> int \<Rightarrow> string \<Rightarrow> string list \<Rightarrow> datetime option \<Rightarrow> api_key" where
  "new_api_key cr salt now raw_secret owner_id name scopes expires_at = \<lparr>
     apikey_id = 0, apikey_owner_id = owner_id, apikey_name = name,
     apikey_key_prefix = take 8 raw_secret, apikey_hashed_secret = hash_password cr salt raw_secret,
     apikey_scopes = scopes, apikey_expires_at = expires_at, apikey_last_used_at = None,
     apikey_revoked_at = None, apikey_created_at = Aware now\<rparr>"

definition issue :: "crypto \<Rightarrow> string \<Rightarrow> int \<Rightarrow> string \<Rightarrow> int \<Rightarrow> string \<Rightarrow> string list \<Rightarrow> datetime option \<Rightarrow>
    (session, api_key \<times> string) op" where
  "issue cr salt now raw_secret owner_id name scopes expires_at =
     bnd (db_insert ApiKey (new_api_key cr salt now raw_secret owner_id name scopes expires_at)) (\<lambda>k.
     ret (k, raw_secret))"

text \<open>The check of the secret; a malformed PBKDF2 text counts as a mismatch.\<close>

definition verify_secret :: "crypto \<Rightarrow> string \<Rightarrow> string \<Rightarrow> exn + bool" where
  "verify_secret cr raw hashed = (case bcrypt cr of
     Some b \<Rightarrow> checkpw b raw hashed
   | None \<Rightarrow> (case verify_password cr raw hashed of Inl e \<Rightarrow> Inr False | Inr ok \<Rightarrow> Inr ok))"

definition is_expired :: "int \<Rightarrow> api_key \<Rightarrow> exn + bool" where
  "is_expired now k = (case apikey_expires_at k of None \<Rightarrow> Inr False | Some t \<Rightarrow> dt_le t (Aware now))"

definition authenticate_key :: "crypto \<Rightarrow> int \<Rightarrow> string \<Rightarrow> (session, api_key option) op" where
  "authenticate_key cr now raw_key =
     bnd (get_by_prefix (take 8 raw_key)) (\<lambda>found. case found of
       None \<Rightarrow> ret None
     | Some k \<Rightarrow>
         if apikey_revoked_at k \<noteq> None then ret None
         else bnd (pure_op (is_expired now k)) (\<lambda>expired.
           if expired then ret None
           else bnd (pure_op (verify_secret cr raw_key (apikey_hashed_secret k))) (\<lambda>ok.
             if \<not> ok then ret None
             else bnd (touch_last_used now k) (\<lambda>k'. ret (Some k')))))"

section \<open>Use cases and router\<close>

definition issue_key :: "crypto \<Rightarrow> string \<Rightarrow> int \<Rightarrow> string \<Rightarrow> principal \<Rightarrow> string \<Rightarrow> string list \<Rightarrow> datetime option \<Rightarrow>
    ('r app, api_key \<times> string) op" where
  "issue_key cr salt now raw_secret owner name scopes expires_at =
     bnd (in_db (issue cr salt now raw_secret (user_id owner) name scopes expires_at)) (\<lambda>(k, raw).
     bnd (audit_log (user_actor owner) ''api_key.created'' ''api_keys''
       (JObj [(''api_key_id'', JInt (apikey_id k))]) None None True now) (\<lambda>_.
     ret (k, raw)))"

definition list_keys :: "principal \<Rightarrow> ('r app, api_key list) op" where
  "list_keys owner = in_db (list_for_owner (user_id owner) 0 100)"

definition revoke_key :: "int \<Rightarrow> int \<Rightarrow> principal \<Rightarrow> ('r app, unit) op" where
  "revoke_key now key_id owner =
     bnd (in_db (get_by_id ApiKey key_id)) (\<lambda>found. case found of
       None \<Rightarrow> throw (ValueError ''api key not found'')
     | Some k \<Rightarrow>
         if apikey_owner_id k \<noteq> user_id owner then throw (ValueError ''api key not found'')
         else bnd (in_db (revoke_key_row now k)) (\<lambda>_.
           audit_log (user_actor owner) ''api_key.revoked'' ''api_keys''
             (JObj [(''api_key_id'', JInt (apikey_id k))]) None None True now))"

text \<open>
  The routes, for the user that \<open>get_current_active_user\<close> gave. A key's public view leaves out
  the hash.
\<close>

record api_key_out =
  ko_id :: int
  ko_owner_id :: int
  ko_name :: string
  ko_key_prefix :: string
  ko_scopes :: "string list"
  ko_expires_at :: "datetime option"
  ko_last_used_at :: "datetime option"
  ko_revoked_at :: "datetime option"
  ko_created_at :: datetime

definition key_out :: "api_key \<Rightarrow> api_key_out" where
  "key_out k = \<lparr>ko_id = apikey_id k, ko_owner_id = apikey_owner_id k, ko_name = apikey_name k,
     ko_key_prefix = apikey_key_prefix k, ko_scopes = apikey_scopes k, ko_expires_at = apikey_expires_at k,
     ko_last_used_at = apikey_last_used_at k, ko_revoked_at = apikey_revoked_at k, ko_created_at = apikey_created_at k\<rparr>"

definition create_api_key_route :: "crypto \<Rightarrow> string \<Rightarrow> int \<Rightarrow> string \<Rightarrow> principal \<Rightarrow> string \<Rightarrow> string list \<Rightarrow> datetime option \<Rightarrow>
    ('r app, api_key_out \<times> string) op" where
  "create_api_key_route cr salt now raw_secret current_user name scopes expires_at =
     http_errors (bnd (issue_key cr salt now raw_secret current_user name scopes expires_at) (\<lambda>(k, raw).
       ret (key_out k, raw)))"

definition list_api_keys_route :: "principal \<Rightarrow> ('r app, api_key_out list) op" where
  "list_api_keys_route current_user = bnd (list_keys current_user) (\<lambda>ks. ret (map key_out ks))"

definition revoke_api_key_route :: "int \<Rightarrow> int \<Rightarrow> principal \<Rightarrow> ('r app, unit) op" where
  "revoke_api_key_route now key_id current_user =
     try_except (revoke_key now key_id current_user) (\<lambda>e. case e of
       ValueError m \<Rightarrow> throw (HTTPException 404 (DetailText m))
     | DomainError d \<Rightarrow> throw (to_http_exception d)
     | _ \<Rightarrow> throw e)"

section \<open>Correctness\<close>

text \<open>A stored key for the witnesses.\<close>

definition demo_key :: api_key where
  "demo_key = \<lparr>apikey_id = 1, apikey_owner_id = 7, apikey_name = ''ci'', apikey_key_prefix = ''secret12'',
     apikey_hashed_secret = ''secret123'', apikey_scopes = [''a''], apikey_expires_at = None,
     apikey_last_used_at = None, apikey_revoked_at = None, apikey_created_at = Aware 0\<rparr>"

lemma verify_own_secret:
  assumes "crypto_ok cr" "CHR ''$'' \<notin> set salt"
  shows "verify_secret cr raw (hash_password cr salt raw) = Inr True"
proof (cases "bcrypt cr")
  case None
  then show ?thesis using verify_own_hash [OF assms, of raw] by (simp add: verify_secret_def)
next
  case (Some b)
  then show ?thesis using assms(1) by (simp add: verify_secret_def hash_password_def crypto_ok_def)
qed

lemma get_by_prefix_Some:
  assumes "get_by_prefix p s = (Inr (Some k), t)"
  shows "k \<in> set (api_keys (work s)) \<and> apikey_key_prefix k = p \<and> t = s"
proof -
  from assms have eq: "filter (\<lambda>k. apikey_key_prefix k = p) (api_keys (work s)) = [k]" and "t = s"
    by (auto simp: get_by_prefix_def op_simps ApiKey_def one_or_none_Some)
  have "k \<in> set (filter (\<lambda>k. apikey_key_prefix k = p) (api_keys (work s)))" by (simp add: eq)
  then show ?thesis using \<open>t = s\<close> by simp
qed

lemma touch_rows:
  assumes "touch_last_used now k s = (Inr k', t)"
  shows "k' = k\<lparr>apikey_last_used_at := Some (Naive now)\<rparr> \<and>
    api_keys (work t) = replace_row apikey_id k' (api_keys (work s)) \<and> users (work t) = users (work s)"
proof -
  obtain u where *: "db_save ApiKey (k\<lparr>apikey_last_used_at := Some (Naive now)\<rparr>) s = (Inr u, t)"
      "k' = k\<lparr>apikey_last_used_at := Some (Naive now)\<rparr>"
    using assms by (auto simp: touch_last_used_def Let_def ret_apply elim!: bnd_InrE)
  have "mc_rows ApiKey (work t) = replace_row (mc_id ApiKey) (k\<lparr>apikey_last_used_at := Some (Naive now)\<rparr>) (mc_rows ApiKey (work s))"
    by (rule api_keys.save_rows [OF *(1)])
  moreover have "users (work t) = users (work s)" using db_save_InrD(1) [OF *(1)] by (simp add: ApiKey_def)
  ultimately show ?thesis using *(2) by (simp add: ApiKey_def)
qed

lemma authenticate_keyD:
  assumes "authenticate_key cr now raw s = (Inr (Some k'), t)"
  shows "\<exists>k \<in> set (api_keys (work s)). k' = k\<lparr>apikey_last_used_at := Some (Naive now)\<rparr> \<and>
    apikey_key_prefix k = take 8 raw \<and> apikey_revoked_at k = None \<and>
    (\<forall>e. apikey_expires_at k = Some (Aware e) \<longrightarrow> now < e) \<and>
    verify_secret cr raw (apikey_hashed_secret k) = Inr True \<and>
    api_keys (work t) = replace_row apikey_id k' (api_keys (work s)) \<and> users (work t) = users (work s)"
proof -
  obtain found s1 where g: "get_by_prefix (take 8 raw) s = (Inr found, s1)"
    and rest: "(case found of None \<Rightarrow> ret None | Some k \<Rightarrow> if apikey_revoked_at k \<noteq> None then ret None
         else bnd (pure_op (is_expired now k)) (\<lambda>expired. if expired then ret None
           else bnd (pure_op (verify_secret cr raw (apikey_hashed_secret k))) (\<lambda>ok. if \<not> ok then ret None
             else bnd (touch_last_used now k) (\<lambda>k'. ret (Some k'))))) s1 = (Inr (Some k'), t)"
    using assms unfolding authenticate_key_def by (rule bnd_InrE)
  obtain k where k: "found = Some k" using rest by (cases found) (auto simp: ret_apply)
  have in_s: "k \<in> set (api_keys (work s))" "apikey_key_prefix k = take 8 raw" "s1 = s"
    using get_by_prefix_Some g k by auto
  have checks: "apikey_revoked_at k = None" "is_expired now k = Inr False"
      "verify_secret cr raw (apikey_hashed_secret k) = Inr True"
    and touch: "touch_last_used now k s = (Inr k', t)"
    using rest k in_s(3)
    by (auto simp: op_simps ret_apply pure_op_apply bnd_apply split: if_splits sum.splits prod.splits)
  have "now < e" if "apikey_expires_at k = Some (Aware e)" for e
    using checks(2) that by (simp add: is_expired_def)
  then show ?thesis using in_s checks touch_rows [OF touch] by blast
qed

text \<open>
  Property C13. Authentication is sound: the key returned is a stored key whose prefix is the
  first eight characters of the presented one, that is neither revoked nor expired and whose
  hash accepts the presented secret; only its \<open>last_used_at\<close> changes.
\<close>

theorem authenticate_key_sound:
  assumes "authenticate_key cr now raw s = (Inr (Some k'), t)"
  shows "\<exists>k \<in> set (api_keys (work s)). k' = k\<lparr>apikey_last_used_at := Some (Naive now)\<rparr> \<and>
    apikey_key_prefix k = take 8 raw \<and> apikey_revoked_at k = None \<and>
    (\<forall>e. apikey_expires_at k = Some (Aware e) \<longrightarrow> now < e) \<and>
    verify_secret cr raw (apikey_hashed_secret k) = Inr True \<and>
    api_keys (work t) = replace_row apikey_id k' (api_keys (work s))"
  using authenticate_keyD [OF assms] by blast

text \<open>
  Property C31. A key that was just issued authenticates with the secret it was issued with, when
  no other stored key has its prefix and it has no expiry or one in the future; the key found is
  the issued row, with its owner and its scopes.
\<close>

theorem issued_key_authenticates:
  assumes "crypto_ok cr" and "CHR ''$'' \<notin> set salt"
    and "issue cr salt t0 raw owner name scopes expires s = (Inr (k, raw'), s')"
    and "\<forall>x \<in> set (api_keys (work s)). apikey_key_prefix x \<noteq> take 8 raw"
    and "distinct (map apikey_id (api_keys (work s)))"
    and "expires = None \<or> (\<exists>e. expires = Some (Aware e) \<and> now < e)"
  shows "raw' = raw \<and> (\<exists>k' s''. authenticate_key cr now raw' s' = (Inr (Some k'), s'') \<and>
    apikey_id k' = apikey_id k \<and> apikey_owner_id k' = owner \<and> apikey_scopes k' = scopes)"
proof -
  let ?new = "new_api_key cr salt t0 raw owner name scopes expires"
  have ins: "db_insert ApiKey ?new s = (Inr k, s')" and raw: "raw' = raw"
    using assms(3) by (auto simp: issue_def ret_apply elim!: bnd_InrE)
  have rows: "api_keys (work s') = api_keys (work s) @ [k]"
    using api_keys.insert_rows(1) [OF ins] by (simp add: ApiKey_def)
  have fresh: "apikey_id k \<notin> apikey_id ` set (api_keys (work s))"
    using api_keys.insert_rows(2) [OF ins] by (simp add: ApiKey_def)
  have refs: "\<not> violates ApiKey s k (api_keys (work s))" and s': "s' = s\<lparr>work := (work s)\<lparr>api_keys := api_keys (work s) @ [k]\<rparr>\<rparr>"
    using db_insert_InrD [OF ins] by (simp_all add: ApiKey_def)
  obtain i where k: "k = ?new\<lparr>apikey_id := i\<rparr>"
    using db_insert_InrD(1) [OF ins] by (simp add: ApiKey_def)
  have "filter (\<lambda>x. apikey_key_prefix x = take 8 raw) (api_keys (work s')) = [k]"
    using assms(4) by (simp add: rows k new_api_key_def filter_empty_conv)
  then have g: "get_by_prefix (take 8 raw) s' = (Inr (Some k), s')"
    by (simp add: get_by_prefix_def op_simps ApiKey_def one_or_none_def)
  have ver: "verify_secret cr raw (apikey_hashed_secret k) = Inr True"
    using verify_own_secret [OF assms(1,2)] by (simp add: k new_api_key_def)
  have exp: "is_expired now k = Inr False" "apikey_revoked_at k = None"
    using assms(6) by (auto simp: is_expired_def k new_api_key_def)
  let ?k' = "k\<lparr>apikey_last_used_at := Some (Naive now)\<rparr>"
  have "\<not> violates ApiKey s' ?k' (filter (\<lambda>x. apikey_id x \<noteq> apikey_id ?k') (api_keys (work s')))"
    using refs by (auto simp: violates_def ApiKey_def s' has_user_def)
  then obtain s'' where "touch_last_used now k s' = (Inr ?k', s'')"
    by (auto simp: touch_last_used_def db_save_def bnd_apply ret_apply ApiKey_def Let_def)
  then have "authenticate_key cr now raw s' = (Inr (Some ?k'), s'')"
    using g ver exp by (simp add: authenticate_key_def bnd_apply pure_op_apply ret_apply)
  then show ?thesis using raw by (auto simp: k new_api_key_def)
qed

theorem authenticate_key_sound_witness:
  "\<exists>k \<in> set [demo_key]. k\<lparr>apikey_last_used_at := Some (Naive 5)\<rparr> = demo_key\<lparr>apikey_last_used_at := Some (Naive 5)\<rparr> \<and>
    apikey_key_prefix k = ''secret12'' \<and> apikey_revoked_at k = None"
proof -
  have "authenticate_key demo_crypto 5 ''secret123'' \<lparr>work = empty_db\<lparr>api_keys := [demo_key]\<rparr>, stored = empty_db, fk_on = False\<rparr>
      = (Inr (Some (demo_key\<lparr>apikey_last_used_at := Some (Naive 5)\<rparr>)),
         \<lparr>work = empty_db\<lparr>api_keys := [demo_key\<lparr>apikey_last_used_at := Some (Naive 5)\<rparr>]\<rparr>, stored = empty_db, fk_on = False\<rparr>)"
    by (simp add: authenticate_key_def get_by_prefix_def ApiKey_def demo_key_def one_or_none_def bnd_apply
        is_expired_def verify_secret_def demo_crypto_def touch_last_used_def db_save_def violates_def
        replace_row_def select_def op_simps Let_def)
  from authenticate_key_sound [OF this] show ?thesis by auto
qed

theorem issued_key_authenticates_witness:
  "\<exists>k s'. issue demo_crypto ''salt'' 1 ''secret123'' 7 ''ci'' [''a''] None
      \<lparr>work = empty_db, stored = empty_db, fk_on = False\<rparr> = (Inr (k, ''secret123''), s') \<and>
    (\<exists>k' s''. authenticate_key demo_crypto 5 ''secret123'' s' = (Inr (Some k'), s'') \<and> apikey_owner_id k' = 7)"
proof -
  obtain k s' where i: "issue demo_crypto ''salt'' 1 ''secret123'' 7 ''ci'' [''a''] None
      \<lparr>work = empty_db, stored = empty_db, fk_on = False\<rparr> = (Inr (k, ''secret123''), s')"
    by (simp add: issue_def db_insert_def violates_def ApiKey_def empty_db_def bnd_apply ret_apply Let_def)
  from issued_key_authenticates [OF crypto_ok_demo _ i, of 5] show ?thesis
    using i by (auto simp: empty_db_def)
qed

end
