(* ===== verification/Rbac.thy ===== *)
theory Rbac
  imports Users
begin

text \<open>
  \<open>backend/domain/rbac/service.py\<close> (\<open>RbacService\<close>, with its process-wide flag of the seed), the
  dependencies of \<open>backend/core/security/rbac.py\<close>, and the routes of
  \<open>backend/app/api/v1/rbac/router.py\<close>. The acting user is a \<open>principal\<close>: the row, and the scopes
  of the API key the request carried, if any.
\<close>

section \<open>Seed data\<close>

definition seed_roles :: "role list" where
  "seed_roles = [
     \<lparr>role_id = 0, role_key = ''user'', role_name = ''User'', role_description = Some ''Default user role'', role_is_system = True\<rparr>,
     \<lparr>role_id = 0, role_key = ''staff'', role_name = ''Staff'', role_description = Some ''Staff role'', role_is_system = True\<rparr>,
     \<lparr>role_id = 0, role_key = ''admin'', role_name = ''Admin'', role_description = Some ''Administrative role'', role_is_system = True\<rparr>]"

definition new_permission :: "string \<Rightarrow> string \<Rightarrow> string option \<Rightarrow> permission" where
  "new_permission k name description = \<lparr>perm_id = 0, perm_key = k, perm_name = name, perm_description = description\<rparr>"

definition seed_permissions :: "permission list" where
  "seed_permissions = [new_permission ''rbac.manage'' ''Manage RBAC'' None,
     new_permission ''billing.manage'' ''Manage Billing'' None,
     new_permission ''system.billing_toggle'' ''Toggle Billing System'' None,
     new_permission ''audit.view'' ''View Audit Logs'' None]"

definition seed_role :: "role \<Rightarrow> (session, unit) op" where
  "seed_role r = bnd (scalar Role (\<lambda>x. role_key x = role_key r)) (\<lambda>existing.
     if existing = None then bnd (db_insert Role r) (\<lambda>_. ret ()) else ret ())"

definition seed_permission :: "permission \<Rightarrow> (session, unit) op" where
  "seed_permission p = bnd (scalar Permission (\<lambda>x. perm_key x = perm_key p)) (\<lambda>existing.
     if existing = None then bnd (db_insert Permission p) (\<lambda>_. ret ()) else ret ())"

definition ensure_seed_data :: "('r app, unit) op" where
  "ensure_seed_data = bnd (look rbac_seeded) (\<lambda>done.
     if done then ret ()
     else bnd (in_db (for_each seed_roles seed_role)) (\<lambda>_.
       bnd (in_db (for_each seed_permissions seed_permission)) (\<lambda>_.
       modify (\<lambda>s. s\<lparr>rbac_seeded := True\<rparr>))))"

section \<open>RbacService\<close>

definition create_role :: "string \<Rightarrow> string \<Rightarrow> string option \<Rightarrow> ('r app, role) op" where
  "create_role k name description =
     bnd ensure_seed_data (\<lambda>_.
     bnd (in_db (scalar Role (\<lambda>r. role_key r = k))) (\<lambda>existing. case existing of
       Some r \<Rightarrow> ret r
     | None \<Rightarrow> in_db (bnd (db_insert Role \<lparr>role_id = 0, role_key = k, role_name = name,
           role_description = description, role_is_system = False\<rparr>) (\<lambda>r.
         bnd commit (\<lambda>_. ret r)))))"

definition ensure_permission :: "string \<Rightarrow> string option \<Rightarrow> ('r app, permission) op" where
  "ensure_permission k name =
     bnd ensure_seed_data (\<lambda>_.
     bnd (in_db (scalar Permission (\<lambda>p. perm_key p = k))) (\<lambda>existing. case existing of
       Some p \<Rightarrow> ret p
     | None \<Rightarrow> in_db (bnd (db_insert Permission
           (new_permission k (case name of Some n \<Rightarrow> if n \<noteq> [] then n else k | None \<Rightarrow> k) None)) (\<lambda>p.
         bnd commit (\<lambda>_. ret p)))))"

definition list_roles :: "('r app, role list) op" where
  "list_roles = bnd ensure_seed_data (\<lambda>_.
     bnd (in_db (select Role (\<lambda>_. True))) (\<lambda>rows. ret (sort_key role_id rows)))"

definition create_permission :: "string \<Rightarrow> string \<Rightarrow> string option \<Rightarrow> ('r app, permission) op" where
  "create_permission k name description =
     bnd ensure_seed_data (\<lambda>_.
     bnd (in_db (scalar Permission (\<lambda>p. perm_key p = k))) (\<lambda>existing. case existing of
       Some p \<Rightarrow> ret p
     | None \<Rightarrow> in_db (bnd (db_insert Permission (new_permission k name description)) (\<lambda>p.
         bnd commit (\<lambda>_. ret p)))))"

definition list_permissions :: "('r app, permission list) op" where
  "list_permissions = bnd ensure_seed_data (\<lambda>_.
     bnd (in_db (select Permission (\<lambda>_. True))) (\<lambda>rows. ret (sort_key perm_id rows)))"

text \<open>The rows of the join in \<open>user_has_permission\<close>: one per grant of the permission to the user.\<close>

definition grants :: "db \<Rightarrow> int \<Rightarrow> string \<Rightarrow> role_permission list" where
  "grants d uid k = [rp. rp \<leftarrow> role_permissions d, p \<leftarrow> permissions d, perm_id p = rp_permission_id rp \<and> perm_key p = k,
     r \<leftarrow> roles d, role_id r = rp_role_id rp, ur \<leftarrow> user_roles d, ur_role_id ur = role_id r \<and> ur_user_id ur = uid]"

definition user_has_permission :: "principal \<Rightarrow> string \<Rightarrow> (session, bool) op" where
  "user_has_permission user permission_key =
     (if user_is_superuser user then ret True
      else (case api_key_scopes user of
        Some api_scopes \<Rightarrow> ret (permission_key \<in> set api_scopes)
      | None \<Rightarrow>
          if (case user_permissions user of None \<Rightarrow> False | Some ps \<Rightarrow> permission_key \<in> set ps) then ret True
          else bnd (look (\<lambda>s. grants (work s) (user_id user) permission_key)) (\<lambda>result.
            bnd (pure_op (one_or_none result)) (\<lambda>row. ret (row \<noteq> None)))))"

fun user_has_all_permissions :: "principal \<Rightarrow> string list \<Rightarrow> (session, bool) op" where
  "user_has_all_permissions user [] = ret True"
| "user_has_all_permissions user (k # ks) = bnd (user_has_permission user k) (\<lambda>ok.
     if \<not> ok then ret False else user_has_all_permissions user ks)"

definition validate_grant_scope :: "principal \<Rightarrow> int list \<Rightarrow> (session, unit) op" where
  "validate_grant_scope acting_user permission_ids =
     (if user_is_superuser acting_user then ret ()
      else if permission_ids = [] then ret ()
      else bnd (select Permission (\<lambda>p. perm_id p \<in> set permission_ids)) (\<lambda>rows.
        let permission_keys = remdups (map perm_key rows) in
        if permission_keys = [] then ret ()
        else bnd (user_has_all_permissions acting_user permission_keys) (\<lambda>ok.
          if ok then ret ()
          else throw (RbacPermissionError ''acting user cannot grant the requested permissions''))))"

definition role_permission_keys :: "db \<Rightarrow> int list \<Rightarrow> string list" where
  "role_permission_keys d role_ids = [perm_key p. p \<leftarrow> permissions d, rp \<leftarrow> role_permissions d,
     rp_permission_id rp = perm_id p \<and> rp_role_id rp \<in> set role_ids]"

definition validate_role_assignment_scope :: "principal \<Rightarrow> int list \<Rightarrow> (session, unit) op" where
  "validate_role_assignment_scope acting_user role_ids =
     (if user_is_superuser acting_user then ret ()
      else if role_ids = [] then ret ()
      else bnd (look (\<lambda>s. remdups (role_permission_keys (work s) role_ids))) (\<lambda>permission_keys.
        if permission_keys = [] then ret ()
        else bnd (user_has_all_permissions acting_user permission_keys) (\<lambda>ok.
          if ok then ret ()
          else throw (RbacPermissionError ''acting user cannot assign the requested role''))))"

definition set_role_permissions :: "int \<Rightarrow> int list \<Rightarrow> principal option \<Rightarrow> ('r app, unit) op" where
  "set_role_permissions role permission_ids acting_user =
     bnd ensure_seed_data (\<lambda>_.
     bnd (case acting_user of Some u \<Rightarrow> in_db (validate_grant_scope u permission_ids) | None \<Rightarrow> ret ()) (\<lambda>_.
     bnd (in_db (db_delete_where RolePermission (\<lambda>rp. rp_role_id rp = role))) (\<lambda>_.
     bnd (in_db (for_each permission_ids (\<lambda>i. db_link RolePermission \<lparr>rp_role_id = role, rp_permission_id = i\<rparr>))) (\<lambda>_.
     in_db commit))))"

definition assign_roles_to_user :: "int \<Rightarrow> int list \<Rightarrow> principal option \<Rightarrow> ('r app, unit) op" where
  "assign_roles_to_user uid role_ids acting_user =
     bnd ensure_seed_data (\<lambda>_.
     bnd (case acting_user of Some u \<Rightarrow> in_db (validate_role_assignment_scope u role_ids) | None \<Rightarrow> ret ()) (\<lambda>_.
     bnd (in_db (db_delete_where UserRole (\<lambda>ur. ur_user_id ur = uid))) (\<lambda>_.
     bnd (in_db (for_each role_ids (\<lambda>i. db_link UserRole \<lparr>ur_user_id = uid, ur_role_id = i\<rparr>))) (\<lambda>_.
     in_db commit))))"

definition can_assign_permission :: "principal \<Rightarrow> string \<Rightarrow> (session, bool) op" where
  "can_assign_permission acting_user permission_key = user_has_permission acting_user permission_key"

definition validate_assignment_scope :: "principal \<Rightarrow> string list \<Rightarrow> (session, unit) op" where
  "validate_assignment_scope acting_user permission_keys = for_each permission_keys (\<lambda>k.
     bnd (can_assign_permission acting_user k) (\<lambda>ok.
       if ok then ret () else throw (RbacPermissionError (''acting user cannot assign '' @ k))))"

definition ensure_admins_remain :: "int option \<Rightarrow> int option \<Rightarrow> (session, unit) op" where
  "ensure_admins_remain role uid =
     (if role = None \<and> uid = None then ret ()
      else bnd (scalar Role (\<lambda>r. role_key r = ''admin'')) (\<lambda>admin_role. case admin_role of
        None \<Rightarrow> ret ()
      | Some admin \<Rightarrow>
          bnd (if role = Some (role_id admin)
               then bnd (scalar UserRole (\<lambda>ur. ur_role_id ur = role_id admin)) (\<lambda>first.
                 if first = None then throw (RbacPermissionError ''cannot remove the last admin role assignment'') else ret ())
               else ret ()) (\<lambda>_.
          case uid of
            None \<Rightarrow> ret ()
          | Some u \<Rightarrow> bnd (select UserRole (\<lambda>ur. ur_user_id ur = u)) (\<lambda>rows.
              let role_ids = remdups (map ur_role_id rows) in
              if role_id admin \<in> set role_ids \<and> length role_ids = 1
              then throw (RbacPermissionError ''cannot remove the last admin role from a user'') else ret ()))))"

section \<open>Dependencies\<close>

definition insufficient :: "string \<Rightarrow> exn" where
  "insufficient p = HTTPException 403 (DetailDict [(''error'', ''insufficient_permission''), (''required_permission'', p)])"

record authorization_policy =
  required_roles :: "string list"
  required_permissions :: "string list"

definition policy_allows :: "authorization_policy \<Rightarrow> principal \<Rightarrow> bool \<Rightarrow> (session, bool) op" where
  "policy_allows pol user has_db =
     (if user_is_superuser user then ret True
      else if required_roles pol \<noteq> [] \<and> user_role user \<notin> set (required_roles pol) then ret False
      else if required_permissions pol = [] then ret True
      else if \<not> has_db then
        ret (let ps = (case user_permissions user of None \<Rightarrow> [] | Some ps \<Rightarrow> ps)
             in list_all (\<lambda>p. p \<in> set ps) (required_permissions pol))
      else user_has_all_permissions user (required_permissions pol))"

definition require_role :: "string list \<Rightarrow> principal \<Rightarrow> ('s, principal) op" where
  "require_role rs current_user =
     (if \<not> user_is_superuser current_user \<and> user_role current_user \<notin> set rs
      then throw (insufficient (''role:'' @ join '','' rs)) else ret current_user)"

definition require_permission :: "string list \<Rightarrow> principal \<Rightarrow> (session, principal) op" where
  "require_permission keys current_user =
     bnd (user_has_all_permissions current_user keys) (\<lambda>ok.
       if \<not> ok then throw (case keys of
           [k] \<Rightarrow> insufficient k
         | _ \<Rightarrow> HTTPException 403 (DetailKeys [(''error'', ''insufficient_permission'')] keys))
       else ret current_user)"

definition require_policy :: "authorization_policy \<Rightarrow> principal \<Rightarrow> (session, principal) op" where
  "require_policy pol current_user =
     bnd (policy_allows pol current_user True) (\<lambda>ok.
       if \<not> ok then throw (insufficient (case required_permissions pol of p # _ \<Rightarrow> p | [] \<Rightarrow> ''policy''))
       else ret current_user)"

section \<open>Routes\<close>

text \<open>A text-valued payload: \<open>payload["key"]\<close> raises \<open>KeyError\<close> when the key is missing.\<close>

definition text_at :: "(string \<times> string) list \<Rightarrow> string \<Rightarrow> exn + string" where
  "text_at p k = (case map_of p k of None \<Rightarrow> Inl KeyError | Some v \<Rightarrow> Inr v)"

definition create_role_route :: "request \<Rightarrow> int \<Rightarrow> (string \<times> string) list \<Rightarrow> principal \<Rightarrow> ('r app, int \<times> string \<times> string) op" where
  "create_role_route req now payload current_user =
     bnd (pure_op (text_at payload ''key'')) (\<lambda>k.
     bnd (create_role k (case map_of payload ''name'' of Some n \<Rightarrow> n | None \<Rightarrow> k) None) (\<lambda>r.
     bnd (audit_log (user_actor current_user) ''rbac.role_created'' ''rbac''
       (JObj [(''role_id'', JInt (role_id r)), (''key'', JStr (role_key r))]) (Some req) None True now) (\<lambda>_.
     ret (role_id r, role_key r, role_name r))))"

definition create_permission_route :: "request \<Rightarrow> int \<Rightarrow> (string \<times> string) list \<Rightarrow> principal \<Rightarrow> ('r app, int \<times> string \<times> string) op" where
  "create_permission_route req now payload current_user =
     bnd (pure_op (text_at payload ''key'')) (\<lambda>k.
     bnd (create_permission k (case map_of payload ''name'' of Some n \<Rightarrow> n | None \<Rightarrow> k) None) (\<lambda>p.
     bnd (audit_log (user_actor current_user) ''rbac.permission_created'' ''rbac''
       (JObj [(''permission_id'', JInt (perm_id p)), (''key'', JStr (perm_key p))]) (Some req) None True now) (\<lambda>_.
     ret (perm_id p, perm_key p, perm_name p))))"

definition rbac_errors :: "('s, 'a) op \<Rightarrow> ('s, 'a) op" where
  "rbac_errors m = try_except m (\<lambda>e. case e of
     RbacPermissionError msg \<Rightarrow> throw (insufficient ''rbac.manage'') | _ \<Rightarrow> throw e)"

definition set_role_permissions_route :: "int \<Rightarrow> int list option \<Rightarrow> principal \<Rightarrow> ('r app, int \<times> int list) op" where
  "set_role_permissions_route role payload current_user =
     (let ids = (case payload of Some is \<Rightarrow> is | None \<Rightarrow> []) in
      bnd (rbac_errors (bnd (in_db (validate_assignment_scope current_user [''rbac.manage''])) (\<lambda>_.
        set_role_permissions role ids (Some current_user)))) (\<lambda>_. ret (role, ids)))"

definition assign_roles_to_user_route :: "int \<Rightarrow> int list option \<Rightarrow> principal \<Rightarrow> ('r app, int \<times> int list) op" where
  "assign_roles_to_user_route uid payload current_user =
     (let ids = (case payload of Some is \<Rightarrow> is | None \<Rightarrow> []) in
      bnd (rbac_errors (bnd (in_db (validate_assignment_scope current_user [''rbac.manage''])) (\<lambda>_.
        bnd (in_db (ensure_admins_remain None (Some uid))) (\<lambda>_.
        assign_roles_to_user uid ids (Some current_user))))) (\<lambda>_. ret (uid, ids)))"

definition check_permission_route :: "principal \<Rightarrow> ('r app, bool) op" where
  "check_permission_route current_user = in_db (user_has_permission current_user ''reports.view'')"

section \<open>Who has a permission\<close>

text \<open>What the service promises: the superuser has all, an API key exactly its scopes, anyone
  else the permissions of the row and those of the user's roles.\<close>

definition has_permission :: "db \<Rightarrow> principal \<Rightarrow> string \<Rightarrow> bool" where
  "has_permission d user k \<longleftrightarrow> user_is_superuser user \<or>
     (case api_key_scopes user of
        Some sc \<Rightarrow> k \<in> set sc
      | None \<Rightarrow> (\<exists>ps. user_permissions user = Some ps \<and> k \<in> set ps) \<or>
          (\<exists>rp \<in> set (role_permissions d). \<exists>p \<in> set (permissions d). \<exists>r \<in> set (roles d). \<exists>ur \<in> set (user_roles d).
            perm_id p = rp_permission_id rp \<and> perm_key p = k \<and> role_id r = rp_role_id rp \<and>
            ur_role_id ur = role_id r \<and> ur_user_id ur = user_id user))"

lemma grants_nonempty:
  "grants d uid k \<noteq> [] \<longleftrightarrow> (\<exists>rp \<in> set (role_permissions d). \<exists>p \<in> set (permissions d). \<exists>r \<in> set (roles d).
     \<exists>ur \<in> set (user_roles d). perm_id p = rp_permission_id rp \<and> perm_key p = k \<and> role_id r = rp_role_id rp \<and>
     ur_role_id ur = role_id r \<and> ur_user_id ur = uid)"
  unfolding grants_def by (simp only: join_nonempty) blast

lemma permission_decided:
  "user_has_permission user k s =
     (if \<not> user_is_superuser user \<and> api_key_scopes user = None \<and>
         \<not> (\<exists>ps. user_permissions user = Some ps \<and> k \<in> set ps) \<and> 2 \<le> length (grants (work s) (user_id user) k)
      then Inl MultipleResultsFound else Inr (has_permission (work s) user k), s)"
proof (cases "one_or_none (grants (work s) (user_id user) k)")
  case (Inl e)
  then have "e = MultipleResultsFound \<and> 2 \<le> length (grants (work s) (user_id user) k)"
    by (simp add: one_or_none_Inl)
  then show ?thesis using Inl
    by (auto simp: user_has_permission_def has_permission_def bnd_apply look_apply pure_op_apply ret_apply split: option.split)
next
  case (Inr row)
  then have short: "\<not> 2 \<le> length (grants (work s) (user_id user) k)"
    by (metis Inl_Inr_False one_or_none_Inl)
  have "row \<noteq> None \<longleftrightarrow> grants (work s) (user_id user) k \<noteq> []"
    using Inr one_or_none_None by (cases row) (auto simp: one_or_none_Some)
  then show ?thesis using Inr short
    by (auto simp: user_has_permission_def has_permission_def bnd_apply look_apply pure_op_apply ret_apply
        grants_nonempty split: option.split)
qed

text \<open>
  Property C11. \<open>user_has_permission\<close> decides exactly what it promises, with one exception: a
  user whose permission comes only from roles, by two or more grants (two roles that share the
  permission), gets \<open>MultipleResultsFound\<close> instead of \<open>True\<close>. It never changes the database.
\<close>

theorem user_has_permission_correct:
  "user_has_permission user k s =
     (if \<not> user_is_superuser user \<and> api_key_scopes user = None \<and>
         \<not> (\<exists>ps. user_permissions user = Some ps \<and> k \<in> set ps) \<and> 2 \<le> length (grants (work s) (user_id user) k)
      then Inl MultipleResultsFound else Inr (has_permission (work s) user k), s)"
  by (rule permission_decided)

text \<open>
  The scopes of an API key bound what permission checks allow and nothing else: a
  key without scopes of an administrator who is not superuser is refused by every
  \<open>require_permission\<close> and accepted by \<open>require_role("admin")\<close>.
\<close>

theorem scopes_do_not_bind_roles:
  assumes "user_role u = ''admin''" and "\<not> user_is_superuser u" and "api_key_scopes u = Some []" and "ks \<noteq> []"
  shows "require_role [''admin''] u s = (Inr u, s) \<and> isl (fst (require_permission ks u t))"
proof -
  obtain k ks' where "ks = k # ks'" using assms(4) by (cases ks) auto
  then show ?thesis
    using assms(1-3)
    by (auto simp: require_role_def require_permission_def user_has_permission_def ret_apply bnd_apply
        throw_apply split: list.split)
qed

definition principal_of :: "user \<Rightarrow> string list option \<Rightarrow> int option \<Rightarrow> principal" where
  "principal_of u scopes key_id = user.extend u \<lparr>api_key_scopes = scopes, api_key_id = key_id\<rparr>"

theorem scopes_do_not_bind_roles_witness:
  "require_role [''admin''] (principal_of (demo_user\<lparr>user_role := ''admin''\<rparr>) (Some []) (Some 1)) () =
    (Inr (principal_of (demo_user\<lparr>user_role := ''admin''\<rparr>) (Some []) (Some 1)), ())"
  using scopes_do_not_bind_roles [of "principal_of (demo_user\<lparr>user_role := ''admin''\<rparr>) (Some []) (Some 1)" "[''billing.manage'']" "()"]
  by (simp add: principal_of_def demo_user_def user.extend_def)

section \<open>Granting permissions\<close>

lemma user_has_permission_pure: "snd (user_has_permission u k s) = s"
  by (auto simp: user_has_permission_def op_simps bnd_apply split: option.split sum.split)

lemma all_permissions_True:
  "user_has_all_permissions u ks s = (Inr True, t) \<Longrightarrow> t = s \<and> (\<forall>k \<in> set ks. user_has_permission u k s = (Inr True, s))"
proof (induction ks)
  case (Cons k ks)
  then show ?case
    using user_has_permission_pure [of u k s]
    by (auto simp: ret_apply elim!: bnd_InrE split: if_splits)
qed (simp add: ret_apply)

lemma grant_scope:
  assumes "validate_grant_scope u ids s = (Inr x, t)"
  shows "t = s \<and> (\<forall>p \<in> set (permissions (work s)). perm_id p \<in> set ids \<longrightarrow> user_has_permission u (perm_key p) s = (Inr True, s))"
proof (cases "user_is_superuser u \<or> ids = []")
  case True
  then show ?thesis using assms by (auto simp: validate_grant_scope_def user_has_permission_def ret_apply split: if_splits)
next
  case False
  let ?rows = "filter (\<lambda>p. perm_id p \<in> set ids) (permissions (work s))"
  let ?keys = "remdups (map perm_key ?rows)"
  show ?thesis
  proof (cases "?keys = []")
    case True
    then have "?rows = []" by simp
    then show ?thesis
      using assms False by (auto simp: validate_grant_scope_def op_simps Permission_def Let_def ret_apply filter_empty_conv)
  next
    case nonempty: False
    then have "bnd (user_has_all_permissions u ?keys) (\<lambda>ok. if ok then ret ()
        else throw (RbacPermissionError ''acting user cannot grant the requested permissions'')) s = (Inr x, t)"
      using assms False by (simp add: validate_grant_scope_def op_simps Permission_def Let_def)
    then obtain ok where "user_has_all_permissions u ?keys s = (Inr ok, t)" and ok
      by (auto simp: ret_apply throw_apply elim!: bnd_InrE split: if_splits)
    then have "t = s \<and> (\<forall>k \<in> set ?keys. user_has_permission u k s = (Inr True, s))"
      using all_permissions_True by simp
    then show ?thesis by auto
  qed
qed

lemma link_permissions:
  "for_each ids (\<lambda>i. db_link RolePermission \<lparr>rp_role_id = r, rp_permission_id = i\<rparr>) s = (Inr x, t) \<Longrightarrow>
     role_permissions (work t) = role_permissions (work s) @ map (\<lambda>i. \<lparr>rp_role_id = r, rp_permission_id = i\<rparr>) ids"
proof (induction ids arbitrary: s)
  case (Cons i ids)
  then obtain s1 where "db_link RolePermission \<lparr>rp_role_id = r, rp_permission_id = i\<rparr> s = (Inr (), s1)"
      "for_each ids (\<lambda>i. db_link RolePermission \<lparr>rp_role_id = r, rp_permission_id = i\<rparr>) s1 = (Inr x, t)"
    by (auto elim!: bnd_InrE)
  moreover from this(1) have "role_permissions (work s1) = role_permissions (work s) @ [\<lparr>rp_role_id = r, rp_permission_id = i\<rparr>]"
    using db_link_InrD(1) by (fastforce simp: RolePermission_def)
  ultimately show ?case using Cons.IH by simp
qed (simp add: ret_apply)

text \<open>
  Property C12. Granting does not escalate: when a user sets the permissions of a role, the
  user holds every existing permission among them at that moment, and afterwards (committed) the
  role has exactly the permissions asked for.
\<close>

theorem grant_does_not_escalate:
  assumes "set_role_permissions r ids (Some u) s = (Inr x, s')"
  shows "\<exists>s1. ensure_seed_data s = (Inr (), s1) \<and>
    (\<forall>p \<in> set (permissions (work (sess s1))). perm_id p \<in> set ids \<longrightarrow> has_permission (work (sess s1)) u (perm_key p)) \<and>
    (\<forall>i. \<lparr>rp_role_id = r, rp_permission_id = i\<rparr> \<in> set (role_permissions (stored (sess s'))) \<longleftrightarrow> i \<in> set ids)"
proof -
  obtain s1 s2 s3 s4 where steps: "ensure_seed_data s = (Inr (), s1)"
      "in_db (validate_grant_scope u ids) s1 = (Inr (), s2)"
      "in_db (db_delete_where RolePermission (\<lambda>rp. rp_role_id rp = r)) s2 = (Inr (), s3)"
      "in_db (for_each ids (\<lambda>i. db_link RolePermission \<lparr>rp_role_id = r, rp_permission_id = i\<rparr>)) s3 = (Inr (), s4)"
      "in_db commit s4 = (Inr x, s')"
    using assms by (auto simp: set_role_permissions_def elim!: bnd_InrE)
  have "validate_grant_scope u ids (sess s1) = (Inr (), sess s2)"
    using steps(2) by (auto simp: in_db_apply prod_eq_iff)
  note scope = grant_scope [OF this]
  have "has_permission (work (sess s1)) u k" if "user_has_permission u k (sess s1) = (Inr True, sess s1)" for k
    using that by (simp add: permission_decided split: if_splits)
  moreover have "role_permissions (work (sess s3)) = filter (\<lambda>rp. rp_role_id rp \<noteq> r) (role_permissions (work (sess s2)))"
    using steps(3) by (auto simp: in_db_apply db_delete_where_def op_simps RolePermission_def)
  moreover have "role_permissions (work (sess s4)) = role_permissions (work (sess s3)) @
      map (\<lambda>i. \<lparr>rp_role_id = r, rp_permission_id = i\<rparr>) ids"
    using steps(4) by (intro link_permissions) (auto simp: in_db_apply prod_eq_iff)
  moreover have "stored (sess s') = work (sess s4)"
    using steps(5) by (auto simp: in_db_apply commit_apply)
  ultimately show ?thesis using steps(1) scope by auto
qed

theorem grant_does_not_escalate_witness:
  "\<exists>s'. set_role_permissions 3 [5] (Some (principal_of (demo_user\<lparr>user_permissions := Some [''x'']\<rparr>) None None))
      (demo_app (empty_db\<lparr>permissions := [\<lparr>perm_id = 5, perm_key = ''x'', perm_name = ''X'', perm_description = None\<rparr>]\<rparr>)\<lparr>rbac_seeded := True\<rparr>)
      = (Inr (), s') \<and>
    (\<forall>i. \<lparr>rp_role_id = 3, rp_permission_id = i\<rparr> \<in> set (role_permissions (stored (sess s'))) \<longleftrightarrow> i = 5)"
proof -
  let ?u = "principal_of (demo_user\<lparr>user_permissions := Some [''x'']\<rparr>) None None"
  let ?s = "demo_app (empty_db\<lparr>permissions := [\<lparr>perm_id = 5, perm_key = ''x'', perm_name = ''X'', perm_description = None\<rparr>]\<rparr>)\<lparr>rbac_seeded := True\<rparr>"
  have "\<exists>s'. set_role_permissions 3 [5] (Some ?u) ?s = (Inr (), s')"
    by (simp add: set_role_permissions_def ensure_seed_data_def demo_app_def empty_db_def validate_grant_scope_def
        principal_of_def demo_user_def user.extend_def Permission_def RolePermission_def user_has_permission_def
        db_link_def violates_def bnd_apply in_db_apply look_apply ret_apply select_def db_delete_where_def
        modify_apply commit_apply Let_def)
  then obtain s' where s': "set_role_permissions 3 [5] (Some ?u) ?s = (Inr (), s')" by blast
  from grant_does_not_escalate [OF this] show ?thesis using s' by auto
qed

section \<open>The seed\<close>

definition role_keys :: "db \<Rightarrow> string set" where
  "role_keys d = role_key ` set (roles d)"

definition permission_keys :: "db \<Rightarrow> string set" where
  "permission_keys d = perm_key ` set (permissions d)"

lemma seed_role_run:
  "\<exists>new. seed_role r s = (Inr (), s\<lparr>work := (work s)\<lparr>roles := roles (work s) @ new\<rparr>\<rparr>) \<and>
     role_key r \<in> role_key ` set (roles (work s) @ new) \<and>
     (new \<noteq> [] \<longrightarrow> role_key r \<notin> role_keys (work s)) \<and> length new \<le> 1 \<and> role_key ` set new \<subseteq> {role_key r}"
proof (cases "find_row (\<lambda>x. role_key x = role_key r) (roles (work s))")
  case None
  let ?new = "r\<lparr>role_id := fresh_id (map role_id (roles (work s)))\<rparr>"
  have none: "\<forall>x \<in> set (roles (work s)). role_key x \<noteq> role_key r" using None by (simp add: find_row_None)
  then have "db_insert Role r s = (Inr ?new, s\<lparr>work := (work s)\<lparr>roles := roles (work s) @ [?new]\<rparr>\<rparr>)"
    by (simp add: Role_def db_insert_def violates_def Let_def)
  then have "seed_role r s = (Inr (), s\<lparr>work := (work s)\<lparr>roles := roles (work s) @ [?new]\<rparr>\<rparr>)"
    using None by (simp add: seed_role_def scalar_def look_apply Role_def bnd_apply ret_apply)
  moreover have "role_key r \<notin> role_keys (work s)" using none unfolding role_keys_def by (metis imageE)
  ultimately show ?thesis by (intro exI [of _ "[?new]"] conjI) (assumption, simp_all)
next
  case (Some x)
  then have "x \<in> set (roles (work s))" "role_key x = role_key r" using find_row_Some [OF Some] by simp_all
  then have "role_key r \<in> role_key ` set (roles (work s))" by (metis image_eqI)
  moreover have "seed_role r s = (Inr (), s)"
    using Some by (simp add: seed_role_def bnd_scalar Role_def ret_apply)
  ultimately show ?thesis by (intro exI [of _ "[]"]) simp
qed

lemma seed_permission_run:
  "\<exists>new. seed_permission p s = (Inr (), s\<lparr>work := (work s)\<lparr>permissions := permissions (work s) @ new\<rparr>\<rparr>) \<and>
     perm_key p \<in> perm_key ` set (permissions (work s) @ new) \<and>
     (new \<noteq> [] \<longrightarrow> perm_key p \<notin> permission_keys (work s)) \<and> length new \<le> 1 \<and> perm_key ` set new \<subseteq> {perm_key p}"
proof (cases "find_row (\<lambda>x. perm_key x = perm_key p) (permissions (work s))")
  case None
  let ?new = "p\<lparr>perm_id := fresh_id (map perm_id (permissions (work s)))\<rparr>"
  have none: "\<forall>x \<in> set (permissions (work s)). perm_key x \<noteq> perm_key p" using None by (simp add: find_row_None)
  then have "db_insert Permission p s = (Inr ?new, s\<lparr>work := (work s)\<lparr>permissions := permissions (work s) @ [?new]\<rparr>\<rparr>)"
    by (simp add: Permission_def db_insert_def violates_def Let_def)
  then have "seed_permission p s = (Inr (), s\<lparr>work := (work s)\<lparr>permissions := permissions (work s) @ [?new]\<rparr>\<rparr>)"
    using None by (simp add: seed_permission_def scalar_def look_apply Permission_def bnd_apply ret_apply)
  moreover have "perm_key p \<notin> permission_keys (work s)" using none unfolding permission_keys_def by (metis imageE)
  ultimately show ?thesis by (intro exI [of _ "[?new]"] conjI) (assumption, simp_all)
next
  case (Some x)
  then have "x \<in> set (permissions (work s))" "perm_key x = perm_key p" using find_row_Some [OF Some] by simp_all
  then have "perm_key p \<in> perm_key ` set (permissions (work s))" by (metis image_eqI)
  moreover have "seed_permission p s = (Inr (), s)"
    using Some by (simp add: seed_permission_def bnd_scalar Permission_def ret_apply)
  ultimately show ?thesis by (intro exI [of _ "[]"]) simp
qed

text \<open>Seeding a list only appends rows, covers every key, and repeats none.\<close>

lemma seed_roles_run:
  "\<exists>new. for_each rs seed_role s = (Inr (), s\<lparr>work := (work s)\<lparr>roles := roles (work s) @ new\<rparr>\<rparr>) \<and>
     role_key ` set rs \<subseteq> role_keys ((work s)\<lparr>roles := roles (work s) @ new\<rparr>) \<and>
     role_key ` set new \<subseteq> role_key ` set rs \<and> role_keys (work s) \<inter> role_key ` set new = {} \<and> distinct (map role_key new)"
proof (induction rs arbitrary: s)
  case Nil
  then show ?case by (intro exI [of _ "[]"]) (simp add: ret_apply)
next
  case (Cons r rs)
  obtain n1 where 1: "seed_role r s = (Inr (), s\<lparr>work := (work s)\<lparr>roles := roles (work s) @ n1\<rparr>\<rparr>)"
      "role_key r \<in> role_key ` set (roles (work s) @ n1)"
      "n1 \<noteq> [] \<longrightarrow> role_key r \<notin> role_keys (work s)" "length n1 \<le> 1" "role_key ` set n1 \<subseteq> {role_key r}"
    using seed_role_run [of r s] by blast
  let ?s1 = "s\<lparr>work := (work s)\<lparr>roles := roles (work s) @ n1\<rparr>\<rparr>"
  obtain n2 where 2: "for_each rs seed_role ?s1 = (Inr (), ?s1\<lparr>work := (work ?s1)\<lparr>roles := roles (work ?s1) @ n2\<rparr>\<rparr>)"
      "role_key ` set rs \<subseteq> role_keys ((work ?s1)\<lparr>roles := roles (work ?s1) @ n2\<rparr>)"
      "role_key ` set n2 \<subseteq> role_key ` set rs" "role_keys (work ?s1) \<inter> role_key ` set n2 = {}" "distinct (map role_key n2)"
    using Cons [of ?s1] by blast
  show ?case
  proof (intro exI [of _ "n1 @ n2"] conjI)
    show "for_each (r # rs) seed_role s = (Inr (), s\<lparr>work := (work s)\<lparr>roles := roles (work s) @ n1 @ n2\<rparr>\<rparr>)"
      using 1(1) 2(1) by (simp add: bnd_apply)
    show "role_key ` set (r # rs) \<subseteq> role_keys ((work s)\<lparr>roles := roles (work s) @ n1 @ n2\<rparr>)"
      using 1(2) 2(2) by (auto simp: role_keys_def)
    show "role_key ` set (n1 @ n2) \<subseteq> role_key ` set (r # rs)" using 1(5) 2(3) by auto
    have "role_keys (work s) \<inter> role_key ` set n1 = {}" using 1(3,5) by (cases n1) auto
    then show "role_keys (work s) \<inter> role_key ` set (n1 @ n2) = {}" using 2(4) by (auto simp: role_keys_def)
    show "distinct (map role_key (n1 @ n2))" using 1(4) 2(4,5) by (cases n1) (auto simp: role_keys_def)
  qed
qed

lemma seed_permissions_run:
  "\<exists>new. for_each ps seed_permission s = (Inr (), s\<lparr>work := (work s)\<lparr>permissions := permissions (work s) @ new\<rparr>\<rparr>) \<and>
     perm_key ` set ps \<subseteq> permission_keys ((work s)\<lparr>permissions := permissions (work s) @ new\<rparr>) \<and>
     perm_key ` set new \<subseteq> perm_key ` set ps \<and> permission_keys (work s) \<inter> perm_key ` set new = {} \<and> distinct (map perm_key new)"
proof (induction ps arbitrary: s)
  case Nil
  then show ?case by (intro exI [of _ "[]"]) (simp add: ret_apply)
next
  case (Cons p ps)
  obtain n1 where 1: "seed_permission p s = (Inr (), s\<lparr>work := (work s)\<lparr>permissions := permissions (work s) @ n1\<rparr>\<rparr>)"
      "perm_key p \<in> perm_key ` set (permissions (work s) @ n1)"
      "n1 \<noteq> [] \<longrightarrow> perm_key p \<notin> permission_keys (work s)" "length n1 \<le> 1" "perm_key ` set n1 \<subseteq> {perm_key p}"
    using seed_permission_run [of p s] by blast
  let ?s1 = "s\<lparr>work := (work s)\<lparr>permissions := permissions (work s) @ n1\<rparr>\<rparr>"
  obtain n2 where 2: "for_each ps seed_permission ?s1 = (Inr (), ?s1\<lparr>work := (work ?s1)\<lparr>permissions := permissions (work ?s1) @ n2\<rparr>\<rparr>)"
      "perm_key ` set ps \<subseteq> permission_keys ((work ?s1)\<lparr>permissions := permissions (work ?s1) @ n2\<rparr>)"
      "perm_key ` set n2 \<subseteq> perm_key ` set ps" "permission_keys (work ?s1) \<inter> perm_key ` set n2 = {}" "distinct (map perm_key n2)"
    using Cons [of ?s1] by blast
  show ?case
  proof (intro exI [of _ "n1 @ n2"] conjI)
    show "for_each (p # ps) seed_permission s = (Inr (), s\<lparr>work := (work s)\<lparr>permissions := permissions (work s) @ n1 @ n2\<rparr>\<rparr>)"
      using 1(1) 2(1) by (simp add: bnd_apply)
    show "perm_key ` set (p # ps) \<subseteq> permission_keys ((work s)\<lparr>permissions := permissions (work s) @ n1 @ n2\<rparr>)"
      using 1(2) 2(2) by (auto simp: permission_keys_def)
    show "perm_key ` set (n1 @ n2) \<subseteq> perm_key ` set (p # ps)" using 1(5) 2(3) by auto
    have "permission_keys (work s) \<inter> perm_key ` set n1 = {}" using 1(3,5) by (cases n1) auto
    then show "permission_keys (work s) \<inter> perm_key ` set (n1 @ n2) = {}" using 2(4) by (auto simp: permission_keys_def)
    show "distinct (map perm_key (n1 @ n2))" using 1(4) 2(4,5) by (cases n1) (auto simp: permission_keys_def)
  qed
qed

definition seeded_with :: "role list \<Rightarrow> permission list \<Rightarrow> 'r app \<Rightarrow> 'r app" where
  "seeded_with rs ps s = s\<lparr>sess := (sess s)\<lparr>work := (work (sess s))\<lparr>roles := roles (work (sess s)) @ rs,
     permissions := permissions (work (sess s)) @ ps\<rparr>\<rparr>, rbac_seeded := True\<rparr>"

lemma seeded_with_simps [simp]:
  "roles (work (sess (seeded_with rs ps s))) = roles (work (sess s)) @ rs"
  "permissions (work (sess (seeded_with rs ps s))) = permissions (work (sess s)) @ ps"
  "stored (sess (seeded_with rs ps s)) = stored (sess s)" "rbac_seeded (seeded_with rs ps s)"
  "users (work (sess (seeded_with rs ps s))) = users (work (sess s))"
  "jobs (seeded_with rs ps s) = jobs s" "conf (seeded_with rs ps s) = conf s"
  by (simp_all add: seeded_with_def)

lemma ensure_seed_run:
  assumes "\<not> rbac_seeded s"
  shows "\<exists>rs ps. ensure_seed_data s = (Inr (), seeded_with rs ps s) \<and>
    role_key ` set seed_roles \<subseteq> role_keys (work (sess (seeded_with rs ps s))) \<and>
    perm_key ` set seed_permissions \<subseteq> permission_keys (work (sess (seeded_with rs ps s))) \<and>
    role_keys (work (sess s)) \<inter> role_key ` set rs = {} \<and> distinct (map role_key rs) \<and>
    permission_keys (work (sess s)) \<inter> perm_key ` set ps = {} \<and> distinct (map perm_key ps)"
proof -
  obtain rs where 1: "for_each seed_roles seed_role (sess s) = (Inr (), (sess s)\<lparr>work := (work (sess s))\<lparr>roles := roles (work (sess s)) @ rs\<rparr>\<rparr>)"
      "role_key ` set seed_roles \<subseteq> role_keys ((work (sess s))\<lparr>roles := roles (work (sess s)) @ rs\<rparr>)"
      "role_keys (work (sess s)) \<inter> role_key ` set rs = {}" "distinct (map role_key rs)"
    using seed_roles_run [of seed_roles "sess s"] by blast
  let ?s1 = "(sess s)\<lparr>work := (work (sess s))\<lparr>roles := roles (work (sess s)) @ rs\<rparr>\<rparr>"
  obtain ps where 2: "for_each seed_permissions seed_permission ?s1 = (Inr (), ?s1\<lparr>work := (work ?s1)\<lparr>permissions := permissions (work ?s1) @ ps\<rparr>\<rparr>)"
      "perm_key ` set seed_permissions \<subseteq> permission_keys ((work ?s1)\<lparr>permissions := permissions (work ?s1) @ ps\<rparr>)"
      "permission_keys (work ?s1) \<inter> perm_key ` set ps = {}" "distinct (map perm_key ps)"
    using seed_permissions_run [of seed_permissions ?s1] by blast
  have "ensure_seed_data s = (Inr (), seeded_with rs ps s)"
    using assms 1(1) 2(1) by (simp add: ensure_seed_data_def bnd_apply look_apply in_db_apply modify_apply seeded_with_def)
  moreover have "role_key ` set seed_roles \<subseteq> role_keys (work (sess (seeded_with rs ps s)))"
    using 1(2) by (simp add: role_keys_def)
  moreover have "perm_key ` set seed_permissions \<subseteq> permission_keys (work (sess (seeded_with rs ps s)))"
    using 2(2) by (simp add: permission_keys_def)
  moreover have "permission_keys (work (sess s)) \<inter> perm_key ` set ps = {}"
    using 2(3) by (simp add: permission_keys_def)
  ultimately show ?thesis using 1(3,4) 2(4) by blast
qed

lemma ensure_seed_done: "rbac_seeded s \<Longrightarrow> ensure_seed_data s = (Inr (), s)"
  by (simp add: ensure_seed_data_def bnd_apply look_apply ret_apply)

text \<open>
  The first use of the service seeds the roles and permissions: it always
  succeeds, keeps every row there was, adds rows only for keys that were missing, one each, and
  leaves every key of the seed present; running it again changes nothing.
\<close>

theorem seed_complete_and_idempotent:
  assumes "\<not> rbac_seeded s"
  shows "\<exists>s' rs ps. ensure_seed_data s = (Inr (), s') \<and> ensure_seed_data s' = (Inr (), s') \<and>
    roles (work (sess s')) = roles (work (sess s)) @ rs \<and> permissions (work (sess s')) = permissions (work (sess s)) @ ps \<and>
    role_key ` set seed_roles \<subseteq> role_keys (work (sess s')) \<and>
    perm_key ` set seed_permissions \<subseteq> permission_keys (work (sess s')) \<and>
    role_keys (work (sess s)) \<inter> role_key ` set rs = {} \<and> distinct (map role_key rs) \<and>
    permission_keys (work (sess s)) \<inter> perm_key ` set ps = {} \<and> distinct (map perm_key ps)"
proof -
  obtain rs ps where *: "ensure_seed_data s = (Inr (), seeded_with rs ps s)"
    "role_key ` set seed_roles \<subseteq> role_keys (work (sess (seeded_with rs ps s)))"
    "perm_key ` set seed_permissions \<subseteq> permission_keys (work (sess (seeded_with rs ps s)))"
    "role_keys (work (sess s)) \<inter> role_key ` set rs = {}" "distinct (map role_key rs)"
    "permission_keys (work (sess s)) \<inter> perm_key ` set ps = {}" "distinct (map perm_key ps)"
    using ensure_seed_run [OF assms] by (elim exE conjE) (rule that)
  show ?thesis
    by (intro exI [of _ "seeded_with rs ps s"] exI [of _ rs] exI [of _ ps] conjI *)
      (simp_all add: ensure_seed_done)
qed

theorem seed_complete_and_idempotent_witness:
  "\<exists>s'. ensure_seed_data (demo_app empty_db) = (Inr (), s') \<and> role_key ` set seed_roles \<subseteq> role_keys (work (sess s'))"
proof -
  have "\<not> rbac_seeded (demo_app empty_db)" by (simp add: demo_app_def)
  from seed_complete_and_idempotent [OF this] show ?thesis by (elim exE conjE) (intro exI conjI)
qed

text \<open>
  The flag of the seed outlives the transaction: when the first request that seeds
  is rolled back (any exception after \<open>list_roles\<close>), the database has no seeded row, yet the
  process never seeds again, and every later \<open>list_roles\<close> returns only what was stored before.
\<close>

theorem rolled_back_seed_is_lost:
  assumes "\<not> rbac_seeded s"
  shows "\<exists>s'. with_db (bnd list_roles (\<lambda>_. throw e :: ('r app, 'a) op)) s = (Inl e, s') \<and>
    work (sess s') = stored (sess s) \<and> stored (sess s') = stored (sess s) \<and>
    list_roles s' = (Inr (sort_key role_id (roles (stored (sess s)))), s')"
proof -
  obtain rs ps where *: "ensure_seed_data s = (Inr (), seeded_with rs ps s)"
    using ensure_seed_run [OF assms] by (elim exE conjE) (rule that)
  let ?t = "(seeded_with rs ps s)\<lparr>sess := (sess (seeded_with rs ps s))\<lparr>work := stored (sess s)\<rparr>\<rparr>"
  have "bnd list_roles (\<lambda>_. throw e :: ('r app, 'a) op) s = (Inl e, seeded_with rs ps s)"
    using * by (simp add: list_roles_def bnd_apply in_db_apply select_def look_apply ret_apply throw_apply)
  then have "with_db (bnd list_roles (\<lambda>_. throw e :: ('r app, 'a) op)) s = (Inl e, ?t)"
    unfolding with_db_apply by simp
  moreover have "list_roles ?t = (Inr (sort_key role_id (roles (stored (sess s)))), ?t)"
    by (simp add: list_roles_def ensure_seed_done bnd_apply ret_apply in_db_apply select_def look_apply Role_def)
  ultimately show ?thesis by (intro exI [of _ ?t]) simp
qed

theorem rolled_back_seed_is_lost_witness:
  "\<exists>s'. with_db (bnd list_roles (\<lambda>_. throw TypeError)) (demo_app empty_db) = (Inl TypeError, s') \<and> list_roles s' = (Inr [], s')"
proof -
  have "\<not> rbac_seeded (demo_app empty_db)" by (simp add: demo_app_def)
  moreover have "sort_key role_id (roles (stored (sess (demo_app empty_db)))) = []"
    by (simp add: demo_app_def empty_db_def)
  ultimately show ?thesis using rolled_back_seed_is_lost [of "demo_app empty_db" TypeError] by metis
qed

end
