(* ===== verification/Auth.thy ===== *)
theory Auth
  imports ApiKeys Rbac
begin

text \<open>
  \<open>backend/core/security/dependencies.py\<close> (who a request acts as),
  \<open>backend/application/auth/use_cases.py\<close> (login, refresh with replay detection, e-mail
  verification, password reset) and the routes of \<open>backend/app/api/v1/auth/router.py\<close>. A fresh
  \<open>uuid4\<close> is an argument (\<open>jti\<close> of an access token, \<open>fresh\<close> for a stored token); the JWT library
  is in \<open>crypto\<close>.
\<close>

section \<open>Dependencies\<close>

definition http_401 :: "string \<Rightarrow> exn" where
  "http_401 m = HTTPException 401 (DetailText m)"

definition get_current_user :: "'r redis_ops \<Rightarrow> crypto \<Rightarrow> int \<Rightarrow> string option \<Rightarrow> string option \<Rightarrow> ('r app, principal) op" where
  "get_current_user rc cr now x_api_key credentials = (case x_api_key of
     Some raw \<Rightarrow>
       bnd (in_db (authenticate_key cr now raw)) (\<lambda>found. case found of
         None \<Rightarrow> throw (http_401 ''Invalid API key'')
       | Some k \<Rightarrow> bnd (in_db (get_by_id User (apikey_owner_id k))) (\<lambda>u. case u of
           None \<Rightarrow> throw (http_401 ''Invalid API key'')
         | Some u \<Rightarrow> ret (principal_of u (Some (apikey_scopes k)) (Some (apikey_id k)))))
   | None \<Rightarrow> (case credentials of
       None \<Rightarrow> throw (http_401 ''Not authenticated'')
     | Some token \<Rightarrow> bnd (look conf) (\<lambda>c.
         case jwt_decode cr now token (secret_key c) (algorithm c) of
           None \<Rightarrow> throw (http_401 ''Invalid token'')
         | Some payload \<Rightarrow>
             (let sub = payload_get payload ''sub'' JNull; jti = payload_get payload ''jti'' JNull in
              if \<not> truthy sub \<or> \<not> truthy jti then throw (http_401 ''Invalid token'')
              else bnd (in_toks (\<lambda>c. is_revoked rc c RevocationStore (py_str (py_repr cr) jti))) (\<lambda>revoked.
                if revoked then throw (http_401 ''Token revoked'')
                else bnd (pure_op (py_int sub)) (\<lambda>uid.
                  bnd (in_db (get_by_id User uid)) (\<lambda>u. case u of
                    None \<Rightarrow> throw (http_401 ''Invalid token'')
                  | Some u \<Rightarrow> ret (principal_of u None None))))))))"

definition get_current_active_user :: "'r redis_ops \<Rightarrow> crypto \<Rightarrow> int \<Rightarrow> string option \<Rightarrow> string option \<Rightarrow> ('r app, principal) op" where
  "get_current_active_user rc cr now x_api_key credentials =
     bnd (get_current_user rc cr now x_api_key credentials) (\<lambda>u.
       if \<not> user_is_active u then throw (HTTPException 400 (DetailText ''Inactive user'')) else ret u)"

definition get_optional_current_user :: "'r redis_ops \<Rightarrow> crypto \<Rightarrow> int \<Rightarrow> string option \<Rightarrow> ('r app, user option) op" where
  "get_optional_current_user rc cr now credentials = (case credentials of
     None \<Rightarrow> ret None
   | Some token \<Rightarrow> bnd (look conf) (\<lambda>c.
       case jwt_decode cr now token (secret_key c) (algorithm c) of
         None \<Rightarrow> ret None
       | Some payload \<Rightarrow>
           (let sub = payload_get payload ''sub'' JNull; jti = payload_get payload ''jti'' JNull in
            if \<not> truthy sub \<or> \<not> truthy jti then ret None
            else bnd (in_toks (\<lambda>c. is_revoked rc c RevocationStore (py_str (py_repr cr) jti))) (\<lambda>revoked.
              if revoked then ret None
              else bnd (pure_op (py_int sub)) (\<lambda>uid. in_db (get_by_id User uid))))))"

section \<open>Use cases\<close>

record token_pair =
  access_token :: string
  refresh_token :: string

text \<open>\<open>payload["jti"]\<close> of the token just made.\<close>

definition jti_of :: "crypto \<Rightarrow> string \<Rightarrow> exn + string" where
  "jti_of cr token = bind_sum (jwt_unverified cr token) (\<lambda>p. case map_of p ''jti'' of
     None \<Rightarrow> Inl KeyError | Some v \<Rightarrow> Inr (py_str (py_repr cr) v))"

text \<open>Make an access token and track it, so that it can be revoked.\<close>

definition issue_access_token :: "'r redis_ops \<Rightarrow> crypto \<Rightarrow> int \<Rightarrow> string \<Rightarrow> user \<Rightarrow> ('r app, string) op" where
  "issue_access_token rc cr now jti u = bnd (look conf) (\<lambda>c.
     let token = create_access_token cr c now jti u in
     bnd (pure_op (jti_of cr token)) (\<lambda>j.
     bnd (in_toks (\<lambda>c. track_access_token rc c RevocationStore (user_id u) j (access_token_expire_minutes c * 60))) (\<lambda>_.
     ret token)))"

definition refresh_ttl :: "settings \<Rightarrow> int" where
  "refresh_ttl c = refresh_token_expire_days c * 24 * 60 * 60"

definition login_use_case :: "'r redis_ops \<Rightarrow> crypto \<Rightarrow> string \<Rightarrow> int \<Rightarrow> string \<Rightarrow> string \<Rightarrow> string \<Rightarrow> string \<Rightarrow>
    ('r app, token_pair) op" where
  "login_use_case rc cr salt now jti fresh username password =
     bnd (authenticate cr salt now (lower (strip username)) password) (\<lambda>found. case found of
       None \<Rightarrow> throw (unauthorized ''Incorrect email or password'')
     | Some u \<Rightarrow> bnd (look conf) (\<lambda>c.
         if require_email_verification c \<and> \<not> user_is_verified u
         then throw (forbidden ''Please verify your email before signing in'')
         else bnd (issue_access_token rc cr now jti u) (\<lambda>access.
           bnd (in_toks (\<lambda>c. add_refresh_token rc c RefreshStore fresh (user_id u) (refresh_ttl c))) (\<lambda>refresh.
           ret \<lparr>access_token = access, refresh_token = refresh\<rparr>))))"

text \<open>A stored value is falsy when it is absent or empty.\<close>

definition falsy :: "pyval option \<Rightarrow> bool" where
  "falsy v = (case v of None \<Rightarrow> True | Some (PStr t) \<Rightarrow> t = [] | Some (PSet xs) \<Rightarrow> xs = [])"

definition revoke_family :: "'r redis_ops \<Rightarrow> int \<Rightarrow> ('r app, unit) op" where
  "revoke_family rc uid =
     bnd (in_toks (\<lambda>c. revoke_all_for_user rc c RefreshStore uid)) (\<lambda>_.
     in_toks (\<lambda>c. revoke_all_access_tokens_for_user rc c RevocationStore uid))"

definition is_used_marker :: "pyval \<Rightarrow> bool" where
  "is_used_marker v = (case v of PStr t \<Rightarrow> startswith t used_token_prefix | PSet xs \<Rightarrow> False)"

definition refresh_use_case :: "'r redis_ops \<Rightarrow> crypto \<Rightarrow> int \<Rightarrow> string \<Rightarrow> string \<Rightarrow> string \<Rightarrow> ('r app, token_pair) op" where
  "refresh_use_case rc cr now jti fresh token =
     bnd (in_toks (\<lambda>c. get_token rc c RefreshStore token)) (\<lambda>stored_value.
       if falsy stored_value then throw (unauthorized ''Invalid refresh token'')
       else if is_used_marker (the stored_value) then
         bnd (pure_op (used_token_user_id stored_value)) (\<lambda>uid.
         bnd (case uid of Some i \<Rightarrow> revoke_family rc i | None \<Rightarrow> ret ()) (\<lambda>_.
         bnd (audit_log Nobody ''security.refresh_token_replay_detected'' ''session''
           (JObj [(''user_id'', case uid of Some i \<Rightarrow> JInt i | None \<Rightarrow> JNull)]) None None True now) (\<lambda>_.
         throw (unauthorized ''Invalid refresh token''))))
       else
         bnd (pure_op (int_value (the stored_value))) (\<lambda>uid.
         bnd (in_db (get_by_id User uid)) (\<lambda>found. case found of
           None \<Rightarrow> throw (not_found ''user'')
         | Some u \<Rightarrow>
             bnd (issue_access_token rc cr now jti u) (\<lambda>access.
             bnd (in_toks (\<lambda>c. rotate_refresh_token rc c RefreshStore fresh token (user_id u) (refresh_ttl c))) (\<lambda>refresh.
             ret \<lparr>access_token = access, refresh_token = refresh\<rparr>)))))"

definition request_email_verification :: "'r redis_ops \<Rightarrow> string \<Rightarrow> string \<Rightarrow> ('r app, string) op" where
  "request_email_verification rc fresh email =
     bnd (in_db (get_by_email email)) (\<lambda>found.
     bnd (case found of
       Some u \<Rightarrow>
         bnd (in_toks (\<lambda>c. add_password_reset_token rc c EmailVerificationStore fresh (user_id u) (15 * 60))) (\<lambda>token.
         bnd (enqueue_job (SendVerificationEmail (user_email u) token)) (\<lambda>_.
         enqueue_job (LogInfo ''email_verification_requested'')))
     | None \<Rightarrow> ret ()) (\<lambda>_.
     ret ''If the account exists, a verification link has been sent''))"

definition confirm_email_verification :: "'r redis_ops \<Rightarrow> int \<Rightarrow> string \<Rightarrow> ('r app, string) op" where
  "confirm_email_verification rc now token =
     bnd (in_toks (\<lambda>c. consume_password_reset_token rc c EmailVerificationStore token)) (\<lambda>uid. case uid of
       None \<Rightarrow> throw (unauthorized ''Invalid or expired verification token'')
     | Some i \<Rightarrow> bnd (in_db (get_by_id User i)) (\<lambda>found. case found of
         None \<Rightarrow> throw (not_found ''user'')
       | Some u \<Rightarrow> bnd (in_db (mark_verified now u)) (\<lambda>_. ret ''Email verified successfully'')))"

definition request_password_reset :: "'r redis_ops \<Rightarrow> string \<Rightarrow> string \<Rightarrow> ('r app, string) op" where
  "request_password_reset rc fresh email =
     bnd (in_db (get_by_email email)) (\<lambda>found.
     bnd (case found of
       Some u \<Rightarrow>
         bnd (in_toks (\<lambda>c. add_password_reset_token rc c PasswordResetStore fresh (user_id u)
           (password_reset_token_ttl_minutes c * 60))) (\<lambda>token.
         bnd (enqueue_job (SendPasswordResetEmail (user_email u) token)) (\<lambda>_.
         enqueue_job (LogInfo ''password_reset_requested'')))
     | None \<Rightarrow> ret ()) (\<lambda>_.
     ret ''If the account exists, a reset link has been sent''))"

definition confirm_password_reset :: "'r redis_ops \<Rightarrow> crypto \<Rightarrow> string \<Rightarrow> string \<Rightarrow> string \<Rightarrow> ('r app, string) op" where
  "confirm_password_reset rc cr salt token new_password =
     bnd (in_toks (\<lambda>c. consume_password_reset_token rc c PasswordResetStore token)) (\<lambda>uid. case uid of
       None \<Rightarrow> throw (unauthorized ''Invalid or expired reset token'')
     | Some i \<Rightarrow> bnd (in_db (get_by_id User i)) (\<lambda>found. case found of
         None \<Rightarrow> throw (not_found ''user'')
       | Some u \<Rightarrow>
           bnd (in_db (db_save User (u\<lparr>user_hashed_password := hash_password cr salt new_password\<rparr>))) (\<lambda>_.
           bnd (revoke_family rc (user_id u)) (\<lambda>_.
           ret ''Password updated successfully''))))"

section \<open>Routes\<close>

definition login_attempts_per_minute :: nat where "login_attempts_per_minute = 10"
definition auth_write_rate_limit :: nat where "auth_write_rate_limit = 5"

definition too_many_logins :: exn where
  "too_many_logins = to_http_exception (UnauthorizedError ''Too many login attempts, try again shortly'' ''unauthorized'')"

text \<open>\<open>"Incorrect" in str(exc)\<close>.\<close>

fun contains :: "string \<Rightarrow> string \<Rightarrow> bool" where
  "contains [] pat = (pat = [])"
| "contains (c # cs) pat = (startswith (c # cs) pat \<or> contains cs pat)"

definition login_route :: "'r limiter_env \<Rightarrow> 'r redis_ops \<Rightarrow> crypto \<Rightarrow> string \<Rightarrow> int \<Rightarrow> string \<Rightarrow> string \<Rightarrow> request \<Rightarrow>
    string \<Rightarrow> string \<Rightarrow> ('r app, token_pair) op" where
  "login_route le rc cr salt now jti fresh req username password =
     bnd (route_allow le now (lower (strip username)) ''auth:login:account'' login_attempts_per_minute) (\<lambda>ok.
     if \<not> ok then throw too_many_logins
     else bnd (route_allow le now (client_ip req) ''auth:login:ip'' (login_attempts_per_minute * 3)) (\<lambda>ok.
     if \<not> ok then throw too_many_logins
     else try_except
       (bnd (login_use_case rc cr salt now jti fresh username password) (\<lambda>r.
        bnd (audit_log Nobody ''auth.login'' ''session'' (JObj [(''username'', JStr username)]) (Some req) (Some 200) True now) (\<lambda>_.
        ret r)))
       (\<lambda>e. case e of
          DomainError d \<Rightarrow> bnd (audit_log Nobody ''auth.login_failed'' ''session''
              (JObj [(''reason'', JStr (error_message d))]) (Some req)
              (Some (if contains (error_message d) ''Incorrect'' then 401 else 403)) False now) (\<lambda>_.
            throw (to_http_exception d))
        | _ \<Rightarrow> throw e)))"

definition refresh_route :: "'r redis_ops \<Rightarrow> crypto \<Rightarrow> int \<Rightarrow> string \<Rightarrow> string \<Rightarrow> request \<Rightarrow> string \<Rightarrow> ('r app, token_pair) op" where
  "refresh_route rc cr now jti fresh req token =
     (if token = [] then throw (to_http_exception (UnauthorizedError ''Invalid refresh token'' ''unauthorized''))
      else try_except
       (bnd (refresh_use_case rc cr now jti fresh token) (\<lambda>r.
        bnd (audit_log Nobody ''auth.refresh'' ''session'' (JObj [(''refresh_token_present'', JBool True)]) (Some req) (Some 200) True now) (\<lambda>_.
        ret r)))
       (\<lambda>e. case e of
          DomainError d \<Rightarrow> bnd (audit_log Nobody ''auth.refresh_failed'' ''session''
              (JObj [(''reason'', JStr (error_message d))]) (Some req) (Some 401) False now) (\<lambda>_.
            throw (to_http_exception d))
        | _ \<Rightarrow> throw e))"

text \<open>
  \<open>credentials\<close> is \<open>None\<close> when the request carries only an API key: reading its attribute raises
  after the refresh token was revoked.
\<close>

definition logout_route :: "'r redis_ops \<Rightarrow> crypto \<Rightarrow> int \<Rightarrow> request \<Rightarrow> string \<Rightarrow> principal \<Rightarrow> string option \<Rightarrow> ('r app, string) op" where
  "logout_route rc cr now req token current_user credentials =
     bnd (in_toks (\<lambda>c. revoke rc c RefreshStore token)) (\<lambda>_. case credentials of
       None \<Rightarrow> throw (AttributeError ''credentials'')
     | Some access \<Rightarrow> bnd (look conf) (\<lambda>c.
         case jwt_decode cr now access (secret_key c) (algorithm c) of
           None \<Rightarrow> throw (RemoteError ''JWTError'')
         | Some payload \<Rightarrow>
             (let jti = payload_get payload ''jti'' JNull in
              bnd (if truthy jti then in_toks (\<lambda>c. revoke_jti rc c RevocationStore (py_str (py_repr cr) jti) None) else ret ()) (\<lambda>_.
              bnd (audit_log (user_actor current_user) ''auth.logout'' ''session'' (JObj []) (Some req) (Some 200) True now) (\<lambda>_.
              ret ''Logged out'')))))"

definition password_policy_route :: "settings \<Rightarrow> nat \<times> bool \<times> bool \<times> bool \<times> bool" where
  "password_policy_route c = (password_min_length c, password_require_uppercase c, password_require_lowercase c,
     password_require_number c, password_require_special_character c)"

definition too_many_requests :: exn where
  "too_many_requests = HTTPException 429 (DetailText ''Too many requests'')"

text \<open>The two limits in front of the routes that send mail: per address, then per client.\<close>

definition limited :: "'r limiter_env \<Rightarrow> int \<Rightarrow> request \<Rightarrow> string \<Rightarrow> string \<Rightarrow> string \<Rightarrow> nat \<Rightarrow> ('r app, 'a) op \<Rightarrow> ('r app, 'a) op" where
  "limited le now req email path_email path_ip limit m =
     bnd (route_allow le now (lower (strip email)) path_email limit) (\<lambda>ok.
     if \<not> ok then throw too_many_requests
     else bnd (route_allow le now (client_ip req) path_ip (limit * 2)) (\<lambda>ok.
       if \<not> ok then throw too_many_requests else m))"

definition request_email_verification_route :: "'r limiter_env \<Rightarrow> 'r redis_ops \<Rightarrow> int \<Rightarrow> string \<Rightarrow> request \<Rightarrow> string \<Rightarrow> ('r app, string) op" where
  "request_email_verification_route le rc now fresh req email =
     limited le now req email ''auth:email-verification:email'' ''auth:email-verification:ip'' auth_write_rate_limit
       (request_email_verification rc fresh email)"

definition confirm_email_verification_route :: "'r redis_ops \<Rightarrow> int \<Rightarrow> string \<Rightarrow> ('r app, string) op" where
  "confirm_email_verification_route rc now token = http_errors (confirm_email_verification rc now token)"

definition request_password_reset_route :: "'r limiter_env \<Rightarrow> 'r redis_ops \<Rightarrow> int \<Rightarrow> string \<Rightarrow> request \<Rightarrow> string \<Rightarrow> ('r app, string) op" where
  "request_password_reset_route le rc now fresh req email =
     limited le now req email ''auth:password-reset:email'' ''auth:password-reset:ip'' auth_write_rate_limit
       (request_password_reset rc fresh email)"

definition confirm_password_reset_route :: "'r redis_ops \<Rightarrow> crypto \<Rightarrow> string \<Rightarrow> string \<Rightarrow> string \<Rightarrow> ('r app, string) op" where
  "confirm_password_reset_route rc cr salt token new_password =
     http_errors (confirm_password_reset rc cr salt token new_password)"

section \<open>Who is let in\<close>

lemma in_db_InrD: "in_db m s = (Inr a, t) \<Longrightarrow> m (sess s) = (Inr a, sess t) \<and> t = s\<lparr>sess := sess t\<rparr>"
  by (auto simp: in_db_apply prod_eq_iff)

lemma in_toks_InrD: "in_toks m s = (Inr a, t) \<Longrightarrow> m (conf s) (toks s) = (Inr a, toks t) \<and> t = s\<lparr>toks := toks t\<rparr>"
  by (auto simp: in_toks_apply prod_eq_iff)

lemma get_live_user:
  assumes "in_db (get_by_id User i) s = (Inr (Some u), t)"
  shows "u \<in> set (users (work (sess s))) \<and> user_id u = i \<and> user_deleted_at u = None \<and> t = s"
proof -
  have "get_by_id User i (sess s) = (Inr (Some u), sess t)" and t: "t = s\<lparr>sess := sess t\<rparr>"
    using in_db_InrD [OF assms] by auto
  from users.get_by_id_Some [OF this(1)] show ?thesis
    using t by (auto simp: User_def alive_def)
qed

lemma current_user_by_key:
  assumes "get_current_user rc cr now (Some raw) cred s = (Inr p, t)"
  shows "\<exists>u k. u \<in> set (users (work (sess s))) \<and> user_deleted_at u = None \<and> k \<in> set (api_keys (work (sess s))) \<and>
    p = principal_of u (Some (apikey_scopes k)) (Some (apikey_id k)) \<and> apikey_owner_id k = user_id u \<and>
    apikey_key_prefix k = take 8 raw \<and> apikey_revoked_at k = None \<and>
    (\<forall>e. apikey_expires_at k = Some (Aware e) \<longrightarrow> now < e) \<and> verify_secret cr raw (apikey_hashed_secret k) = Inr True"
proof -
  obtain found s1 where a: "in_db (authenticate_key cr now raw) s = (Inr found, s1)"
    and rest: "(case found of None \<Rightarrow> throw (http_401 ''Invalid API key'')
       | Some k \<Rightarrow> bnd (in_db (get_by_id User (apikey_owner_id k))) (\<lambda>u. case u of
           None \<Rightarrow> throw (http_401 ''Invalid API key'')
         | Some u \<Rightarrow> ret (principal_of u (Some (apikey_scopes k)) (Some (apikey_id k))))) s1 = (Inr p, t)"
    using assms unfolding get_current_user_def option.case by (rule bnd_InrE)
  obtain k' where k': "found = Some k'" using rest by (cases found) (auto simp: throw_apply)
  have "authenticate_key cr now raw (sess s) = (Inr (Some k'), sess s1)"
    using in_db_InrD [OF a] k' by simp
  from authenticate_keyD [OF this] obtain k where k: "k \<in> set (api_keys (work (sess s)))"
      "k' = k\<lparr>apikey_last_used_at := Some (Naive now)\<rparr>" "apikey_key_prefix k = take 8 raw" "apikey_revoked_at k = None"
      "\<forall>e. apikey_expires_at k = Some (Aware e) \<longrightarrow> now < e" "verify_secret cr raw (apikey_hashed_secret k) = Inr True"
      "users (work (sess s1)) = users (work (sess s))"
    by blast
  have "bnd (in_db (get_by_id User (apikey_owner_id k))) (\<lambda>u. case u of
           None \<Rightarrow> throw (http_401 ''Invalid API key'')
         | Some u \<Rightarrow> ret (principal_of u (Some (apikey_scopes k)) (Some (apikey_id k)))) s1 = (Inr p, t)"
    using rest k' k(2) by simp
  then obtain u where "in_db (get_by_id User (apikey_owner_id k)) s1 = (Inr (Some u), t)"
      and p: "p = principal_of u (Some (apikey_scopes k)) (Some (apikey_id k))"
    by (rule bnd_InrE) (auto simp: throw_apply ret_apply split: option.splits)
  from get_live_user [OF this(1)] show ?thesis using k p by (intro exI [of _ u] exI [of _ k]) simp
qed

lemma current_user_by_token:
  assumes "get_current_user rc cr now None cred s = (Inr p, t)"
  shows "\<exists>u token payload. u \<in> set (users (work (sess s))) \<and> user_deleted_at u = None \<and> cred = Some token \<and>
    jwt_decode cr now token (secret_key (conf s)) (algorithm (conf s)) = Some payload \<and>
    py_int (payload_get payload ''sub'' JNull) = Inr (user_id u) \<and>
    fst (is_revoked rc (conf s) RevocationStore (py_str (py_repr cr) (payload_get payload ''jti'' JNull)) (toks s)) = Inr False \<and>
    p = principal_of u None None"
proof -
  obtain token where token: "cred = Some token" using assms by (cases cred) (auto simp: get_current_user_def throw_apply)
  obtain payload where payload: "jwt_decode cr now token (secret_key (conf s)) (algorithm (conf s)) = Some payload"
    using assms token
    by (cases "jwt_decode cr now token (secret_key (conf s)) (algorithm (conf s))")
      (auto simp: get_current_user_def bnd_look throw_apply)
  define sub where "sub = payload_get payload ''sub'' JNull"
  define jti where "jti = payload_get payload ''jti'' JNull"
  have "bnd (in_toks (\<lambda>c. is_revoked rc c RevocationStore (py_str (py_repr cr) jti))) (\<lambda>revoked.
      if revoked then throw (http_401 ''Token revoked'')
      else bnd (pure_op (py_int sub)) (\<lambda>uid.
        bnd (in_db (get_by_id User uid)) (\<lambda>u. case u of
          None \<Rightarrow> throw (http_401 ''Invalid token'') | Some u \<Rightarrow> ret (principal_of u None None)))) s = (Inr p, t)"
    using assms token payload
    by (auto simp: get_current_user_def bnd_look sub_def [symmetric] jti_def [symmetric] Let_def throw_apply split: if_splits)
  then obtain revoked s1 where r: "in_toks (\<lambda>c. is_revoked rc c RevocationStore (py_str (py_repr cr) jti)) s = (Inr revoked, s1)"
    and rest: "(if revoked then throw (http_401 ''Token revoked'')
      else bnd (pure_op (py_int sub)) (\<lambda>uid.
        bnd (in_db (get_by_id User uid)) (\<lambda>u. case u of
          None \<Rightarrow> throw (http_401 ''Invalid token'') | Some u \<Rightarrow> ret (principal_of u None None)))) s1 = (Inr p, t)"
    by (rule bnd_InrE)
  have fine: "\<not> revoked" using rest by (auto simp: throw_apply split: if_splits)
  then have fst: "fst (is_revoked rc (conf s) RevocationStore (py_str (py_repr cr) jti) (toks s)) = Inr False"
    and same: "sess s1 = sess s"
    using r by (auto simp: in_toks_apply)
  obtain uid where uid: "py_int sub = Inr uid"
    using rest fine by (cases "py_int sub") (auto simp: bnd_pure_op)
  have "bnd (in_db (get_by_id User uid)) (\<lambda>u. case u of
          None \<Rightarrow> throw (http_401 ''Invalid token'') | Some u \<Rightarrow> ret (principal_of u None None)) s1 = (Inr p, t)"
    using rest fine uid by (simp add: bnd_pure_op)
  then obtain u where "in_db (get_by_id User uid) s1 = (Inr (Some u), t)" and p: "p = principal_of u None None"
    by (rule bnd_InrE) (auto simp: throw_apply ret_apply split: option.splits)
  from get_live_user [OF this(1)] show ?thesis
    using token payload fst uid p same by (auto simp: sub_def jti_def)
qed

text \<open>
  Property C1. Whoever a request acts as is a stored user that is not deleted, and the request
  proved it: with an API key, a stored key of that user with the presented prefix, not revoked,
  not expired, whose hash accepts the secret, and the request carries that key's scopes; with a
  bearer token, a token that decodes under the current secret to that user's id, whose jti is
  not revoked. An API key, when present, is what counts.
\<close>

theorem current_user_is_authenticated:
  assumes "get_current_user rc cr now x_api_key cred s = (Inr p, t)"
  shows "\<exists>u. u \<in> set (users (work (sess s))) \<and> user_deleted_at u = None \<and>
    (case x_api_key of
      Some raw \<Rightarrow> \<exists>k \<in> set (api_keys (work (sess s))). p = principal_of u (Some (apikey_scopes k)) (Some (apikey_id k)) \<and>
        apikey_owner_id k = user_id u \<and> apikey_key_prefix k = take 8 raw \<and> apikey_revoked_at k = None \<and>
        (\<forall>e. apikey_expires_at k = Some (Aware e) \<longrightarrow> now < e) \<and> verify_secret cr raw (apikey_hashed_secret k) = Inr True
    | None \<Rightarrow> \<exists>token payload. cred = Some token \<and> p = principal_of u None None \<and>
        jwt_decode cr now token (secret_key (conf s)) (algorithm (conf s)) = Some payload \<and>
        py_int (payload_get payload ''sub'' JNull) = Inr (user_id u) \<and>
        fst (is_revoked rc (conf s) RevocationStore (py_str (py_repr cr) (payload_get payload ''jti'' JNull)) (toks s)) = Inr False)"
proof (cases x_api_key)
  case None
  then show ?thesis using current_user_by_token [of rc cr now cred s p t] assms by auto
next
  case (Some raw)
  then show ?thesis using current_user_by_key [of rc cr now raw cred s p t] assms by auto
qed

theorem current_user_is_authenticated_witness:
  "\<exists>u. u \<in> set (users (work (sess (demo_app (empty_db\<lparr>users := [demo_user]\<rparr>))))) \<and>
     principal_of demo_user None None = principal_of u None None"
proof -
  have "get_current_user redis_map demo_crypto 5 None (Some ''token'') (demo_app (empty_db\<lparr>users := [demo_user]\<rparr>)) =
      (Inr (principal_of demo_user None None), demo_app (empty_db\<lparr>users := [demo_user]\<rparr>))"
    by (simp add: get_current_user_def demo_crypto_def bnd_apply look_apply in_toks_apply in_db_apply is_revoked_def
        get_token_def redis_map_def demo_app_def ret_apply pure_op_apply get_by_id_def select_def alive_def User_def
        one_or_none_def demo_user_def parse_int_def strip_no_space is_space_def is_digit_def digit_val_def Let_def)
  from current_user_is_authenticated [OF this] show ?thesis by auto
qed

section \<open>Revoking a user's sessions\<close>

lemma key_stores_differ:
  assumes "prefix_of a \<noteq> prefix_of b"
  shows "key a x \<noteq> key b y" "key a x \<noteq> access_index_key b i" "key a x \<noteq> user_index_key b i"
    "access_index_key b i \<noteq> key a x" "user_index_key b i \<noteq> key a x"
  using assms by (cases a; cases b; simp add: key_def prefix_of_def access_index_key_def user_index_key_def)+

lemma prefixes_differ [simp]:
  "prefix_of RefreshStore \<noteq> prefix_of RevocationStore" "prefix_of RevocationStore \<noteq> prefix_of RefreshStore"
  "prefix_of PasswordResetStore \<noteq> prefix_of RefreshStore" "prefix_of PasswordResetStore \<noteq> prefix_of RevocationStore"
  "prefix_of RefreshStore \<noteq> prefix_of PasswordResetStore" "prefix_of RevocationStore \<noteq> prefix_of PasswordResetStore"
  by (simp_all add: prefix_of_def)

lemma get_account:
  assumes "account s u"
  shows "in_db (get_by_id User (user_id u)) s = (Inr (Some u), s)"
proof -
  have "ids_distinct User (sess s)" using assms by (simp add: account_def users_ok_def ids_distinct_def User_def)
  moreover have "find_row (\<lambda>r. user_id r = user_id u \<and> user_deleted_at r = None) (users (work (sess s))) = Some u"
    using filter_unique [of user_id "users (work (sess s))" u "\<lambda>r. user_deleted_at r = None"] assms
    by (simp add: account_def users_ok_def find_row_def)
  ultimately have "get_by_id User (user_id u) (sess s) = (Inr (Some u), sess s)"
    using users.get_by_id_unique [of "sess s" "user_id u"] by (simp add: User_def alive_def)
  then show ?thesis by (simp add: in_db_apply)
qed

context redis_service
begin

abbreviation keys :: "'r app \<Rightarrow> string \<Rightarrow> pyval option" where
  "keys s \<equiv> view (redis (toks s))"

text \<open>What revoking the whole family of a user's tokens leaves in Redis.\<close>

lemma revoke_family_run:
  assumes "keys s (user_index_key RefreshStore uid) = Some (PSet ts)"
    and "keys s (access_index_key RevocationStore uid) = Some (PSet js)"
  shows "\<exists>t. revoke_family rc uid s = (Inr (), s\<lparr>toks := t\<rparr>) \<and>
    (\<forall>r \<in> set ts. view (redis t) (key RefreshStore r) = None) \<and>
    (\<forall>j \<in> set js. is_revoked rc (conf s) RevocationStore j t = (Inr True, t)) \<and>
    (\<forall>k. view (redis t) (key PasswordResetStore k) = keys s (key PasswordResetStore k))"
proof -
  obtain t1 where 1: "revoke_all_for_user rc (conf s) RefreshStore uid (toks s) = (Inr (), t1)"
      "view (redis t1) = (\<lambda>k. if k \<in> key RefreshStore ` set ts then None else keys s k)"
    using backend.revoke_all [of "toks s" RefreshStore uid "conf s"] assms(1) by (auto simp: members_of_def)
  let ?s1 = "s\<lparr>toks := t1\<rparr>"
  have idx: "keys ?s1 (access_index_key RevocationStore uid) = Some (PSet js)"
    using 1(2) assms(2) by (auto simp: key_stores_differ)
  obtain t2 where 2: "revoke_all_access_tokens_for_user rc (conf s) RevocationStore uid t1 = (Inr (), t2)"
      "view (redis t2) = (\<lambda>k. if k \<in> key RevocationStore ` set js then Some (PStr ''revoked'') else view (redis t1) k)"
    using backend.revoke_all_access [of t1 RevocationStore uid "conf s"] idx by (auto simp: members_of_def)
  have run: "revoke_family rc uid s = (Inr (), s\<lparr>toks := t2\<rparr>)"
    by (simp add: revoke_family_def bnd_apply in_toks_apply 1(1) 2(1))
  have gone: "view (redis t2) (key RefreshStore t) = None" if "t \<in> set ts" for t
    using that 1(2) 2(2) by (auto simp: key_stores_differ)
  have rev: "is_revoked rc (conf s) RevocationStore j t2 = (Inr True, t2)" if "j \<in> set js" for j
    using that 2(2) by (subst backend.is_revoked_iff) auto
  have other: "view (redis t2) (key PasswordResetStore k) = keys s (key PasswordResetStore k)" for k
    using 1(2) 2(2) by (auto simp: key_stores_differ)
  show ?thesis using run gone rev other by (intro exI [of _ t2]) simp
qed

text \<open>A used refresh token that is presented again takes the whole family with it.\<close>

lemma replay_run:
  assumes "keys s (key RefreshStore old) = Some (PStr (used_token_value uid))"
    and "keys s (user_index_key RefreshStore uid) = Some (PSet ts)"
    and "keys s (access_index_key RevocationStore uid) = Some (PSet js)"
  shows "\<exists>s'. refresh_use_case rc cr now jti fresh old s = (Inl (unauthorized ''Invalid refresh token''), s') \<and>
    sess s' = sess s \<and> (\<forall>t \<in> set ts. keys s' (key RefreshStore t) = None) \<and>
    (\<forall>j \<in> set js. is_revoked rc (conf s') RevocationStore j (toks s') = (Inr True, toks s'))"
proof -
  have get: "in_toks (\<lambda>c. get_token rc c RefreshStore old) s = (Inr (Some (PStr (used_token_value uid))), s)"
    using backend.get_law [of "toks s" RefreshStore old "conf s"] assms(1) by (simp add: in_toks_apply)
  have marker: "is_used_marker (PStr (used_token_value uid))" "\<not> falsy (Some (PStr (used_token_value uid)))"
    by (simp_all add: is_used_marker_def falsy_def used_token_value_def used_token_prefix_def startswith_def)
  obtain t where t: "revoke_family rc uid s = (Inr (), s\<lparr>toks := t\<rparr>)"
      "\<forall>r \<in> set ts. view (redis t) (key RefreshStore r) = None"
      "\<forall>j \<in> set js. is_revoked rc (conf s) RevocationStore j t = (Inr True, t)"
    using revoke_family_run [OF assms(2,3)] by blast
  let ?t = "snd (audit_log Nobody ''security.refresh_token_replay_detected'' ''session''
      (JObj [(''user_id'', JInt uid)]) None None True now (s\<lparr>toks := t\<rparr>))"
  have "refresh_use_case rc cr now jti fresh old s = (Inl (unauthorized ''Invalid refresh token''), ?t)"
    using marker t(1)
    by (simp add: refresh_use_case_def bnd_apply get pure_op_apply throw_apply audit_log_def queue_job_apply)
  then show ?thesis using t(2,3)
    by (intro exI [of _ ?t]) (simp add: audit_log_def queue_job_apply)
qed

lemma reset_run:
  assumes "crypto_ok cr" "CHR ''$'' \<notin> set salt"
    and "keys s (key PasswordResetStore token) = Some (PStr (show_int uid))"
    and "account s u" "user_id u = uid"
    and "keys s (user_index_key RefreshStore uid) = Some (PSet ts)"
    and "keys s (access_index_key RevocationStore uid) = Some (PSet js)"
  shows "\<exists>s' u'. confirm_password_reset rc cr salt token new s = (Inr ''Password updated successfully'', s') \<and>
    u' \<in> set (users (work (sess s'))) \<and> user_id u' = uid \<and>
    verify_password cr new (user_hashed_password u') = Inr True \<and>
    keys s' (key PasswordResetStore token) = None \<and>
    (\<forall>t \<in> set ts. keys s' (key RefreshStore t) = None) \<and>
    (\<forall>j \<in> set js. is_revoked rc (conf s') RevocationStore j (toks s') = (Inr True, toks s'))"
proof -
  obtain t1 where 1: "consume_password_reset_token rc (conf s) PasswordResetStore token (toks s) = (Inr (Some uid), t1)"
      "view (redis t1) = (keys s)(key PasswordResetStore token := None)"
    using backend.consume_once [of "toks s" PasswordResetStore token uid "conf s"] assms(3) by blast
  let ?u = "u\<lparr>user_hashed_password := hash_password cr salt new\<rparr>"
  let ?s1 = "s\<lparr>toks := t1\<rparr>"
  let ?s2 = "?s1\<lparr>sess := put_user ?u (sess s)\<rparr>"
  have acc: "account ?s1 u" using assms(4) by (simp add: account_def)
  have same: "same_identity u ?u" by (simp add: same_identity_def)
  have save: "in_db (db_save User ?u) ?s1 = (Inr (), ?s2)"
    using save_user [OF _ _ same] assms(4) by (simp add: account_def in_db_apply)
  have in2: "?u \<in> set (users (work (sess ?s2)))"
    using put_user_ok(2) [OF _ _ same] assms(4) by (simp add: account_def)
  have "keys ?s2 (user_index_key RefreshStore uid) = Some (PSet ts)"
      "keys ?s2 (access_index_key RevocationStore uid) = Some (PSet js)"
    using 1(2) assms(6,7) by (simp_all add: key_stores_differ)
  from revoke_family_run [OF this] obtain t where t: "revoke_family rc uid ?s2 = (Inr (), ?s2\<lparr>toks := t\<rparr>)"
      "\<forall>r \<in> set ts. view (redis t) (key RefreshStore r) = None"
      "\<forall>j \<in> set js. is_revoked rc (conf ?s2) RevocationStore j t = (Inr True, t)"
      "view (redis t) (key PasswordResetStore token) = keys ?s2 (key PasswordResetStore token)"
    by blast
  have "confirm_password_reset rc cr salt token new s = (Inr ''Password updated successfully'', ?s2\<lparr>toks := t\<rparr>)"
    using get_account [OF acc] save t(1) assms(5) 1(1)
    by (simp add: confirm_password_reset_def bnd_apply in_toks_apply ret_apply)
  moreover have "verify_password cr new (user_hashed_password ?u) = Inr True"
    using verify_own_hash [OF assms(1,2)] by simp
  ultimately show ?thesis
    using t(2-4) in2 assms(5) 1(2) by (intro exI [of _ "?s2\<lparr>toks := t\<rparr>"] exI [of _ ?u]) simp
qed

end


definition demo_tokens :: "(string \<Rightarrow> pyval option) token_state" where
  "demo_tokens = \<lparr>redis = [key RefreshStore ''old'' \<mapsto> PStr (used_token_value 7), key PasswordResetStore ''r'' \<mapsto> PStr (show_int 7),
     user_index_key RefreshStore 7 \<mapsto> PSet [''new''], access_index_key RevocationStore 7 \<mapsto> PSet [''j1'']],
     mem = \<lambda>_ _. None\<rparr>"

lemma demo_tokens_at:
  "redis demo_tokens (key RefreshStore ''old'') = Some (PStr (used_token_value 7))"
  "redis demo_tokens (key PasswordResetStore ''r'') = Some (PStr (show_int 7))"
  "redis demo_tokens (user_index_key RefreshStore 7) = Some (PSet [''new''])"
  "redis demo_tokens (access_index_key RevocationStore 7) = Some (PSet [''j1''])"
  by (simp_all add: demo_tokens_def key_stores_differ key_def user_index_key_def access_index_key_def prefix_of_def)




end
