(* ===== verification/Billing.thy ===== *)
theory Billing
  imports Rbac
begin

text \<open>
  Plans, features and subscriptions: \<open>BillingService\<close> (\<open>backend/domain/billing/service.py\<close>, with
  its process-wide flag of the seed), \<open>BillingUseCases\<close>
  (\<open>backend/application/billing/use_cases.py\<close>), the entitlement dependency
  (\<open>backend/core/security/entitlements.py\<close>) and the billing jobs of
  \<open>backend/common/background_jobs.py\<close>.
\<close>

section \<open>BillingService\<close>

definition free_plan :: plan where
  "free_plan = \<lparr>plan_id = 0, plan_key = ''free'', plan_name = ''Free'', plan_price_cents = 0,
     plan_billing_interval = ''month'', plan_is_active = True\<rparr>"

definition ensure_billing_seed :: "('r app, unit) op" where
  "ensure_billing_seed = bnd (look billing_seeded) (\<lambda>done.
     if done then ret ()
     else bnd (in_db (scalar Plan (\<lambda>p. plan_key p = ''free''))) (\<lambda>found.
       bnd (if found = None then bnd (in_db (db_insert Plan free_plan)) (\<lambda>_. ret ()) else ret ()) (\<lambda>_.
       modify (\<lambda>s. s\<lparr>billing_seeded := True\<rparr>))))"

definition entitling :: "string list" where
  "entitling = [''active'', ''trialing'']"

text \<open>The plans the user holds, and the rows of \<open>PlanFeature JOIN Feature\<close> under them.\<close>

definition held_plans :: "db \<Rightarrow> int \<Rightarrow> int list" where
  "held_plans d uid = map sub_plan_id
     (filter (\<lambda>sub. sub_user_id sub = uid \<and> sub_status sub \<in> set entitling) (subscriptions d))"

definition feature_rows :: "db \<Rightarrow> int list \<Rightarrow> string \<Rightarrow> int list" where
  "feature_rows d plan_ids k = [pf_feature_id pf. pf \<leftarrow> plan_features d, f \<leftarrow> features d,
     feature_id f = pf_feature_id pf \<and> pf_plan_id pf \<in> set plan_ids \<and> feature_key f = k]"

definition user_has_feature :: "principal \<Rightarrow> string \<Rightarrow> (session, bool) op" where
  "user_has_feature user k =
     (if user_is_superuser user then ret True
      else bnd (look (\<lambda>s. held_plans (work s) (user_id user))) (\<lambda>plan_ids.
        if plan_ids = [] then ret False
        else bnd (look (\<lambda>s. feature_rows (work s) plan_ids k)) (\<lambda>rows.
          bnd (pure_op (one_or_none rows)) (\<lambda>row. ret (row \<noteq> None)))))"

section \<open>BillingUseCases\<close>

definition create_plan :: "string \<Rightarrow> string \<Rightarrow> int \<Rightarrow> string \<Rightarrow> bool \<Rightarrow> (session, plan) op" where
  "create_plan k name price_cents billing_interval is_active =
     bnd (db_insert Plan \<lparr>plan_id = 0, plan_key = k, plan_name = name, plan_price_cents = price_cents,
       plan_billing_interval = billing_interval, plan_is_active = is_active\<rparr>) (\<lambda>p.
     bnd commit (\<lambda>_. ret p))"

definition new_feature :: "string \<Rightarrow> string \<Rightarrow> string option \<Rightarrow> feature" where
  "new_feature k name description =
     \<lparr>feature_id = 0, feature_key = k, feature_name = name, feature_description = description\<rparr>"

definition create_feature :: "string \<Rightarrow> string \<Rightarrow> string option \<Rightarrow> (session, feature) op" where
  "create_feature k name description =
     bnd (db_insert Feature (new_feature k name description)) (\<lambda>f. bnd commit (\<lambda>_. ret f))"

text \<open>The feature with a key, made when there is none.\<close>

definition feature_for :: "string \<Rightarrow> (session, feature) op" where
  "feature_for k = bnd (scalar Feature (\<lambda>f. feature_key f = k)) (\<lambda>found. case found of
     Some f \<Rightarrow> ret f
   | None \<Rightarrow> db_insert Feature (new_feature k k None))"

definition map_feature_to_plan :: "int \<Rightarrow> string \<Rightarrow> (session, plan_feature) op" where
  "map_feature_to_plan pid k =
     bnd (db_get Plan pid) (\<lambda>p. case p of
       None \<Rightarrow> throw (ValueError ''plan not found'')
     | Some p \<Rightarrow> bnd (feature_for k) (\<lambda>f.
         let mapping = \<lparr>pf_plan_id = plan_id p, pf_feature_id = feature_id f\<rparr> in
         bnd (db_link PlanFeature mapping) (\<lambda>_. bnd commit (\<lambda>_. ret mapping))))"

definition new_subscription :: "int \<Rightarrow> int \<Rightarrow> string \<Rightarrow> string \<Rightarrow> subscription" where
  "new_subscription uid pid status provider = \<lparr>sub_id = 0, sub_user_id = uid, sub_plan_id = pid,
     sub_status = status, sub_provider = provider, sub_trial_ends_at = None\<rparr>"

definition assign_subscription :: "int \<Rightarrow> int \<Rightarrow> string \<Rightarrow> (session, subscription) op" where
  "assign_subscription uid pid provider =
     bnd (db_insert Subscription (new_subscription uid pid ''active'' provider)) (\<lambda>sub.
     bnd commit (\<lambda>_. ret sub))"

text \<open>The same question as the service's, which joins the plan and does not spare superusers.\<close>

definition joined_plans :: "db \<Rightarrow> int \<Rightarrow> int list" where
  "joined_plans d uid = [sub_plan_id sub. sub \<leftarrow> subscriptions d, p \<leftarrow> plans d,
     sub_plan_id sub = plan_id p \<and> sub_user_id sub = uid \<and> sub_status sub \<in> set entitling]"

definition use_case_has_feature :: "int \<Rightarrow> string \<Rightarrow> (session, bool) op" where
  "use_case_has_feature uid k =
     bnd (look (\<lambda>s. joined_plans (work s) uid)) (\<lambda>plan_ids.
       if plan_ids = [] then ret False
       else bnd (look (\<lambda>s. feature_rows (work s) plan_ids k)) (\<lambda>rows.
         bnd (pure_op (one_or_none rows)) (\<lambda>row. ret (row \<noteq> None))))"

section \<open>Entitlements\<close>

definition feature_disabled :: "string \<Rightarrow> exn" where
  "feature_disabled k = HTTPException 503 (DetailDict [(''error'', ''feature_disabled''), (''required_feature'', k)])"

definition feature_not_in_plan :: "string \<Rightarrow> exn" where
  "feature_not_in_plan k = HTTPException 402 (DetailDict [(''error'', ''feature_not_in_plan''),
     (''required_feature'', k), (''upgrade_url'', ''/billing/plans'')])"

definition require_feature :: "string \<Rightarrow> principal \<Rightarrow> ('r app, principal) op" where
  "require_feature k current_user = bnd (look conf) (\<lambda>c.
     if k \<in> set (disabled_features c) then throw (feature_disabled k)
     else if \<not> subscriptions_enabled c \<or> user_is_superuser current_user then ret current_user
     else bnd (in_db (user_has_feature current_user k)) (\<lambda>ok.
       if \<not> ok then throw (feature_not_in_plan k) else ret current_user))"

section \<open>Billing jobs\<close>

definition enqueue_billing_notification :: "int \<Rightarrow> string \<Rightarrow> string \<Rightarrow> string \<Rightarrow> ('r app, unit) op" where
  "enqueue_billing_notification uid kind title body = queue_job (BillingNotification uid kind title body)"

text \<open>The job's handler; its session is its own.\<close>

definition billing_notification :: "int \<Rightarrow> string \<Rightarrow> string \<Rightarrow> string \<Rightarrow> (session, unit) op" where
  "billing_notification uid kind title body = session_local
     (bnd (db_insert Notification \<lparr>notif_id = 0, notif_user_id = uid, notif_channel = ''in_app'', notif_kind = kind,
        notif_title = title, notif_body = body, notif_is_read = False\<rparr>) (\<lambda>_. commit))"

text \<open>\<open>trial_ends_at <= now\<close> in SQL, where the column is aware; no row has a naive time.\<close>

definition trial_over :: "int \<Rightarrow> subscription \<Rightarrow> bool" where
  "trial_over now sub \<longleftrightarrow> sub_status sub = ''trialing'' \<and>
     (case sub_trial_ends_at sub of None \<Rightarrow> False | Some (Aware t) \<Rightarrow> t \<le> now | Some (Naive t) \<Rightarrow> t \<le> now)"

definition expire_trial_subscriptions :: "int \<Rightarrow> (session, nat) op" where
  "expire_trial_subscriptions now = session_local
     (bnd (select Subscription (trial_over now)) (\<lambda>subs.
      bnd (for_each subs (\<lambda>sub. db_save Subscription (sub\<lparr>sub_status := ''expired''\<rparr>))) (\<lambda>_.
      bnd commit (\<lambda>_. ret (length subs)))))"

definition process_trial_expiry_jobs :: "int \<Rightarrow> ('r app, nat) op" where
  "process_trial_expiry_jobs now =
     bnd (in_db (expire_trial_subscriptions now)) (\<lambda>updated.
     bnd (if updated \<noteq> 0
          then bnd (in_db (session_local (select Subscription (\<lambda>sub. sub_status sub = ''expired'')))) (\<lambda>subs.
            for_each subs (\<lambda>sub. enqueue_billing_notification (sub_user_id sub) ''trial_expired'' ''Trial ended''
              ''Your trial has ended. Please review your billing plan.''))
          else ret ()) (\<lambda>_.
     ret updated))"

section \<open>Who is entitled to a feature\<close>

definition is_live :: "subscription \<Rightarrow> bool" where
  "is_live sub \<longleftrightarrow> sub_status sub = ''active'' \<or> sub_status sub = ''trialing''"

definition entitled :: "db \<Rightarrow> principal \<Rightarrow> string \<Rightarrow> bool" where
  "entitled d user k \<longleftrightarrow> user_is_superuser user \<or>
     (\<exists>sub \<in> set (subscriptions d). \<exists>pf \<in> set (plan_features d). \<exists>f \<in> set (features d).
        sub_user_id sub = user_id user \<and> is_live sub \<and>
        pf_plan_id pf = sub_plan_id sub \<and> feature_id f = pf_feature_id pf \<and> feature_key f = k)"

lemma held_plans_iff:
  "pid \<in> set (held_plans d uid) \<longleftrightarrow> (\<exists>sub \<in> set (subscriptions d). sub_user_id sub = uid \<and> is_live sub \<and> sub_plan_id sub = pid)"
  by (auto simp: held_plans_def entitling_def is_live_def)

lemma feature_rows_nonempty:
  "feature_rows d pids k \<noteq> [] \<longleftrightarrow> (\<exists>pf \<in> set (plan_features d). \<exists>f \<in> set (features d).
     feature_id f = pf_feature_id pf \<and> pf_plan_id pf \<in> set pids \<and> feature_key f = k)"
  by (simp only: feature_rows_def join_nonempty)

lemma feature_rows_cong: "set p = set q \<Longrightarrow> feature_rows d p k = feature_rows d q k"
  by (simp add: feature_rows_def)

lemma entitled_iff:
  "entitled d user k \<longleftrightarrow> user_is_superuser user \<or> feature_rows d (held_plans d (user_id user)) k \<noteq> []"
  unfolding entitled_def feature_rows_nonempty held_plans_iff by (rule iffI; elim disjE bexE conjE; metis)

lemma row_found: "one_or_none rows = Inr row \<Longrightarrow> row \<noteq> None \<longleftrightarrow> rows \<noteq> []"
  by (cases row) (auto simp: one_or_none_None one_or_none_Some)

lemma feature_decided:
  "user_has_feature user k s =
     (if \<not> user_is_superuser user \<and> 2 \<le> length (feature_rows (work s) (held_plans (work s) (user_id user)) k)
      then Inl MultipleResultsFound else Inr (entitled (work s) user k), s)"
proof (cases "one_or_none (feature_rows (work s) (held_plans (work s) (user_id user)) k)")
  case (Inl e)
  then have e: "e = MultipleResultsFound" "2 \<le> length (feature_rows (work s) (held_plans (work s) (user_id user)) k)"
    by (simp_all add: one_or_none_Inl)
  then have "held_plans (work s) (user_id user) \<noteq> []"
    using feature_rows_nonempty [of "work s" "[]" k] by auto
  then show ?thesis using Inl e
    by (simp add: user_has_feature_def entitled_iff bnd_apply look_apply pure_op_apply ret_apply)
next
  case (Inr row)
  then have "\<not> 2 \<le> length (feature_rows (work s) (held_plans (work s) (user_id user)) k)"
    by (metis Inl_Inr_False one_or_none_Inl)
  moreover have "feature_rows (work s) [] k = []" using feature_rows_nonempty [of "work s" "[]" k] by auto
  ultimately show ?thesis using Inr row_found [OF Inr]
    by (simp add: user_has_feature_def entitled_iff bnd_apply look_apply pure_op_apply ret_apply)
qed

text \<open>
  Property C22. \<open>user_has_feature\<close> answers whether the user is entitled (a superuser, or an active or
  trialing subscription to a plan with the feature), except that a user with two such rows (say
  two live subscriptions to plans that share the feature) gets \<open>MultipleResultsFound\<close>; the
  database is not changed.
\<close>

theorem entitlement_correct:
  "user_has_feature user k s =
     (if \<not> user_is_superuser user \<and> 2 \<le> length (feature_rows (work s) (held_plans (work s) (user_id user)) k)
      then Inl MultipleResultsFound else Inr (entitled (work s) user k), s)"
  by (rule feature_decided)

text \<open>
  The two implementations of the question agree: for a user who is no superuser,
  \<open>BillingUseCases.user_has_feature\<close>, which joins the plan, returns (or raises) what
  \<open>BillingService.user_has_feature\<close> does, as long as every subscription's plan exists.
\<close>

theorem use_case_agrees:
  assumes "\<forall>sub \<in> set (subscriptions (work s)). has_plan (work s) (sub_plan_id sub)" and "\<not> user_is_superuser user"
  shows "use_case_has_feature (user_id user) k s = user_has_feature user k s"
proof -
  have "set (joined_plans (work s) (user_id user)) = set (held_plans (work s) (user_id user))"
    using assms(1) by (force simp: joined_plans_def held_plans_def has_plan_def)
  then have "joined_plans (work s) (user_id user) = [] \<longleftrightarrow> held_plans (work s) (user_id user) = []"
    and "feature_rows (work s) (joined_plans (work s) (user_id user)) k =
      feature_rows (work s) (held_plans (work s) (user_id user)) k"
    by (metis set_empty2, rule feature_rows_cong)
  then show ?thesis using assms(2)
    by (simp add: use_case_has_feature_def user_has_feature_def bnd_apply look_apply)
qed

definition demo_plan :: plan where
  "demo_plan = \<lparr>plan_id = 1, plan_key = ''pro'', plan_name = ''Pro'', plan_price_cents = 3000,
     plan_billing_interval = ''month'', plan_is_active = True\<rparr>"

definition demo_sub :: subscription where
  "demo_sub = \<lparr>sub_id = 4, sub_user_id = 7, sub_plan_id = 1, sub_status = ''trialing'', sub_provider = ''manual'',
     sub_trial_ends_at = Some (Aware 10)\<rparr>"

definition demo_billing :: db where
  "demo_billing = empty_db\<lparr>users := [demo_user], plans := [demo_plan], subscriptions := [demo_sub],
     features := [new_feature ''reports.export'' ''Export'' None\<lparr>feature_id := 2\<rparr>],
     plan_features := [\<lparr>pf_plan_id = 1, pf_feature_id = 2\<rparr>]\<rparr>"

theorem use_case_agrees_witness:
  "use_case_has_feature 7 ''reports.export'' \<lparr>work = demo_billing, stored = demo_billing, fk_on = True\<rparr> =
   user_has_feature (principal_of demo_user None None) ''reports.export'' \<lparr>work = demo_billing, stored = demo_billing, fk_on = True\<rparr>"
  using use_case_agrees [of "\<lparr>work = demo_billing, stored = demo_billing, fk_on = True\<rparr>" "principal_of demo_user None None" "''reports.export''"]
  by (simp add: demo_billing_def demo_sub_def demo_plan_def has_plan_def principal_of_def demo_user_def user.extend_def)

section \<open>Trials\<close>

definition expired_subscription :: "int \<Rightarrow> subscription \<Rightarrow> subscription" where
  "expired_subscription now sub = (if trial_over now sub then sub\<lparr>sub_status := ''expired''\<rparr> else sub)"

definition subs_ok :: "db \<Rightarrow> bool" where
  "subs_ok d \<longleftrightarrow> distinct (map sub_id (subscriptions d)) \<and>
     (\<forall>sub \<in> set (subscriptions d). has_user d (sub_user_id sub) \<and> has_plan d (sub_plan_id sub))"

lemma expire_run:
  assumes "subs_ok (stored s)"
  shows "expire_trial_subscriptions now s = (let d = (stored s)\<lparr>subscriptions := map (expired_subscription now) (subscriptions (stored s))\<rparr>
    in (Inr (length (filter (trial_over now) (subscriptions (stored s)))), s\<lparr>work := d, stored := d\<rparr>))"
proof -
  let ?f = "\<lambda>sub. sub\<lparr>sub_status := ''expired''\<rparr>"
  let ?s = "s\<lparr>work := stored s\<rparr>"
  let ?xs = "filter (trial_over now) (subscriptions (stored s))"
  have ids: "distinct (map sub_id (subscriptions (stored s)))" using assms by (simp add: subs_ok_def)
  have "for_each ?xs (\<lambda>r. db_save Subscription (?f r)) ?s = (Inr (), ?s\<lparr>work := mc_put Subscription
      (map (\<lambda>r. if r \<in> set ?xs then ?f r else r) (mc_rows Subscription (work ?s))) (work ?s)\<rparr>)"
    using assms ids by (intro subscriptions.save_all) (auto simp: Subscription_def subs_ok_def distinct_map)
  moreover have "map (\<lambda>r. if r \<in> set ?xs then ?f r else r) (subscriptions (stored s)) =
      map (expired_subscription now) (subscriptions (stored s))"
    by (simp add: expired_subscription_def)
  ultimately show ?thesis
    by (simp add: expire_trial_subscriptions_def session_local_def bnd_apply select_def look_apply commit_apply ret_apply
        Subscription_def Let_def)
qed

definition trial_notice :: "subscription \<Rightarrow> job" where
  "trial_notice sub = BillingNotification (sub_user_id sub) ''trial_expired'' ''Trial ended''
     ''Your trial has ended. Please review your billing plan.''"

lemma notify_all:
  assumes "job_queue (conf s) = InProcessJobQueue"
  shows "for_each subs (\<lambda>sub. enqueue_billing_notification (sub_user_id sub) ''trial_expired'' ''Trial ended''
      ''Your trial has ended. Please review your billing plan.'') s = (Inr (), s\<lparr>jobs := jobs s @ map trial_notice subs\<rparr>)"
  using assms
  by (induction subs arbitrary: s)
    (simp_all add: ret_apply bnd_apply enqueue_billing_notification_def queue_job_apply queued_job_def trial_notice_def)

text \<open>
  A round of the trial job marks exactly the trialing subscriptions whose trial is
  over as expired, commits that, and returns their number; when there is one, it notifies the
  user of every subscription with status \<open>expired\<close>, also of those that expired in earlier rounds
  (each such round notifies them again).
\<close>

theorem trial_round:
  assumes "subs_ok (stored (sess s))" and "job_queue (conf s) = InProcessJobQueue"
    and "\<exists>sub \<in> set (subscriptions (stored (sess s))). trial_over now sub"
  shows "\<exists>s'. process_trial_expiry_jobs now s =
      (Inr (length (filter (trial_over now) (subscriptions (stored (sess s))))), s') \<and>
    subscriptions (stored (sess s')) = map (expired_subscription now) (subscriptions (stored (sess s))) \<and>
    users (stored (sess s')) = users (stored (sess s)) \<and>
    jobs s' = jobs s @ map trial_notice (filter (\<lambda>sub. sub_status sub = ''expired'')
      (map (expired_subscription now) (subscriptions (stored (sess s)))))"
proof -
  let ?d = "(stored (sess s))\<lparr>subscriptions := map (expired_subscription now) (subscriptions (stored (sess s)))\<rparr>"
  let ?s1 = "s\<lparr>sess := (sess s)\<lparr>work := ?d, stored := ?d\<rparr>\<rparr>"
  let ?n = "length (filter (trial_over now) (subscriptions (stored (sess s))))"
  have 1: "in_db (expire_trial_subscriptions now) s = (Inr ?n, ?s1)"
    using expire_run [OF assms(1)] by (simp add: in_db_apply Let_def)
  have "?n \<noteq> 0" using assms(3) by (auto simp: filter_empty_conv)
  moreover have "in_db (session_local (select Subscription (\<lambda>sub. sub_status sub = ''expired''))) ?s1 =
      (Inr (filter (\<lambda>sub. sub_status sub = ''expired'') (map (expired_subscription now) (subscriptions (stored (sess s))))), ?s1)"
    by (simp add: in_db_apply session_local_def select_def look_apply Subscription_def)
  ultimately show ?thesis using 1 assms(2)
    by (simp add: process_trial_expiry_jobs_def bnd_apply notify_all ret_apply)
qed

theorem trial_round_witness:
  "\<exists>s'. process_trial_expiry_jobs 20 (demo_app demo_billing) = (Inr 1, s') \<and>
     map sub_status (subscriptions (stored (sess s'))) = [''expired'']"
proof -
  have over: "trial_over 20 demo_sub" by (simp add: trial_over_def demo_sub_def)
  have st: "stored (sess (demo_app demo_billing)) = demo_billing" by (simp add: demo_app_def)
  have subs: "subscriptions demo_billing = [demo_sub]" by (simp add: demo_billing_def)
  have ok: "subs_ok demo_billing"
    by (simp add: subs_ok_def demo_billing_def demo_sub_def has_user_def has_plan_def demo_user_def demo_plan_def)
  have q: "job_queue (conf (demo_app demo_billing)) = InProcessJobQueue"
    by (simp add: demo_app_def job_queue_def default_settings_def)
  show ?thesis
    using trial_round [of "demo_app demo_billing" 20] ok q over
    by (auto simp: st subs expired_subscription_def)
qed

end
