(* ===== verification/Payments.thy ===== *)
theory Payments
  imports Billing
begin

text \<open>
  The payment gateways: \<open>backend/integrations/stripe_adapter.py\<close> and \<open>paypal_adapter.py\<close>, the two
  implementations of \<open>PaymentGatewayPort\<close>. HMAC-SHA256 in hexadecimal, \<open>hm key text\<close>, is a
  parameter; \<open>hmac.compare_digest\<close> on texts raises a \<open>TypeError\<close> unless both are ASCII.

  The locale \<open>payment_gateway\<close> is what the webhook relies on: a gateway without a secret verifies
  nothing, and one that verifies has seen the code computed with its own secret. Both adapters
  are interpretations of it.
\<close>

section \<open>Signatures\<close>

definition ascii :: "string \<Rightarrow> bool" where
  "ascii t \<longleftrightarrow> list_all (\<lambda>c. (of_char c :: nat) < 128) t"

definition compare_digest :: "string \<Rightarrow> string \<Rightarrow> exn + bool" where
  "compare_digest a b = (if ascii a \<and> ascii b then Inr (a = b) else Inl TypeError)"

record verification =
  ver_verified :: bool
  ver_payload :: string
  ver_signature :: string

definition refused :: "string \<Rightarrow> string \<Rightarrow> verification" where
  "refused payload header = \<lparr>ver_verified = False, ver_payload = payload, ver_signature = header\<rparr>"

text \<open>The pairs of a \<open>t=...,v1=...\<close> header; the last of several with one name counts.\<close>

definition stripe_parts :: "string \<Rightarrow> string \<Rightarrow> string option" where
  "stripe_parts header = foldl (\<lambda>parts item. case split_once (CHR ''='') item of
       None \<Rightarrow> parts | Some (k, v) \<Rightarrow> parts(strip k \<mapsto> strip v)) Map.empty (split_on (CHR '','') header)"

definition stripe_tolerance :: int where
  "stripe_tolerance = 300"

definition stripe_verify :: "(string \<Rightarrow> string \<Rightarrow> string) \<Rightarrow> settings \<Rightarrow> int \<Rightarrow> string \<Rightarrow> string \<Rightarrow> exn + verification" where
  "stripe_verify hm c now payload header =
     (if blank (stripe_webhook_secret c) then Inr (refused payload header)
      else (let ts = stripe_parts header ''t''; sig = stripe_parts header ''v1'' in
        if blank ts \<or> blank sig then Inr (refused payload header)
        else (case parse_int (the ts) of
            None \<Rightarrow> Inr (refused payload header)
          | Some n \<Rightarrow>
              if \<bar>now div 1000000 - n\<bar> > stripe_tolerance then Inr (refused payload header)
              else bind_sum (compare_digest (the sig) (hm (the (stripe_webhook_secret c)) (the ts @ ''.'' @ payload)))
                (\<lambda>ok. Inr \<lparr>ver_verified = ok, ver_payload = payload, ver_signature = header\<rparr>))))"

text \<open>PayPal's: what follows the first \<open>=\<close> of the header, or all of it.\<close>

definition paypal_signature :: "string \<Rightarrow> string" where
  "paypal_signature header = (let v = strip header in
     case split_once (CHR ''='') v of None \<Rightarrow> v | Some (_, b) \<Rightarrow> b)"

definition paypal_secret :: "settings \<Rightarrow> string option" where
  "paypal_secret c = or_text (paypal_webhook_id c) (paypal_client_secret c)"

definition paypal_verify :: "(string \<Rightarrow> string \<Rightarrow> string) \<Rightarrow> settings \<Rightarrow> int \<Rightarrow> string \<Rightarrow> string \<Rightarrow> exn + verification" where
  "paypal_verify hm c now payload header =
     (if blank (paypal_secret c) then Inr (refused payload header)
      else bind_sum (compare_digest (paypal_signature header) (hm (the (paypal_secret c)) payload))
        (\<lambda>ok. Inr \<lparr>ver_verified = ok, ver_payload = payload, ver_signature = header\<rparr>))"

section \<open>Customers and checkout\<close>

definition stripe_customer :: "principal \<Rightarrow> string" where
  "stripe_customer u = ''cus_'' @ show_int (user_id u)"

definition paypal_customer :: "principal \<Rightarrow> string" where
  "paypal_customer u = ''pp_'' @ show_int (user_id u)"

definition checkout_reply :: "string \<Rightarrow> string \<Rightarrow> int \<Rightarrow> string \<Rightarrow> bool \<Rightarrow> payload" where
  "checkout_reply provider url pid customer live =
     [(''provider'', JStr provider), (''checkout_url'', JStr url), (''plan_id'', JInt pid),
      (''customer_id'', JStr customer), (''mode'', JStr (if live then ''live'' else ''sandbox''))]"

text \<open>\<open>settings.x or os.getenv("X")\<close>; a session is live when the credentials are there.\<close>

definition stripe_checkout :: "settings \<Rightarrow> environ \<Rightarrow> principal \<Rightarrow> plan \<Rightarrow> string \<Rightarrow> payload" where
  "stripe_checkout c env u p success_url =
     checkout_reply ''stripe'' success_url (plan_id p) (stripe_customer u)
       (\<not> blank (or_text (stripe_secret_key c) (env ''STRIPE_SECRET_KEY'')))"

definition paypal_checkout :: "settings \<Rightarrow> environ \<Rightarrow> principal \<Rightarrow> plan \<Rightarrow> string \<Rightarrow> payload" where
  "paypal_checkout c env u p success_url =
     checkout_reply ''paypal'' success_url (plan_id p) (paypal_customer u)
       (\<not> blank (or_text (paypal_client_id c) (env ''PAYPAL_CLIENT_ID'')) \<and>
        \<not> blank (or_text (paypal_client_secret c) (env ''PAYPAL_CLIENT_SECRET'')))"

section \<open>The contract of a gateway\<close>

locale payment_gateway =
  fixes verify :: "settings \<Rightarrow> int \<Rightarrow> string \<Rightarrow> string \<Rightarrow> exn + verification"
    and secret :: "settings \<Rightarrow> string option"
    and presented :: "string \<Rightarrow> string"
    and expected :: "string \<Rightarrow> string \<Rightarrow> string \<Rightarrow> string"
  assumes unconfigured: "blank (secret c) \<Longrightarrow> verify c now payload header = Inr (refused payload header)"
    and verified_code: "verify c now payload header = Inr v \<Longrightarrow> ver_verified v \<Longrightarrow>
      presented header = expected (the (secret c)) header payload"
    and echo: "verify c now payload header = Inr v \<Longrightarrow> ver_payload v = payload"
begin

lemma verified_needs_secret:
  assumes "verify c now payload header = Inr v" and "ver_verified v"
  shows "\<exists>k. secret c = Some k \<and> k \<noteq> [] \<and> presented header = expected k header payload \<and> ver_payload v = payload"
proof -
  have "\<not> blank (secret c)"
    using assms unconfigured [of c now payload header] by (auto simp: refused_def)
  then obtain k where "secret c = Some k" "k \<noteq> []" by (cases "secret c") (auto simp: blank_def)
  then show ?thesis using verified_code [OF assms] echo [OF assms(1)] by simp
qed

end

interpretation stripe: payment_gateway "stripe_verify hm" stripe_webhook_secret
  "\<lambda>header. the (stripe_parts header ''v1'')" "\<lambda>k header payload. hm k (the (stripe_parts header ''t'') @ ''.'' @ payload)"
  for hm
  by unfold_locales
    (auto simp: stripe_verify_def refused_def compare_digest_def bind_sum_def Let_def
      split: if_splits option.splits sum.splits)

interpretation paypal: payment_gateway "paypal_verify hm" paypal_secret paypal_signature "\<lambda>k header payload. hm k payload"
  for hm
  by unfold_locales
    (auto simp: paypal_verify_def refused_def compare_digest_def bind_sum_def split: if_splits sum.splits)

text \<open>A gateway of the program, by the provider's name.\<close>

datatype gateway = Stripe | PayPal

definition adapter_of :: "string \<Rightarrow> gateway option" where
  "adapter_of provider = (if provider = ''stripe'' then Some Stripe
     else if provider = ''paypal'' then Some PayPal else None)"

definition gateway_verify :: "gateway \<Rightarrow> (string \<Rightarrow> string \<Rightarrow> string) \<Rightarrow> settings \<Rightarrow> int \<Rightarrow> string \<Rightarrow> string \<Rightarrow> exn + verification" where
  "gateway_verify g = (case g of Stripe \<Rightarrow> stripe_verify | PayPal \<Rightarrow> paypal_verify)"

definition gateway_secret :: "gateway \<Rightarrow> settings \<Rightarrow> string option" where
  "gateway_secret g = (case g of Stripe \<Rightarrow> stripe_webhook_secret | PayPal \<Rightarrow> paypal_secret)"

text \<open>The signature a header presents to a gateway, and the one the gateway expects.\<close>

definition presented_code :: "gateway \<Rightarrow> string \<Rightarrow> string" where
  "presented_code g header = (case g of Stripe \<Rightarrow> the (stripe_parts header ''v1'') | PayPal \<Rightarrow> paypal_signature header)"

definition expected_code :: "gateway \<Rightarrow> (string \<Rightarrow> string \<Rightarrow> string) \<Rightarrow> string \<Rightarrow> string \<Rightarrow> string \<Rightarrow> string" where
  "expected_code g hm k header payload = (case g of
     Stripe \<Rightarrow> hm k (the (stripe_parts header ''t'') @ ''.'' @ payload) | PayPal \<Rightarrow> hm k payload)"

lemma gateway_sound:
  assumes "gateway_verify g hm c now payload header = Inr v" and "ver_verified v"
  shows "\<exists>k. gateway_secret g c = Some k \<and> k \<noteq> [] \<and> presented_code g header = expected_code g hm k header payload"
  using assms stripe.verified_needs_secret [of hm c now payload header v] paypal.verified_needs_secret [of hm c now payload header v]
  by (cases g) (simp_all add: gateway_verify_def gateway_secret_def presented_code_def expected_code_def, blast+)

text \<open>A Stripe header is accepted for five minutes around the time it names.\<close>

lemma stripe_window:
  assumes "stripe_verify hm c now payload header = Inr v" and "ver_verified v"
  shows "\<exists>t n. stripe_parts header ''t'' = Some t \<and> parse_int t = Some n \<and> \<bar>now div 1000000 - n\<bar> \<le> stripe_tolerance"
  using assms
  by (auto simp: stripe_verify_def refused_def blank_def Let_def bind_sum_def not_less
      split: if_splits option.splits)

end
