(* ===== verification/BillingApi.thy ===== *)
theory BillingApi
  imports Payments
begin

text \<open>
  The routes of \<open>backend/app/api/v1/billing/router.py\<close>. A body is a dict of JSON values, read with
  the conversions of \<open>Json\<close> (\<open>repr\<close> prints a list or dict under \<open>str\<close>); a route returns the
  status and the JSON it sends. The dependency of an administrative route is
  \<open>require_permission ["billing.manage"]\<close>, composed with the handler in \<open>managed\<close>.

  Not modelled: the lengths of the string columns and the 32-bit range of the integer ones.
\<close>

type_synonym reply = "int \<times> json"

definition ok_reply :: "payload \<Rightarrow> ('s, reply) op" where
  "ok_reply p = ret (200, JObj p)"

definition created_reply :: "payload \<Rightarrow> ('s, reply) op" where
  "created_reply p = ret (201, JObj p)"

definition error_reply :: "int \<Rightarrow> string \<Rightarrow> ('s, reply) op" where
  "error_reply status e = ret (status, JObj [(''error'', JStr e)])"

text \<open>\<open>Depends(require_permission("billing.manage"))\<close> and \<open>Depends(get_db)\<close> around a handler.\<close>

definition managed :: "(principal \<Rightarrow> ('r app, 'a) op) \<Rightarrow> principal \<Rightarrow> ('r app, 'a) op" where
  "managed handler current_user = with_db
     (bnd (in_db (require_permission [''billing.manage''] current_user)) handler)"

section \<open>Plans and features\<close>

definition create_plan_route :: "(json \<Rightarrow> string) \<Rightarrow> request \<Rightarrow> int \<Rightarrow> payload \<Rightarrow> principal \<Rightarrow> ('r app, reply) op" where
  "create_plan_route repr req now payload current_user =
     (let k = py_str repr (payload_get payload ''key'' (JStr ''''));
          name = py_str repr (payload_get payload ''name'' (JStr k));
          interval = py_str repr (payload_get payload ''billing_interval'' (JStr ''month''));
          active = truthy (payload_get payload ''is_active'' (JBool True))
      in bnd (pure_op (py_int (payload_get payload ''price_cents'' (JInt 0)))) (\<lambda>price.
         bnd (in_db (create_plan k name price interval active)) (\<lambda>p.
         bnd (audit_log (user_actor current_user) ''billing.plan_created'' ''billing''
           (JObj [(''plan_id'', JInt (plan_id p)), (''key'', JStr (plan_key p))]) (Some req) None True now) (\<lambda>_.
         created_reply [(''id'', JInt (plan_id p)), (''key'', JStr (plan_key p)), (''name'', JStr (plan_name p)),
           (''price_cents'', JInt (plan_price_cents p)), (''billing_interval'', JStr (plan_billing_interval p))]))))"

definition opt_text :: "string option \<Rightarrow> json" where
  "opt_text v = (case v of None \<Rightarrow> JNull | Some t \<Rightarrow> JStr t)"

definition create_feature_route :: "(json \<Rightarrow> string) \<Rightarrow> int \<Rightarrow> payload \<Rightarrow> principal \<Rightarrow> ('r app, reply) op" where
  "create_feature_route repr now payload current_user =
     (let k = py_str repr (payload_get payload ''key'' (JStr ''''));
          name = py_str repr (payload_get payload ''name'' (JStr k));
          description = (case payload_get payload ''description'' JNull of
            JNull \<Rightarrow> None | v \<Rightarrow> Some (py_str repr v))
      in bnd (in_db (create_feature k name description)) (\<lambda>f.
         bnd (audit_log (user_actor current_user) ''billing.feature_created'' ''billing''
           (JObj [(''feature_id'', JInt (feature_id f)), (''key'', JStr (feature_key f))]) None None True now) (\<lambda>_.
         created_reply [(''id'', JInt (feature_id f)), (''key'', JStr (feature_key f)), (''name'', JStr (feature_name f)),
           (''description'', opt_text (feature_description f))])))"

text \<open>One feature of the list: found or made, and linked unless it is already.\<close>

definition map_one_feature :: "plan \<Rightarrow> string \<Rightarrow> (session, unit) op" where
  "map_one_feature p k =
     bnd (feature_for k) (\<lambda>f.
     let mapping = \<lparr>pf_plan_id = plan_id p, pf_feature_id = feature_id f\<rparr> in
     bnd (scalar PlanFeature (\<lambda>pf. pf = mapping)) (\<lambda>existing.
       if existing = None then db_link PlanFeature mapping else ret ()))"

definition map_plan_features :: "(json \<Rightarrow> string) \<Rightarrow> int \<Rightarrow> int \<Rightarrow> payload \<Rightarrow> principal \<Rightarrow> ('r app, reply) op" where
  "map_plan_features repr now pid payload current_user =
     bnd (in_db (db_get Plan pid)) (\<lambda>found. case found of
       None \<Rightarrow> error_reply 404 ''plan_not_found''
     | Some p \<Rightarrow> (case payload_get payload ''feature_keys'' (JList []) of
         JList ks \<Rightarrow>
           bnd (in_db (for_each ks (\<lambda>k. map_one_feature p (py_str repr k)))) (\<lambda>_.
           bnd (in_db commit) (\<lambda>_.
           bnd (audit_log (user_actor current_user) ''billing.plan_features_mapped'' ''billing''
             (JObj [(''plan_id'', JInt (plan_id p)), (''feature_keys'', JList ks)]) None None True now) (\<lambda>_.
           ok_reply [(''plan_id'', JInt (plan_id p)), (''feature_keys'', JList ks)])))
       | _ \<Rightarrow> error_reply 400 ''feature_keys_must_be_a_list''))"

definition update_billing_settings :: "(json \<Rightarrow> string) \<Rightarrow> int \<Rightarrow> payload \<Rightarrow> principal \<Rightarrow> ('r app, reply) op" where
  "update_billing_settings repr now payload current_user =
     bnd (modify (\<lambda>s. if payload_has payload ''subscriptions_enabled''
       then s\<lparr>conf := (conf s)\<lparr>subscriptions_enabled := truthy (payload_get payload ''subscriptions_enabled''
         (JBool (subscriptions_enabled (conf s))))\<rparr>\<rparr> else s)) (\<lambda>_.
     bnd (modify (\<lambda>s. if payload_has payload ''payment_providers_enabled''
       then s\<lparr>conf := (conf s)\<lparr>payment_providers_enabled := (case payload_get payload ''payment_providers_enabled'' (JList []) of
           JList vs \<Rightarrow> map lower (clean_items repr vs)
         | v \<Rightarrow> [lower (strip (py_str repr v))])\<rparr>\<rparr> else s)) (\<lambda>_.
     bnd (look conf) (\<lambda>c.
     let response = [(''subscriptions_enabled'', JBool (subscriptions_enabled c)),
       (''payment_providers_enabled'', JList (map JStr (payment_providers_enabled c)))] in
     bnd (audit_log (user_actor current_user) ''billing.settings_updated'' ''billing'' (JObj response) None None True now) (\<lambda>_.
     ok_reply (if environment c \<noteq> ''dev''
       then response @ [(''warning'', JStr ''Billing toggles are process-local and not persisted across restarts or workers.'')]
       else response)))))"

text \<open>The rows of \<open>Subscription JOIN Plan\<close> that count: one price per subscription.\<close>

definition entitling_prices :: "db \<Rightarrow> int list" where
  "entitling_prices d = [plan_price_cents p. sub \<leftarrow> subscriptions d, p \<leftarrow> plans d,
     sub_plan_id sub = plan_id p \<and> sub_status sub \<in> set entitling]"

definition get_billing_metrics :: "('r app, reply) op" where
  "get_billing_metrics = bnd (in_db (look (\<lambda>s. entitling_prices (work s)))) (\<lambda>prices.
     ok_reply [(''active_subscribers'', JInt (int (length prices))), (''mrr_cents'', JInt (sum_list prices)),
       (''churned_this_month'', JInt 0), (''trial_conversion_rate'', JFloat 0)])"

definition list_plans :: "('r app, plan list) op" where
  "list_plans = bnd (in_db (select Plan plan_is_active)) (\<lambda>rows. ret (sort_key plan_id rows))"

section \<open>Subscriptions\<close>

definition invoice_for :: "int option \<Rightarrow> int \<Rightarrow> int \<Rightarrow> int \<Rightarrow> string \<Rightarrow> invoice" where
  "invoice_for sid uid pid amount description = \<lparr>inv_id = 0, inv_subscription_id = sid, inv_user_id = uid,
     inv_plan_id = pid, inv_amount_cents = amount, inv_currency = ''usd'', inv_status = ''issued'',
     inv_description = Some description\<rparr>"

definition assign_subscription_route :: "(json \<Rightarrow> string) \<Rightarrow> int \<Rightarrow> payload \<Rightarrow> principal \<Rightarrow> ('r app, reply) op" where
  "assign_subscription_route repr now payload current_user =
     bnd (pure_op (py_int (payload_get payload ''user_id'' (JInt 0)))) (\<lambda>uid.
     bnd (pure_op (py_int (payload_get payload ''plan_id'' (JInt 0)))) (\<lambda>pid.
     let status = py_str repr (payload_get payload ''status'' (JStr ''active''));
         provider = py_str repr (payload_get payload ''provider'' (JStr ''manual'')) in
     bnd (in_db (db_insert Subscription (new_subscription uid pid status provider))) (\<lambda>sub.
     bnd (in_db (db_get Plan pid)) (\<lambda>p.
     bnd (in_db (db_insert Invoice (invoice_for (Some (sub_id sub)) uid pid
       (case p of Some p \<Rightarrow> plan_price_cents p | None \<Rightarrow> 0)
       (''Initial subscription for plan '' @ (case p of Some p \<Rightarrow> plan_key p | None \<Rightarrow> ''unknown''))))) (\<lambda>_.
     bnd (in_db commit) (\<lambda>_.
     bnd (enqueue_billing_notification uid ''subscription_assigned'' ''Subscription activated''
       (''Your subscription to plan '' @ (case p of Some p \<Rightarrow> plan_key p | None \<Rightarrow> ''your selected plan'') @ '' is now active.'')) (\<lambda>_.
     bnd (audit_log (user_actor current_user) ''billing.subscription_assigned'' ''billing''
       (JObj [(''subscription_id'', JInt (sub_id sub)), (''user_id'', JInt uid)]) None None True now) (\<lambda>_.
     created_reply [(''id'', JInt (sub_id sub)), (''user_id'', JInt uid), (''plan_id'', JInt pid),
       (''provider'', JStr provider), (''status'', JStr status)]))))))))"

text \<open>\<open>ORDER BY id DESC LIMIT 1\<close>.\<close>

definition latest_subscription :: "(subscription \<Rightarrow> bool) \<Rightarrow> (session, subscription option) op" where
  "latest_subscription p = bnd (select Subscription p) (\<lambda>rows.
     ret (case sort_key (\<lambda>sub. - sub_id sub) rows of [] \<Rightarrow> None | sub # _ \<Rightarrow> Some sub))"

text \<open>
  \<open>int(delta * days / 30)\<close>: the quotient cut towards zero. Python divides in floating point,
  which gives the same while \<open>|delta * days| < 2^52\<close>.
\<close>

definition prorate :: "int \<Rightarrow> int \<Rightarrow> int" where
  "prorate delta days = (let n = delta * days in if n < 0 then - ((- n) div 30) else n div 30)"

definition change_plan :: "payload \<Rightarrow> principal \<Rightarrow> ('r app, reply) op" where
  "change_plan payload current_user =
     bnd (in_db (latest_subscription (\<lambda>sub. sub_user_id sub = user_id current_user))) (\<lambda>found. case found of
       None \<Rightarrow> error_reply 404 ''subscription_not_found''
     | Some sub \<Rightarrow>
         bnd (pure_op (py_int (payload_get payload ''plan_id'' (JInt 0)))) (\<lambda>pid.
         bnd (in_db (db_get Plan pid)) (\<lambda>found. case found of
           None \<Rightarrow> error_reply 404 ''plan_not_found''
         | Some p \<Rightarrow>
             bnd (in_db (db_get Plan (sub_plan_id sub))) (\<lambda>current.
             bnd (pure_op (py_int (payload_get payload ''proration_days'' (JInt 30)))) (\<lambda>days.
             let delta = plan_price_cents p - (case current of Some q \<Rightarrow> plan_price_cents q | None \<Rightarrow> 0);
                 amount = prorate delta (max 1 days) in
             bnd (in_db (db_save Subscription (sub\<lparr>sub_plan_id := plan_id p, sub_status := ''active''\<rparr>))) (\<lambda>_.
             bnd (in_db (db_insert Invoice (invoice_for (Some (sub_id sub)) (user_id current_user) (plan_id p) \<bar>amount\<bar>
               (''Proration for plan change to '' @ plan_key p)))) (\<lambda>_.
             bnd (in_db commit) (\<lambda>_.
             bnd (enqueue_billing_notification (user_id current_user) ''plan_changed'' ''Plan updated''
               (''Your billing plan has been updated to '' @ plan_key p @ ''.'')) (\<lambda>_.
             ok_reply [(''id'', JInt (sub_id sub)), (''plan_id'', JInt (plan_id p)), (''status'', JStr ''active''),
               (''prorated_amount_cents'', JInt amount)]))))))))) "

definition cancel_subscription :: "principal \<Rightarrow> ('r app, reply) op" where
  "cancel_subscription current_user =
     bnd (in_db (latest_subscription (\<lambda>sub. sub_user_id sub = user_id current_user))) (\<lambda>found. case found of
       None \<Rightarrow> ok_reply [(''status'', JStr ''none''), (''plan'', JNull)]
     | Some sub \<Rightarrow>
         bnd (in_db (db_save Subscription (sub\<lparr>sub_status := ''canceled''\<rparr>))) (\<lambda>_.
         bnd (in_db commit) (\<lambda>_.
         ok_reply [(''id'', JInt (sub_id sub)), (''status'', JStr ''canceled'')])))"

definition get_my_subscription :: "principal \<Rightarrow> ('r app, reply) op" where
  "get_my_subscription current_user =
     bnd (in_db (latest_subscription (\<lambda>sub. sub_user_id sub = user_id current_user))) (\<lambda>found. case found of
       None \<Rightarrow> ok_reply [(''status'', JStr ''none''), (''plan'', JNull)]
     | Some sub \<Rightarrow> ok_reply [(''status'', JStr (sub_status sub)),
         (''plan'', JObj [(''id'', JInt (sub_plan_id sub)), (''provider'', JStr (sub_provider sub))])])"

definition feature_check :: "string option \<Rightarrow> principal \<Rightarrow> ('r app, reply) op" where
  "feature_check query current_user =
     (let k = (case query of Some q \<Rightarrow> q | None \<Rightarrow> ''reports.export'') in
      bnd (look conf) (\<lambda>c.
      if k \<in> set (disabled_features c)
      then ret (503, JObj [(''error'', JStr ''feature_disabled''), (''required_feature'', JStr k)])
      else bnd (if subscriptions_enabled c \<and> \<not> user_is_superuser current_user
                then in_db (user_has_feature current_user k) else ret True) (\<lambda>ok.
        if \<not> ok then ret (402, JObj [(''error'', JStr ''feature_not_in_plan''), (''required_feature'', JStr k),
          (''upgrade_url'', JStr ''/billing/plans'')])
        else ok_reply [(''allowed'', JBool True), (''feature'', JStr k)])))"

section \<open>Invoices and notifications\<close>

definition get_my_invoices :: "principal \<Rightarrow> ('r app, invoice list) op" where
  "get_my_invoices current_user = bnd (in_db (select Invoice (\<lambda>i. inv_user_id i = user_id current_user))) (\<lambda>rows.
     ret (sort_key (\<lambda>i. - inv_id i) rows))"

definition list_all_invoices :: "('r app, invoice list) op" where
  "list_all_invoices = bnd (in_db (select Invoice (\<lambda>_. True))) (\<lambda>rows. ret (sort_key (\<lambda>i. - inv_id i) rows))"

definition list_my_notifications :: "principal \<Rightarrow> ('r app, notification list) op" where
  "list_my_notifications current_user =
     bnd (in_db (select Notification (\<lambda>n. notif_user_id n = user_id current_user))) (\<lambda>rows.
     ret (sort_key (\<lambda>n. - notif_id n) rows))"

definition mark_notification_read :: "int \<Rightarrow> principal \<Rightarrow> ('r app, reply) op" where
  "mark_notification_read nid current_user =
     bnd (in_db (db_get Notification nid)) (\<lambda>found. case found of
       None \<Rightarrow> error_reply 404 ''notification_not_found''
     | Some n \<Rightarrow>
         if notif_user_id n \<noteq> user_id current_user then error_reply 404 ''notification_not_found''
         else bnd (in_db (db_save Notification (n\<lparr>notif_is_read := True\<rparr>))) (\<lambda>_.
           bnd (in_db commit) (\<lambda>_.
           ok_reply [(''id'', JInt (notif_id n)), (''is_read'', JBool True)])))"

section \<open>Checkout\<close>

definition create_checkout :: "environ \<Rightarrow> (json \<Rightarrow> string) \<Rightarrow> payload \<Rightarrow> principal \<Rightarrow> ('r app, reply) op" where
  "create_checkout env repr payload current_user =
     (let provider = lower (py_str repr (payload_get payload ''provider'' (JStr ''stripe'')));
          success_url = py_str repr (payload_get payload ''success_url'' (JStr ''/billing/subscriptions/me''))
      in bnd (look conf) (\<lambda>c.
      if payment_providers_enabled c \<noteq> [] \<and> provider \<notin> set (payment_providers_enabled c)
      then ret (400, JObj [(''error'', JStr ''provider_not_enabled''), (''provider'', JStr provider)])
      else bnd (pure_op (py_int (payload_get payload ''plan_id'' (JInt 0)))) (\<lambda>pid.
        bnd (in_db (db_get Plan pid)) (\<lambda>found. case found of
          None \<Rightarrow> error_reply 404 ''plan_not_found''
        | Some p \<Rightarrow> (case adapter_of provider of
            None \<Rightarrow> error_reply 400 ''unsupported_provider''
          | Some g \<Rightarrow>
              (let session = (case g of Stripe \<Rightarrow> stripe_checkout c env current_user p success_url
                                      | PayPal \<Rightarrow> paypal_checkout c env current_user p success_url)
               in ok_reply [(''provider'', JStr provider), (''plan_id'', JInt (plan_id p)),
                 (''checkout_url'', payload_get session ''checkout_url'' JNull),
                 (''customer_id'', payload_get session ''customer_id'' JNull)]))))))"

section \<open>The payment webhook\<close>

text \<open>The store of the settings: the process's dictionary or Redis.\<close>

definition in_redis :: "('r, 'a) op \<Rightarrow> ('r app, 'a) op" where
  "in_redis m = zoom (\<lambda>s. redis (toks s)) (\<lambda>r s. s\<lparr>toks := (toks s)\<lparr>redis := r\<rparr>\<rparr>) m"

definition store_get :: "'r redis_ops \<Rightarrow> (string \<Rightarrow> real) \<Rightarrow> string \<Rightarrow> ('r app, json option) op" where
  "store_get rc rf k = bnd (look conf) (\<lambda>c. case get_idempotency_store c of
     InMemory \<Rightarrow> in_idem (memory_get k) | OnRedis \<Rightarrow> in_redis (redis_idem_get rc rf k))"

definition store_set :: "'r redis_ops \<Rightarrow> (real \<Rightarrow> string) \<Rightarrow> string \<Rightarrow> json \<Rightarrow> ('r app, unit) op" where
  "store_set rc fr k v = bnd (look conf) (\<lambda>c. case get_idempotency_store c of
     InMemory \<Rightarrow> in_idem (memory_set k v) | OnRedis \<Rightarrow> in_redis (redis_idem_set rc fr k v idempotency_ttl))"

text \<open>What the environment of a webhook request supplies.\<close>

record 'r webhook_env =
  we_redis :: "'r redis_ops"
  we_float :: "real \<Rightarrow> string"
  we_parse_float :: "string \<Rightarrow> real"
  we_repr :: "json \<Rightarrow> string"
  we_hmac :: "string \<Rightarrow> string \<Rightarrow> string"

text \<open>\<open>a or b or ...\<close> over the three headers, then the body's own field.\<close>

definition webhook_signature :: "(json \<Rightarrow> string) \<Rightarrow> (string \<Rightarrow> string option) \<Rightarrow> payload \<Rightarrow> string" where
  "webhook_signature repr headers payload =
     (case or_text (headers ''x-signature'') (or_text (headers ''x-stripe-signature'')
         (or_text (headers ''x-paypal-transmission-sig'') None)) of
        Some t \<Rightarrow> t | None \<Rightarrow> py_str repr (payload_get payload ''signature'' (JStr '''')))"

definition duplicate_reply :: "string \<Rightarrow> ('s, reply) op" where
  "duplicate_reply event_id = ok_reply [(''processed'', JBool False), (''duplicate'', JBool True), (''event_id'', JStr event_id)]"

definition remember_event :: "'r webhook_env \<Rightarrow> string \<Rightarrow> string \<Rightarrow> ('r app, unit) op" where
  "remember_event we provider event_id = store_set (we_redis we) (we_float we) (provider @ '':'' @ event_id)
     (JObj [(''event_id'', JStr event_id), (''provider'', JStr provider)])"

definition checkout_completed :: "string \<Rightarrow> payload \<Rightarrow> ('r app, unit) op" where
  "checkout_completed provider payload =
     bnd (pure_op (py_int (payload_get payload ''user_id'' (JInt 0)))) (\<lambda>uid.
     bnd (pure_op (py_int (payload_get payload ''plan_id'' (JInt 0)))) (\<lambda>pid.
     bnd (in_db (db_insert Subscription (new_subscription uid pid ''active'' provider))) (\<lambda>_. ret ())))"

definition py_or :: "json \<Rightarrow> json \<Rightarrow> json" where
  "py_or v d = (if truthy v then v else d)"

definition payment_failed :: "payload \<Rightarrow> ('r app, unit) op" where
  "payment_failed payload =
     bnd (pure_op (py_int (py_or (payload_get payload ''subscription_id'' (JInt 0)) (JInt 0)))) (\<lambda>sid.
     bnd (if sid \<noteq> 0 then in_db (db_get Subscription sid) else ret None) (\<lambda>found.
     bnd (case found of
         Some sub \<Rightarrow> ret (Some sub)
       | None \<Rightarrow>
           bnd (pure_op (py_int (payload_get payload ''user_id'' (JInt 0)))) (\<lambda>uid.
           bnd (pure_op (py_int (payload_get payload ''plan_id'' (JInt 0)))) (\<lambda>pid.
           in_db (latest_subscription (\<lambda>sub. sub_user_id sub = uid \<and> sub_plan_id sub = pid))))) (\<lambda>found.
     case found of
       None \<Rightarrow> ret ()
     | Some sub \<Rightarrow>
         bnd (in_db (db_save Subscription (sub\<lparr>sub_status := ''past_due''\<rparr>))) (\<lambda>_.
         enqueue_billing_notification (sub_user_id sub) ''payment_failed'' ''Payment failed''
           ''A recent payment attempt failed. Please update your billing details to restore access.''))))"

text \<open>From the recorded event on: the effect of its type, the commit, and the reply.\<close>

definition process_event :: "'r webhook_env \<Rightarrow> string \<Rightarrow> string \<Rightarrow> string \<Rightarrow> payload \<Rightarrow> ('r app, reply) op" where
  "process_event we provider event_id event_type payload =
     bnd (if event_type = ''checkout.session.completed'' then checkout_completed provider payload
          else if event_type = ''invoice.payment_failed'' then payment_failed payload
          else ret ()) (\<lambda>_.
     bnd (in_db commit) (\<lambda>_.
     bnd (remember_event we provider event_id) (\<lambda>_.
     ok_reply [(''processed'', JBool True), (''duplicate'', JBool False), (''event_id'', JStr event_id)])))"

definition new_event :: "'r webhook_env \<Rightarrow> string \<Rightarrow> string \<Rightarrow> string \<Rightarrow> payload \<Rightarrow> payment_event" where
  "new_event we provider event_id event_type payload = \<lparr>pe_id = 0, pe_provider = provider,
     pe_provider_event_id = event_id, pe_event_type = event_type,
     pe_payload = json_dumps (we_float we) (JObj payload), pe_processed_at = None\<rparr>"

text \<open>A verified event: known to the store, known to the table, lost in a race, or new.\<close>

definition accept_event :: "'r webhook_env \<Rightarrow> string \<Rightarrow> string \<Rightarrow> string \<Rightarrow> payload \<Rightarrow> ('r app, reply) op" where
  "accept_event we provider event_id event_type payload =
     bnd (store_get (we_redis we) (we_parse_float we) (provider @ '':'' @ event_id)) (\<lambda>existing_key.
     if existing_key \<noteq> None then duplicate_reply event_id
     else bnd (in_db (scalar PaymentEvent (\<lambda>e. pe_provider e = provider \<and> pe_provider_event_id e = event_id))) (\<lambda>existing.
     if existing \<noteq> None then bnd (remember_event we provider event_id) (\<lambda>_. duplicate_reply event_id)
     else bnd (try_except
         (bnd (in_db (db_insert PaymentEvent (new_event we provider event_id event_type payload))) (\<lambda>_. ret True))
         (\<lambda>e. if e = IntegrityError then bnd (in_db rollback) (\<lambda>_. ret False) else throw e)) (\<lambda>recorded.
       if recorded then process_event we provider event_id event_type payload
       else bnd (remember_event we provider event_id) (\<lambda>_. duplicate_reply event_id))))"

definition payment_webhook :: "'r webhook_env \<Rightarrow> int \<Rightarrow> (string \<Rightarrow> string option) \<Rightarrow> payload \<Rightarrow> ('r app, reply) op" where
  "payment_webhook we now headers payload =
     (let provider = lower (py_str (we_repr we) (payload_get payload ''provider'' (JStr ''stripe'')));
          event_id = py_str (we_repr we) (payload_get payload ''event_id'' (JStr ''''));
          event_type = py_str (we_repr we) (payload_get payload ''event_type'' (JStr ''''));
          signature = webhook_signature (we_repr we) headers payload
      in case adapter_of provider of
           None \<Rightarrow> error_reply 400 ''unsupported_provider''
         | Some g \<Rightarrow>
             if event_id = '''' then error_reply 400 ''invalid_event_id''
             else if signature = '''' then error_reply 400 ''invalid_webhook_signature''
             else bnd (look conf) (\<lambda>c.
               bnd (pure_op (gateway_verify g (we_hmac we) c now (json_dumps_sorted (we_float we) (JObj payload)) signature)) (\<lambda>v.
               if \<not> ver_verified v then error_reply 400 ''invalid_webhook_signature''
               else accept_event we provider event_id event_type payload)))"

end
