(* ===== verification/PaymentEvents.thy ===== *)
theory PaymentEvents
  imports BillingApi
begin

text \<open>
  What the payment webhook guarantees: an event takes effect at most once, only an authentic call
  changes anything, and a completed checkout makes the subscription it names.
\<close>

section \<open>A payment event takes effect once\<close>

lemma store_get_state [simp]: "sess (snd (store_get rc rf k s)) = sess s" "jobs (snd (store_get rc rf k s)) = jobs s"
  "conf (snd (store_get rc rf k s)) = conf s"
  by (auto simp: store_get_def bnd_apply look_apply in_idem_apply in_redis_def zoom_apply split: idempotency_backend.split)

lemma store_set_state [simp]: "sess (snd (store_set rc fr k v s)) = sess s" "jobs (snd (store_set rc fr k v s)) = jobs s"
  "conf (snd (store_set rc fr k v s)) = conf s"
  by (auto simp: store_set_def bnd_apply look_apply in_idem_apply in_redis_def zoom_apply split: idempotency_backend.split)

lemma remember_event_state [simp]: "sess (snd (remember_event we p i s)) = sess s" "jobs (snd (remember_event we p i s)) = jobs s"
  by (simp_all add: remember_event_def)

definition event_key :: "'r webhook_env \<Rightarrow> payload \<Rightarrow> string \<times> string" where
  "event_key we payload = (lower (py_str (we_repr we) (payload_get payload ''provider'' (JStr ''stripe''))),
     py_str (we_repr we) (payload_get payload ''event_id'' (JStr '''')))"

definition event_keys :: "db \<Rightarrow> (string \<times> string) set" where
  "event_keys d = (\<lambda>e. (pe_provider e, pe_provider_event_id e)) ` set (payment_events d)"

lemma bnd_snd_cases:
  "snd (bnd m f s) = (case fst (m s) of Inl e \<Rightarrow> snd (m s) | Inr a \<Rightarrow> snd (f a (snd (m s))))"
  by (simp add: bnd_apply split: prod.split sum.split)

lemma accept_known:
  assumes "(provider, event_id) \<in> event_keys (work (sess s))"
  shows "sess (snd (accept_event we provider event_id event_type payload s)) = sess s"
proof -
  have "find_row (\<lambda>e. pe_provider e = provider \<and> pe_provider_event_id e = event_id) (payment_events (work (sess s))) \<noteq> None"
    using assms unfolding find_row_None event_keys_def by auto
  then show ?thesis
    by (auto simp: accept_event_def bnd_snd_cases duplicate_reply_def ok_reply_def ret_apply in_db_apply scalar_def look_apply
        PaymentEvent_def split: sum.split)
qed

lemma webhook_known:
  assumes "event_key we payload \<in> event_keys (work (sess s))"
  shows "sess (snd (payment_webhook we now headers payload s)) = sess s"
  using accept_known [of _ _ s] assms
  by (auto simp: payment_webhook_def event_key_def Let_def error_reply_def ret_apply bnd_snd_cases look_apply pure_op_apply
      split: option.split sum.split)

definition processed :: "exn + reply \<Rightarrow> bool" where
  "processed r \<longleftrightarrow> (\<exists>p. r = Inr (200, JObj ((''processed'', JBool True) # p)))"

lemma preserves_event_record:
  "preserves (\<lambda>s. k \<in> event_keys (work (sess s))) (checkout_completed provider payload)"
  "preserves (\<lambda>s. k \<in> event_keys (work (sess s))) (payment_failed payload)"
  unfolding checkout_completed_def payment_failed_def latest_subscription_def enqueue_billing_notification_def
  by (intro preserves_intros preserves_in_db [where P = "\<lambda>d. k \<in> event_keys (work d)"];
      simp add: preserves_def db_insert_def db_save_def Let_def event_keys_def Subscription_def)+

lemma duplicate_not_processed [simp]: "\<not> processed (fst (duplicate_reply i s))" "\<not> processed (Inl e)"
    "\<not> processed (fst (error_reply st e' s))"
  by (simp_all add: processed_def duplicate_reply_def ok_reply_def error_reply_def ret_apply)

lemma bnd_fst_cases:
  "fst (bnd m f s) = (case fst (m s) of Inl e \<Rightarrow> Inl e | Inr a \<Rightarrow> fst (f a (snd (m s))))"
  by (simp add: bnd_apply split: prod.split sum.split)

lemma process_records:
  fixes s :: "'r app"
  assumes "k \<in> event_keys (work (sess s))" and "processed (fst (process_event we provider event_id event_type payload s))"
  shows "k \<in> event_keys (work (sess (snd (process_event we provider event_id event_type payload s)))) \<and>
    stored (sess (snd (process_event we provider event_id event_type payload s))) =
    work (sess (snd (process_event we provider event_id event_type payload s)))"
proof -
  let ?m = "if event_type = ''checkout.session.completed'' then checkout_completed provider payload
          else if event_type = ''invoice.payment_failed'' then payment_failed payload else ret ()"
  define m :: "('r app, unit) op" where "m = ?m"
  have "preserves (\<lambda>s. k \<in> event_keys (work (sess s))) m"
    unfolding m_def by (intro preserves_if preserves_ret preserves_event_record)
  from preservesD [OF this assms(1)] have "k \<in> event_keys (work (sess (snd (m s))))" .
  moreover have "process_event we provider event_id event_type payload = bnd m (\<lambda>_. bnd (in_db commit) (\<lambda>_.
      bnd (remember_event we provider event_id) (\<lambda>_. ok_reply [(''processed'', JBool True), (''duplicate'', JBool False),
        (''event_id'', JStr event_id)])))"
    by (simp add: process_event_def m_def)
  ultimately show ?thesis using assms(2)
    by (auto simp: bnd_snd_cases bnd_fst_cases in_db_apply commit_apply ok_reply_def ret_apply split: sum.splits)
qed

lemma accept_processed:
  assumes "processed (fst (accept_event we provider event_id event_type payload s))"
  shows "(provider, event_id) \<in> event_keys (work (sess (snd (accept_event we provider event_id event_type payload s)))) \<and>
    stored (sess (snd (accept_event we provider event_id event_type payload s))) =
    work (sess (snd (accept_event we provider event_id event_type payload s)))"
proof -
  let ?k = "provider @ '':'' @ event_id"
  let ?e = "new_event we provider event_id event_type payload"
  obtain r s1 where g: "store_get (we_redis we) (we_parse_float we) ?k s = (r, s1)" by (cases "store_get (we_redis we) (we_parse_float we) ?k s")
  then have r: "r = Inr None" using assms
    by (cases r; cases "projr r") (auto simp: accept_event_def bnd_fst_cases)
  have none: "find_row (\<lambda>e. pe_provider e = provider \<and> pe_provider_event_id e = event_id) (payment_events (work (sess s1))) = None"
    using assms g r
    by (auto simp: accept_event_def bnd_fst_cases in_db_apply scalar_def look_apply PaymentEvent_def split: sum.splits if_splits)
  obtain e' d where ins: "db_insert PaymentEvent ?e (sess s1) = (Inr e', d)"
    using assms g r none
    by (cases "db_insert PaymentEvent ?e (sess s1)"; cases "fst (db_insert PaymentEvent ?e (sess s1))")
      (auto simp: accept_event_def bnd_apply in_db_apply scalar_def look_apply PaymentEvent_def try_except_apply throw_apply
        rollback_apply ret_apply split: sum.splits if_splits prod.splits)
  have rec: "(provider, event_id) \<in> event_keys (work d)"
    using db_insert_InrD(1,2) [OF ins] by (simp add: event_keys_def PaymentEvent_def new_event_def)
  have run: "accept_event we provider event_id event_type payload s = process_event we provider event_id event_type payload (s1\<lparr>sess := d\<rparr>)"
    using g r none ins
    by (simp add: accept_event_def bnd_apply in_db_apply scalar_def look_apply try_except_apply ret_apply PaymentEvent_def)
  show ?thesis using assms rec unfolding run by (intro process_records) simp_all
qed

lemma webhook_accepts:
  assumes "processed (fst (payment_webhook we now headers payload s))"
  obtains provider event_id event_type where "(provider, event_id) = event_key we payload"
    and "payment_webhook we now headers payload s = accept_event we provider event_id event_type payload s"
proof (rule that)
  show "(fst (event_key we payload), snd (event_key we payload)) = event_key we payload" by simp
  show "payment_webhook we now headers payload s = accept_event we (fst (event_key we payload)) (snd (event_key we payload))
      (py_str (we_repr we) (payload_get payload ''event_type'' (JStr ''''))) payload s"
    using assms
    by (auto simp: payment_webhook_def event_key_def Let_def bnd_fst_cases bnd_apply look_apply pure_op_apply
        split: option.splits sum.splits if_splits)
qed

lemma webhook_records:
  assumes "processed (fst (payment_webhook we now headers payload s))"
  shows "event_key we payload \<in> event_keys (stored (sess (snd (payment_webhook we now headers payload s))))"
proof -
  from assms obtain p i ty where "(p, i) = event_key we payload"
      "payment_webhook we now headers payload s = accept_event we p i ty payload s"
    by (rule webhook_accepts)
  then show ?thesis using accept_processed [of we p i ty payload s] assms by simp
qed

text \<open>
  Property C7. A payment event takes effect at most once: when a webhook call has processed an
  event, the event's row is committed, and in every later state that still has the rows of that
  moment a call with the same provider and event id leaves the database as it is, whatever the
  rest of its body, its headers and the idempotency store (lost, expired or down) are.
\<close>

theorem payment_event_once:
  assumes "processed (fst (payment_webhook we now headers payload s))"
    and "set (payment_events (stored (sess (snd (payment_webhook we now headers payload s))))) \<subseteq> set (payment_events (work (sess s2)))"
    and "event_key we payload2 = event_key we payload"
  shows "event_key we payload \<in> event_keys (stored (sess (snd (payment_webhook we now headers payload s)))) \<and>
    sess (snd (payment_webhook we now2 headers2 payload2 s2)) = sess s2"
proof -
  have "event_key we payload \<in> event_keys (stored (sess (snd (payment_webhook we now headers payload s))))"
    by (rule webhook_records [OF assms(1)])
  moreover from this have "event_key we payload2 \<in> event_keys (work (sess s2))"
    using assms(2,3) unfolding event_keys_def by (auto simp: image_iff)
  ultimately show ?thesis by (simp add: webhook_known)
qed

text \<open>What a verified call means: the gateway of the provider has a secret, and the signature is
  the code computed with it over the body in its sorted compact form.\<close>

definition authentic :: "'r webhook_env \<Rightarrow> settings \<Rightarrow> (string \<Rightarrow> string option) \<Rightarrow> payload \<Rightarrow> bool" where
  "authentic we c headers payload \<longleftrightarrow> (\<exists>g k. adapter_of (fst (event_key we payload)) = Some g \<and>
     gateway_secret g c = Some k \<and> k \<noteq> [] \<and>
     presented_code g (webhook_signature (we_repr we) headers payload) =
       expected_code g (we_hmac we) k (webhook_signature (we_repr we) headers payload)
         (json_dumps_sorted (we_float we) (JObj payload)))"

lemma webhook_authentic:
  assumes "snd (payment_webhook we now headers payload s) \<noteq> s"
  shows "authentic we (conf s) headers payload"
proof -
  let ?sig = "webhook_signature (we_repr we) headers payload"
  let ?body = "json_dumps_sorted (we_float we) (JObj payload)"
  from assms obtain g where g: "adapter_of (fst (event_key we payload)) = Some g"
    by (auto simp: payment_webhook_def event_key_def Let_def error_reply_def ret_apply split: option.splits)
  from assms g obtain v where "gateway_verify g (we_hmac we) (conf s) now ?body ?sig = Inr v" "ver_verified v"
    by (auto simp: payment_webhook_def event_key_def Let_def error_reply_def ret_apply bnd_apply look_apply pure_op_apply
        split: if_splits sum.splits)
  from gateway_sound [OF this] g show ?thesis by (auto simp: authentic_def)
qed

text \<open>
  Property C8. Only the provider can change anything through the webhook: a call that changes any
  part of the program's state (database, jobs, remembered events) carries a signature computed
  with the configured, non-empty secret of the gateway it names. With no secret configured every
  call leaves everything as it is.
\<close>

theorem webhook_is_authentic:
  assumes "snd (payment_webhook we now headers payload s) \<noteq> s"
  shows "authentic we (conf s) headers payload"
  by (rule webhook_authentic [OF assms])

lemma fresh_event_run:
  assumes "get_idempotency_store (conf s) = InMemory" and "idem s (provider @ '':'' @ event_id) = None"
    and "(provider, event_id) \<notin> event_keys (work (sess s))"
  shows "accept_event we provider event_id event_type payload s =
    process_event we provider event_id event_type payload (s\<lparr>sess := (sess s)\<lparr>work := (work (sess s))\<lparr>payment_events :=
      payment_events (work (sess s)) @ [(new_event we provider event_id event_type payload)\<lparr>pe_id :=
        fresh_id (map pe_id (payment_events (work (sess s))))\<rparr>]\<rparr>\<rparr>\<rparr>)"
proof -
  have none: "find_row (\<lambda>e. pe_provider e = provider \<and> pe_provider_event_id e = event_id) (payment_events (work (sess s))) = None"
    using assms(3) unfolding find_row_None event_keys_def by auto
  have "store_get (we_redis we) (we_parse_float we) (provider @ '':'' @ event_id) s = (Inr None, s)"
    using assms(1,2) by (simp add: store_get_def bnd_apply look_apply in_idem_apply memory_get_def)
  moreover have "db_insert PaymentEvent (new_event we provider event_id event_type payload) (sess s) =
      (Inr ((new_event we provider event_id event_type payload)\<lparr>pe_id := fresh_id (map pe_id (payment_events (work (sess s))))\<rparr>),
       (sess s)\<lparr>work := (work (sess s))\<lparr>payment_events := payment_events (work (sess s)) @
         [(new_event we provider event_id event_type payload)\<lparr>pe_id := fresh_id (map pe_id (payment_events (work (sess s))))\<rparr>]\<rparr>\<rparr>)"
    using none unfolding find_row_None
    by (simp add: db_insert_def violates_def Let_def PaymentEvent_def new_event_def)
  ultimately show ?thesis using none
    by (simp add: accept_event_def bnd_apply in_db_apply scalar_def look_apply try_except_apply ret_apply PaymentEvent_def)
qed


text \<open>A small instance for the witnesses: PayPal with a one-code hash.\<close>

definition demo_we :: "(string \<Rightarrow> pyval option) webhook_env" where
  "demo_we = \<lparr>we_redis = redis_map, we_float = \<lambda>_. [], we_parse_float = \<lambda>_. 0, we_repr = \<lambda>_. [], we_hmac = \<lambda>k t. ''ok''\<rparr>"

definition demo_event :: payload where
  "demo_event = [(''provider'', JStr ''paypal''), (''event_id'', JStr ''e1''),
     (''event_type'', JStr ''checkout.session.completed''), (''user_id'', JInt 7), (''plan_id'', JInt 1)]"

definition demo_headers :: "string \<Rightarrow> string option" where
  "demo_headers h = (if h = ''x-signature'' then Some ''ok'' else None)"

definition demo_shop :: "(string \<Rightarrow> pyval option) app" where
  "demo_shop = (demo_app demo_billing)\<lparr>conf := default_settings\<lparr>paypal_webhook_id := Some ''k''\<rparr>\<rparr>"

lemma demo_event_key: "event_key demo_we demo_event = (''paypal'', ''e1'')"
  by (simp add: event_key_def demo_event_def lower_def lower_char_def)

lemma demo_signature: "webhook_signature (we_repr demo_we) demo_headers demo_event = ''ok''"
  by (simp add: webhook_signature_def demo_headers_def or_text_def)

lemma demo_verified:
  "gateway_verify PayPal (we_hmac demo_we) (conf demo_shop) 0 body ''ok'' =
     Inr \<lparr>ver_verified = True, ver_payload = body, ver_signature = ''ok''\<rparr>"
  by (simp add: gateway_verify_def paypal_verify_def paypal_secret_def demo_shop_def demo_we_def blank_def or_text_def
      paypal_signature_def strip_def lstrip_def rstrip_def is_space_def split_once_def compare_digest_def ascii_def bind_sum_def)

lemma demo_event_at:
  "payload_get demo_event ''event_type'' (JStr '''') = JStr ''checkout.session.completed''"
  "payload_get demo_event ''user_id'' (JInt 0) = JInt 7" "payload_get demo_event ''plan_id'' (JInt 0) = JInt 1"
  by (simp_all add: demo_event_def)

lemma demo_shop_at:
  "get_idempotency_store (conf demo_shop) = InMemory" "idem demo_shop = Map.empty" "fk_on (sess demo_shop) = False"
  "payment_events (work (sess demo_shop)) = []" "subscriptions (work (sess demo_shop)) = [demo_sub]"
  "stored (sess demo_shop) = work (sess demo_shop)"
  by (simp_all add: demo_shop_def demo_app_def get_idempotency_store_def default_settings_def demo_billing_def empty_db_def)


lemma demo_webhook_run:
  "payment_webhook demo_we 0 demo_headers demo_event demo_shop =
    accept_event demo_we ''paypal'' ''e1'' ''checkout.session.completed'' demo_event demo_shop"
  using demo_event_key demo_signature demo_verified
  by (auto simp: payment_webhook_def event_key_def Let_def bnd_apply look_apply pure_op_apply adapter_of_def demo_event_def)

lemma demo_processed:
  "processed (fst (payment_webhook demo_we 0 demo_headers demo_event demo_shop))"
  "subscriptions (work (sess (snd (payment_webhook demo_we 0 demo_headers demo_event demo_shop)))) \<noteq> subscriptions (work (sess demo_shop))"
proof -
  have "accept_event demo_we ''paypal'' ''e1'' ''checkout.session.completed'' demo_event demo_shop =
      process_event demo_we ''paypal'' ''e1'' ''checkout.session.completed'' demo_event (demo_shop\<lparr>sess := (sess demo_shop)\<lparr>work :=
        (work (sess demo_shop))\<lparr>payment_events := payment_events (work (sess demo_shop)) @
        [(new_event demo_we ''paypal'' ''e1'' ''checkout.session.completed'' demo_event)\<lparr>pe_id :=
          fresh_id (map pe_id (payment_events (work (sess demo_shop))))\<rparr>]\<rparr>\<rparr>\<rparr>)"
    by (rule fresh_event_run)
      (simp_all add: demo_shop_at event_keys_def)
  then show "processed (fst (payment_webhook demo_we 0 demo_headers demo_event demo_shop))"
    "subscriptions (work (sess (snd (payment_webhook demo_we 0 demo_headers demo_event demo_shop)))) \<noteq> subscriptions (work (sess demo_shop))"
    unfolding demo_webhook_run
    by (auto simp: process_event_def checkout_completed_def bnd_apply pure_op_apply in_db_apply db_insert_def violates_def
        Subscription_def new_subscription_def Let_def commit_apply remember_event_def store_set_def look_apply in_idem_apply
        memory_set_def modify_apply ok_reply_def ret_apply processed_def demo_event_at demo_shop_at)
qed

theorem payment_event_once_witness:
  "sess (snd (payment_webhook demo_we 9 Map.empty demo_event (snd (payment_webhook demo_we 0 demo_headers demo_event demo_shop)))) =
   sess (snd (payment_webhook demo_we 0 demo_headers demo_event demo_shop))"
proof -
  let ?s' = "snd (payment_webhook demo_we 0 demo_headers demo_event demo_shop)"
  have "stored (sess ?s') = work (sess ?s')"
    using demo_processed(1) unfolding demo_webhook_run by (simp add: accept_processed)
  then show ?thesis using payment_event_once [OF demo_processed(1), of ?s' demo_event 9 Map.empty] by simp
qed

theorem webhook_is_authentic_witness:
  "authentic demo_we (conf demo_shop) demo_headers demo_event"
  using demo_processed(2) by (intro webhook_is_authentic [of demo_we 0 demo_headers demo_event demo_shop]) auto

end
