(* ===== verification/SubscriptionChanges.thy ===== *)
theory SubscriptionChanges
  imports PaymentEvents
begin

text \<open>
  What the routes that change subscriptions and plans do: change of plan, cancellation, and the
  mapping of features to a plan.
\<close>

section \<open>Changing and cancelling a subscription\<close>

lemma latest_state: "snd (latest_subscription p s) = s"
  by (simp add: latest_subscription_def bnd_apply select_def look_apply ret_apply)

lemma latest_Some:
  assumes "fst (latest_subscription p s) = Inr (Some sub)"
  shows "sub \<in> set (subscriptions (work s))" "p sub"
    "x \<in> set (subscriptions (work s)) \<Longrightarrow> p x \<Longrightarrow> sub_id x \<le> sub_id sub"
proof -
  let ?xs = "filter p (subscriptions (work s))"
  from assms obtain ys where ys: "sort_key (\<lambda>sub. - sub_id sub) ?xs = sub # ys"
    by (auto simp: latest_subscription_def bnd_apply select_def look_apply ret_apply Subscription_def split: list.splits)
  then have "sub \<in> set (sort_key (\<lambda>sub. - sub_id sub) ?xs)" by simp
  then show "sub \<in> set (subscriptions (work s))" "p sub" by simp_all
  have "sorted (map (\<lambda>sub. - sub_id sub) (sub # ys))" using ys by (metis sorted_sort_key)
  moreover assume "x \<in> set (subscriptions (work s))" "p x"
  then have "x \<in> set (sort_key (\<lambda>sub. - sub_id sub) ?xs)" by simp
  then have "x \<in> set (sub # ys)" by (simp only: ys)
  ultimately show "sub_id x \<le> sub_id sub" by auto
qed

text \<open>With distinct ids the newest row is the one with the largest id.\<close>

lemma latest_is_max:
  assumes "distinct (map sub_id (subscriptions (work s)))" and "sub \<in> set (subscriptions (work s))" and "p sub"
    and "\<And>x. x \<in> set (subscriptions (work s)) \<Longrightarrow> p x \<Longrightarrow> sub_id x \<le> sub_id sub"
  shows "fst (latest_subscription p s) = Inr (Some sub)"
proof -
  let ?xs = "sort_key (\<lambda>sub. - sub_id sub) (filter p (subscriptions (work s)))"
  have "sub \<in> set ?xs" using assms(2,3) by simp
  then obtain y ys where ys: "?xs = y # ys" by (cases ?xs) auto
  then have found: "fst (latest_subscription p s) = Inr (Some y)"
    by (simp add: latest_subscription_def bnd_apply select_def look_apply ret_apply Subscription_def)
  note y = latest_Some [OF found]
  have "sub_id y = sub_id sub" using y(3) [OF assms(2,3)] assms(4) [OF y(1,2)] by simp
  then have "y = sub" using assms(1,2) y(1) by (simp add: distinct_map inj_on_def)
  then show ?thesis using found by simp
qed

lemma in_latest:
  "fst (latest_subscription p (sess s)) = Inr r \<Longrightarrow> in_db (latest_subscription p) s = (Inr r, s)"
  by (simp add: in_db_apply latest_state)

lemma save_subscription:
  assumes "fk_on s \<Longrightarrow> has_user (work s) (sub_user_id sub) \<and> has_plan (work s) (sub_plan_id sub)"
  shows "db_save Subscription sub s =
    (Inr (), s\<lparr>work := (work s)\<lparr>subscriptions := replace_row sub_id sub (subscriptions (work s))\<rparr>\<rparr>)"
  using assms by (auto simp: db_save_def violates_def Subscription_def Let_def)

lemma replaced_row: "x \<in> set rows \<Longrightarrow> k x = k r \<Longrightarrow> r \<in> set (replace_row k r rows)"
  using image_eqI [of "k r" k x "set rows"] by (simp add: set_replace_row)

lemma untouched_row: "x \<in> set rows \<Longrightarrow> k x \<noteq> k r \<Longrightarrow> x \<in> set (replace_row k r rows)"
  by (auto simp: set_replace_row)

text \<open>
  Changing the plan needs no payment and asks nothing of the subscription's state: on
  the user's newest subscription, whatever its status was (canceled, past due, expired), it sets
  the plan asked for and the status \<open>active\<close>, so that the user holds that plan at once. The only
  trace is an issued invoice of the absolute prorated difference, also when the new plan is
  cheaper, for a number of days that the caller chooses.
\<close>

theorem change_plan_needs_no_payment:
  assumes "subs_ok (work (sess s))"
    and "fst (latest_subscription (\<lambda>sub. sub_user_id sub = user_id u) (sess s)) = Inr (Some sub)"
    and "py_int (payload_get payload ''plan_id'' (JInt 0)) = Inr pid"
    and "py_int (payload_get payload ''proration_days'' (JInt 30)) = Inr days"
    and "find_row (\<lambda>p. plan_id p = pid) (plans (work (sess s))) = Some p"
    and "find_row (\<lambda>p. plan_id p = sub_plan_id sub) (plans (work (sess s))) = Some q"
  shows "\<exists>s' inv. change_plan payload u s = (Inr (200, JObj [(''id'', JInt (sub_id sub)), (''plan_id'', JInt pid),
        (''status'', JStr ''active''), (''prorated_amount_cents'', JInt (prorate (plan_price_cents p - plan_price_cents q) (max 1 days)))]), s') \<and>
    subscriptions (work (sess s')) = replace_row sub_id (sub\<lparr>sub_plan_id := pid, sub_status := ''active''\<rparr>) (subscriptions (work (sess s))) \<and>
    invoices (work (sess s')) = invoices (work (sess s)) @ [inv] \<and> inv_user_id inv = user_id u \<and> inv_status inv = ''issued'' \<and>
    inv_amount_cents inv = \<bar>prorate (plan_price_cents p - plan_price_cents q) (max 1 days)\<bar> \<and>
    stored (sess s') = work (sess s') \<and> pid \<in> set (held_plans (work (sess s')) (user_id u))"
proof -
  note sub = latest_Some(1,2) [OF assms(2)]
  have p: "p \<in> set (plans (work (sess s)))" "plan_id p = pid" using find_row_Some [OF assms(5)] by simp_all
  have user: "has_user (work (sess s)) (sub_user_id sub)" using assms(1) sub(1) by (simp add: subs_ok_def)
  have plan: "has_plan (work (sess s)) pid" using p by (auto simp: has_plan_def)
  let ?sub = "sub\<lparr>sub_plan_id := plan_id p, sub_status := ''active''\<rparr>"
  let ?amount = "prorate (plan_price_cents p - plan_price_cents q) (max 1 days)"
  let ?d1 = "(work (sess s))\<lparr>subscriptions := replace_row sub_id ?sub (subscriptions (work (sess s)))\<rparr>"
  let ?inv = "(invoice_for (Some (sub_id sub)) (user_id u) (plan_id p) \<bar>?amount\<bar> (''Proration for plan change to '' @ plan_key p))
      \<lparr>inv_id := fresh_id (map inv_id (invoices (work (sess s))))\<rparr>"
  let ?d2 = "?d1\<lparr>invoices := invoices (work (sess s)) @ [?inv]\<rparr>"
  have 1: "in_db (db_save Subscription ?sub) s = (Inr (), s\<lparr>sess := (sess s)\<lparr>work := ?d1\<rparr>\<rparr>)"
    using save_subscription [of "sess s" ?sub] user plan p(2) by (simp add: in_db_apply)
  have in1: "?sub \<in> set (subscriptions ?d1)" using sub(1) by (simp add: replaced_row [of sub])
  have "sub_id sub \<in> sub_id ` set (subscriptions ?d1)" by (rule image_eqI [OF _ in1]) simp
  then have "db_insert Invoice (invoice_for (Some (sub_id sub)) (user_id u) (plan_id p) \<bar>?amount\<bar>
      (''Proration for plan change to '' @ plan_key p)) ((sess s)\<lparr>work := ?d1\<rparr>) = (Inr ?inv, (sess s)\<lparr>work := ?d2\<rparr>)"
    using user plan p(2) sub(2)
    by (simp add: db_insert_def violates_def Invoice_def invoice_for_def Let_def has_user_def has_plan_def)
  then have 2: "in_db (db_insert Invoice (invoice_for (Some (sub_id sub)) (user_id u) (plan_id p) \<bar>?amount\<bar>
      (''Proration for plan change to '' @ plan_key p))) (s\<lparr>sess := (sess s)\<lparr>work := ?d1\<rparr>\<rparr>) =
      (Inr ?inv, s\<lparr>sess := (sess s)\<lparr>work := ?d2\<rparr>\<rparr>)"
    by (simp add: in_db_apply)
  let ?s2 = "s\<lparr>sess := (sess s)\<lparr>work := ?d2, stored := ?d2\<rparr>\<rparr>"
  let ?s' = "queued_job (BillingNotification (user_id u) ''plan_changed'' ''Plan updated''
      (''Your billing plan has been updated to '' @ plan_key p @ ''.'')) ?s2"
  have get: "in_db (db_get Plan i) s = (Inr (find_row (\<lambda>p. plan_id p = i) (plans (work (sess s)))), s)" for i
    by (simp add: in_db_apply db_get_def scalar_def look_apply Plan_def)
  have "change_plan payload u s = (Inr (200, JObj [(''id'', JInt (sub_id sub)), (''plan_id'', JInt (plan_id p)),
        (''status'', JStr ''active''), (''prorated_amount_cents'', JInt ?amount)]), ?s')"
    using in_latest [OF assms(2)] assms(3-6) get 1 2
    by (simp add: change_plan_def bnd_apply pure_op_apply Let_def in_db_apply commit_apply enqueue_billing_notification_def
        queue_job_apply ok_reply_def ret_apply)
  moreover have "pid \<in> set (held_plans ?d2 (user_id u))"
    unfolding held_plans_iff using in1 sub(2) p(2) by (intro bexI [of _ ?sub]) (simp_all add: is_live_def)
  ultimately show ?thesis using p(2)
    by (intro exI [of _ ?s'] exI [of _ ?inv] conjI) (simp_all add: invoice_for_def)
qed

text \<open>
  Cancelling marks the user's newest subscription as canceled, even if it already
  was, and commits; no other row changes, so that every older live subscription keeps entitling
  the user, and cancelling again never reaches it.
\<close>

theorem cancel_reaches_only_the_newest:
  assumes "subs_ok (work (sess s))"
    and "fst (latest_subscription (\<lambda>sub. sub_user_id sub = user_id u) (sess s)) = Inr (Some sub)"
  shows "\<exists>s'. cancel_subscription u s = (Inr (200, JObj [(''id'', JInt (sub_id sub)), (''status'', JStr ''canceled'')]), s') \<and>
    subscriptions (work (sess s')) = replace_row sub_id (sub\<lparr>sub_status := ''canceled''\<rparr>) (subscriptions (work (sess s))) \<and>
    stored (sess s') = work (sess s') \<and>
    fst (latest_subscription (\<lambda>sub. sub_user_id sub = user_id u) (sess s')) = Inr (Some (sub\<lparr>sub_status := ''canceled''\<rparr>)) \<and>
    (\<forall>other \<in> set (subscriptions (work (sess s))). sub_user_id other = user_id u \<and> is_live other \<and> other \<noteq> sub \<longrightarrow>
       sub_plan_id other \<in> set (held_plans (work (sess s')) (user_id u)))"
proof -
  note sub = latest_Some(1,2) [OF assms(2)]
  let ?sub = "sub\<lparr>sub_status := ''canceled''\<rparr>"
  let ?d = "(work (sess s))\<lparr>subscriptions := replace_row sub_id ?sub (subscriptions (work (sess s)))\<rparr>"
  let ?s' = "s\<lparr>sess := (sess s)\<lparr>work := ?d, stored := ?d\<rparr>\<rparr>"
  have ok: "has_user (work (sess s)) (sub_user_id sub)" "has_plan (work (sess s)) (sub_plan_id sub)"
    using assms(1) sub(1) by (simp_all add: subs_ok_def)
  then have "cancel_subscription u s = (Inr (200, JObj [(''id'', JInt (sub_id sub)), (''status'', JStr ''canceled'')]), ?s')"
    using in_latest [OF assms(2)] save_subscription [of "sess s" ?sub]
    by (simp add: cancel_subscription_def bnd_apply in_db_apply commit_apply ok_reply_def ret_apply)
  moreover have uniq: "other = sub" if "other \<in> set (subscriptions (work (sess s)))" "sub_id other = sub_id sub" for other
    using that sub(1) assms(1) by (simp add: subs_ok_def distinct_map inj_on_def)
  moreover have "fst (latest_subscription (\<lambda>sub. sub_user_id sub = user_id u) (sess ?s')) = Inr (Some ?sub)"
    using assms(1) sub replaced_row [of sub "subscriptions (work (sess s))" sub_id ?sub] latest_Some(3) [OF assms(2)]
    by (intro latest_is_max) (auto simp: subs_ok_def set_replace_row)
  moreover have "sub_plan_id other \<in> set (held_plans ?d (user_id u))"
    if "other \<in> set (subscriptions (work (sess s)))" "sub_user_id other = user_id u" "is_live other" "other \<noteq> sub" for other
  proof -
    have "other \<in> set (subscriptions ?d)" using that uniq by (auto intro: untouched_row)
    then show ?thesis unfolding held_plans_iff using that by blast
  qed
  ultimately show ?thesis by (intro exI [of _ ?s'] conjI ballI impI) simp_all
qed

lemma demo_latest:
  "fst (latest_subscription (\<lambda>sub. sub_user_id sub = user_id (principal_of demo_user None None)) (sess demo_shop)) = Inr (Some demo_sub)"
  by (rule latest_is_max)
    (simp_all add: demo_shop_at principal_of_def demo_user_def demo_sub_def user.extend_def)

lemma demo_subs_ok: "subs_ok (work (sess demo_shop))"
  by (simp add: subs_ok_def demo_shop_at)
    (simp add: demo_shop_def demo_app_def demo_billing_def demo_sub_def has_user_def has_plan_def demo_user_def demo_plan_def)

lemma demo_plans: "find_row (\<lambda>p. plan_id p = 1) (plans (work (sess demo_shop))) = Some demo_plan"
  by (simp add: demo_shop_def demo_app_def demo_billing_def demo_plan_def find_row_def)

theorem change_plan_needs_no_payment_witness:
  "\<exists>s'. change_plan [(''plan_id'', JInt 1)] (principal_of demo_user None None) demo_shop =
     (Inr (200, JObj [(''id'', JInt 4), (''plan_id'', JInt 1), (''status'', JStr ''active''), (''prorated_amount_cents'', JInt 0)]), s') \<and>
     stored (sess s') = work (sess s')"
proof -
  have "find_row (\<lambda>p. plan_id p = sub_plan_id demo_sub) (plans (work (sess demo_shop))) = Some demo_plan"
    using demo_plans by (simp add: demo_sub_def)
  moreover have "py_int (payload_get [(''plan_id'', JInt 1)] ''plan_id'' (JInt 0)) = Inr 1"
    "py_int (payload_get [(''plan_id'', JInt 1)] ''proration_days'' (JInt 30)) = Inr 30" by simp_all
  ultimately have "\<exists>s'. change_plan [(''plan_id'', JInt 1)] (principal_of demo_user None None) demo_shop =
     (Inr (200, JObj [(''id'', JInt (sub_id demo_sub)), (''plan_id'', JInt 1), (''status'', JStr ''active''),
       (''prorated_amount_cents'', JInt (prorate (plan_price_cents demo_plan - plan_price_cents demo_plan) (max 1 30)))]), s') \<and>
     stored (sess s') = work (sess s')"
    by (metis change_plan_needs_no_payment [OF demo_subs_ok demo_latest _ _ demo_plans])
  then show ?thesis by (simp add: demo_sub_def prorate_def)
qed

theorem cancel_reaches_only_the_newest_witness:
  "\<exists>s'. cancel_subscription (principal_of demo_user None None) demo_shop =
     (Inr (200, JObj [(''id'', JInt 4), (''status'', JStr ''canceled'')]), s') \<and> stored (sess s') = work (sess s')"
  using cancel_reaches_only_the_newest [OF demo_subs_ok demo_latest] by (auto simp: demo_sub_def)

section \<open>Mapping features to a plan\<close>

definition linked :: "db \<Rightarrow> int \<Rightarrow> string \<Rightarrow> bool" where
  "linked d pid k \<longleftrightarrow> (\<exists>f \<in> set (features d). feature_key f = k \<and>
     \<lparr>pf_plan_id = pid, pf_feature_id = feature_id f\<rparr> \<in> set (plan_features d))"

definition grown :: "feature list \<Rightarrow> plan_feature list \<Rightarrow> session \<Rightarrow> session" where
  "grown fs pfs s = s\<lparr>work := (work s)\<lparr>features := features (work s) @ fs, plan_features := plan_features (work s) @ pfs\<rparr>\<rparr>"

lemma grown_grown [simp]: "grown fs2 pfs2 (grown fs1 pfs1 s) = grown (fs1 @ fs2) (pfs1 @ pfs2) s"
  by (simp add: grown_def)

lemma grown_at [simp]:
  "features (work (grown fs pfs s)) = features (work s) @ fs" "plan_features (work (grown fs pfs s)) = plan_features (work s) @ pfs"
  "plans (work (grown fs pfs s)) = plans (work s)" "subscriptions (work (grown fs pfs s)) = subscriptions (work s)"
  "fk_on (grown fs pfs s) = fk_on s"
  by (simp_all add: grown_def)

lemma linked_grown: "linked (work s) pid k \<Longrightarrow> linked (work (grown fs pfs s)) pid k"
  by (auto simp: linked_def)

lemma feature_for_run:
  "\<exists>f fs. feature_for k s = (Inr f, grown fs [] s) \<and> f \<in> set (features (work s) @ fs) \<and> feature_key f = k"
proof (cases "find_row (\<lambda>f. feature_key f = k) (features (work s))")
  case None
  let ?f = "new_feature k k None\<lparr>feature_id := fresh_id (map feature_id (features (work s)))\<rparr>"
  have "feature_for k s = (Inr ?f, grown [?f] [] s)"
    using None unfolding find_row_None
    by (simp add: feature_for_def bnd_apply scalar_def look_apply Feature_def None db_insert_def violates_def Let_def
        new_feature_def grown_def)
  then show ?thesis by (intro exI [of _ ?f] exI [of _ "[?f]"]) (simp add: new_feature_def)
next
  case (Some f)
  then have "feature_for k s = (Inr f, grown [] [] s)"
    by (simp add: feature_for_def bnd_apply scalar_def look_apply Feature_def ret_apply grown_def)
  then show ?thesis using find_row_Some [OF Some] by (intro exI [of _ f] exI [of _ "[]"]) simp
qed

lemma map_one_feature_run:
  assumes "has_plan (work s) (plan_id p)"
  shows "\<exists>fs pfs. map_one_feature p k s = (Inr (), grown fs pfs s) \<and> linked (work (grown fs pfs s)) (plan_id p) k"
proof -
  obtain f fs where f: "feature_for k s = (Inr f, grown fs [] s)" "f \<in> set (features (work s) @ fs)" "feature_key f = k"
    using feature_for_run [of k s] by blast
  let ?m = "\<lparr>pf_plan_id = plan_id p, pf_feature_id = feature_id f\<rparr>"
  show ?thesis
  proof (cases "find_row (\<lambda>pf. pf = ?m) (plan_features (work s))")
    case None
    then have "\<forall>x \<in> set (plan_features (work s)). x \<noteq> ?m" by (simp add: find_row_None)
    moreover have "feature_id f \<in> feature_id ` set (features (work s) @ fs)" using f(2) by (rule imageI)
    ultimately have "db_link PlanFeature ?m (grown fs [] s) = (Inr (), grown fs [?m] s)"
      using assms by (auto simp: db_link_def violates_def PlanFeature_def Let_def grown_def has_plan_def)
    then have "map_one_feature p k s = (Inr (), grown fs [?m] s)"
      using f(1) None by (simp add: map_one_feature_def bnd_apply Let_def scalar_def look_apply PlanFeature_def)
    moreover have "linked (work (grown fs [?m] s)) (plan_id p) k"
      unfolding linked_def using f(2,3) by (intro bexI [of _ f]) simp_all
    ultimately show ?thesis by blast
  next
    case (Some m)
    from find_row_Some [OF Some] have "?m \<in> set (plan_features (work s))" by metis
    then have "linked (work (grown fs [] s)) (plan_id p) k"
      unfolding linked_def using f(2,3) by (intro bexI [of _ f]) simp_all
    moreover have "map_one_feature p k s = (Inr (), grown fs [] s)"
      using f(1) Some by (simp add: map_one_feature_def bnd_apply Let_def scalar_def look_apply PlanFeature_def ret_apply)
    ultimately show ?thesis by blast
  qed
qed

lemma map_features_run:
  assumes "has_plan (work s) (plan_id p)"
  shows "\<exists>fs pfs. for_each ks (\<lambda>k. map_one_feature p (g k)) s = (Inr (), grown fs pfs s) \<and>
    (\<forall>k \<in> set ks. linked (work (grown fs pfs s)) (plan_id p) (g k))"
  using assms
proof (induction ks arbitrary: s)
  case Nil
  then show ?case by (intro exI [of _ "[]"]) (simp add: ret_apply grown_def)
next
  case (Cons k ks)
  obtain f1 p1 where 1: "map_one_feature p (g k) s = (Inr (), grown f1 p1 s)" "linked (work (grown f1 p1 s)) (plan_id p) (g k)"
    using map_one_feature_run [OF Cons.prems] by blast
  have "has_plan (work (grown f1 p1 s)) (plan_id p)" using Cons.prems by (simp add: has_plan_def)
  from Cons.IH [OF this] obtain f2 p2 where
    2: "for_each ks (\<lambda>k. map_one_feature p (g k)) (grown f1 p1 s) = (Inr (), grown (f1 @ f2) (p1 @ p2) s)"
      "\<forall>k \<in> set ks. linked (work (grown (f1 @ f2) (p1 @ p2) s)) (plan_id p) (g k)"
    by auto
  have "linked (work (grown (f1 @ f2) (p1 @ p2) s)) (plan_id p) (g k)"
    using linked_grown [OF 1(2), of f2 p2] by simp
  then show ?case using 1(1) 2 by (intro exI [of _ "f1 @ f2"] exI [of _ "p1 @ p2"]) (simp add: bnd_apply)
qed

lemma linked_entitles:
  assumes "linked d pid k" and "sub \<in> set (subscriptions d)" and "sub_user_id sub = user_id u" and "is_live sub" and "sub_plan_id sub = pid"
  shows "entitled d u k"
proof -
  from assms(1) obtain f where "f \<in> set (features d)" "feature_key f = k"
      "\<lparr>pf_plan_id = pid, pf_feature_id = feature_id f\<rparr> \<in> set (plan_features d)"
    by (auto simp: linked_def)
  then show ?thesis using assms(2-5) unfolding entitled_def
    by (intro disjI2 bexI [of _ sub] bexI [of _ "\<lparr>pf_plan_id = pid, pf_feature_id = feature_id f\<rparr>"] bexI [of _ f]) simp_all
qed

text \<open>
  Mapping a list of feature keys to an existing plan succeeds whatever the keys are
  (new, known, repeated, already mapped) and commits; afterwards every user with a live
  subscription to the plan is entitled to each of them, and nobody has lost an entitlement.
\<close>

theorem mapped_features_entitle:
  assumes "find_row (\<lambda>p. plan_id p = pid) (plans (work (sess s))) = Some p"
    and "payload_get payload ''feature_keys'' (JList []) = JList ks"
  shows "\<exists>s'. map_plan_features repr now pid payload u s = (Inr (200, JObj [(''plan_id'', JInt pid), (''feature_keys'', JList ks)]), s') \<and>
    stored (sess s') = work (sess s') \<and>
    (\<forall>k \<in> set ks. \<forall>v. \<forall>sub \<in> set (subscriptions (work (sess s))). sub_user_id sub = user_id v \<and> is_live sub \<and> sub_plan_id sub = pid \<longrightarrow>
      entitled (work (sess s')) v (py_str repr k)) \<and>
    (\<forall>v k. entitled (work (sess s)) v k \<longrightarrow> entitled (work (sess s')) v k)"
proof -
  have p: "p \<in> set (plans (work (sess s)))" "plan_id p = pid" using find_row_Some [OF assms(1)] by simp_all
  then have "has_plan (work (sess s)) (plan_id p)" by (auto simp: has_plan_def)
  from map_features_run [OF this, of ks "py_str repr"] obtain fs pfs where
    run: "for_each ks (\<lambda>k. map_one_feature p (py_str repr k)) (sess s) = (Inr (), grown fs pfs (sess s))"
      "\<forall>k \<in> set ks. linked (work (grown fs pfs (sess s))) (plan_id p) (py_str repr k)"
    by blast
  let ?s1 = "s\<lparr>sess := (grown fs pfs (sess s))\<lparr>stored := work (grown fs pfs (sess s))\<rparr>\<rparr>"
  let ?s' = "queued_job (PersistAuditLogEntry (audit_entry None (user_actor u) ''billing.plan_features_mapped'' ''billing''
      (JObj [(''plan_id'', JInt pid), (''feature_keys'', JList ks)]) None None True None (Aware now))) ?s1"
  have "map_plan_features repr now pid payload u s = (Inr (200, JObj [(''plan_id'', JInt pid), (''feature_keys'', JList ks)]), ?s')"
    using assms run(1) p(2)
    by (simp add: map_plan_features_def bnd_apply in_db_apply db_get_def scalar_def look_apply Plan_def commit_apply
        audit_log_def queue_job_apply ok_reply_def ret_apply)
  moreover have "entitled (work (grown fs pfs (sess s))) v (py_str repr k)"
    if "k \<in> set ks" "sub \<in> set (subscriptions (work (sess s)))" "sub_user_id sub = user_id v" "is_live sub" "sub_plan_id sub = pid" for k v sub
    using that run(2) p(2) by (intro linked_entitles [of _ pid _ sub]) auto
  moreover have "entitled (work (grown fs pfs (sess s))) v k" if "entitled (work (sess s)) v k" for v k
    using that unfolding entitled_def grown_at set_append by blast
  ultimately show ?thesis by (intro exI [of _ ?s'] conjI ballI allI impI) simp_all
qed

theorem mapped_features_entitle_witness:
  "\<exists>s'. map_plan_features (\<lambda>_. []) 0 1 [(''feature_keys'', JList [JStr ''a'', JStr ''a''])] (principal_of demo_user None None) demo_shop =
     (Inr (200, JObj [(''plan_id'', JInt 1), (''feature_keys'', JList [JStr ''a'', JStr ''a''])]), s') \<and>
     entitled (work (sess s')) (principal_of demo_user None None) ''a''"
proof -
  let ?u = "principal_of demo_user None None"
  have "payload_get [(''feature_keys'', JList [JStr ''a'', JStr ''a''])] ''feature_keys'' (JList []) = JList [JStr ''a'', JStr ''a'']"
    by simp
  from mapped_features_entitle [OF demo_plans this, of "\<lambda>_. []" 0 ?u] obtain s' where
    s': "map_plan_features (\<lambda>_. []) 0 1 [(''feature_keys'', JList [JStr ''a'', JStr ''a''])] ?u demo_shop =
     (Inr (200, JObj [(''plan_id'', JInt 1), (''feature_keys'', JList [JStr ''a'', JStr ''a''])]), s')"
    "\<forall>k \<in> set [JStr ''a'', JStr ''a'']. \<forall>v. \<forall>sub \<in> set (subscriptions (work (sess demo_shop))).
      sub_user_id sub = user_id v \<and> is_live sub \<and> sub_plan_id sub = 1 \<longrightarrow> entitled (work (sess s')) v (py_str (\<lambda>_. []) k)"
    by blast
  have "entitled (work (sess s')) ?u (py_str (\<lambda>_. []) (JStr ''a''))"
    using s'(2) by (simp add: demo_shop_at demo_sub_def is_live_def principal_of_def demo_user_def user.extend_def)
  then show ?thesis using s'(1) by auto
qed

end
