(* ===== verification/Webhooks.thy ===== *)
theory Webhooks
  imports Users
begin

text \<open>
  Domain events (\<open>backend/domain/events/__init__.py\<close>) and outgoing webhooks: the service of
  \<open>backend/application/webhooks/service.py\<close> with its repositories, the dispatcher of
  \<open>backend/infrastructure/webhooks/dispatcher.py\<close>, the delivery job with its attempts, and the
  routes of \<open>backend/app/api/v1/webhooks/router.py\<close>.

  The HTTP post of a delivery is a parameter of the attempt: the response's status, or the
  exception raised. HMAC-SHA256 is \<open>hm\<close>, the printing of floats \<open>fr\<close>.
\<close>

section \<open>The event bus\<close>

record domain_event =
  event_id :: string
  occurred_at :: datetime
  event_payload :: payload

definition new_event_of :: "string \<Rightarrow> int \<Rightarrow> payload \<Rightarrow> domain_event" where
  "new_event_of uuid now p = \<lparr>event_id = ''evt-'' @ uuid, occurred_at = Aware now, event_payload = p\<rparr>"

type_synonym 's event_bus = "string \<Rightarrow> (domain_event \<Rightarrow> ('s, unit) op) list"

definition subscribe :: "string \<Rightarrow> (domain_event \<Rightarrow> ('s, unit) op) \<Rightarrow> 's event_bus \<Rightarrow> 's event_bus" where
  "subscribe event_type handler bus = bus(event_type := bus event_type @ [handler])"

text \<open>\<open>event.payload.get("event_type", "")\<close>: the program's events carry a text there.\<close>

definition event_type_of :: "domain_event \<Rightarrow> string" where
  "event_type_of ev = (case payload_get (event_payload ev) ''event_type'' (JStr '''') of JStr t \<Rightarrow> t | _ \<Rightarrow> '''')"

definition publish :: "'s event_bus \<Rightarrow> domain_event \<Rightarrow> ('s, unit) op" where
  "publish bus ev = for_each (bus (event_type_of ev) @ bus ''*'') (\<lambda>handler. handler ev)"

section \<open>Endpoints\<close>

definition get_active_for_event :: "string \<Rightarrow> (session, webhook_endpoint list) op" where
  "get_active_for_event event_type = bnd (select WebhookEndpoint ep_is_active) (\<lambda>eps.
     ret (filter (\<lambda>e. event_type \<in> set (ep_subscribed_events e)) eps))"

definition list_endpoints_for_owner :: "int \<Rightarrow> (session, webhook_endpoint list) op" where
  "list_endpoints_for_owner owner = bnd (select WebhookEndpoint (\<lambda>e. ep_owner_id e = owner \<and> ep_is_active e)) (\<lambda>rows.
     ret (page_of 0 100 rows))"

definition dt_value :: "datetime \<Rightarrow> int" where
  "dt_value t = (case t of Naive n \<Rightarrow> n | Aware n \<Rightarrow> n)"

definition list_for_endpoint :: "int \<Rightarrow> (session, webhook_delivery list) op" where
  "list_for_endpoint endpoint = bnd (select WebhookDelivery (\<lambda>d. deliv_endpoint_id d = endpoint)) (\<lambda>rows.
     ret (page_of 0 100 (sort_key (\<lambda>d. - dt_value (deliv_created_at d)) rows)))"

text \<open>\<open>payload.get("signing_secret") or secrets.token_urlsafe(32)\<close>, the latter \<open>fresh\<close>.\<close>

definition create_endpoint :: "string \<Rightarrow> int \<Rightarrow> int \<Rightarrow> string \<Rightarrow> string \<Rightarrow> string list \<Rightarrow> string option \<Rightarrow> bool \<Rightarrow>
    (session, webhook_endpoint) op" where
  "create_endpoint fresh now owner name url events signing_secret active = db_insert WebhookEndpoint
     \<lparr>ep_id = 0, ep_owner_id = owner, ep_name = name, ep_url = url, ep_subscribed_events = events,
      ep_signing_secret = (if blank signing_secret then fresh else the signing_secret), ep_is_active = active,
      ep_created_at = Aware now\<rparr>"

definition endpoint_not_found :: exn where
  "endpoint_not_found = ValueError ''endpoint not found''"

definition revoke_endpoint :: "int \<Rightarrow> int \<Rightarrow> (session, unit) op" where
  "revoke_endpoint endpoint owner =
     bnd (get_by_id WebhookEndpoint endpoint) (\<lambda>found. case found of
       None \<Rightarrow> throw endpoint_not_found
     | Some e \<Rightarrow> if ep_owner_id e \<noteq> owner then throw endpoint_not_found
         else db_save WebhookEndpoint (e\<lparr>ep_is_active := False\<rparr>))"

definition list_deliveries :: "int \<Rightarrow> int \<Rightarrow> (session, webhook_delivery list) op" where
  "list_deliveries endpoint owner =
     bnd (list_for_endpoint endpoint) (\<lambda>rows.
     bnd (get_by_id WebhookEndpoint endpoint) (\<lambda>found. case found of
       None \<Rightarrow> throw endpoint_not_found
     | Some e \<Rightarrow> if ep_owner_id e \<noteq> owner then throw endpoint_not_found else ret rows))"

section \<open>Dispatching an event\<close>

definition new_delivery :: "int \<Rightarrow> int \<Rightarrow> string \<Rightarrow> payload \<Rightarrow> webhook_delivery" where
  "new_delivery now endpoint event_type p = \<lparr>deliv_id = 0, deliv_endpoint_id = endpoint, deliv_event_type = event_type,
     deliv_payload = p, deliv_attempt_count = 0, deliv_last_attempt_at = None, deliv_last_status_code = None,
     deliv_delivered_at = None, deliv_created_at = Aware now\<rparr>"

definition create_delivery :: "int \<Rightarrow> int \<Rightarrow> string \<Rightarrow> payload \<Rightarrow> (session, webhook_delivery) op" where
  "create_delivery now endpoint event_type p = db_insert WebhookDelivery (new_delivery now endpoint event_type p)"

definition dispatch :: "int \<Rightarrow> domain_event \<Rightarrow> ('r app, unit) op" where
  "dispatch now ev =
     bnd (in_db (get_active_for_event (event_type_of ev))) (\<lambda>eps.
     for_each eps (\<lambda>e.
       bnd (in_db (create_delivery now (ep_id e) (event_type_of ev) (event_payload ev))) (\<lambda>d.
       queue_job (DeliverWebhook (deliv_id d)))))"

text \<open>
  The dispatcher uses the session of the request the event was published in (the current one of
  \<open>get_db\<close>), and a session of its own, which nothing commits, when there is none.
\<close>

definition handle_event :: "bool \<Rightarrow> int \<Rightarrow> domain_event \<Rightarrow> ('r app, unit) op" where
  "handle_event in_request now ev =
     (if in_request then dispatch now ev
      else (\<lambda>s. case dispatch now ev (s\<lparr>sess := (sess s)\<lparr>work := stored (sess s)\<rparr>\<rparr>) of
        (r, t) \<Rightarrow> (r, t\<lparr>sess := (sess t)\<lparr>work := stored (sess t)\<rparr>\<rparr>)))"

definition subscribe_webhook_dispatcher :: "bool \<Rightarrow> int \<Rightarrow> 'r app event_bus \<Rightarrow> 'r app event_bus" where
  "subscribe_webhook_dispatcher in_request now = subscribe ''*'' (handle_event in_request now)"

text \<open>The bus of the running program: a log entry for registrations, the dispatcher for all.\<close>

definition platform_bus :: "bool \<Rightarrow> int \<Rightarrow> 'r app event_bus" where
  "platform_bus in_request now = subscribe_webhook_dispatcher in_request now
     (subscribe ''user.registered'' (\<lambda>ev. ret ()) (\<lambda>_. []))"

section \<open>The delivery job\<close>

definition sign_webhook_payload :: "(string \<Rightarrow> string \<Rightarrow> string) \<Rightarrow> (real \<Rightarrow> string) \<Rightarrow> string \<Rightarrow> payload \<Rightarrow> string" where
  "sign_webhook_payload hm fr secret p = hm secret (json_dumps_sorted fr (JObj p))"

type_synonym http_post = "string \<Rightarrow> payload \<Rightarrow> string \<Rightarrow> exn + int"

definition after_response :: "int \<Rightarrow> exn + int \<Rightarrow> webhook_delivery \<Rightarrow> webhook_delivery" where
  "after_response now r d = (let d1 = d\<lparr>deliv_attempt_count := deliv_attempt_count d + 1, deliv_last_attempt_at := Some (Aware now)\<rparr> in
     (case r of
        Inl e \<Rightarrow> d1
      | Inr st \<Rightarrow> (let d2 = d1\<lparr>deliv_last_status_code := Some st\<rparr> in
          if 200 \<le> st \<and> st < 300 then d2\<lparr>deliv_delivered_at := Some (Aware now)\<rparr> else d2)))"

definition worth_retrying :: "exn + int \<Rightarrow> bool" where
  "worth_retrying r = (case r of Inl e \<Rightarrow> True | Inr st \<Rightarrow> st \<ge> 300)"

text \<open>The attempt in its own session; the result says whether to enqueue another.\<close>

definition attempt_delivery :: "(string \<Rightarrow> string \<Rightarrow> string) \<Rightarrow> (real \<Rightarrow> string) \<Rightarrow> http_post \<Rightarrow> int \<Rightarrow> int \<Rightarrow> (session, bool) op" where
  "attempt_delivery hm fr post now i =
     bnd (select WebhookDelivery (\<lambda>d. deliv_id d = i)) (\<lambda>rows.
     bnd (pure_op (one_or_none rows)) (\<lambda>found. case found of
       None \<Rightarrow> ret False
     | Some d \<Rightarrow> bnd (scalar WebhookEndpoint (\<lambda>e. ep_id e = deliv_endpoint_id d)) (\<lambda>found. case found of
         None \<Rightarrow> ret False
       | Some e \<Rightarrow>
           if \<not> ep_is_active e then ret False
           else (let r = post (ep_url e) (deliv_payload d) (sign_webhook_payload hm fr (ep_signing_secret e) (deliv_payload d));
                     d' = after_response now r d
             in bnd (db_save WebhookDelivery d') (\<lambda>_. bnd commit (\<lambda>_.
                ret (worth_retrying r \<and> deliv_attempt_count d' < 3)))))))"

definition deliver_webhook :: "(string \<Rightarrow> string \<Rightarrow> string) \<Rightarrow> (real \<Rightarrow> string) \<Rightarrow> http_post \<Rightarrow> int \<Rightarrow> int \<Rightarrow> ('r app, unit) op" where
  "deliver_webhook hm fr post now i =
     bnd (in_db (session_local (attempt_delivery hm fr post now i))) (\<lambda>again.
     if again then queue_job (DeliverWebhook i) else ret ())"

section \<open>Routes\<close>

record endpoint_create =
  ec_url :: string
  ec_subscribed_events :: "string list"
  ec_name :: string
  ec_is_active :: bool

record endpoint_out =
  eo_id :: int
  eo_owner_id :: int
  eo_name :: string
  eo_url :: string
  eo_subscribed_events :: "string list"
  eo_is_active :: bool
  eo_created_at :: datetime

definition endpoint_view :: "webhook_endpoint \<Rightarrow> endpoint_out" where
  "endpoint_view e = \<lparr>eo_id = ep_id e, eo_owner_id = ep_owner_id e, eo_name = ep_name e, eo_url = ep_url e,
     eo_subscribed_events = ep_subscribed_events e, eo_is_active = ep_is_active e, eo_created_at = ep_created_at e\<rparr>"

definition create_webhook_endpoint :: "string \<Rightarrow> int \<Rightarrow> endpoint_create \<Rightarrow> principal \<Rightarrow> ('r app, endpoint_out) op" where
  "create_webhook_endpoint fresh now p current_user =
     bnd (in_db (create_endpoint fresh now (user_id current_user) (ec_name p) (ec_url p) (ec_subscribed_events p) None (ec_is_active p))) (\<lambda>e.
     ret (endpoint_view e))"

definition list_webhook_endpoints :: "principal \<Rightarrow> ('r app, endpoint_out list) op" where
  "list_webhook_endpoints current_user = bnd (in_db (list_endpoints_for_owner (user_id current_user))) (\<lambda>eps.
     ret (map endpoint_view eps))"

text \<open>\<open>except ValueError as exc: raise HTTPException(404, detail=str(exc))\<close>\<close>

definition delete_webhook_endpoint :: "int \<Rightarrow> principal \<Rightarrow> ('r app, unit) op" where
  "delete_webhook_endpoint endpoint current_user =
     try_except (in_db (revoke_endpoint endpoint (user_id current_user)))
       (\<lambda>e. case e of ValueError msg \<Rightarrow> throw (HTTPException 404 (DetailText msg)) | _ \<Rightarrow> throw e)"

definition list_webhook_deliveries :: "int \<Rightarrow> principal \<Rightarrow> ('r app, webhook_delivery list) op" where
  "list_webhook_deliveries endpoint current_user = in_db (list_deliveries endpoint (user_id current_user))"

section \<open>An event reaches its subscribers\<close>

definition addressed :: "webhook_delivery \<Rightarrow> int \<times> string \<times> payload \<times> int" where
  "addressed d = (deliv_endpoint_id d, deliv_event_type d, deliv_payload d, deliv_attempt_count d)"

lemma dispatch_loop:
  assumes "job_queue (conf s) = InProcessJobQueue"
    and "ep_id ` set eps \<subseteq> ep_id ` set (webhook_endpoints (work (sess s)))"
    and "distinct (map deliv_id (webhook_deliveries (work (sess s))))"
  shows "\<exists>ds. for_each eps (\<lambda>e. bnd (in_db (create_delivery now (ep_id e) ty p)) (\<lambda>d. queue_job (DeliverWebhook (deliv_id d)))) s =
      (Inr (), s\<lparr>sess := (sess s)\<lparr>work := (work (sess s))\<lparr>webhook_deliveries := webhook_deliveries (work (sess s)) @ ds\<rparr>\<rparr>,
        jobs := jobs s @ map (DeliverWebhook \<circ> deliv_id) ds\<rparr>) \<and>
    map addressed ds = map (\<lambda>e. (ep_id e, ty, p, 0)) eps \<and>
    distinct (map deliv_id (webhook_deliveries (work (sess s)) @ ds))"
  using assms
proof (induction eps arbitrary: s)
  case Nil
  then show ?case by (intro exI [of _ "[]"]) (simp add: ret_apply)
next
  case (Cons e eps)
  let ?old = "webhook_deliveries (work (sess s))"
  let ?d = "(new_delivery now (ep_id e) ty p)\<lparr>deliv_id := fresh_id (map deliv_id ?old)\<rparr>"
  let ?s1 = "s\<lparr>sess := (sess s)\<lparr>work := (work (sess s))\<lparr>webhook_deliveries := ?old @ [?d]\<rparr>\<rparr>, jobs := jobs s @ [DeliverWebhook (deliv_id ?d)]\<rparr>"
  have ep: "ep_id e \<in> ep_id ` set (webhook_endpoints (work (sess s)))" using Cons.prems(2) by simp
  then have "create_delivery now (ep_id e) ty p (sess s) =
      (Inr ?d, (sess s)\<lparr>work := (work (sess s))\<lparr>webhook_deliveries := ?old @ [?d]\<rparr>\<rparr>)"
    by (simp add: create_delivery_def db_insert_def violates_def WebhookDelivery_def Let_def new_delivery_def)
  then have step: "bnd (in_db (create_delivery now (ep_id e) ty p)) (\<lambda>d. queue_job (DeliverWebhook (deliv_id d))) s = (Inr (), ?s1)"
    using Cons.prems(1) by (simp add: bnd_apply in_db_apply queue_job_apply queued_job_def)
  have fresh: "distinct (map deliv_id (?old @ [?d]))" using Cons.prems(3) by simp
  have "\<exists>ds. for_each eps (\<lambda>e. bnd (in_db (create_delivery now (ep_id e) ty p)) (\<lambda>d. queue_job (DeliverWebhook (deliv_id d)))) ?s1 =
      (Inr (), ?s1\<lparr>sess := (sess ?s1)\<lparr>work := (work (sess ?s1))\<lparr>webhook_deliveries := webhook_deliveries (work (sess ?s1)) @ ds\<rparr>\<rparr>,
        jobs := jobs ?s1 @ map (DeliverWebhook \<circ> deliv_id) ds\<rparr>) \<and>
    map addressed ds = map (\<lambda>e. (ep_id e, ty, p, 0)) eps \<and>
    distinct (map deliv_id (webhook_deliveries (work (sess ?s1)) @ ds))"
    using Cons.prems fresh by (intro Cons.IH) simp_all
  then obtain ds where ds: "for_each eps (\<lambda>e. bnd (in_db (create_delivery now (ep_id e) ty p)) (\<lambda>d. queue_job (DeliverWebhook (deliv_id d)))) ?s1 =
      (Inr (), ?s1\<lparr>sess := (sess ?s1)\<lparr>work := (work (sess ?s1))\<lparr>webhook_deliveries := webhook_deliveries (work (sess ?s1)) @ ds\<rparr>\<rparr>,
        jobs := jobs ?s1 @ map (DeliverWebhook \<circ> deliv_id) ds\<rparr>)"
      "map addressed ds = map (\<lambda>e. (ep_id e, ty, p, 0)) eps" "distinct (map deliv_id (webhook_deliveries (work (sess ?s1)) @ ds))"
    by (elim exE conjE) (rule that)
  show ?case
  proof (intro exI [of _ "?d # ds"] conjI)
    show "for_each (e # eps) (\<lambda>e. bnd (in_db (create_delivery now (ep_id e) ty p)) (\<lambda>d. queue_job (DeliverWebhook (deliv_id d)))) s =
      (Inr (), s\<lparr>sess := (sess s)\<lparr>work := (work (sess s))\<lparr>webhook_deliveries := ?old @ ?d # ds\<rparr>\<rparr>,
        jobs := jobs s @ map (DeliverWebhook \<circ> deliv_id) (?d # ds)\<rparr>)"
      unfolding for_each.simps bnd_apply [of "bnd (in_db (create_delivery now (ep_id e) ty p)) (\<lambda>d. queue_job (DeliverWebhook (deliv_id d)))"] step
      using ds(1) by simp
    show "map addressed (?d # ds) = map (\<lambda>e. (ep_id e, ty, p, 0)) (e # eps)"
      using ds(2) by (simp add: addressed_def new_delivery_def)
    show "distinct (map deliv_id (?old @ ?d # ds))" using ds(3) by simp
  qed
qed

definition interested :: "domain_event \<Rightarrow> db \<Rightarrow> webhook_endpoint list" where
  "interested ev d = filter (\<lambda>e. ep_is_active e \<and> event_type_of ev \<in> set (ep_subscribed_events e)) (webhook_endpoints d)"

definition dispatched :: "webhook_delivery list \<Rightarrow> 'r app \<Rightarrow> 'r app" where
  "dispatched ds s = s\<lparr>sess := (sess s)\<lparr>work := (work (sess s))\<lparr>webhook_deliveries := webhook_deliveries (work (sess s)) @ ds\<rparr>\<rparr>,
     jobs := jobs s @ map (DeliverWebhook \<circ> deliv_id) ds\<rparr>"

lemma dispatch_run:
  assumes "job_queue (conf s) = InProcessJobQueue"
    and "distinct (map deliv_id (webhook_deliveries (work (sess s))))"
  obtains ds where "dispatch now ev s = (Inr (), dispatched ds s)"
    and "map addressed ds = map (\<lambda>e. (ep_id e, event_type_of ev, event_payload ev, 0)) (interested ev (work (sess s)))"
    and "distinct (map deliv_id (webhook_deliveries (work (sess s)) @ ds))"
proof -
  let ?eps = "interested ev (work (sess s))"
  have read: "in_db (get_active_for_event (event_type_of ev)) s = (Inr ?eps, s)"
    by (simp add: in_db_apply get_active_for_event_def bnd_apply select_def look_apply ret_apply WebhookEndpoint_def
        conj_commute interested_def)
  have "ep_id ` set ?eps \<subseteq> ep_id ` set (webhook_endpoints (work (sess s)))" by (auto simp: interested_def)
  from dispatch_loop [OF assms(1) this assms(2), of now "event_type_of ev" "event_payload ev"] obtain ds where
    "for_each ?eps (\<lambda>e. bnd (in_db (create_delivery now (ep_id e) (event_type_of ev) (event_payload ev)))
        (\<lambda>d. queue_job (DeliverWebhook (deliv_id d)))) s = (Inr (), dispatched ds s)"
    "map addressed ds = map (\<lambda>e. (ep_id e, event_type_of ev, event_payload ev, 0)) ?eps"
    "distinct (map deliv_id (webhook_deliveries (work (sess s)) @ ds))"
    unfolding dispatched_def [symmetric] by (elim exE conjE) (rule that)
  with read that [of ds] show thesis by (simp add: dispatch_def bnd_apply)
qed


definition demo_endpoint :: "int \<Rightarrow> bool \<Rightarrow> webhook_endpoint" where
  "demo_endpoint i active = \<lparr>ep_id = i, ep_owner_id = 7, ep_name = ''n'', ep_url = ''u'', ep_subscribed_events = [''user.registered''],
     ep_signing_secret = ''k'', ep_is_active = active, ep_created_at = Aware 0\<rparr>"

definition demo_hooks :: "(string \<Rightarrow> pyval option) app" where
  "demo_hooks = demo_app (empty_db\<lparr>webhook_endpoints := [demo_endpoint 1 True, demo_endpoint 2 False]\<rparr>)"


section \<open>The attempts of a delivery\<close>

text \<open>The worker takes the queued jobs in turn; the outside world is the post of each round.\<close>

fun work_off :: "(string \<Rightarrow> string \<Rightarrow> string) \<Rightarrow> (real \<Rightarrow> string) \<Rightarrow> (int \<times> http_post) list \<Rightarrow> 'r app \<Rightarrow> 'r app" where
  "work_off hm fr [] s = s"
| "work_off hm fr ((now, post) # es) s = (case jobs s of
     DeliverWebhook i # js \<Rightarrow> work_off hm fr es (snd (deliver_webhook hm fr post now i (s\<lparr>jobs := js\<rparr>)))
   | _ \<Rightarrow> work_off hm fr es s)"

text \<open>What the attempts amount to: a loop that stops at an answer below 300 or after \<open>n\<close> posts.\<close>

fun attempts :: "nat \<Rightarrow> (int \<times> (exn + int)) list \<Rightarrow> webhook_delivery \<Rightarrow> webhook_delivery" where
  "attempts 0 rs d = d"
| "attempts (Suc n) [] d = d"
| "attempts (Suc n) ((now, r) # rs) d = (let d' = after_response now r d in
     if worth_retrying r then attempts n rs d' else d')"

lemma after_response_simps [simp]:
  "deliv_id (after_response now r d) = deliv_id d" "deliv_endpoint_id (after_response now r d) = deliv_endpoint_id d"
  "deliv_payload (after_response now r d) = deliv_payload d"
  "deliv_attempt_count (after_response now r d) = deliv_attempt_count d + 1"
  by (simp_all add: after_response_def Let_def split: sum.split)

lemma attempts_bound: "deliv_attempt_count (attempts n rs d) \<le> deliv_attempt_count d + int n"
proof (induction n rs d rule: attempts.induct)
  case (3 n now r rs d)
  then show ?case by (cases "worth_retrying r") (auto simp: Let_def)
qed simp_all

text \<open>The delivery \<open>d\<close> of the active endpoint \<open>e\<close>, with nothing uncommitted.\<close>

definition under_way :: "webhook_endpoint \<Rightarrow> webhook_delivery \<Rightarrow> session \<Rightarrow> bool" where
  "under_way e d s \<longleftrightarrow> work s = stored s \<and> distinct (map deliv_id (webhook_deliveries (stored s))) \<and>
     d \<in> set (webhook_deliveries (stored s)) \<and>
     find_row (\<lambda>x. ep_id x = deliv_endpoint_id d) (webhook_endpoints (stored s)) = Some e \<and> ep_is_active e"

definition with_delivery :: "webhook_delivery \<Rightarrow> session \<Rightarrow> session" where
  "with_delivery d s = (let t = (stored s)\<lparr>webhook_deliveries := replace_row deliv_id d (webhook_deliveries (stored s))\<rparr>
     in s\<lparr>work := t, stored := t\<rparr>)"

lemma under_way_after:
  assumes "under_way e d s" and "deliv_id d' = deliv_id d" and "deliv_endpoint_id d' = deliv_endpoint_id d"
  shows "under_way e d' (with_delivery d' s)"
proof -
  have "deliv_id d' \<in> deliv_id ` set (webhook_deliveries (stored s))"
    using assms(1,2) by (auto simp: under_way_def)
  then have "d' \<in> set (replace_row deliv_id d' (webhook_deliveries (stored s)))" by (simp add: set_replace_row)
  then show ?thesis using assms by (simp add: under_way_def with_delivery_def Let_def)
qed

lemma attempt_run:
  assumes "under_way e d s"
  shows "session_local (attempt_delivery hm fr post now (deliv_id d)) s =
    (let r = post (ep_url e) (deliv_payload d) (sign_webhook_payload hm fr (ep_signing_secret e) (deliv_payload d))
     in (Inr (worth_retrying r \<and> deliv_attempt_count d + 1 < 3), with_delivery (after_response now r d) s))"
proof -
  let ?r = "post (ep_url e) (deliv_payload d) (sign_webhook_payload hm fr (ep_signing_secret e) (deliv_payload d))"
  have "filter (\<lambda>x. deliv_id x = deliv_id d) (webhook_deliveries (stored s)) = [d]"
    using filter_unique [of deliv_id "webhook_deliveries (stored s)" d "\<lambda>_. True"] assms by (simp add: under_way_def)
  moreover have ep: "find_row (\<lambda>x. ep_id x = deliv_endpoint_id d) (webhook_endpoints (stored s)) = Some e" "ep_is_active e"
    using assms by (simp_all add: under_way_def)
  moreover have "deliv_endpoint_id d \<in> ep_id ` set (webhook_endpoints (stored s))"
    using find_row_Some [OF ep(1)] by (metis image_eqI)
  then have "db_save WebhookDelivery (after_response now ?r d) (s\<lparr>work := stored s\<rparr>) = (Inr (),
      s\<lparr>work := (stored s)\<lparr>webhook_deliveries := replace_row deliv_id (after_response now ?r d) (webhook_deliveries (stored s))\<rparr>\<rparr>)"
    by (simp add: db_save_def violates_def WebhookDelivery_def Let_def)
  ultimately show ?thesis
    by (simp add: session_local_def attempt_delivery_def bnd_apply select_def look_apply pure_op_apply one_or_none_def
        scalar_def WebhookDelivery_def WebhookEndpoint_def Let_def commit_apply ret_apply with_delivery_def add.commute)
qed

lemma deliver_run:
  assumes "under_way e d (sess s)" and "job_queue (conf s) = InProcessJobQueue"
  shows "snd (deliver_webhook hm fr post now (deliv_id d) s) =
    (let r = post (ep_url e) (deliv_payload d) (sign_webhook_payload hm fr (ep_signing_secret e) (deliv_payload d))
     in s\<lparr>sess := with_delivery (after_response now r d) (sess s),
          jobs := jobs s @ (if worth_retrying r \<and> deliv_attempt_count d + 1 < 3 then [DeliverWebhook (deliv_id d)] else [])\<rparr>)"
  using attempt_run [OF assms(1), of hm fr post now] assms(2)
  by (simp add: deliver_webhook_def bnd_apply in_db_apply Let_def queue_job_apply queued_job_def ret_apply)

lemma with_delivery_twice:
  "deliv_id d' = deliv_id d \<Longrightarrow> with_delivery d' (with_delivery d s) = with_delivery d' s"
proof -
  assume same: "deliv_id d' = deliv_id d"
  have "replace_row deliv_id d' (replace_row deliv_id d rows) = replace_row deliv_id d' rows" for rows
    unfolding replace_row_def map_map by (rule map_cong [OF refl]) (simp add: same)
  then show ?thesis by (simp add: with_delivery_def Let_def)
qed

lemma attempts_id [simp]: "deliv_id (attempts n rs d) = deliv_id d"
  by (induction n rs d rule: attempts.induct) (auto simp: Let_def)

lemma idle_worker: "jobs s = [] \<Longrightarrow> work_off hm fr es s = s"
  by (induction es) auto

text \<open>The responses the endpoint gives in the rounds.\<close>

definition responses :: "(string \<Rightarrow> string \<Rightarrow> string) \<Rightarrow> (real \<Rightarrow> string) \<Rightarrow> webhook_endpoint \<Rightarrow> payload \<Rightarrow> (int \<times> http_post) list \<Rightarrow>
    (int \<times> (exn + int)) list" where
  "responses hm fr e p es = map (\<lambda>(now, post). (now, post (ep_url e) p (sign_webhook_payload hm fr (ep_signing_secret e) p))) es"

lemma worker_run:
  assumes "under_way e d (sess s)" and "job_queue (conf s) = InProcessJobQueue" and "jobs s = [DeliverWebhook (deliv_id d)]"
    and "deliv_attempt_count d + int (Suc n) = 3"
  shows "sess (work_off hm fr es s) =
    (if es = [] then sess s else with_delivery (attempts (Suc n) (responses hm fr e (deliv_payload d) es) d) (sess s))"
  using assms
proof (induction es arbitrary: s d n)
  case (Cons x es)
  obtain now post where x: "x = (now, post)" by (cases x)
  let ?r = "post (ep_url e) (deliv_payload d) (sign_webhook_payload hm fr (ep_signing_secret e) (deliv_payload d))"
  let ?d = "after_response now ?r d"
  let ?again = "worth_retrying ?r \<and> deliv_attempt_count d + 1 < 3"
  let ?s1 = "s\<lparr>sess := with_delivery ?d (sess s), jobs := if ?again then [DeliverWebhook (deliv_id d)] else []\<rparr>"
  have step: "work_off hm fr (x # es) s = work_off hm fr es ?s1"
    using Cons.prems deliver_run [of e d "s\<lparr>jobs := []\<rparr>" hm fr post now] by (simp add: x Let_def)
  have uw: "under_way e ?d (sess ?s1)" using under_way_after [OF Cons.prems(1)] by simp
  have rs: "responses hm fr e (deliv_payload d) (x # es) = (now, ?r) # responses hm fr e (deliv_payload d) es"
    by (simp add: responses_def x)
  show ?case
  proof (cases ?again)
    case True
    then obtain m where m: "n = Suc m" using Cons.prems(4) by (cases n) auto
    have "sess (work_off hm fr es ?s1) = (if es = [] then sess ?s1
        else with_delivery (attempts (Suc m) (responses hm fr e (deliv_payload ?d) es) ?d) (sess ?s1))"
      using True Cons.prems(2,4) m uw by (intro Cons.IH) simp_all
    then show ?thesis unfolding step rs using True m
      by (cases es) (simp_all add: Let_def with_delivery_twice responses_def)
  next
    case False
    then have "sess (work_off hm fr es ?s1) = with_delivery ?d (sess s)" by (simp add: idle_worker)
    moreover have "attempts (Suc n) ((now, ?r) # responses hm fr e (deliv_payload d) es) d = ?d"
      using False Cons.prems(4) by (cases n) (auto simp: Let_def)
    ultimately show ?thesis unfolding step rs by simp
  qed
qed simp

text \<open>
  A delivery whose job is queued is posted in a loop of at most three attempts,
  however long the worker goes on and whatever the endpoint answers: the committed row is what
  the loop leaves (stopping at the first answer below 300, retrying after an error or a higher
  status), it counts at most three attempts, and no other delivery changes.
\<close>

theorem delivery_is_a_bounded_loop:
  assumes "under_way e d (sess s)" and "job_queue (conf s) = InProcessJobQueue" and "jobs s = [DeliverWebhook (deliv_id d)]"
    and "deliv_attempt_count d = 0" and "es \<noteq> []"
  shows "webhook_deliveries (stored (sess (work_off hm fr es s))) =
      replace_row deliv_id (attempts 3 (responses hm fr e (deliv_payload d) es) d) (webhook_deliveries (stored (sess s))) \<and>
    deliv_attempt_count (attempts 3 (responses hm fr e (deliv_payload d) es) d) \<le> 3"
proof -
  have 3: "Suc 2 = (3::nat)" by simp
  have "deliv_attempt_count d + int (Suc 2) = 3" using assms(4) by simp
  from worker_run [OF assms(1-3) this, of hm fr es] assms(5) show ?thesis
    using attempts_bound [of 3 "responses hm fr e (deliv_payload d) es" d] assms(4)
    unfolding 3 by (simp add: with_delivery_def Let_def)
qed

definition demo_delivery :: webhook_delivery where
  "demo_delivery = (new_delivery 0 1 ''user.registered'' [])\<lparr>deliv_id := 9\<rparr>"

theorem delivery_is_a_bounded_loop_witness:
  "map deliv_attempt_count (webhook_deliveries (stored (sess (work_off (\<lambda>k t. t) (\<lambda>_. []) [(1, \<lambda>_ _ _. Inr 500), (2, \<lambda>_ _ _. Inl TypeError), (3, \<lambda>_ _ _. Inr 503), (4, \<lambda>_ _ _. Inr 200)]
     ((demo_app (empty_db\<lparr>webhook_endpoints := [demo_endpoint 1 True], webhook_deliveries := [demo_delivery]\<rparr>))\<lparr>jobs := [DeliverWebhook 9]\<rparr>))))) = [3]"
proof -
  let ?s = "(demo_app (empty_db\<lparr>webhook_endpoints := [demo_endpoint 1 True], webhook_deliveries := [demo_delivery]\<rparr>))\<lparr>jobs := [DeliverWebhook 9]\<rparr>"
  have "under_way (demo_endpoint 1 True) demo_delivery (sess ?s)" "job_queue (conf ?s) = InProcessJobQueue"
      "jobs ?s = [DeliverWebhook (deliv_id demo_delivery)]" "deliv_attempt_count demo_delivery = 0"
    by (simp_all add: under_way_def demo_app_def demo_delivery_def new_delivery_def demo_endpoint_def find_row_def job_queue_def default_settings_def)
  from delivery_is_a_bounded_loop [OF this, of "[(1, \<lambda>_ _ _. Inr 500), (2, \<lambda>_ _ _. Inl TypeError), (3, \<lambda>_ _ _. Inr 503), (4, \<lambda>_ _ _. Inr 200)]" "\<lambda>k t. t" "\<lambda>_. []"]
  show ?thesis
    by (simp add: responses_def numeral_3_eq_3 worth_retrying_def replace_row_def demo_app_def demo_delivery_def new_delivery_def Let_def)
qed

section \<open>Signatures\<close>

text \<open>
  The signature of a delivery depends on what the payload says and not on the order of
  its keys: a receiver that parses the body into a dict and signs it the same way computes the
  header it was sent.
\<close>

theorem signature_ignores_key_order:
  assumes "mset p = mset q" and "distinct (map fst p)"
  shows "sign_webhook_payload hm fr secret p = sign_webhook_payload hm fr secret q"
  using json_dumps_sorted_perm [OF assms] by (simp add: sign_webhook_payload_def)

theorem signature_ignores_key_order_witness:
  "sign_webhook_payload (\<lambda>k t. k @ t) (\<lambda>_. []) ''s'' [(''a'', JInt 1), (''b'', JNull)] =
   sign_webhook_payload (\<lambda>k t. k @ t) (\<lambda>_. []) ''s'' [(''b'', JNull), (''a'', JInt 1)]"
  by (rule signature_ignores_key_order) simp_all

end
