(* ===== verification/Schema.thy ===== *)
theory Schema
  imports Users
begin

text \<open>
  The request and response schemas of \<open>backend/common/schema.py\<close>: the password pattern, the
  validators of the user schemas, and \<open>UserOut\<close> with its JSON form. Validation of an e-mail
  address (\<open>EmailStr\<close>, the \<open>email_validator\<close> package) is a parameter: the normalized address, or
  nothing where it is refused.
\<close>

section \<open>The password pattern\<close>

definition newline :: char where
  "newline = char_of (10::nat)"

text \<open>
  \<open>(?=.*[class])\<close>: the dot does not match a newline, so the character is looked for in the first
  line and, as a class may contain it, the newline that ends it.
\<close>

definition seek :: "(char \<Rightarrow> bool) \<Rightarrow> string \<Rightarrow> bool" where
  "seek cls s \<longleftrightarrow> list_ex cls (takeWhile (\<lambda>c. c \<noteq> newline) s @ take 1 (dropWhile (\<lambda>c. c \<noteq> newline) s))"

definition is_lower :: "char \<Rightarrow> bool" where
  "is_lower c = (let n = of_char c :: nat in 97 \<le> n \<and> n \<le> 122)"

definition is_upper :: "char \<Rightarrow> bool" where
  "is_upper c = (let n = of_char c :: nat in 65 \<le> n \<and> n \<le> 90)"

definition is_special :: "char \<Rightarrow> bool" where
  "is_special c \<longleftrightarrow> \<not> is_lower c \<and> \<not> is_upper c \<and> \<not> is_digit c"

text \<open>\<open>.{n,}$\<close>: one line of at least \<open>n\<close> characters, then the end or a last newline.\<close>

definition one_line :: "nat \<Rightarrow> string \<Rightarrow> bool" where
  "one_line n s \<longleftrightarrow> n \<le> length (takeWhile (\<lambda>c. c \<noteq> newline) s) \<and>
     dropWhile (\<lambda>c. c \<noteq> newline) s \<in> {[], [newline]}"

definition password_matches :: "settings \<Rightarrow> string \<Rightarrow> bool" where
  "password_matches c s \<longleftrightarrow>
     (password_require_lowercase c \<longrightarrow> seek is_lower s) \<and>
     (password_require_uppercase c \<longrightarrow> seek is_upper s) \<and>
     (password_require_number c \<longrightarrow> seek is_digit s) \<and>
     (password_require_special_character c \<longrightarrow> seek is_special s) \<and>
     one_line (password_min_length c) s"

definition validate_password_strength :: "settings \<Rightarrow> string \<Rightarrow> exn + string" where
  "validate_password_strength c password = (if password_matches c password then Inr password
     else Inl (ValueError ''Password must be at least 8 characters and include uppercase, lowercase, number, and special character''))"

section \<open>The user schemas\<close>

text \<open>A value pydantic refuses; the request is answered with status 422.\<close>

definition invalid_field :: "string \<Rightarrow> exn" where
  "invalid_field name = HTTPException 422 (DetailText name)"

definition check_password :: "settings \<Rightarrow> string \<Rightarrow> exn + string" where
  "check_password c p = (if length p < password_min_length c then Inl (invalid_field ''password'')
     else case validate_password_strength c p of Inl e \<Rightarrow> Inl (invalid_field ''password'') | Inr p \<Rightarrow> Inr p)"

definition check_username :: "string \<Rightarrow> exn + string" where
  "check_username n = (if length n < 3 then Inl (invalid_field ''username'') else Inr n)"

definition check_email :: "(string \<Rightarrow> string option) \<Rightarrow> string \<Rightarrow> exn + string" where
  "check_email ev e = (case ev e of None \<Rightarrow> Inl (invalid_field ''email'') | Some a \<Rightarrow> Inr a)"

definition make_user_create :: "settings \<Rightarrow> (string \<Rightarrow> string option) \<Rightarrow> string \<Rightarrow> string \<Rightarrow> string \<Rightarrow> exn + user_create" where
  "make_user_create c ev email username password =
     bind_sum (check_email ev email) (\<lambda>e.
     bind_sum (check_username username) (\<lambda>n.
     bind_sum (check_password c password) (\<lambda>p.
     Inr \<lparr>uc_email = lower (strip e), uc_username = n, uc_password = p\<rparr>)))"

text \<open>A field that is unset or null is not checked.\<close>

definition check_set :: "('a \<Rightarrow> exn + 'a) \<Rightarrow> 'a option option \<Rightarrow> exn + 'a option option" where
  "check_set f v = (case v of Some (Some x) \<Rightarrow> map_sum id (\<lambda>y. Some (Some y)) (f x) | _ \<Rightarrow> Inr v)"

definition check_role :: "string \<Rightarrow> exn + string" where
  "check_role r = (if r \<in> {''user'', ''staff'', ''admin''} then Inr r else Inl (invalid_field ''role''))"

definition make_user_update :: "settings \<Rightarrow> (string \<Rightarrow> string option) \<Rightarrow> user_update \<Rightarrow> exn + user_update" where
  "make_user_update c ev raw =
     bind_sum (check_set (check_email ev) (uu_email raw)) (\<lambda>e.
     bind_sum (check_set check_username (uu_username raw)) (\<lambda>n.
     bind_sum (check_set (check_password c) (uu_password raw)) (\<lambda>p.
     bind_sum (check_set check_role (uu_role raw)) (\<lambda>r.
     Inr (raw\<lparr>uu_email := e, uu_username := n, uu_password := p, uu_role := r\<rparr>)))))"

record user_out =
  uo_id :: int
  uo_email :: string
  uo_username :: string
  uo_is_active :: bool
  uo_is_verified :: bool
  uo_is_superuser :: bool
  uo_role :: string
  uo_permissions :: "string list"
  uo_created_at :: datetime
  uo_updated_at :: datetime

text \<open>\<open>UserOut.model_validate(user)\<close>: permissions that are null are refused (a 500 here).\<close>

definition to_public :: "'a user_scheme \<Rightarrow> exn + user_out" where
  "to_public u = (case user_permissions u of
     None \<Rightarrow> Inl (ValueError ''UserOut'')
   | Some ps \<Rightarrow> Inr \<lparr>uo_id = user_id u, uo_email = user_email u, uo_username = user_username u,
       uo_is_active = user_is_active u, uo_is_verified = user_is_verified u, uo_is_superuser = user_is_superuser u,
       uo_role = user_role u, uo_permissions = ps, uo_created_at = user_created_at u, uo_updated_at = user_updated_at u\<rparr>)"

text \<open>\<open>model_dump(mode="json")\<close> and \<open>model_validate\<close> of its result; \<open>iso\<close> prints a datetime and
  \<open>of_iso\<close> reads it.\<close>

definition user_out_json :: "(datetime \<Rightarrow> string) \<Rightarrow> user_out \<Rightarrow> json" where
  "user_out_json fmt u = JObj [
     (''created_at'', JStr (fmt (uo_created_at u))), (''updated_at'', JStr (fmt (uo_updated_at u))),
     (''id'', JInt (uo_id u)), (''email'', JStr (uo_email u)), (''username'', JStr (uo_username u)),
     (''is_active'', JBool (uo_is_active u)), (''is_verified'', JBool (uo_is_verified u)),
     (''is_superuser'', JBool (uo_is_superuser u)), (''role'', JStr (uo_role u)),
     (''permissions'', JList (map JStr (uo_permissions u)))]"

fun text_of :: "json \<Rightarrow> string option" where
  "text_of (JStr t) = Some t"
| "text_of _ = None"

fun bool_of :: "json \<Rightarrow> bool option" where
  "bool_of (JBool b) = Some b"
| "bool_of _ = None"

fun int_of :: "json \<Rightarrow> int option" where
  "int_of (JInt n) = Some n"
| "int_of _ = None"

fun texts_of :: "json \<Rightarrow> string list option" where
  "texts_of (JList xs) = those (map text_of xs)"
| "texts_of _ = None"

definition user_out_of_json :: "(string \<Rightarrow> datetime option) \<Rightarrow> json \<Rightarrow> exn + user_out" where
  "user_out_of_json of_iso v = (case v of
     JObj p \<Rightarrow> (let field = (\<lambda>k. payload_get p k JNull) in
       (case (Option.bind (text_of (field ''created_at'')) of_iso, Option.bind (text_of (field ''updated_at'')) of_iso,
              int_of (field ''id''), text_of (field ''email''), text_of (field ''username''), bool_of (field ''is_active''),
              bool_of (field ''is_verified''), bool_of (field ''is_superuser''), text_of (field ''role''), texts_of (field ''permissions'')) of
          (Some ca, Some ua, Some i, Some e, Some n, Some a, Some ve, Some su, Some r, Some ps) \<Rightarrow>
            Inr \<lparr>uo_id = i, uo_email = e, uo_username = n, uo_is_active = a, uo_is_verified = ve, uo_is_superuser = su,
              uo_role = r, uo_permissions = ps, uo_created_at = ca, uo_updated_at = ua\<rparr>
        | _ \<Rightarrow> Inl (ValueError ''UserOut'')))
   | _ \<Rightarrow> Inl (ValueError ''UserOut''))"

section \<open>Facts\<close>

lemma those_texts: "those (map text_of (map JStr xs)) = Some xs"
  by (induction xs) simp_all

lemma user_out_roundtrip:
  assumes "\<And>t. of_iso (fmt t) = Some t"
  shows "user_out_of_json of_iso (user_out_json fmt u) = Inr u"
  using assms those_texts [of "uo_permissions u"]
  by (simp add: user_out_of_json_def user_out_json_def Let_def)

lemma takeWhile_none: "newline \<notin> set line \<Longrightarrow> takeWhile (\<lambda>c. c \<noteq> newline) line = line"
  and dropWhile_none: "newline \<notin> set line \<Longrightarrow> dropWhile (\<lambda>c. c \<noteq> newline) line = []"
  by (auto simp: takeWhile_eq_all_conv dropWhile_eq_Nil_conv)

lemma seek_line:
  assumes "newline \<notin> set line"
  shows "seek cls line \<longleftrightarrow> list_ex cls line"
    and "seek cls (line @ [newline]) \<longleftrightarrow> list_ex cls line \<or> cls newline"
    and "one_line n line \<longleftrightarrow> n \<le> length line"
    and "one_line n (line @ [newline]) \<longleftrightarrow> n \<le> length line"
  using assms by (auto simp: seek_def one_line_def takeWhile_none dropWhile_none takeWhile_append dropWhile_append)

lemma line_cases:
  assumes "one_line n s"
  obtains line where "newline \<notin> set line" and "n \<le> length line" and "s = line \<or> s = line @ [newline]"
proof (rule that)
  let ?l = "takeWhile (\<lambda>c. c \<noteq> newline) s"
  show "newline \<notin> set ?l" using set_takeWhileD [of newline "\<lambda>c. c \<noteq> newline" s] by auto
  show "n \<le> length ?l" using assms by (simp add: one_line_def)
  show "s = ?l \<or> s = ?l @ [newline]"
    using assms takeWhile_dropWhile_id [of "\<lambda>c. c \<noteq> newline" s] unfolding one_line_def by (metis append_Nil2 insertE singletonD)
qed

text \<open>The classes the settings ask for, each with a character of \<open>s\<close>.\<close>

definition covers_classes :: "settings \<Rightarrow> string \<Rightarrow> bool" where
  "covers_classes c s \<longleftrightarrow>
     (password_require_lowercase c \<longrightarrow> (\<exists>x\<in>set s. is_lower x)) \<and>
     (password_require_uppercase c \<longrightarrow> (\<exists>x\<in>set s. is_upper x)) \<and>
     (password_require_number c \<longrightarrow> (\<exists>x\<in>set s. is_digit x)) \<and>
     (password_require_special_character c \<longrightarrow> (\<exists>x\<in>set s. is_special x))"

lemma newline_class [simp]: "is_special newline" "\<not> is_lower newline" "\<not> is_upper newline" "\<not> is_digit newline"
  by (simp_all add: is_special_def is_lower_def is_upper_def is_digit_def newline_def)

lemma matches_line:
  assumes "newline \<notin> set line"
  shows "password_matches c line \<longleftrightarrow> password_min_length c \<le> length line \<and> covers_classes c line"
    and "password_matches c (line @ [newline]) \<longleftrightarrow>
           password_min_length c \<le> length line \<and> covers_classes c (line @ [newline])"
  unfolding password_matches_def covers_classes_def seek_line [OF assms] list_ex_iff by auto

text \<open>The password pattern accepts exactly the passwords of one line, the newline that
  may end them apart, that are long enough and cover every class the settings ask for; that last
  newline is not counted in the length and counts as a special character.\<close>

theorem password_pattern_reads:
  "password_matches c s \<longleftrightarrow>
     (\<exists>line. newline \<notin> set line \<and> (s = line \<or> s = line @ [newline]) \<and>
        password_min_length c \<le> length line \<and> covers_classes c s)" (is "_ \<longleftrightarrow> ?R")
proof
  assume m: "password_matches c s"
  then have "one_line (password_min_length c) s" by (simp add: password_matches_def)
  then obtain line where "newline \<notin> set line" "s = line \<or> s = line @ [newline]" by (rule line_cases)
  with m matches_line [of line c] show ?R by blast
next
  assume ?R
  with matches_line show "password_matches c s" by blast
qed

end
