(* ===== verification/UsersApi.thy ===== *)
theory UsersApi
  imports Schema Webhooks BillingApi
begin

text \<open>
  \<open>backend/application/users/use_cases.py\<close> (registration and update of a user) and the routes of
  \<open>backend/app/api/v1/users/router.py\<close>. What the handlers take from the process is the record
  \<open>api_env\<close>; the user a request acts as is an argument, what \<open>get_current_active_user\<close> returned.
\<close>

record 'r api_env =
  ae_redis :: "'r redis_ops"
  ae_crypto :: crypto
  ae_limits :: "'r limiter_env"
  ae_smtp :: smtp_server
  ae_float :: "real \<Rightarrow> string"
  ae_parse_float :: "string \<Rightarrow> real"
  ae_iso :: "datetime \<Rightarrow> string"
  ae_of_iso :: "string \<Rightarrow> datetime option"

definition in_mail :: "(settings \<Rightarrow> (mailer, 'a) op) \<Rightarrow> ('r app, 'a) op" where
  "in_mail m = (\<lambda>s. zoom mail_service (\<lambda>t s. s\<lparr>mail_service := t\<rparr>) (m (conf s)) s)"

section \<open>Registration\<close>

definition refuse_taken :: "(session, user option) op \<Rightarrow> string \<Rightarrow> (session, unit) op" where
  "refuse_taken lookup message = bnd lookup (\<lambda>found.
     if found \<noteq> None then throw (duplicate ''user'' (Some message)) else ret ())"

text \<open>The plan new users start on, made when the table has none.\<close>

definition starting_plan :: "(session, plan) op" where
  "starting_plan = bnd (scalar Plan (\<lambda>p. plan_key p = ''free'')) (\<lambda>found. case found of
     Some p \<Rightarrow> ret p | None \<Rightarrow> db_insert Plan free_plan)"

definition start_subscription :: "user \<Rightarrow> plan \<Rightarrow> (session, unit) op" where
  "start_subscription u p =
     bnd (scalar Subscription (\<lambda>sub. sub_user_id sub = user_id u \<and> sub_plan_id sub = plan_id p)) (\<lambda>existing.
       if existing = None
       then bnd (db_insert Subscription (new_subscription (user_id u) (plan_id p) ''active'' ''manual'')) (\<lambda>_. ret ())
       else ret ())"

definition registered_event :: "string \<Rightarrow> int \<Rightarrow> user \<Rightarrow> domain_event" where
  "registered_event uuid now u = new_event_of uuid now [(''event_type'', JStr ''user.registered''),
     (''user_id'', JInt (user_id u)), (''email'', JStr (user_email u))]"

definition welcome_mail :: "user \<Rightarrow> mail" where
  "welcome_mail u = \<lparr>mail_to = user_email u, mail_subject = ''Welcome'',
     mail_body = ''Welcome '' @ user_username u @ ''!''\<rparr>"

definition register_rows :: "crypto \<Rightarrow> string \<Rightarrow> int \<Rightarrow> user_create \<Rightarrow> (session, user) op" where
  "register_rows cr salt now payload =
     bnd (refuse_taken (get_by_email (uc_email payload)) ''Email already registered'') (\<lambda>_.
     bnd (refuse_taken (get_by_username (uc_username payload)) ''Username already taken'') (\<lambda>_.
     bnd (create_user_row cr salt now payload) (\<lambda>u.
     bnd starting_plan (\<lambda>p.
     bnd (start_subscription u p) (\<lambda>_. ret u)))))"

definition register_user :: "'r api_env \<Rightarrow> string \<Rightarrow> string \<Rightarrow> int \<Rightarrow> user_create \<Rightarrow> ('r app, user_out) op" where
  "register_user ae salt uuid now payload =
     bnd (in_db (register_rows (ae_crypto ae) salt now payload)) (\<lambda>u.
     bnd (publish (platform_bus True now) (registered_event uuid now u)) (\<lambda>_.
     bnd (in_mail (\<lambda>c. send (ae_smtp ae) c now (welcome_mail u))) (\<lambda>_.
     pure_op (to_public u))))"

definition too_many :: exn where
  "too_many = HTTPException 429 (DetailText ''Too many requests'')"

definition limited :: "'r limiter_env \<Rightarrow> int \<Rightarrow> string \<Rightarrow> string \<Rightarrow> nat \<Rightarrow> ('r app, unit) op" where
  "limited le now client_id path limit = bnd (route_allow le now client_id path limit) (\<lambda>ok.
     if ok then ret () else throw too_many)"

definition write_rate_limit :: nat where
  "write_rate_limit = 5"

definition creation_key :: "string \<Rightarrow> string" where
  "creation_key k = ''users:create:'' @ k"

definition remember_user :: "'r api_env \<Rightarrow> string option \<Rightarrow> user_out \<Rightarrow> ('r app, unit) op" where
  "remember_user ae k u = (if blank k then ret ()
     else store_set (ae_redis ae) (ae_float ae) (creation_key (the k)) (user_out_json (ae_iso ae) u))"

definition register_and_remember :: "'r api_env \<Rightarrow> string \<Rightarrow> string \<Rightarrow> int \<Rightarrow> request \<Rightarrow> user_create \<Rightarrow> string option \<Rightarrow>
    ('r app, user_out) op" where
  "register_and_remember ae salt uuid now req payload k =
     http_errors
       (bnd (register_user ae salt uuid now payload) (\<lambda>u.
        bnd (audit_log Nobody ''user.created'' ''users''
          (JObj [(''email'', JStr (uc_email payload)), (''username'', JStr (uc_username payload))]) (Some req) (Some 201) True now) (\<lambda>_.
        bnd (remember_user ae k u) (\<lambda>_. ret u))))"

definition create_user :: "'r api_env \<Rightarrow> string \<Rightarrow> string \<Rightarrow> int \<Rightarrow> request \<Rightarrow> user_create \<Rightarrow> string option \<Rightarrow> ('r app, user_out) op" where
  "create_user ae salt uuid now req payload k = with_db
     (bnd (limited (ae_limits ae) now (lower (strip (uc_email payload))) ''users:create:email'' write_rate_limit) (\<lambda>_.
      bnd (limited (ae_limits ae) now (client_ip req) ''users:create:ip'' (write_rate_limit * 2)) (\<lambda>_.
      bnd (if blank k then ret None
           else store_get (ae_redis ae) (ae_parse_float ae) (creation_key (the k))) (\<lambda>cached. case cached of
        Some v \<Rightarrow> pure_op (user_out_of_json (ae_of_iso ae) v)
      | None \<Rightarrow> register_and_remember ae salt uuid now req payload k))))"

section \<open>Update and deletion\<close>

text \<open>The fields only a superuser may set are dropped from anyone else's payload.\<close>

definition own_fields :: "user_update \<Rightarrow> user_update" where
  "own_fields p = p\<lparr>uu_is_superuser := None, uu_is_active := None, uu_role := None, uu_permissions := None\<rparr>"

definition nothing_set :: "user_update \<Rightarrow> bool" where
  "nothing_set p \<longleftrightarrow> uu_email p = None \<and> uu_username p = None \<and> uu_password p = None \<and> uu_is_superuser p = None \<and>
     uu_is_active p = None \<and> uu_role p = None \<and> uu_permissions p = None"

definition refuse_changed :: "(string \<Rightarrow> (session, user option) op) \<Rightarrow> string \<Rightarrow> string \<Rightarrow> string option option \<Rightarrow> (session, unit) op" where
  "refuse_changed lookup message old v = (case v of
     Some (Some x) \<Rightarrow> if x \<noteq> [] \<and> x \<noteq> old then refuse_taken (lookup x) message else ret ()
   | _ \<Rightarrow> ret ())"

text \<open>The reduced payload is validated again in the source, as it was when it came in.\<close>

definition change_user :: "'r api_env \<Rightarrow> string \<Rightarrow> int \<Rightarrow> principal \<Rightarrow> user_update \<Rightarrow> user \<Rightarrow> ('r app, user_out) op" where
  "change_user ae salt now current_user payload u =
     (let safe = (if user_is_superuser current_user then payload else own_fields payload) in
      bnd (in_db (refuse_changed get_by_email ''Email already registered'' (user_email u) (uu_email payload))) (\<lambda>_.
      bnd (in_db (refuse_changed get_by_username ''Username already taken'' (user_username u) (uu_username payload))) (\<lambda>_.
      if \<not> user_is_superuser current_user \<and> nothing_set safe then pure_op (to_public u)
      else bnd (update_user_row (ae_redis ae) (ae_crypto ae) salt now u safe) (\<lambda>u'. pure_op (to_public u')))))"

definition update_user :: "'r api_env \<Rightarrow> string \<Rightarrow> int \<Rightarrow> int \<Rightarrow> principal \<Rightarrow> user_update \<Rightarrow> ('r app, user_out) op" where
  "update_user ae salt now uid current_user payload =
     bnd (in_db (get_by_id User uid)) (\<lambda>found. case found of
       None \<Rightarrow> throw (not_found ''user'')
     | Some u \<Rightarrow>
         if user_id u \<noteq> user_id current_user \<and> \<not> user_is_superuser current_user
         then throw (forbidden ''Not authorized to update this user'')
         else change_user ae salt now current_user payload u)"

text \<open>\<open>_safe_changes\<close>: the fields set, the password redacted.\<close>

definition opt_change :: "string \<Rightarrow> ('a \<Rightarrow> json) \<Rightarrow> 'a option option \<Rightarrow> payload" where
  "opt_change k f v = (case v of None \<Rightarrow> [] | Some None \<Rightarrow> [(k, JNull)] | Some (Some x) \<Rightarrow> [(k, f x)])"

definition safe_changes :: "user_update \<Rightarrow> payload" where
  "safe_changes p = opt_change ''email'' JStr (uu_email p) @ opt_change ''username'' JStr (uu_username p) @
     (if uu_password p = None then [] else [(''password'', JStr ''***redacted***'')]) @
     opt_change ''is_superuser'' JBool (uu_is_superuser p) @ opt_change ''is_active'' JBool (uu_is_active p) @
     opt_change ''role'' JStr (uu_role p) @ opt_change ''permissions'' (\<lambda>ps. JList (map JStr ps)) (uu_permissions p)"

text \<open>The acting user, whose name the update may just have changed.\<close>

definition actor_after :: "principal \<Rightarrow> user_out \<Rightarrow> actor" where
  "actor_after current_user updated = ActorUser (user_id current_user)
     (if uo_id updated = user_id current_user then uo_username updated else user_username current_user)"

definition update_user_route :: "'r api_env \<Rightarrow> string \<Rightarrow> int \<Rightarrow> request \<Rightarrow> int \<Rightarrow> user_update \<Rightarrow> principal \<Rightarrow> ('r app, user_out) op" where
  "update_user_route ae salt now req uid payload current_user = with_db (http_errors
     (bnd (update_user ae salt now uid current_user payload) (\<lambda>updated.
      bnd (audit_log (actor_after current_user updated) ''user.updated'' (''users:'' @ show_int uid)
        (JObj [(''changes'', JObj (safe_changes payload))]) (Some req) (Some 200) True now) (\<lambda>_.
      ret updated))))"

definition to_http :: "exn \<Rightarrow> exn" where
  "to_http e = (case e of DomainError d \<Rightarrow> to_http_exception d | _ \<Rightarrow> e)"

definition delete_user :: "int \<Rightarrow> request \<Rightarrow> int \<Rightarrow> principal \<Rightarrow> ('r app, unit) op" where
  "delete_user now req uid current_user = with_db
     (bnd (in_db (get_by_id User uid)) (\<lambda>found. case found of
       None \<Rightarrow> throw (to_http (not_found ''user''))
     | Some u \<Rightarrow>
         if user_id u \<noteq> user_id current_user \<and> \<not> user_is_superuser current_user
         then throw (to_http (forbidden ''Not authorized to delete this user''))
         else bnd (in_db (delete_user_row now u)) (\<lambda>_.
           audit_log (user_actor current_user) ''user.deleted'' (''users:'' @ show_int uid)
             (JObj [(''email'', JStr (user_email u)), (''deleted_user_id'', JInt uid)]) (Some req) (Some 204) True now)))"

section \<open>Reading\<close>

record 'd paginated =
  page_data :: "'d list"
  page_number :: nat
  page_size :: nat
  page_total :: nat
  page_pages :: nat

text \<open>\<open>skip\<close> and \<open>limit\<close> are what the query's bounds let through: \<open>1 \<le> limit \<le> 100\<close>.\<close>

definition list_users :: "request \<Rightarrow> int \<Rightarrow> nat \<Rightarrow> nat \<Rightarrow> principal \<Rightarrow> ('r app, user_out paginated) op" where
  "list_users req now skip limit caller = with_db
     (bnd (require_role [''admin''] caller) (\<lambda>current_user.
      bnd (in_db (list_rows User skip limit)) (\<lambda>rows.
      bnd (in_db (count_rows User)) (\<lambda>n.
      bnd (audit_log (user_actor current_user) ''user.list_viewed'' ''users''
        (JObj [(''count'', JInt (int (length rows))), (''total'', JInt (int n))]) (Some req) None True now) (\<lambda>_.
      bnd (map_each rows (\<lambda>u. pure_op (to_public u))) (\<lambda>data.
      ret \<lparr>page_data = data, page_number = skip div limit + 1, page_size = limit, page_total = n,
           page_pages = (n + limit - 1) div limit\<rparr>))))))"

definition read_current_user :: "principal \<Rightarrow> ('r app, user_out) op" where
  "read_current_user current_user = pure_op (to_public current_user)"

definition read_user :: "int \<Rightarrow> principal \<Rightarrow> ('r app, user_out) op" where
  "read_user uid current_user = with_db
     (bnd (in_db (get_by_id User uid)) (\<lambda>found. case found of
       None \<Rightarrow> throw (to_http (not_found ''user''))
     | Some u \<Rightarrow>
         if uid \<noteq> user_id current_user \<and> \<not> user_is_superuser current_user
         then throw (to_http (forbidden ''Not authorized to view this user''))
         else pure_op (to_public u)))"

definition export_user_data :: "principal \<Rightarrow> ('r app, json) op" where
  "export_user_data current_user = with_db
     (bnd (in_db (select Subscription (\<lambda>sub. sub_user_id sub = user_id current_user))) (\<lambda>rows.
      ret (JObj [
        (''user'', JObj [(''id'', JInt (user_id current_user)), (''email'', JStr (user_email current_user)),
           (''username'', JStr (user_username current_user)), (''role'', JStr (user_role current_user))]),
        (''subscriptions'', JList (map (\<lambda>sub. JObj [(''id'', JInt (sub_id sub)), (''plan_id'', JInt (sub_plan_id sub)),
           (''status'', JStr (sub_status sub)), (''provider'', JStr (sub_provider sub))])
           (sort_key (\<lambda>sub. - sub_id sub) rows)))])))"

section \<open>Who may change what\<close>

definition privileges :: "user \<Rightarrow> bool \<times> bool \<times> string \<times> string list option" where
  "privileges u = (user_is_superuser u, user_is_active u, user_role u, user_permissions u)"

text \<open>The rows are those there were before, in their order, each with its privileges, and changed only if it is \<open>who\<close>'s.\<close>

definition no_gain :: "int \<Rightarrow> user list \<Rightarrow> user list \<Rightarrow> bool" where
  "no_gain who old new \<longleftrightarrow> map user_id new = map user_id old \<and> (\<forall>u' \<in> set new. \<exists>u \<in> set old. user_id u' = user_id u \<and>
     privileges u' = privileges u \<and> (user_id u \<noteq> who \<longrightarrow> u' = u))"

lemma no_gain_refl [simp]: "no_gain who rows rows"
  by (auto simp: no_gain_def)

lemma no_gain_replace:
  assumes "u \<in> set rows" "user_id u = who" "user_id u' = who" "privileges u' = privileges u"
  shows "no_gain who rows (replace_row user_id u' rows)"
  using assms by (force simp: no_gain_def set_replace_row map_key_replace_row)

lemma set_column_Some: "set_column v f row = Some r \<longleftrightarrow>
    (v = None \<and> row = Some r) \<or> (\<exists>x r0. v = Some (Some x) \<and> row = Some r0 \<and> r = f x r0)"
  by (auto simp: set_column_def split: option.splits)

lemma set_own_fields:
  assumes "set_fields (own_fields d) u = Some u'"
  shows "user_id u' = user_id u" and "privileges u' = privileges u"
  using assms by (auto simp: set_fields_def own_fields_def set_column_Some privileges_def)

lemma flush_user_rows:
  assumes "flush_user row s = (Inr u', t)"
  shows "row = Some u'" and "users (work t) = replace_row user_id u' (users (work s))"
  using assms by (auto simp: flush_user_def bnd_apply throw_apply ret_apply db_save_def Let_def User_def
      split: option.splits if_splits)

lemma update_user_row_InrD:
  assumes "update_user_row rc cr salt now u d s = (Inr u', t)"
  shows "\<exists>h. flush_user (map_option (\<lambda>r. r\<lparr>user_updated_at := Aware now\<rparr>)
    (set_fields d (u\<lparr>user_hashed_password := h\<rparr>))) (sess s) = (Inr u', sess t)"
proof -
  have plain: "\<exists>h. flush_user (map_option (\<lambda>r. r\<lparr>user_updated_at := Aware now\<rparr>)
      (set_fields d (u\<lparr>user_hashed_password := h\<rparr>))) (sess s) = (Inr u', sess t)"
    if "in_db (flush_user (map_option (\<lambda>r. r\<lparr>user_updated_at := Aware now\<rparr>) (set_fields d u))) s = (Inr u', t)"
    using that by (intro exI [of _ "user_hashed_password u"]) (auto simp: in_db_apply prod_eq_iff)
  show ?thesis
  proof (cases "\<exists>p. uu_password d = Some (Some p) \<and> p \<noteq> []")
    case True
    then obtain p where p: "uu_password d = Some (Some p)" "p \<noteq> []" by auto
    show ?thesis
      using assms unfolding update_user_row_def p option.case if_P [OF p(2)]
      by (elim bnd_InrE) (auto simp: in_toks_apply in_db_apply prod_eq_iff intro!: exI [of _ "hash_password cr salt p"])
  next
    case False
    then show ?thesis
      using assms plain by (auto simp: update_user_row_def split: option.splits if_splits)
  qed
qed

lemma update_own_row:
  assumes "update_user_row rc cr salt now u (own_fields d) s = (Inr u', t)" and "u \<in> set (users (work (sess s)))"
  shows "no_gain (user_id u) (users (work (sess s))) (users (work (sess t)))"
proof -
  from update_user_row_InrD [OF assms(1)] obtain h where
    "flush_user (map_option (\<lambda>r. r\<lparr>user_updated_at := Aware now\<rparr>)
      (set_fields (own_fields d) (u\<lparr>user_hashed_password := h\<rparr>))) (sess s) = (Inr u', sess t)" by blast
  from flush_user_rows [OF this] set_own_fields [of d "u\<lparr>user_hashed_password := h\<rparr>"] assms(2)
  show ?thesis by (auto intro!: no_gain_replace simp: privileges_def)
qed

text \<open>Nothing of an update commits; so whatever it raises, the rollback leaves the rows.\<close>

lemma preserves_uncommitted [preserves_intros]:
  "preserves (\<lambda>s. stored s = d) (db_save mc r)" "preserves (\<lambda>s. stored s = d) (db_insert mc r')"
  by (auto simp: preserves_def db_save_def db_insert_def Let_def)

lemma update_user_row_stored: "stored (sess (snd (update_user_row rc cr salt now u d s))) = stored (sess s)"
proof -
  have "preserves (\<lambda>s. stored s = stored (sess s')) (flush_user row)" for row s'
    by (auto simp: flush_user_def intro!: preserves_intros split: option.split)
  then have "preserves (\<lambda>s. stored (sess s) = stored (sess s')) (update_user_row rc cr salt now u d)" for s'
    unfolding update_user_row_def
    by (auto intro!: preserves_intros preserves_in_db [where P = "\<lambda>x. stored x = stored (sess s')"]
        preserves_other(1) [where P = "\<lambda>x. stored x = stored (sess s')"] split: option.split)
  then show ?thesis unfolding preserves_def by blast
qed
lemma refuse_changed_state [simp]:
  assumes "\<And>x s. snd (lookup x s) = s"
  shows "snd (refuse_changed lookup message old v s) = s"
  using assms by (auto simp: refuse_changed_def refuse_taken_def bnd_def throw_apply ret_apply split: option.split prod.split sum.split)
    (metis snd_conv)+

lemma lookups_read [simp]:
  "snd (get_by_email x s) = s" "snd (get_by_username x s) = s" "snd (get_by_id mc i s) = s"
  by (simp_all add: get_by_email_def get_by_username_def get_by_id_def bnd_apply select_def look_apply pure_op_apply split: sum.split)

lemma get_by_id_row:
  assumes "get_by_id User i s = (Inr (Some u), t)"
  shows "u \<in> set (users (work s)) \<and> user_id u = i \<and> user_deleted_at u = None \<and> t = s"
proof -
  from assms have "filter (\<lambda>r. user_id r = i \<and> user_deleted_at r = None) (users (work s)) = [u]" and "t = s"
    by (auto simp: get_by_id_def bnd_apply select_def look_apply pure_op_apply User_def alive_def one_or_none_Some split: sum.splits)
  then have "u \<in> set (filter (\<lambda>r. user_id r = i \<and> user_deleted_at r = None) (users (work s)))" by simp
  with \<open>t = s\<close> show ?thesis by simp
qed

lemma read_stepE:
  assumes "bnd (in_db m) f s = (r, t)" and "\<And>x. snd (m x) = x"
  obtains (fails) e where "r = Inl e" "t = s" | (goes) a where "m (sess s) = (Inr a, sess s)" "f a s = (r, t)"
proof (cases "m (sess s)")
  case (Pair q w)
  then have "w = sess s" using assms(2) [of "sess s"] by simp
  with Pair show thesis using assms(1) that by (cases q) (auto simp: bnd_apply in_db_apply)
qed

text \<open>An update either only reads, or changes one row the caller may change.\<close>

lemma change_user_cases:
  obtains (stays) r where "change_user ae salt now cur payload u s = (r, s)"
  | (row) "change_user ae salt now cur payload u s = bnd (update_user_row (ae_redis ae) (ae_crypto ae) salt now u
         (if user_is_superuser cur then payload else own_fields payload)) (\<lambda>u'. pure_op (to_public u')) s"
proof -
  obtain r t where run: "change_user ae salt now cur payload u s = (r, t)" by fastforce
  show thesis
    using run unfolding change_user_def Let_def
    by (elim read_stepE) (use run that in \<open>auto simp: pure_op_apply split: if_splits\<close>)
qed

lemma update_user_cases:
  obtains (stays) r where "update_user ae salt now uid cur payload s = (r, s)"
  | (row) u where "u \<in> set (users (work (sess s)))" "user_id u = user_id cur \<or> user_is_superuser cur"
      "update_user ae salt now uid cur payload s = bnd (update_user_row (ae_redis ae) (ae_crypto ae) salt now u
         (if user_is_superuser cur then payload else own_fields payload)) (\<lambda>u'. pure_op (to_public u')) s"
proof -
  obtain r t where run: "update_user ae salt now uid cur payload s = (r, t)" by fastforce
  then show thesis
    unfolding update_user_def
  proof (rule read_stepE)
    fix found assume "get_by_id User uid (sess s) = (Inr found, sess s)"
      "(case found of None \<Rightarrow> throw (not_found ''user'') | Some u \<Rightarrow>
         if user_id u \<noteq> user_id cur \<and> \<not> user_is_superuser cur then throw (forbidden ''Not authorized to update this user'')
         else change_user ae salt now cur payload u) s = (r, t)"
    then consider (same) "t = s" | (row) u where "u \<in> set (users (work (sess s)))"
        "user_id u = user_id cur \<or> user_is_superuser cur" "change_user ae salt now cur payload u s = (r, t)"
      using get_by_id_row [of uid "sess s"] by (auto simp: throw_apply split: option.splits if_splits)
    then show thesis
    proof cases
      case same
      with run that(1) show thesis by simp
    next
      case (row u)
      show thesis
        by (rule change_user_cases [of ae salt now cur payload u s]) (use row run that in auto)
    qed
  qed (use run that in auto)
qed
lemma snd_bnd_pure: "snd (bnd m (\<lambda>a. pure_op (f a)) s) = snd (m s)"
  by (simp add: bnd_apply pure_op_apply split: prod.split sum.split)

lemma update_user_stored: "stored (sess (snd (update_user ae salt now uid cur payload s))) = stored (sess s)"
  by (cases rule: update_user_cases [of ae salt now uid cur payload s]) (simp_all add: snd_bnd_pure update_user_row_stored)

lemma update_user_no_gain:
  assumes "update_user ae salt now uid cur payload s = (Inr r, t)" and "\<not> user_is_superuser cur"
  shows "no_gain (user_id cur) (users (work (sess s))) (users (work (sess t)))"
proof (cases rule: update_user_cases [of ae salt now uid cur payload s])
  case (row u)
  with assms have "bnd (update_user_row (ae_redis ae) (ae_crypto ae) salt now u (own_fields payload))
      (\<lambda>u'. pure_op (to_public u')) s = (Inr r, t)" by simp
  then obtain u' where "update_user_row (ae_redis ae) (ae_crypto ae) salt now u (own_fields payload) s = (Inr u', t)"
    by (rule bnd_InrE) (auto simp: pure_op_apply)
  from update_own_row [OF this row(1)] row(2) assms(2) show ?thesis by simp
qed (use assms in simp)

text \<open>
  Property C9. Nobody but a superuser changes, by the update route, more than the own row, and
  never the privileges of any row: whatever the payload, every user row that is committed
  afterwards has the role, the permissions and the superuser and active flags it had before, and
  every row but the caller's is what it was.
\<close>

theorem update_does_not_escalate:
  assumes "\<not> user_is_superuser cur" and "stored (sess s) = work (sess s)"
  shows "no_gain (user_id cur) (users (work (sess s)))
    (users (stored (sess (snd (update_user_route ae salt now req uid payload cur s)))))"
proof -
  obtain r t where run: "update_user ae salt now uid cur payload s = (r, t)" by fastforce
  have st: "stored (sess t) = work (sess s)"
    using update_user_stored [of ae salt now uid cur payload s] run assms(2) by simp
  show ?thesis
  proof (cases r)
    case (Inl e)
    then show ?thesis
      using run st by (simp add: update_user_route_def with_db_apply http_errors_def try_except_apply bnd_apply throw_apply
          split: exn.split)
  next
    case (Inr u)
    with update_user_no_gain [OF _ assms(1)] run show ?thesis
      by (simp add: update_user_route_def with_db_apply http_errors_def try_except_apply bnd_apply
          audit_log_def queue_job_apply ret_apply)
  qed
qed

section \<open>Registering\<close>

lemma refuse_free:
  assumes "lookup s = (Inr None, s)"
  shows "refuse_taken lookup message s = (Inr (), s)"
  using assms by (simp add: refuse_taken_def bnd_apply ret_apply)

lemma filter_none: "x \<notin> f ` set rows \<Longrightarrow> filter (\<lambda>r. f r = x \<and> q r) rows = []"
  by (auto simp: filter_empty_conv)

lemma lookups_free:
  "e \<notin> user_email ` set (users (work s)) \<Longrightarrow> get_by_email e s = (Inr None, s)"
  "n \<notin> user_username ` set (users (work s)) \<Longrightarrow> get_by_username n s = (Inr None, s)"
  by (simp_all add: get_by_email_def get_by_username_def bnd_apply select_def look_apply pure_op_apply User_def
      one_or_none_def filter_none)

lemma create_user_row_run:
  assumes "uc_email payload \<notin> user_email ` set (users (work s))" and "uc_username payload \<notin> user_username ` set (users (work s))"
  shows "create_user_row cr salt now payload s =
    (Inr ((new_user cr salt now payload)\<lparr>user_id := fresh_id (map user_id (users (work s)))\<rparr>),
     s\<lparr>work := (work s)\<lparr>users := users (work s) @ [(new_user cr salt now payload)\<lparr>user_id := fresh_id (map user_id (users (work s)))\<rparr>]\<rparr>\<rparr>)"
  using assms by (auto simp: create_user_row_def create_def db_insert_def violates_def User_def new_user_def Let_def image_iff)

text \<open>Only the tables of plans and subscriptions grow, and the plan is there.\<close>

lemma starting_plan_run:
  obtains p ps where "starting_plan s = (Inr p, s\<lparr>work := (work s)\<lparr>plans := plans (work s) @ ps\<rparr>\<rparr>)"
    and "p \<in> set (plans (work s) @ ps)" and "plan_key p = ''free''"
proof (cases "find_row (\<lambda>p. plan_key p = ''free'') (plans (work s))")
  case (Some p)
  then show thesis
    using that [of p "[]"] find_row_Some [OF Some]
    by (auto simp: starting_plan_def bnd_apply scalar_def look_apply Plan_def ret_apply)
next
  case None
  let ?p = "free_plan\<lparr>plan_id := fresh_id (map plan_id (plans (work s)))\<rparr>"
  have "starting_plan s = (Inr ?p, s\<lparr>work := (work s)\<lparr>plans := plans (work s) @ [?p]\<rparr>\<rparr>)"
    using None iffD1 [OF find_row_None None]
    by (auto simp: starting_plan_def bnd_apply scalar_def look_apply Plan_def db_insert_def violates_def Let_def free_plan_def)
  then show thesis by (rule that) (simp_all add: free_plan_def)
qed

lemma start_subscription_run:
  assumes "has_user (work s) (user_id u)" and "has_plan (work s) (plan_id p)"
    and "\<forall>sub \<in> set (subscriptions (work s)). sub_user_id sub \<noteq> user_id u"
  shows "start_subscription u p s = (Inr (), s\<lparr>work := (work s)\<lparr>subscriptions := subscriptions (work s) @
    [(new_subscription (user_id u) (plan_id p) ''active'' ''manual'')\<lparr>sub_id := fresh_id (map sub_id (subscriptions (work s)))\<rparr>]\<rparr>\<rparr>)"
proof -
  have "find_row (\<lambda>sub. sub_user_id sub = user_id u \<and> sub_plan_id sub = plan_id p) (subscriptions (work s)) = None"
    using assms(3) by (simp add: find_row_None)
  then show ?thesis
    using assms(1,2)
    by (simp add: start_subscription_def bnd_apply scalar_def look_apply Subscription_def db_insert_def violates_def Let_def
        new_subscription_def ret_apply)
qed
text \<open>What a registration leaves in the tables.\<close>

definition registered :: "crypto \<Rightarrow> user_create \<Rightarrow> user \<Rightarrow> db \<Rightarrow> bool" where
  "registered cr payload u d \<longleftrightarrow> u \<in> set (users d) \<and> user_email u = uc_email payload \<and> user_username u = uc_username payload \<and>
     verify_password cr (uc_password payload) (user_hashed_password u) = Inr True \<and>
     privileges u = (False, True, ''user'', Some []) \<and> \<not> user_is_verified u \<and>
     (\<exists>p \<in> set (plans d). plan_key p = ''free'' \<and> (\<exists>sub \<in> set (subscriptions d).
        sub_user_id sub = user_id u \<and> sub_plan_id sub = plan_id p \<and> sub_status sub = ''active''))"

lemma register_rows_run:
  assumes "uc_email payload \<notin> user_email ` set (users (work s))" and "uc_username payload \<notin> user_username ` set (users (work s))"
    and "\<forall>sub \<in> set (subscriptions (work s)). has_user (work s) (sub_user_id sub)"
    and "crypto_ok cr" and "CHR ''$'' \<notin> set salt"
  obtains u t where "register_rows cr salt now payload s = (Inr u, t)" and "registered cr payload u (work t)"
    and "stored t = stored s" and "users (work t) = users (work s) @ [u]"
    and "webhook_deliveries (work t) = webhook_deliveries (work s)" and "webhook_endpoints (work t) = webhook_endpoints (work s)"
proof -
  let ?u = "(new_user cr salt now payload)\<lparr>user_id := fresh_id (map user_id (users (work s)))\<rparr>"
  let ?s1 = "s\<lparr>work := (work s)\<lparr>users := users (work s) @ [?u]\<rparr>\<rparr>"
  have free: "refuse_taken (get_by_email (uc_email payload)) m s = (Inr (), s)"
    "refuse_taken (get_by_username (uc_username payload)) m s = (Inr (), s)" for m
    by (rule refuse_free, rule lookups_free, rule assms)+
  note made = create_user_row_run [OF assms(1,2), of cr salt now]
  obtain p ps where p: "starting_plan ?s1 = (Inr p, ?s1\<lparr>work := (work ?s1)\<lparr>plans := plans (work ?s1) @ ps\<rparr>\<rparr>)"
    "p \<in> set (plans (work ?s1) @ ps)" "plan_key p = ''free''" by (rule starting_plan_run)
  let ?s2 = "?s1\<lparr>work := (work ?s1)\<lparr>plans := plans (work ?s1) @ ps\<rparr>\<rparr>"
  have new: "\<forall>sub \<in> set (subscriptions (work ?s2)). sub_user_id sub \<noteq> user_id ?u"
    using assms(3) fresh_id_notin [of "map user_id (users (work s))"] unfolding has_user_def set_map by (simp, metis)
  have sub: "start_subscription ?u p ?s2 = (Inr (), ?s2\<lparr>work := (work ?s2)\<lparr>subscriptions := subscriptions (work ?s2) @
    [(new_subscription (user_id ?u) (plan_id p) ''active'' ''manual'')\<lparr>sub_id := fresh_id (map sub_id (subscriptions (work ?s2)))\<rparr>]\<rparr>\<rparr>)"
    using p(2) by (intro start_subscription_run new) (auto simp: has_user_def has_plan_def)
  show thesis
  proof (rule that)
    show "register_rows cr salt now payload s = (Inr ?u, ?s2\<lparr>work := (work ?s2)\<lparr>subscriptions := subscriptions (work ?s2) @
      [(new_subscription (user_id ?u) (plan_id p) ''active'' ''manual'')\<lparr>sub_id := fresh_id (map sub_id (subscriptions (work ?s2)))\<rparr>]\<rparr>\<rparr>)"
      unfolding register_rows_def
      by (simp only: bnd_apply free made p(1) sub ret_apply prod.case sum.case)
    show "registered cr payload ?u (work (?s2\<lparr>work := (work ?s2)\<lparr>subscriptions := subscriptions (work ?s2) @
      [(new_subscription (user_id ?u) (plan_id p) ''active'' ''manual'')\<lparr>sub_id := fresh_id (map sub_id (subscriptions (work ?s2)))\<rparr>]\<rparr>\<rparr>))"
      using p(2,3) verify_own_hash [OF assms(4,5)]
      by (auto simp: registered_def privileges_def new_user_def new_subscription_def)
  qed simp_all
qed
lemma publish_registered: "publish (platform_bus True now) (registered_event uuid now u) =
    bnd (ret ()) (\<lambda>_. bnd (dispatch now (registered_event uuid now u)) (\<lambda>_. ret ()))"
  by (simp add: publish_def platform_bus_def subscribe_webhook_dispatcher_def subscribe_def registered_event_def new_event_of_def
      event_type_of_def payload_get_Cons handle_event_def)

lemma in_mail_apply: "in_mail m s = (fst (m (conf s) (mail_service s)), s\<lparr>mail_service := snd (m (conf s) (mail_service s))\<rparr>)"
  by (simp add: in_mail_def zoom_apply)

lemma registered_cong: "registered cr payload u (d\<lparr>webhook_deliveries := ds\<rparr>) = registered cr payload u d"
  by (simp add: registered_def)

definition registrable :: "user_create \<Rightarrow> 'r app \<Rightarrow> bool" where
  "registrable payload s \<longleftrightarrow> uc_email payload \<notin> user_email ` set (users (work (sess s))) \<and>
     uc_username payload \<notin> user_username ` set (users (work (sess s))) \<and>
     (\<forall>sub \<in> set (subscriptions (work (sess s))). has_user (work (sess s)) (sub_user_id sub)) \<and>
     distinct (map deliv_id (webhook_deliveries (work (sess s)))) \<and> job_queue (conf s) = InProcessJobQueue"

lemma register_until_mail:
  assumes "registrable payload s" and "crypto_ok (ae_crypto ae)" and "CHR ''$'' \<notin> set salt"
  obtains u ds t where
    "register_user ae salt uuid now payload s = bnd (in_mail (\<lambda>c. send (ae_smtp ae) c now (welcome_mail u)))
        (\<lambda>_. pure_op (to_public u)) (dispatched ds (s\<lparr>sess := t\<rparr>))"
    "registered (ae_crypto ae) payload u (work t)" "stored t = stored (sess s)" "users (work t) = users (work (sess s)) @ [u]"
    "map addressed ds = map (\<lambda>e. (ep_id e, ''user.registered'', event_payload (registered_event uuid now u), 0))
       (interested (registered_event uuid now u) (work (sess s)))"
    "webhook_deliveries (work t) = webhook_deliveries (work (sess s))"
proof -
  obtain u t where rows: "register_rows (ae_crypto ae) salt now payload (sess s) = (Inr u, t)"
    "registered (ae_crypto ae) payload u (work t)" "stored t = stored (sess s)" "users (work t) = users (work (sess s)) @ [u]"
    "webhook_deliveries (work t) = webhook_deliveries (work (sess s))" "webhook_endpoints (work t) = webhook_endpoints (work (sess s))"
    using assms unfolding registrable_def by (elim conjE) (rule register_rows_run)
  have pre: "job_queue (conf (s\<lparr>sess := t\<rparr>)) = InProcessJobQueue" "distinct (map deliv_id (webhook_deliveries (work (sess (s\<lparr>sess := t\<rparr>)))))"
    using assms(1) rows(5) by (simp_all add: registrable_def)
  obtain ds where ds: "dispatch now (registered_event uuid now u) (s\<lparr>sess := t\<rparr>) = (Inr (), dispatched ds (s\<lparr>sess := t\<rparr>))"
    "map addressed ds = map (\<lambda>e. (ep_id e, event_type_of (registered_event uuid now u), event_payload (registered_event uuid now u), 0))
       (interested (registered_event uuid now u) (work (sess (s\<lparr>sess := t\<rparr>))))"
    by (rule dispatch_run [OF pre])
  have ty: "event_type_of (registered_event uuid now u) = ''user.registered''"
    by (simp add: event_type_of_def registered_event_def new_event_of_def payload_get_Cons)
  show thesis
  proof (rule that)
    show "register_user ae salt uuid now payload s = bnd (in_mail (\<lambda>c. send (ae_smtp ae) c now (welcome_mail u)))
        (\<lambda>_. pure_op (to_public u)) (dispatched ds (s\<lparr>sess := t\<rparr>))"
      unfolding register_user_def publish_registered using ds(1)
      by (simp add: bnd_Inr [of "in_db (register_rows (ae_crypto ae) salt now payload)" s u "s\<lparr>sess := t\<rparr>"] in_db_apply rows(1)
          bnd_apply ret_apply)
  qed (use rows ds(2) in \<open>simp_all add: interested_def ty\<close>)
qed

lemma registered_permissions: "registered cr payload u d \<Longrightarrow> user_permissions u = Some []"
  by (simp add: registered_def privileges_def)

lemma register_user_run:
  assumes "registrable payload s" and "crypto_ok (ae_crypto ae)" and "CHR ''$'' \<notin> set salt"
    and "transport_of (conf s) = ConsoleTransport"
  obtains u o' ds t where
    "register_user ae salt uuid now payload s = (Inr o', dispatched ds (s\<lparr>sess := t, mail_service := deliver (welcome_mail u) (mail_service s)\<rparr>))"
    "to_public u = Inr o'" "registered (ae_crypto ae) payload u (work t)" "users (work t) = users (work (sess s)) @ [u]"
    "map addressed ds = map (\<lambda>e. (ep_id e, ''user.registered'', event_payload (registered_event uuid now u), 0))
       (interested (registered_event uuid now u) (work (sess s)))"
    "webhook_deliveries (work t) = webhook_deliveries (work (sess s))"
proof -
  obtain u ds t where reg:
    "register_user ae salt uuid now payload s = bnd (in_mail (\<lambda>c. send (ae_smtp ae) c now (welcome_mail u)))
        (\<lambda>_. pure_op (to_public u)) (dispatched ds (s\<lparr>sess := t\<rparr>))"
    "registered (ae_crypto ae) payload u (work t)" "stored t = stored (sess s)" "users (work t) = users (work (sess s)) @ [u]"
    "map addressed ds = map (\<lambda>e. (ep_id e, ''user.registered'', event_payload (registered_event uuid now u), 0))
       (interested (registered_event uuid now u) (work (sess s)))"
    "webhook_deliveries (work t) = webhook_deliveries (work (sess s))"
    by (rule register_until_mail [OF assms(1-3)])
  obtain o' where o': "to_public u = Inr o'"
    using registered_permissions [OF reg(2)] by (simp add: to_public_def)
  have "register_user ae salt uuid now payload s =
      (Inr o', dispatched ds (s\<lparr>sess := t, mail_service := deliver (welcome_mail u) (mail_service s)\<rparr>))"
    unfolding reg(1) using assms(4) o'
    by (simp add: bnd_apply in_mail_apply dispatched_def send_def console_send_def modify_apply pure_op_apply)
  from that [OF this o' reg(2,4,5,6)] show thesis .
qed

text \<open>
  Registration depends on the welcome mail: when the mail server refuses it, the
  request fails with the server's exception and the new user and the deliveries are rolled back;
  but the delivery jobs it queued stay queued, with no delivery to find.
\<close>

theorem registration_depends_on_mail:
  assumes "registrable payload s" and "crypto_ok (ae_crypto ae)" and "CHR ''$'' \<notin> set salt"
    and "transport_of (conf s) = SMTPTransport" and "opened_at (smtp_breaker (mail_service s)) = None"
    and "\<And>m. ae_smtp ae (smtp_config_of (conf s)) m = Some (RemoteError e)"
  shows "\<exists>u ds t. with_db (register_and_remember ae salt uuid now req payload k) s = (Inl (RemoteError e), t) \<and>
    work (sess t) = stored (sess s) \<and> stored (sess t) = stored (sess s) \<and>
    jobs t = jobs s @ map (DeliverWebhook \<circ> deliv_id) ds \<and>
    map addressed ds = map (\<lambda>e. (ep_id e, ''user.registered'', event_payload (registered_event uuid now u), 0))
       (interested (registered_event uuid now u) (work (sess s)))"
proof -
  obtain u ds t where reg:
    "register_user ae salt uuid now payload s = bnd (in_mail (\<lambda>c. send (ae_smtp ae) c now (welcome_mail u)))
        (\<lambda>_. pure_op (to_public u)) (dispatched ds (s\<lparr>sess := t\<rparr>))"
    "registered (ae_crypto ae) payload u (work t)" "stored t = stored (sess s)" "users (work t) = users (work (sess s)) @ [u]"
    "map addressed ds = map (\<lambda>e. (ep_id e, ''user.registered'', event_payload (registered_event uuid now u), 0))
       (interested (registered_event uuid now u) (work (sess s)))"
    "webhook_deliveries (work t) = webhook_deliveries (work (sess s))"
    by (rule register_until_mail [OF assms(1-3)])
  let ?b = "(mail_service s)\<lparr>smtp_breaker := record_failure now (smtp_breaker (mail_service s))\<rparr>"
  let ?t = "(dispatched ds (s\<lparr>sess := t\<rparr>))\<lparr>mail_service := ?b\<rparr>"
  have "register_user ae salt uuid now payload s = (Inl (RemoteError e), ?t)"
    unfolding reg(1) using assms(4) smtp_send_fails [OF assms(5), of "ae_smtp ae" "conf s", OF assms(6)]
    by (simp add: bnd_apply in_mail_apply dispatched_def send_def)
  then have "with_db (register_and_remember ae salt uuid now req payload k) s =
      (Inl (RemoteError e), ?t\<lparr>sess := (sess ?t)\<lparr>work := stored (sess ?t)\<rparr>\<rparr>)"
    by (simp add: register_and_remember_def with_db_apply http_errors_def try_except_apply bnd_apply throw_apply)
  with reg(3,5) show ?thesis
    by (intro exI [of _ u] exI [of _ ds] exI [of _ "?t\<lparr>sess := (sess ?t)\<lparr>work := stored (sess ?t)\<rparr>\<rparr>"])
      (simp add: dispatched_def)
qed

section \<open>The idempotency key\<close>

lemma limited_shared:
  assumes "get_idempotency_store (conf s) = InMemory"
  shows "\<exists>q l. limited le now c p n s = (q, s\<lparr>lim := l\<rparr>) \<and> (q = Inr () \<or> q = Inl too_many)"
proof -
  have "get_rate_limiter (conf s) = SharedLimiter"
    using assms by (auto simp: get_idempotency_store_def get_rate_limiter_def split: if_splits)
  then show ?thesis
  proof (cases "allow_request c p n now (lim s)")
    case (Pair ok l)
    with \<open>get_rate_limiter (conf s) = SharedLimiter\<close> show ?thesis
      by (intro exI [of _ "if ok then Inr () else Inl too_many"] exI [of _ l])
        (simp add: limited_def bnd_apply route_allow_def ret_apply throw_apply)
  qed
qed

lemma preserves_conf [preserves_intros]:
  "preserves (\<lambda>s. conf s = c) (in_db m)" "preserves (\<lambda>s. conf s = c) (queue_job j)" "preserves (\<lambda>s. conf s = c) (in_mail n)"
  by (auto simp: preserves_def in_db_apply queue_job_apply in_mail_apply)

lemma register_user_conf: "conf (snd (register_user ae salt uuid now payload s)) = conf s"
proof -
  have "preserves (\<lambda>x. conf x = conf s) (register_user ae salt uuid now payload)"
    unfolding register_user_def publish_registered dispatch_def by (intro preserves_intros)
  then show ?thesis by (simp add: preserves_def)
qed

definition remembers :: "'r api_env \<Rightarrow> string \<Rightarrow> user_out \<Rightarrow> 'r app \<Rightarrow> bool" where
  "remembers ae k u s \<longleftrightarrow> (\<exists>v. idem s (creation_key k) = Some v \<and> user_out_of_json (ae_of_iso ae) v = Inr u)"

definition lookup_or_register :: "'r api_env \<Rightarrow> string \<Rightarrow> string \<Rightarrow> int \<Rightarrow> request \<Rightarrow> user_create \<Rightarrow> string option \<Rightarrow> ('r app, user_out) op" where
  "lookup_or_register ae salt uuid now req payload k =
     bnd (if blank k then ret None else store_get (ae_redis ae) (ae_parse_float ae) (creation_key (the k))) (\<lambda>cached. case cached of
        Some v \<Rightarrow> pure_op (user_out_of_json (ae_of_iso ae) v)
      | None \<Rightarrow> register_and_remember ae salt uuid now req payload k)"

lemma lookup_memory:
  assumes "get_idempotency_store (conf s) = InMemory" "k \<noteq> []"
  shows "lookup_or_register ae salt uuid now req payload (Some k) s = (case idem s (creation_key k) of
      Some v \<Rightarrow> (user_out_of_json (ae_of_iso ae) v, s) | None \<Rightarrow> register_and_remember ae salt uuid now req payload (Some k) s)"
  using assms by (simp add: lookup_or_register_def bnd_apply store_get_def look_apply in_idem_apply memory_get_def blank_def
      pure_op_apply split: option.split)

lemma remembered_after:
  assumes "get_idempotency_store (conf s) = InMemory" "k \<noteq> []" "\<And>t. ae_of_iso ae (ae_iso ae t) = Some t"
    and "lookup_or_register ae salt uuid now req payload (Some k) s = (Inr u, t)"
  shows "remembers ae k u t \<and> conf t = conf s"
proof (cases "idem s (creation_key k)")
  case None
  with assms lookup_memory [OF assms(1,2)] have
    "register_and_remember ae salt uuid now req payload (Some k) s = (Inr u, t)" by simp
  then obtain u0 a where reg: "register_user ae salt uuid now payload s = (Inr u0, a)" and
    rest: "bnd (audit_log Nobody ''user.created'' ''users''
          (JObj [(''email'', JStr (uc_email payload)), (''username'', JStr (uc_username payload))]) (Some req) (Some 201) True now) (\<lambda>_.
        bnd (remember_user ae (Some k) u0) (\<lambda>_. ret u0)) a = (Inr u, t)"
    unfolding register_and_remember_def http_errors_Inr by (rule bnd_InrE)
  have "conf a = conf s" using register_user_conf [of ae salt uuid now payload s] reg by simp
  then show ?thesis
    using rest assms(1,2) user_out_roundtrip [of "ae_of_iso ae" "ae_iso ae" u, OF assms(3)]
    by (auto simp: audit_log_def queue_job_apply remember_user_def blank_def store_set_def bnd_apply look_apply in_idem_apply memory_set_def
        modify_apply ret_apply remembers_def)
qed (use assms lookup_memory [OF assms(1,2)] in \<open>auto simp: remembers_def\<close>)

lemma create_user_split: "create_user ae salt uuid now req payload k = with_db
     (bnd (limited (ae_limits ae) now (lower (strip (uc_email payload))) ''users:create:email'' write_rate_limit) (\<lambda>_.
      bnd (limited (ae_limits ae) now (client_ip req) ''users:create:ip'' (write_rate_limit * 2)) (\<lambda>_.
      lookup_or_register ae salt uuid now req payload k)))"
  by (simp add: create_user_def lookup_or_register_def)

text \<open>In memory, a request is refused by the limiters or gets to the lookup.\<close>

lemma create_user_cases:
  assumes "get_idempotency_store (conf s) = InMemory"
  obtains (refused) l where "create_user ae salt uuid now req payload k s =
      (Inl too_many, s\<lparr>lim := l, sess := (sess s)\<lparr>work := stored (sess s)\<rparr>\<rparr>)"
  | (goes) l where "create_user ae salt uuid now req payload k s =
      with_db (lookup_or_register ae salt uuid now req payload k) (s\<lparr>lim := l\<rparr>)"
proof -
  obtain q l where 1: "limited (ae_limits ae) now (lower (strip (uc_email payload))) ''users:create:email'' write_rate_limit s = (q, s\<lparr>lim := l\<rparr>)"
    "q = Inr () \<or> q = Inl too_many" using limited_shared [OF assms] by blast
  obtain q' l' where 2: "limited (ae_limits ae) now (client_ip req) ''users:create:ip'' (write_rate_limit * 2) (s\<lparr>lim := l\<rparr>) =
      (q', s\<lparr>lim := l, lim := l'\<rparr>)" "q' = Inr () \<or> q' = Inl too_many"
    using limited_shared [of "s\<lparr>lim := l\<rparr>"] assms by fastforce
  show thesis
    using 1 2 that unfolding create_user_split by (auto simp: with_db_apply bnd_apply)
qed
lemma remembered_lookup:
  assumes "get_idempotency_store (conf s) = InMemory" "k \<noteq> []" "remembers ae k u s"
  shows "lookup_or_register ae salt uuid now req payload (Some k) s = (Inr u, s)"
  using assms(3) by (auto simp: lookup_memory [OF assms(1,2)] remembers_def)

lemma registration_remembered:
  assumes "get_idempotency_store (conf s) = InMemory" and "k \<noteq> []" and "\<And>t. ae_of_iso ae (ae_iso ae t) = Some t"
    and "create_user ae salt uuid now req payload (Some k) s = (Inr u, s1)"
  shows "remembers ae k u s1" "get_idempotency_store (conf s1) = InMemory" "stored (sess s1) = work (sess s1)"
proof -
  obtain l t where first: "lookup_or_register ae salt uuid now req payload (Some k) (s\<lparr>lim := l\<rparr>) = (Inr u, t)"
    and s1: "s1 = t\<lparr>sess := (sess t)\<lparr>stored := work (sess t)\<rparr>\<rparr>"
    by (rule create_user_cases [OF assms(1), of ae salt uuid now req payload "Some k"])
      (use assms(4) in \<open>auto simp: with_db_apply split: prod.splits sum.splits\<close>)
  show "remembers ae k u s1" "get_idempotency_store (conf s1) = InMemory" "stored (sess s1) = work (sess s1)"
    using remembered_after [OF _ assms(2,3) first] assms(1) by (simp_all add: s1 remembers_def)
qed

lemma answered_from_memory:
  assumes "get_idempotency_store (conf s) = InMemory" "k \<noteq> []" "remembers ae k u s" "stored (sess s) = work (sess s)"
  shows "with_db (lookup_or_register ae salt uuid now req payload (Some k)) (s\<lparr>lim := l\<rparr>) = (Inr u, s\<lparr>lim := l\<rparr>)"
  using remembered_lookup [of "s\<lparr>lim := l\<rparr>" k ae u salt uuid now req payload] assms
  by (simp add: with_db_apply remembers_def)


section \<open>A registration from end to end\<close>

text \<open>At most \<open>n\<close> requests of any client are in the limiter's memory, which is the one in use.\<close>

definition quiet :: "nat \<Rightarrow> 'r app \<Rightarrow> bool" where
  "quiet n s \<longleftrightarrow> get_idempotency_store (conf s) = InMemory \<and> (\<forall>k. length (requests (lim s) k) \<le> n)"

lemma quiet_passes:
  assumes "quiet n s" and "n < limit"
  obtains l where "limited le now c p limit s = (Inr (), s\<lparr>lim := l\<rparr>)" and "quiet (Suc n) (s\<lparr>lim := l\<rparr>)"
proof -
  have shared: "get_rate_limiter (conf s) = SharedLimiter"
    using assms(1) by (auto simp: quiet_def get_idempotency_store_def get_rate_limiter_def split: if_splits)
  have recent: "length (filter (\<lambda>ts. now - window < ts) (requests (lim s) k)) \<le> n" for k
    using assms(1) unfolding quiet_def by (blast intro: order_trans [OF length_filter_le])
  define l where "l = (lim s)\<lparr>requests := (requests (lim s))((c, p) := filter (\<lambda>ts. now - window < ts) (requests (lim s) (c, p)) @ [now])\<rparr>"
  have "allow_request c p limit now (lim s) = (True, l)"
    using recent [of "(c, p)"] assms(2) by (simp add: allow_request_def l_def Let_def)
  then have "limited le now c p limit s = (Inr (), s\<lparr>lim := l\<rparr>)"
    using shared by (simp add: limited_def bnd_apply route_allow_def ret_apply)
  moreover have "quiet (Suc n) (s\<lparr>lim := l\<rparr>)"
    using assms(1) recent [of "(c, p)"] by (auto simp: quiet_def l_def intro: le_SucI)
  ultimately show thesis by (rule that)
qed

lemma quiet_create_user:
  assumes "quiet n s" and "n < 4"
  obtains l where "create_user ae salt uuid now req payload k s = with_db (lookup_or_register ae salt uuid now req payload k) (s\<lparr>lim := l\<rparr>)"
    and "quiet (Suc (Suc n)) (s\<lparr>lim := l\<rparr>)"
proof -
  from assms(2) have lt: "n < write_rate_limit" "Suc n < write_rate_limit * 2" by (simp_all add: write_rate_limit_def)
  obtain l where 1: "limited (ae_limits ae) now (lower (strip (uc_email payload))) ''users:create:email'' write_rate_limit s = (Inr (), s\<lparr>lim := l\<rparr>)"
    "quiet (Suc n) (s\<lparr>lim := l\<rparr>)" by (rule quiet_passes [OF assms(1) lt(1)])
  obtain l' where 2: "limited (ae_limits ae) now (client_ip req) ''users:create:ip'' (write_rate_limit * 2) (s\<lparr>lim := l\<rparr>) =
      (Inr (), s\<lparr>lim := l, lim := l'\<rparr>)" "quiet (Suc (Suc n)) (s\<lparr>lim := l, lim := l'\<rparr>)" by (rule quiet_passes [OF 1(2) lt(2)])
  show thesis
    by (rule that [of l']) (use 1 2 in \<open>simp_all add: create_user_split with_db_apply bnd_apply\<close>)
qed

lemma create_user_run:
  assumes "registrable payload s" and "crypto_ok (ae_crypto ae)" and "CHR ''$'' \<notin> set salt"
    and "transport_of (conf s) = ConsoleTransport" and "quiet n s" and "n < 4"
    and "blank k \<or> idem s (creation_key (the k)) = None"
  obtains u o' ds t where "create_user ae salt uuid now req payload k s = (Inr o', t)"
    "to_public u = Inr o'" "registered (ae_crypto ae) payload u (stored (sess t))"
    "users (stored (sess t)) = users (work (sess s)) @ [u]" "work (sess t) = stored (sess t)"
    "outbox (mail_service t) = outbox (mail_service s) @ [welcome_mail u]"
    "webhook_deliveries (stored (sess t)) = webhook_deliveries (work (sess s)) @ ds"
    "map addressed ds = map (\<lambda>e. (ep_id e, ''user.registered'', event_payload (registered_event uuid now u), 0))
       (interested (registered_event uuid now u) (work (sess s)))"
    "quiet (Suc (Suc n)) t"
proof -
  obtain l where l: "create_user ae salt uuid now req payload k s = with_db (lookup_or_register ae salt uuid now req payload k) (s\<lparr>lim := l\<rparr>)"
    "quiet (Suc (Suc n)) (s\<lparr>lim := l\<rparr>)" by (rule quiet_create_user [OF assms(5,6)])
  let ?s = "s\<lparr>lim := l\<rparr>"
  have mem: "get_idempotency_store (conf s) = InMemory" using assms(5) by (simp add: quiet_def)
  have goes: "lookup_or_register ae salt uuid now req payload k ?s = register_and_remember ae salt uuid now req payload k ?s"
    using assms(7) mem
    by (auto simp: lookup_or_register_def bnd_apply ret_apply store_get_def look_apply in_idem_apply memory_get_def)
  have pre: "registrable payload ?s" "transport_of (conf ?s) = ConsoleTransport" using assms(1,4) by (simp_all add: registrable_def)
  obtain u o' ds t where reg:
    "register_user ae salt uuid now payload ?s = (Inr o', dispatched ds (?s\<lparr>sess := t, mail_service := deliver (welcome_mail u) (mail_service ?s)\<rparr>))"
    "to_public u = Inr o'" "registered (ae_crypto ae) payload u (work t)" "users (work t) = users (work (sess ?s)) @ [u]"
    "map addressed ds = map (\<lambda>e. (ep_id e, ''user.registered'', event_payload (registered_event uuid now u), 0))
       (interested (registered_event uuid now u) (work (sess ?s)))"
    "webhook_deliveries (work t) = webhook_deliveries (work (sess ?s))"
    by (rule register_user_run [OF pre(1) assms(2,3) pre(2)])
  define r where "r = dispatched ds (?s\<lparr>sess := t, mail_service := deliver (welcome_mail u) (mail_service ?s)\<rparr>)"
  have r: "sess r = t\<lparr>work := (work t)\<lparr>webhook_deliveries := webhook_deliveries (work t) @ ds\<rparr>\<rparr>" "conf r = conf s" "lim r = l"
    "mail_service r = deliver (welcome_mail u) (mail_service s)" by (simp_all add: r_def dispatched_def)
  have "\<exists>i j. register_and_remember ae salt uuid now req payload k ?s = (Inr o', r\<lparr>jobs := j, idem := i\<rparr>)"
  proof -
    obtain j where "audit_log Nobody ''user.created'' ''users''
        (JObj [(''email'', JStr (uc_email payload)), (''username'', JStr (uc_username payload))]) (Some req) (Some 201) True now r =
      (Inr (), r\<lparr>jobs := j\<rparr>)" using assms(1) r(2) by (simp add: audit_log_def queue_job_apply queued_job_def registrable_def)
    moreover obtain i where "remember_user ae k o' (r\<lparr>jobs := j\<rparr>) = (Inr (), r\<lparr>jobs := j, idem := i\<rparr>)"
    proof (cases "blank k")
      case True
      then show ?thesis using that [of "idem r"] by (simp add: remember_user_def ret_apply)
    next
      case False
      then show ?thesis using that mem r(2)
        by (simp add: remember_user_def store_set_def bnd_apply look_apply in_idem_apply memory_set_def modify_apply)
    qed
    ultimately show ?thesis
      using reg(1) by (intro exI [of _ i] exI [of _ j])
        (simp add: register_and_remember_def http_errors_def try_except_apply bnd_apply r_def ret_apply)
  qed
  then obtain i j where run: "register_and_remember ae salt uuid now req payload k ?s = (Inr o', r\<lparr>jobs := j, idem := i\<rparr>)"
    by (elim exE) (rule that)
  let ?t = "r\<lparr>jobs := j, idem := i, sess := (sess r)\<lparr>stored := work (sess r)\<rparr>\<rparr>"
  show thesis
  proof (rule that)
    show "create_user ae salt uuid now req payload k s = (Inr o', ?t)"
      by (simp add: l(1) goes with_db_apply run)
    show "quiet (Suc (Suc n)) ?t" using l(2) r(2,3) by (simp add: quiet_def)
  qed (use reg r in \<open>simp_all add: registered_cong deliver_def\<close>)
qed


section \<open>A small instance for the witnesses\<close>

definition demo_iso :: "datetime \<Rightarrow> string" where
  "demo_iso t = (case t of Aware n \<Rightarrow> CHR ''a'' # show_int n | Naive n \<Rightarrow> CHR ''n'' # show_int n)"

definition demo_of_iso :: "string \<Rightarrow> datetime option" where
  "demo_of_iso s = (case s of [] \<Rightarrow> None | c # r \<Rightarrow> map_option (if c = CHR ''a'' then Aware else Naive) (parse_int r))"

definition demo_api :: "(string \<Rightarrow> pyval option) api_env" where
  "demo_api = \<lparr>ae_redis = redis_map, ae_crypto = demo_crypto,
     ae_limits = \<lparr>pipeline = \<lambda>_ _. None, float_text = \<lambda>_. []\<rparr>, ae_smtp = \<lambda>_ _. Some (RemoteError ''refused''),
     ae_float = \<lambda>_. [], ae_parse_float = \<lambda>_. 0, ae_iso = demo_iso, ae_of_iso = demo_of_iso\<rparr>"

lemma demo_iso_inverse: "ae_of_iso demo_api (ae_iso demo_api t) = Some t"
  by (cases t) (simp_all add: demo_api_def demo_iso_def demo_of_iso_def parse_int_show_int)

definition demo_request :: request where
  "demo_request = \<lparr>req_client_host = Some ''h'', req_method = ''POST'', req_path = ''/users/'', req_request_id = None, req_trace_id = None\<rparr>"

definition bob :: user_create where
  "bob = \<lparr>uc_email = ''b@b.c'', uc_username = ''bob'', uc_password = ''Secret1!''\<rparr>"

definition eve :: user_create where
  "eve = \<lparr>uc_email = ''e@b.c'', uc_username = ''eve'', uc_password = ''Secret2!''\<rparr>"

definition demo_site :: "(string \<Rightarrow> pyval option) app" where
  "demo_site = demo_app (empty_db\<lparr>users := [demo_user], webhook_endpoints := [demo_endpoint 1 True]\<rparr>)"

lemma bob_registrable: "registrable bob demo_site"
  by (simp add: registrable_def bob_def demo_site_def demo_app_def demo_user_def empty_db_def job_queue_def default_settings_def)

lemma demo_site_state: "crypto_ok (ae_crypto demo_api)" "quiet 0 demo_site" "transport_of (conf demo_site) = ConsoleTransport"
  "idem demo_site k = None" "stored (sess demo_site) = work (sess demo_site)" "get_idempotency_store (conf demo_site) = InMemory"
  "users (work (sess demo_site)) = [demo_user]" "webhook_deliveries (work (sess demo_site)) = []"
  "outbox (mail_service demo_site) = []" "jobs demo_site = []" "ae_crypto demo_api = demo_crypto"
  "length (interested (registered_event uuid now u) (work (sess demo_site))) = 1"
  using crypto_ok_demo
  by (simp_all add: demo_api_def quiet_def demo_site_def demo_app_def default_settings_def get_idempotency_store_def new_limiter_def
      transport_of_def lower_def lower_char_def new_mailer_def empty_db_def interested_def demo_endpoint_def
      event_type_of_def registered_event_def new_event_of_def payload_get_Cons)



theorem registration_depends_on_mail_witness:
  "\<exists>t. with_db (register_and_remember demo_api [] ''1'' 5 demo_request bob None)
      (demo_site\<lparr>conf := default_settings\<lparr>email_backend := ''smtp''\<rparr>\<rparr>) = (Inl (RemoteError ''refused''), t) \<and>
    users (stored (sess t)) = [demo_user] \<and> length (jobs t) = 1"
proof -
  let ?s = "demo_site\<lparr>conf := default_settings\<lparr>email_backend := ''smtp''\<rparr>\<rparr>"
  have "registrable bob ?s" "transport_of (conf ?s) = SMTPTransport" "opened_at (smtp_breaker (mail_service ?s)) = None"
    using bob_registrable
    by (simp_all add: registrable_def job_queue_def default_settings_def transport_of_def lower_def lower_char_def demo_site_def
        demo_app_def new_mailer_def new_breaker_def)
  then have "\<exists>u ds t. with_db (register_and_remember demo_api [] ''1'' 5 demo_request bob None) ?s = (Inl (RemoteError ''refused''), t) \<and>
    work (sess t) = stored (sess ?s) \<and> stored (sess t) = stored (sess ?s) \<and> jobs t = jobs ?s @ map (DeliverWebhook \<circ> deliv_id) ds \<and>
    map addressed ds = map (\<lambda>e. (ep_id e, ''user.registered'', event_payload (registered_event ''1'' 5 u), 0))
       (interested (registered_event ''1'' 5 u) (work (sess ?s)))"
    by (intro registration_depends_on_mail demo_site_state(1)) (simp_all add: demo_api_def)
  then obtain u ds t where *: "with_db (register_and_remember demo_api [] ''1'' 5 demo_request bob None) ?s = (Inl (RemoteError ''refused''), t)"
    "work (sess t) = stored (sess ?s)" "stored (sess t) = stored (sess ?s)" "jobs t = jobs ?s @ map (DeliverWebhook \<circ> deliv_id) ds"
    "map addressed ds = map (\<lambda>e. (ep_id e, ''user.registered'', event_payload (registered_event ''1'' 5 u), 0))
       (interested (registered_event ''1'' 5 u) (work (sess ?s)))"
    by (elim exE conjE) (rule that)
  from arg_cong [OF *(5), of length] have "length ds = 1" by (simp add: demo_site_state)
  with * show ?thesis by (intro exI [of _ t]) (simp add: demo_site_state)
qed

definition greedy :: user_update where
  "greedy = \<lparr>uu_email = Some (Some ''z@b.c''), uu_username = None, uu_password = None, uu_is_superuser = Some (Some True),
     uu_is_active = None, uu_role = Some (Some ''admin''), uu_permissions = None\<rparr>"

definition ann :: principal where
  "ann = principal_of demo_user None None"

lemma ann_facts: "user_id ann = 7" "\<not> user_is_superuser ann"
  by (simp_all add: ann_def principal_of_def demo_user_def user.defs)

theorem update_does_not_escalate_witness:
  "no_gain 7 [demo_user] (users (stored (sess (snd (update_user_route demo_api [] 5 demo_request 7 greedy ann demo_site)))))"
  using update_does_not_escalate [OF ann_facts(2) demo_site_state(5), of demo_api "[]" 5 demo_request 7 greedy]
  by (simp add: demo_site_state ann_facts)

end
