(* ===== verification/Admin.thy ===== *)
theory Admin
  imports UsersApi Auth
begin

text \<open>
  The routes of \<open>backend/app/api/v1/admin/router.py\<close>: the list of users, the role of one user and
  of many, and the switch of the subscriptions. The caller is what \<open>get_current_active_user\<close>
  returned; the payloads are the validated ones. What matters of these routes is that an
  administrator remains: the single update keeps one, the bulk update does not.
\<close>

section \<open>The routes\<close>

definition list_admin_users :: "request \<Rightarrow> int \<Rightarrow> principal \<Rightarrow> ('r app, user_out list) op" where
  "list_admin_users req now caller = with_db
     (bnd (require_role [''admin''] caller) (\<lambda>current_user.
      if \<not> user_is_superuser current_user \<and> user_role current_user \<noteq> ''admin''
      then throw (HTTPException 403 (DetailText ''Insufficient permissions''))
      else bnd (in_db (list_rows User 0 100)) (\<lambda>rows.
        bnd (audit_log (user_actor current_user) ''admin.users.listed'' ''admin/users''
          (JObj [(''count'', JInt (int (length rows)))]) (Some req) (Some 200) True now) (\<lambda>_.
        map_each rows (\<lambda>u. pure_op (to_public u))))))"

definition is_admin :: "user \<Rightarrow> bool" where
  "is_admin u \<longleftrightarrow> user_role u = ''admin'' \<and> user_deleted_at u = None"

definition total_admins :: "(session, nat) op" where
  "total_admins = bnd (select User is_admin) (\<lambda>rows. ret (length rows))"

definition invalid_role :: exn where
  "invalid_role = HTTPException 422 (DetailText ''invalid role'')"

definition last_admin :: exn where
  "last_admin = HTTPException 403 (DetailDict [(''error'', ''insufficient_permission''),
     (''message'', ''Cannot remove the last admin role'')])"

text \<open>\<open>list(user.permissions)\<close>: a null is not iterable.\<close>

definition permission_list :: "user \<Rightarrow> exn + string list" where
  "permission_list u = (case user_permissions u of None \<Rightarrow> Inl TypeError | Some ps \<Rightarrow> Inr ps)"

definition assigned :: "string option \<Rightarrow> string list option \<Rightarrow> user \<Rightarrow> user" where
  "assigned role ps u = (let r = (case role of None \<Rightarrow> u | Some k \<Rightarrow> u\<lparr>user_role := k\<rparr>)
     in case ps of None \<Rightarrow> r | Some p \<Rightarrow> r\<lparr>user_permissions := Some p\<rparr>)"

text \<open>A flush writes an object that changed, and the database then sets \<open>updated_at\<close>.\<close>

definition flush_changed :: "int \<Rightarrow> user \<Rightarrow> user \<Rightarrow> (session, user) op" where
  "flush_changed now u u' = (if u' = u then ret u
     else bnd (db_save User (u'\<lparr>user_updated_at := Aware now\<rparr>)) (\<lambda>_. ret (u'\<lparr>user_updated_at := Aware now\<rparr>)))"

definition role_state :: "string \<Rightarrow> string list \<Rightarrow> json" where
  "role_state role ps = JObj [(''role'', JStr role), (''permissions'', JList (map JStr ps))]"

definition log_role_change :: "request \<Rightarrow> int \<Rightarrow> principal \<Rightarrow> user \<Rightarrow> string list \<Rightarrow> user \<Rightarrow> ('r app, unit) op" where
  "log_role_change req now current_user old before_ps new =
     bnd (pure_op (permission_list new)) (\<lambda>ps.
     audit_log (user_actor current_user) ''user.role_changed'' (''user:'' @ show_int (user_id new))
       (JObj [(''before'', role_state (user_role old) before_ps), (''after'', role_state (user_role new) ps)])
       (Some req) None True now)"

definition known_role :: "string \<Rightarrow> ('r app, unit) op" where
  "known_role r = bnd list_roles (\<lambda>rs. if r \<in> set (map role_key rs) then ret () else throw invalid_role)"

definition check_new_role :: "user \<Rightarrow> string option \<Rightarrow> ('r app, unit) op" where
  "check_new_role u role = (case role of
     None \<Rightarrow> ret ()
   | Some r \<Rightarrow> if r = [] then throw invalid_role
       else bnd (known_role r) (\<lambda>_.
         if user_role u = ''admin'' \<and> r \<noteq> ''admin''
         then bnd (in_db total_admins) (\<lambda>n. if n = 1 then throw last_admin else ret ())
         else ret ()))"

definition update_role :: "request \<Rightarrow> int \<Rightarrow> principal \<Rightarrow> string option \<Rightarrow> string list option \<Rightarrow> user \<Rightarrow> ('r app, user_out) op" where
  "update_role req now current_user role ps u =
     bnd (pure_op (permission_list u)) (\<lambda>before_ps.
     bnd (check_new_role u role) (\<lambda>_.
     bnd (in_db (flush_changed now u (assigned role ps u))) (\<lambda>u'.
     bnd (log_role_change req now current_user u before_ps u') (\<lambda>_.
     pure_op (to_public u')))))"

definition set_user_role :: "request \<Rightarrow> int \<Rightarrow> int \<Rightarrow> string option \<Rightarrow> string list option \<Rightarrow> principal \<Rightarrow> ('r app, user_out) op" where
  "set_user_role req now uid role ps caller = with_db
     (bnd (require_role [''admin''] caller) (\<lambda>current_user.
      bnd (in_db (get_by_id User uid)) (\<lambda>found. case found of
        None \<Rightarrow> throw (to_http (not_found ''user''))
      | Some u \<Rightarrow> update_role req now current_user role ps u)))"

definition toggle_subscriptions_enabled :: "request \<Rightarrow> int \<Rightarrow> bool option \<Rightarrow> principal \<Rightarrow> ('r app, payload) op" where
  "toggle_subscriptions_enabled req now flag caller = with_db
     (bnd (in_db (require_permission [''system.billing_toggle''] caller)) (\<lambda>current_user.
      bnd (case flag of
          None \<Rightarrow> ret ()
        | Some b \<Rightarrow> bnd (modify (\<lambda>s. s\<lparr>conf := (conf s)\<lparr>subscriptions_enabled := b\<rparr>\<rparr>)) (\<lambda>_.
            audit_log (user_actor current_user) ''system.subscriptions_toggled'' ''system''
              (JObj [(''subscriptions_enabled'', JBool b)]) (Some req) None True now)) (\<lambda>_.
      bnd (look conf) (\<lambda>c.
      ret ((''subscriptions_enabled'', JBool (subscriptions_enabled c)) # (if environment c \<noteq> ''dev''
        then [(''warning'', JStr ''Billing toggles are process-local and not persisted across restarts or workers.'')] else []))))))"

section \<open>The bulk update\<close>

record bulk_entry =
  be_user_id :: "int option"
  be_role :: "string option"
  be_permissions :: "string list option"

text \<open>The user of an entry, if it names one that is there.\<close>

definition entry_user :: "bulk_entry \<Rightarrow> (session, user option) op" where
  "entry_user e = (case be_user_id e of None \<Rightarrow> ret None | Some i \<Rightarrow> get_by_id User i)"

definition demotion :: "bulk_entry \<Rightarrow> user \<Rightarrow> int" where
  "demotion e u = (case be_role e of None \<Rightarrow> 0 | Some r \<Rightarrow> if r \<noteq> user_role u \<and> user_role u = ''admin'' \<and> r \<noteq> ''admin'' then 1 else 0)"

definition promotion :: "bulk_entry \<Rightarrow> user \<Rightarrow> int" where
  "promotion e u = (case be_role e of None \<Rightarrow> 0 | Some r \<Rightarrow> if r \<noteq> user_role u \<and> user_role u \<noteq> ''admin'' \<and> r = ''admin'' then 1 else 0)"

text \<open>\<open>promotions - demotions\<close> over the entries, all read before any is applied.\<close>

fun balance :: "bulk_entry list \<Rightarrow> (session, int) op" where
  "balance [] = ret 0"
| "balance (e # es) = bnd (entry_user e) (\<lambda>found. bnd (balance es) (\<lambda>n.
     ret (n + (case found of None \<Rightarrow> 0 | Some u \<Rightarrow> promotion e u - demotion e u))))"

definition entry_out :: "user \<Rightarrow> user_out" where
  "entry_out u = \<lparr>uo_id = user_id u, uo_email = user_email u, uo_username = user_username u,
     uo_is_active = user_is_active u, uo_is_verified = user_is_verified u, uo_is_superuser = user_is_superuser u,
     uo_role = user_role u, uo_permissions = (case user_permissions u of None \<Rightarrow> [] | Some ps \<Rightarrow> ps),
     uo_created_at = user_created_at u, uo_updated_at = user_updated_at u\<rparr>"

definition apply_entry :: "request \<Rightarrow> int \<Rightarrow> principal \<Rightarrow> bulk_entry \<Rightarrow> user \<Rightarrow> ('r app, user_out) op" where
  "apply_entry req now current_user e u =
     bnd (pure_op (permission_list u)) (\<lambda>before_ps.
     bnd (case be_role e of
         None \<Rightarrow> ret ()
       | Some r \<Rightarrow> bnd (known_role r) (\<lambda>_. in_db (ensure_admins_remain None (be_user_id e)))) (\<lambda>_.
     bnd (in_db (flush_changed now u (assigned (be_role e) (be_permissions e) u))) (\<lambda>u'.
     bnd (log_role_change req now current_user u before_ps u') (\<lambda>_.
     ret (entry_out u')))))"

fun apply_entries :: "request \<Rightarrow> int \<Rightarrow> principal \<Rightarrow> bulk_entry list \<Rightarrow> ('r app, user_out list) op" where
  "apply_entries req now current_user [] = ret []"
| "apply_entries req now current_user (e # es) =
     bnd (in_db (entry_user e)) (\<lambda>found. case found of
       None \<Rightarrow> apply_entries req now current_user es
     | Some u \<Rightarrow> bnd (apply_entry req now current_user e u) (\<lambda>out.
         bnd (apply_entries req now current_user es) (\<lambda>rest. ret (out # rest))))"

definition bulk_set_user_roles :: "request \<Rightarrow> int \<Rightarrow> bulk_entry list \<Rightarrow> principal \<Rightarrow> ('r app, user_out list) op" where
  "bulk_set_user_roles req now updates caller = with_db
     (bnd (require_role [''admin''] caller) (\<lambda>current_user.
      bnd (in_db total_admins) (\<lambda>n.
      bnd (in_db (balance updates)) (\<lambda>m.
      if int n + m < 1 then throw last_admin
      else apply_entries req now current_user updates))))"

section \<open>One administrator remains\<close>

definition admins :: "session \<Rightarrow> user list" where
  "admins s = filter is_admin (users (work s))"

lemma total_admins_apply: "total_admins s = (Inr (length (admins s)), s)"
  by (simp add: total_admins_def bnd_apply select_def look_apply ret_apply User_def admins_def)

lemma with_db_keeps:
  assumes "\<And>e t. handler s = (Inl e, t) \<Longrightarrow> P (stored (sess t))" and "\<And>r t. handler s = (Inr r, t) \<Longrightarrow> P (work (sess t))"
  shows "P (stored (sess (snd (with_db handler s))))"
  using assms by (auto simp: with_db_apply split: prod.split sum.split)

text \<open>The lookups of roles may seed their tables; users stay, and nothing is committed.\<close>

definition same_users :: "'r app \<Rightarrow> 'r app \<Rightarrow> bool" where
  "same_users s t \<longleftrightarrow> users (work (sess t)) = users (work (sess s)) \<and> stored (sess t) = stored (sess s)"

lemma list_roles_users: "same_users s (snd (list_roles s))"
proof (cases "rbac_seeded s")
  case True
  then show ?thesis
    by (simp add: list_roles_def bnd_apply ensure_seed_done in_db_apply select_def look_apply ret_apply same_users_def)
next
  case False
  then obtain rs ps where "ensure_seed_data s = (Inr (), seeded_with rs ps s)"
    using ensure_seed_run [OF False] by (elim exE conjE) (rule that)
  then show ?thesis by (simp add: list_roles_def bnd_apply in_db_apply select_def look_apply ret_apply same_users_def)
qed

lemma known_role_users: "same_users s (snd (known_role r s))"
  using list_roles_users [of s] by (auto simp: known_role_def bnd_def ret_apply throw_apply split: prod.split sum.split)

lemma check_new_role_users: "same_users s (snd (check_new_role u role s))"
proof (cases role)
  case None
  then show ?thesis by (simp add: check_new_role_def ret_apply same_users_def)
next
  case (Some r)
  obtain q t where "known_role r s = (q, t)" by fastforce
  then show ?thesis
    using known_role_users [of s r] Some
    by (cases q) (simp_all add: check_new_role_def bnd_apply ret_apply throw_apply in_db_apply total_admins_apply same_users_def)
qed

lemma check_new_role_demotion:
  assumes "check_new_role u (Some r) s = (Inr (), t)" and "user_role u = ''admin''" "r \<noteq> ''admin''"
  shows "length (filter is_admin (users (work (sess s)))) \<noteq> 1"
  using assms known_role_users [of s r]
  by (auto simp: check_new_role_def bnd_def ret_apply throw_apply in_db_apply total_admins_apply same_users_def admins_def
      split: prod.splits sum.splits if_splits)

lemma flush_changed_rows:
  assumes "flush_changed now u u' s = (Inr w, t)" and "u \<in> set (users (work s))" "distinct (map user_id (users (work s)))" "user_id u' = user_id u"
  shows "\<exists>x. w = u'\<lparr>user_updated_at := x\<rparr> \<and> users (work t) = replace_row user_id w (users (work s)) \<and> stored t = stored s"
proof (cases "u' = u")
  case True
  have "replace_row user_id u (users (work s)) = users (work s)"
    using assms(2,3) by (auto simp: replace_row_def distinct_map inj_on_def intro!: map_idI)
  then show ?thesis
    using assms(1) True by (auto simp: flush_changed_def ret_apply intro!: exI [of _ "user_updated_at u"])
next
  case False
  then show ?thesis
    using assms(1) by (auto simp: flush_changed_def bnd_apply ret_apply db_save_def User_def Let_def split: if_splits)
qed

lemma log_role_change_state: "sess (snd (log_role_change req now cur u ps u' s)) = sess s"
  by (auto simp: log_role_change_def bnd_apply pure_op_apply audit_log_def queue_job_apply split: sum.split)

lemma assigned_facts [simp]:
  "user_id (assigned role ps u) = user_id u" "user_deleted_at (assigned role ps u) = user_deleted_at u"
  "user_role (assigned role ps u) = (case role of None \<Rightarrow> user_role u | Some r \<Rightarrow> r)"
  by (simp_all add: assigned_def Let_def split: option.split)

lemma another_admin:
  assumes "length (filter is_admin rows) \<noteq> 1" "distinct (map user_id rows)" "u \<in> set rows" "is_admin u"
  obtains v where "v \<in> set rows" "is_admin v" "user_id v \<noteq> user_id u"
proof (rule ccontr)
  assume "\<not> thesis"
  with that have "\<And>v. v \<in> set rows \<Longrightarrow> is_admin v \<Longrightarrow> user_id v = user_id u" by blast
  then have "filter is_admin rows = filter (\<lambda>v. user_id v = user_id u \<and> is_admin v) rows" by (auto intro!: filter_cong)
  with filter_unique [OF assms(2,3), of is_admin] assms(1,4) show False by simp
qed
definition has_admin :: "db \<Rightarrow> bool" where
  "has_admin d \<longleftrightarrow> (\<exists>u \<in> set (users d). is_admin u)"

lemma flush_changed_stored: "stored (snd (flush_changed now u u' s)) = stored s"
  by (auto simp: flush_changed_def bnd_apply ret_apply db_save_def Let_def)

lemma update_role_Inr:
  assumes "update_role req now cur role ps u s = (Inr r, t)"
  obtains s1 u' where "check_new_role u role s = (Inr (), s1)"
    and "flush_changed now u (assigned role ps u) (sess s1) = (Inr u', sess t)"
proof -
  from assms show thesis
    unfolding update_role_def
  proof (elim bnd_InrE)
    fix before_ps s0 x s1 u' s2 y s3
    assume *: "pure_op (permission_list u) s = (Inr before_ps, s0)" "check_new_role u role s0 = (Inr x, s1)"
      "in_db (flush_changed now u (assigned role ps u)) s1 = (Inr u', s2)"
      "log_role_change req now cur u before_ps u' s2 = (Inr y, s3)" "pure_op (to_public u') s3 = (Inr r, t)"
    have "s0 = s" "t = s3" using *(1,5) by (simp_all add: pure_op_apply)
    moreover have "sess s3 = sess s2" using *(4) log_role_change_state [of req now cur u before_ps u' s2] by simp
    ultimately show thesis
      using that [of s1 u'] *(2,3) by (cases "flush_changed now u (assigned role ps u) (sess s1)") (auto simp: in_db_apply)
  qed
qed

lemma update_role_stored:
  fixes s :: "'r app"
  shows "stored (sess (snd (update_role req now cur role ps u s))) = stored (sess s)"
proof -
  have "preserves (\<lambda>x. stored (sess x) = d) (check_new_role u role :: ('r app, unit) op)" "preserves (\<lambda>x. stored (sess x) = d) (in_db (flush_changed now u w) :: ('r app, user) op)"
    "preserves (\<lambda>x. stored (sess x) = d) (log_role_change req now cur u before_ps w :: ('r app, unit) op)" for d w before_ps
    by (simp_all add: preserves_def check_new_role_users [unfolded same_users_def] in_db_apply flush_changed_stored log_role_change_state)
  then have "preserves (\<lambda>x. stored (sess x) = stored (sess s)) (update_role req now cur role ps u :: ('r app, user_out) op)"
    unfolding update_role_def by (intro preserves_intros)
  then show ?thesis by (simp add: preserves_def)
qed

lemma update_role_keeps_admin:
  assumes "distinct (map user_id (users (work (sess s))))" and "has_admin (work (sess s))" and "u \<in> set (users (work (sess s)))"
    and "update_role req now cur role ps u s = (Inr r, t)"
  shows "has_admin (work (sess t))"
proof -
  let ?rows = "users (work (sess s))"
  obtain s1 u' where check: "check_new_role u role s = (Inr (), s1)"
    and flush: "flush_changed now u (assigned role ps u) (sess s1) = (Inr u', sess t)" by (rule update_role_Inr [OF assms(4)])
  have "users (work (sess s1)) = ?rows" using check check_new_role_users [of s u role] by (simp add: same_users_def)
  with flush_changed_rows [OF flush] assms(1,3) obtain x where
    u': "u' = (assigned role ps u)\<lparr>user_updated_at := x\<rparr>" and rows: "users (work (sess t)) = replace_row user_id u' ?rows" by auto
  obtain v where v: "v \<in> set ?rows" "is_admin v" using assms(2) by (auto simp: has_admin_def)
  show ?thesis
  proof (cases "is_admin u \<and> \<not> is_admin u'")
    case True
    then obtain r where "role = Some r" "user_role u = ''admin''" "r \<noteq> ''admin''"
      using u' by (auto simp: is_admin_def split: option.splits)
    with check_new_role_demotion [of u r s s1] check have "length (filter is_admin ?rows) \<noteq> 1" by simp
    from another_admin [OF this assms(1,3)] True obtain w where "w \<in> set ?rows" "is_admin w" "user_id w \<noteq> user_id u" by blast
    then show ?thesis using u' by (auto simp: has_admin_def rows set_replace_row)
  next
    case False
    show ?thesis
    proof (cases "user_id v = user_id u")
      case True
      with v assms(1,3) have "v = u" by (auto simp: distinct_map inj_on_def)
      with v False have "is_admin u'" by simp
      moreover have "u' \<in> set (replace_row user_id u' ?rows)" using u' assms(3) by (auto simp: set_replace_row)
      ultimately show ?thesis by (auto simp: has_admin_def rows)
    next
      case False
      with u' v show ?thesis by (auto simp: has_admin_def rows set_replace_row)
    qed
  qed
qed

text \<open>
  Property C10. Setting the role of a user never leaves the system without an administrator: if
  there was one before the request, there is one in what is committed after it, whatever the
  request, the caller and the outcome.
\<close>

theorem role_update_keeps_admin:
  assumes "distinct (map user_id (users (work (sess s))))" and "stored (sess s) = work (sess s)" and "has_admin (work (sess s))"
  shows "has_admin (stored (sess (snd (set_user_role req now uid role ps caller s))))"
  unfolding set_user_role_def
proof (rule with_db_keeps)
  let ?h = "bnd (require_role [''admin''] caller) (\<lambda>current_user. bnd (in_db (get_by_id User uid)) (\<lambda>found. case found of
        None \<Rightarrow> throw (to_http (not_found ''user'')) | Some u \<Rightarrow> update_role req now current_user role ps u))"
  have cases: "t = s \<and> (\<exists>e. q = Inl e) \<or> (\<exists>u. u \<in> set (users (work (sess s))) \<and> update_role req now caller role ps u s = (q, t))"
    if "?h s = (q, t)" for q t
  proof (cases "get_by_id User uid (sess s)")
    case (Pair found w)
    then have "w = sess s" using lookups_read(3) [of User uid "sess s"] by simp
    with that Pair show ?thesis
      by (auto simp: require_role_def bnd_apply throw_apply ret_apply in_db_apply split: if_splits sum.splits option.splits
          dest: get_by_id_row)
  qed
  show "has_admin (stored (sess t))" if "?h s = (Inl e, t)" for e t
    using cases [OF that] assms(2,3) update_role_stored [of req now caller role ps _ s] by (metis snd_conv)
  show "has_admin (work (sess t))" if "?h s = (Inr r, t)" for r t
    using cases [OF that] update_role_keeps_admin [OF assms(1,3)] by blast
qed

section \<open>The bulk update does not keep one\<close>

lemma get_live: "users_ok s \<Longrightarrow> u \<in> set (users (work s)) \<Longrightarrow> user_deleted_at u = None \<Longrightarrow>
    get_by_id User (user_id u) s = (Inr (Some u), s)"
  using filter_unique [of user_id "users (work s)" u "\<lambda>x. user_deleted_at x = None"]
  by (simp add: get_by_id_def bnd_apply select_def look_apply pure_op_apply User_def alive_def one_or_none_def users_ok_def)

lemma put_user_same:
  assumes "users_ok s" "u \<in> set (users (work s))"
  shows "put_user u s = s"
proof -
  have "replace_row user_id u (users (work s)) = users (work s)"
    using assms by (auto simp: users_ok_def replace_row_def distinct_map inj_on_def intro!: map_idI)
  then show ?thesis by (simp add: put_user_def)
qed

lemma flush_changed_run:
  assumes "users_ok s" "u \<in> set (users (work s))" "same_identity u u'"
  obtains w x where "flush_changed now u u' s = (Inr w, put_user w s)" "w = u'\<lparr>user_updated_at := x\<rparr>"
proof (cases "u' = u")
  case True
  then show thesis using that [of u "user_updated_at u"] put_user_same [OF assms(1,2)] by (simp add: flush_changed_def ret_apply)
next
  case False
  have "same_identity u (u'\<lparr>user_updated_at := Aware now\<rparr>)" using assms(3) by (simp add: same_identity_def)
  from save_user [OF assms(1,2) this] show thesis
    using that [of "u'\<lparr>user_updated_at := Aware now\<rparr>" "Aware now"] False by (simp add: flush_changed_def bnd_apply ret_apply)
qed

text \<open>The tables an entry that gives a role looks at.\<close>

definition role_tables :: "int set \<Rightarrow> 'r app \<Rightarrow> bool" where
  "role_tables is s \<longleftrightarrow> rbac_seeded s \<and> {''admin'', ''user''} \<subseteq> role_key ` set (roles (work (sess s))) \<and>
     (\<forall>l \<in> set (user_roles (work (sess s))). ur_user_id l \<notin> is)"

lemma role_checks:
  assumes "role_tables is s" "i \<in> is" "r \<in> {''admin'', ''user''}"
  shows "known_role r s = (Inr (), s)" "ensure_admins_remain None (Some i) (sess s) = (Inr (), sess s)"
proof -
  have "r \<in> role_key ` set (roles (work (sess s)))" using assms(1,3) by (auto simp: role_tables_def)
  then show "known_role r s = (Inr (), s)"
    using assms(1) by (simp add: known_role_def list_roles_def bnd_apply ensure_seed_done role_tables_def in_db_apply select_def
        look_apply ret_apply Role_def)
  have "filter (\<lambda>ur. ur_user_id ur = i) (user_roles (work (sess s))) = []"
    using assms(1,2) by (auto simp: role_tables_def filter_empty_conv)
  then show "ensure_admins_remain None (Some i) (sess s) = (Inr (), sess s)"
    by (simp add: ensure_admins_remain_def bnd_apply scalar_def select_def look_apply ret_apply UserRole_def split: option.split)
qed

definition give_role :: "user \<Rightarrow> string \<Rightarrow> bulk_entry" where
  "give_role u r = \<lparr>be_user_id = Some (user_id u), be_role = Some r, be_permissions = None\<rparr>"

lemma audit_log_jobs:
  obtains j where "audit_log who action resource details req st ok now s = (Inr (), s\<lparr>jobs := j\<rparr>)"
proof (cases "job_queue (conf s)")
  case InProcessJobQueue
  then show thesis using that by (simp add: audit_log_def queue_job_apply queued_job_def)
next
  case RedisJobQueue
  have "s = s\<lparr>jobs := jobs s\<rparr>" by simp
  with RedisJobQueue show thesis using that [of "jobs s"] by (simp add: audit_log_def queue_job_apply queued_job_def)
qed

lemma give_role_step:
  assumes "users_ok (sess s)" "u \<in> set (users (work (sess s)))" "user_deleted_at u = None" "user_permissions u \<noteq> None"
    and "role_tables is s" "user_id u \<in> is" "r \<in> {''admin'', ''user''}"
  obtains u' j where "apply_entries req now cur (give_role u r # es) s =
      bnd (apply_entries req now cur es) (\<lambda>rest. ret (entry_out u' # rest)) (s\<lparr>sess := put_user u' (sess s), jobs := j\<rparr>)"
    and "user_role u' = r" "same_identity u u'" "user_permissions u' = user_permissions u"
proof -
  let ?u = "u\<lparr>user_role := r\<rparr>"
  have new: "assigned (Some r) None u = ?u" by (simp add: assigned_def)
  have "same_identity u ?u" by (simp add: same_identity_def)
  then obtain w x where flush: "flush_changed now u ?u (sess s) = (Inr w, put_user w (sess s))" and w: "w = ?u\<lparr>user_updated_at := x\<rparr>"
    by (rule flush_changed_run [OF assms(1,2)])
  obtain ps where ps: "user_permissions u = Some ps" using assms(4) by auto
  obtain j where log: "log_role_change req now cur u ps w (s\<lparr>sess := put_user w (sess s)\<rparr>) = (Inr (), s\<lparr>sess := put_user w (sess s), jobs := j\<rparr>)"
    by (rule audit_log_jobs [of "user_actor cur" "''user.role_changed''" "''user:'' @ show_int (user_id w)"
        "JObj [(''before'', role_state (user_role u) ps), (''after'', role_state (user_role w) ps)]" "Some req" None True now
        "s\<lparr>sess := put_user w (sess s)\<rparr>"])
      (use that ps w in \<open>simp add: log_role_change_def bnd_apply pure_op_apply permission_list_def\<close>)
  have "apply_entry req now cur (give_role u r) u s = (Inr (entry_out w), s\<lparr>sess := put_user w (sess s), jobs := j\<rparr>)"
    using role_checks [OF assms(5-7)] flush log ps
    by (simp add: apply_entry_def give_role_def bnd_apply pure_op_apply permission_list_def in_db_apply new ret_apply)
  then have "apply_entries req now cur (give_role u r # es) s =
      bnd (apply_entries req now cur es) (\<lambda>rest. ret (entry_out w # rest)) (s\<lparr>sess := put_user w (sess s), jobs := j\<rparr>)"
    using get_live [OF assms(1-3)] by (simp add: bnd_apply in_db_apply entry_user_def give_role_def)
  then show thesis by (rule that) (simp_all add: w same_identity_def)
qed
lemma role_tables_put: "role_tables is (s\<lparr>sess := put_user w (sess s), jobs := j\<rparr>) = role_tables is s"
  by (simp add: role_tables_def put_user_def)

lemma put_user_other:
  assumes "x \<in> set (users (work s))" "user_id x \<noteq> user_id w"
  shows "x \<in> set (users (work (put_user w s)))"
  using assms by (auto simp: put_user_def set_replace_row)

lemma put_user_rows: "x \<in> set (users (work (put_user w s))) \<Longrightarrow> x = w \<or> x \<in> set (users (work s)) \<and> user_id x \<noteq> user_id w"
  by (auto simp: put_user_def set_replace_row split: if_splits)

lemma cons_rest: "m s = (Inr x, t) \<Longrightarrow> bnd m (\<lambda>rest. ret (y # rest)) s = (Inr (y # x), t)"
  by (simp add: bnd_apply ret_apply)

text \<open>
  The bulk update can remove the last administrator, although it refuses to: it
  counts an entry that promotes a user even when a later entry of the same request demotes that
  user again. With one administrator \<open>a\<close> and any other user \<open>b\<close>, the request that makes \<open>b\<close> an
  administrator, then a user, then \<open>a\<close> a user is accepted, and nobody is left.
\<close>

theorem bulk_update_removes_last_admin:
  assumes ok: "users_ok (sess s)" and caller: "user_is_superuser caller \<or> user_role caller = ''admin''"
    and a: "a \<in> set (users (work (sess s)))" "is_admin a" "user_permissions a \<noteq> None"
    and b: "b \<in> set (users (work (sess s)))" "user_role b = ''user''" "user_deleted_at b = None" "user_permissions b \<noteq> None"
    and only: "\<forall>x \<in> set (users (work (sess s))). is_admin x \<longrightarrow> x = a"
    and tables: "role_tables {user_id a, user_id b} s"
  shows "\<exists>out t. bulk_set_user_roles req now [give_role b ''admin'', give_role b ''user'', give_role a ''user''] caller s = (Inr out, t) \<and>
    \<not> has_admin (stored (sess t))"
proof -
  have live: "user_deleted_at a = None" "user_role a = ''admin''" using a(2) by (simp_all add: is_admin_def)
  have ids: "user_id a \<noteq> user_id b"
    using ok a(1) b(1,2) live(2) by (auto simp: users_ok_def distinct_map inj_on_def)
  obtain b1 j1 where 1: "apply_entries req now caller [give_role b ''admin'', give_role b ''user'', give_role a ''user''] s =
      bnd (apply_entries req now caller [give_role b ''user'', give_role a ''user'']) (\<lambda>rest. ret (entry_out b1 # rest))
        (s\<lparr>sess := put_user b1 (sess s), jobs := j1\<rparr>)" "user_role b1 = ''admin''" "same_identity b b1" "user_permissions b1 = user_permissions b"
    by (rule give_role_step [OF ok b(1,3,4) tables, where r = "''admin''" and req = req and now = now and cur = caller
        and es = "[give_role b ''user'', give_role a ''user'']"]) (simp, simp, erule (3) that)
  have perm1: "user_permissions b1 \<noteq> None" using 1(4) b(4) by simp
  let ?s1 = "s\<lparr>sess := put_user b1 (sess s), jobs := j1\<rparr>"
  have idb: "user_id b1 = user_id b" "user_deleted_at b1 = None" using 1(3) b(3) by (simp_all add: same_identity_def)
  have s1: "users_ok (sess ?s1)" "b1 \<in> set (users (work (sess ?s1)))" using put_user_ok [OF ok b(1) 1(3)] by simp_all
  have t1: "role_tables {user_id a, user_id b} ?s1" using tables by (simp add: role_tables_put)
  obtain b2 j2 where 2: "apply_entries req now caller [give_role b1 ''user'', give_role a ''user''] ?s1 =
      bnd (apply_entries req now caller [give_role a ''user'']) (\<lambda>rest. ret (entry_out b2 # rest))
        (?s1\<lparr>sess := put_user b2 (sess ?s1), jobs := j2\<rparr>)" "user_role b2 = ''user''" "same_identity b1 b2" "user_permissions b2 = user_permissions b1"
    by (rule give_role_step [OF s1 idb(2) perm1 t1, where r = "''user''" and req = req and now = now and cur = caller
        and es = "[give_role a ''user'']"]) (simp add: idb, simp, erule (3) that)
  let ?s2 = "?s1\<lparr>sess := put_user b2 (sess ?s1), jobs := j2\<rparr>"
  have same: "give_role b1 ''user'' = give_role b ''user''" by (simp add: give_role_def idb)
  have idb2: "user_id b2 = user_id b" using 2(3) idb by (simp add: same_identity_def)
  have s2: "users_ok (sess ?s2)" using put_user_ok [OF s1 2(3)] by simp
  have a2: "a \<in> set (users (work (sess ?s2)))"
    using put_user_other [OF put_user_other [OF a(1)], of b1 b2] ids idb idb2 by simp
  have t2: "role_tables {user_id a, user_id b} ?s2" using t1 by (subst role_tables_put)
  obtain a3 j3 where 3: "apply_entries req now caller [give_role a ''user''] ?s2 =
      bnd (apply_entries req now caller []) (\<lambda>rest. ret (entry_out a3 # rest))
        (?s2\<lparr>sess := put_user a3 (sess ?s2), jobs := j3\<rparr>)" "user_role a3 = ''user''" "same_identity a a3" "user_permissions a3 = user_permissions a"
    by (rule give_role_step [OF s2 a2 live(1) a(3) t2, where r = "''user''" and req = req and now = now and cur = caller
        and es = "[]"]) (simp, simp, erule (3) that)
  let ?s3 = "?s2\<lparr>sess := put_user a3 (sess ?s2), jobs := j3\<rparr>"
  have r3: "apply_entries req now caller [give_role a ''user''] ?s2 = (Inr [entry_out a3], ?s3)"
    unfolding 3(1) by (rule cons_rest) (simp add: ret_apply)
  have r2: "apply_entries req now caller [give_role b ''user'', give_role a ''user''] ?s1 = (Inr [entry_out b2, entry_out a3], ?s3)"
    unfolding same [symmetric] 2(1) by (rule cons_rest, rule r3)
  have run: "apply_entries req now caller [give_role b ''admin'', give_role b ''user'', give_role a ''user''] s =
      (Inr [entry_out b1, entry_out b2, entry_out a3], ?s3)"
    unfolding 1(1) by (rule cons_rest, rule r2)
  have none: "\<not> is_admin x" if "x \<in> set (users (work (sess ?s3)))" for x
  proof -
    have "user_id a3 = user_id a" using 3(3) by (simp add: same_identity_def)
    from that have "x = a3 \<or> x = b2 \<or> x = b1 \<and> user_id x \<noteq> user_id b2 \<or> x \<in> set (users (work (sess s))) \<and> user_id x \<noteq> user_id a3"
      using put_user_rows [of x a3 "sess ?s2"] put_user_rows [of x b2 "sess ?s1"] put_user_rows [of x b1 "sess s"] by auto
    then show ?thesis
      using 3(2) 2(2) only idb idb2 \<open>user_id a3 = user_id a\<close> by (auto simp: is_admin_def)
  qed
  have role: "require_role [''admin''] caller s = (Inr caller, s)" using caller by (auto simp: require_role_def ret_apply)
  have count: "total_admins (sess s) = (Inr (length (admins (sess s))), sess s)" by (rule total_admins_apply)
  have "admins (sess s) = [a]"
  proof -
    have "admins (sess s) = filter (\<lambda>x. user_id x = user_id a \<and> is_admin x) (users (work (sess s)))"
      unfolding admins_def using only by (auto intro!: filter_cong)
    with filter_unique [of user_id "users (work (sess s))" a is_admin] ok a(1,2) show ?thesis by (simp add: users_ok_def)
  qed
  moreover have "balance [give_role b ''admin'', give_role b ''user'', give_role a ''user''] (sess s) = (Inr 0, sess s)"
    using get_live [OF ok b(1,3)] get_live [OF ok a(1) live(1)] b(2) live(2)
    by (simp add: bnd_apply entry_user_def give_role_def ret_apply promotion_def demotion_def)
  ultimately have "bulk_set_user_roles req now [give_role b ''admin'', give_role b ''user'', give_role a ''user''] caller s =
      (Inr [entry_out b1, entry_out b2, entry_out a3], ?s3\<lparr>sess := (sess ?s3)\<lparr>stored := work (sess ?s3)\<rparr>\<rparr>)"
    using role count run
    by (simp add: bulk_set_user_roles_def with_db_apply bnd_apply in_db_apply del: apply_entries.simps balance.simps)
  with none show ?thesis by (auto simp: has_admin_def)
qed

section \<open>A small instance for the witnesses\<close>

definition demo_admin :: user where
  "demo_admin = demo_user\<lparr>user_role := ''admin''\<rparr>"

definition demo_other :: user where
  "demo_other = demo_user\<lparr>user_id := 8, user_email := ''o@b.c'', user_username := ''oli''\<rparr>"

definition demo_role :: "int \<Rightarrow> string \<Rightarrow> role" where
  "demo_role i k = \<lparr>role_id = i, role_key = k, role_name = k, role_description = None, role_is_system = True\<rparr>"

definition demo_staff :: "(string \<Rightarrow> pyval option) app" where
  "demo_staff = (demo_app (empty_db\<lparr>users := [demo_admin, demo_other],
     roles := [demo_role 1 ''admin'', demo_role 2 ''user'']\<rparr>))\<lparr>rbac_seeded := True\<rparr>"

lemma demo_staff_users: "users (work (sess demo_staff)) = [demo_admin, demo_other]" "stored (sess demo_staff) = work (sess demo_staff)"
  "users_ok (sess demo_staff)" "is_admin demo_admin" "\<not> is_admin demo_other" "role_tables {user_id demo_admin, user_id demo_other} demo_staff"
  by (simp_all add: demo_staff_def demo_app_def users_ok_def demo_admin_def demo_other_def demo_user_def is_admin_def role_tables_def
      demo_role_def empty_db_def)

theorem bulk_update_removes_last_admin_witness:
  "\<exists>out t. bulk_set_user_roles demo_request 5 [give_role demo_other ''admin'', give_role demo_other ''user'', give_role demo_admin ''user'']
      (principal_of demo_admin None None) demo_staff = (Inr out, t) \<and> \<not> has_admin (stored (sess t))"
  by (rule bulk_update_removes_last_admin [OF demo_staff_users(3) _ _ demo_staff_users(4) _ _ _ _ _ _ demo_staff_users(6)])
    (simp_all add: demo_staff_users demo_admin_def demo_other_def demo_user_def principal_of_def user.defs is_admin_def)

theorem role_update_keeps_admin_witness:
  "has_admin (stored (sess (snd (set_user_role demo_request 5 7 (Some ''user'') None (principal_of demo_admin None None) demo_staff))))"
  by (rule role_update_keeps_admin)
    (use demo_staff_users in \<open>auto simp: users_ok_def has_admin_def\<close>)

end
