(* ===== verification/Products.thy ===== *)
theory Products
  imports UsersApi "HOL-Library.List_Lexorder" "HOL-Library.Char_ord"
begin

text \<open>
  Products: the price of \<open>backend/domain/products/model.py\<close>, the filters, order and pages of
  \<open>repository.py\<close>, \<open>service.py\<close>, the use cases of \<open>backend/application/products/use_cases.py\<close> and
  the routes of \<open>backend/app/api/v1/products/router.py\<close>.

  Floats are reals; the rounding of a floating point operation is the parameter \<open>rnd\<close>, of which a
  result needs that its relative error is at most \<open>2^-53\<close> (IEEE 754 doubles, \<open>rounds_well\<close>). Texts are
  ordered by their characters (the C collation of the database), and rows that a sort leaves equal
  stay in the order of their insertion. The lengths of the text columns and the 32 bits of the
  price column are not modelled.
\<close>

section \<open>Prices\<close>

text \<open>\<open>round(x)\<close>: to the nearest integer, ties to the even one.\<close>

definition py_round :: "real \<Rightarrow> int" where
  "py_round x = (let n = \<lfloor>x\<rfloor>; f = x - of_int n in
     if f < 1 / 2 then n else if f > 1 / 2 then n + 1 else if even n then n else n + 1)"

definition price :: "(real \<Rightarrow> real) \<Rightarrow> int \<Rightarrow> real" where
  "price rnd cents = rnd (of_int cents / 100)"

definition cents_of :: "(real \<Rightarrow> real) \<Rightarrow> real \<Rightarrow> int" where
  "cents_of rnd value = py_round (rnd (value * 100))"

section \<open>Finding products\<close>

text \<open>A pattern of \<open>LIKE\<close>: \<open>%\<close> any text, \<open>_\<close> any character, a backslash takes the next one literally.\<close>

fun like_matches :: "string \<Rightarrow> string \<Rightarrow> bool" where
  "like_matches [] t = (t = [])"
| "like_matches (c # p) t =
     (if c = CHR ''%'' then like_matches p t \<or> (case t of [] \<Rightarrow> False | _ # t' \<Rightarrow> like_matches (c # p) t')
      else if c = CHR ''_'' then (case t of [] \<Rightarrow> False | _ # t' \<Rightarrow> like_matches p t')
      else if c = CHR 0x5C then (case p of [] \<Rightarrow> False | d # p' \<Rightarrow> (case t of [] \<Rightarrow> False | e # t' \<Rightarrow> d = e \<and> like_matches p' t'))
      else (case t of [] \<Rightarrow> False | e # t' \<Rightarrow> c = e \<and> like_matches p t'))"

definition ilike :: "string \<Rightarrow> string \<Rightarrow> bool" where
  "ilike p t = like_matches (lower p) (lower t)"

text \<open>The \<open>WHERE\<close> of \<open>_build_filter_query\<close>; comparing a null description gives no row.\<close>

definition found_by :: "string option \<Rightarrow> product \<Rightarrow> bool" where
  "found_by search p \<longleftrightarrow> product_deleted_at p = None \<and>
     (blank search \<or> (let term = ''%'' @ lower (the search) @ ''%'' in
        ilike term (product_name p) \<or> (case product_description p of None \<Rightarrow> False | Some d \<Rightarrow> ilike term d)))"

text \<open>The value of the column a list is sorted by.\<close>

datatype sort_value = ByNumber int | ByText string

fun sort_le :: "sort_value \<Rightarrow> sort_value \<Rightarrow> bool" where
  "sort_le (ByNumber a) (ByNumber b) = (a \<le> b)"
| "sort_le (ByText a) (ByText b) = (a \<le> b)"
| "sort_le (ByNumber a) (ByText b) = True"
| "sort_le (ByText a) (ByNumber b) = False"

instantiation sort_value :: linorder
begin

definition less_eq_sort_value :: "sort_value \<Rightarrow> sort_value \<Rightarrow> bool" where
  "less_eq_sort_value = sort_le"

definition less_sort_value :: "sort_value \<Rightarrow> sort_value \<Rightarrow> bool" where
  "less_sort_value a b \<longleftrightarrow> sort_le a b \<and> \<not> sort_le b a"

instance
proof
  fix a b c :: sort_value
  show "(a < b) = (a \<le> b \<and> \<not> b \<le> a)" by (simp add: less_eq_sort_value_def less_sort_value_def)
  show "a \<le> a" by (cases a) (simp_all add: less_eq_sort_value_def)
  show "a \<le> c" if "a \<le> b" "b \<le> c" using that by (cases a; cases b; cases c) (auto simp: less_eq_sort_value_def)
  show "a = b" if "a \<le> b" "b \<le> a" using that by (cases a; cases b) (auto simp: less_eq_sort_value_def)
  show "a \<le> b \<or> b \<le> a" by (cases a; cases b) (auto simp: less_eq_sort_value_def)
qed

end

definition column :: "string option \<Rightarrow> product \<Rightarrow> sort_value" where
  "column sort_by p = (case sort_by of
     None \<Rightarrow> ByNumber (product_id p)
   | Some c \<Rightarrow>
       if c = ''name'' then ByText (product_name p)
       else if c = ''price'' then ByNumber (product_price_cents p)
       else if c = ''created_at'' then ByNumber (dt_value (product_created_at p))
       else if c = ''updated_at'' then ByNumber (dt_value (product_updated_at p))
       else ByNumber (product_id p))"

definition ordered :: "string option \<Rightarrow> string \<Rightarrow> product list \<Rightarrow> product list" where
  "ordered sort_by order rows = (if lower order = ''desc'' then rev (sort_key (column sort_by) (rev rows)) else sort_key (column sort_by) rows)"

definition list_with_filters :: "string option \<Rightarrow> nat \<Rightarrow> nat \<Rightarrow> string option \<Rightarrow> string \<Rightarrow> (session, product list) op" where
  "list_with_filters search skip limit sort_by order =
     bnd (select Product (found_by search)) (\<lambda>rows. ret (page_of skip limit (ordered sort_by order rows)))"

definition count_with_filters :: "string option \<Rightarrow> (session, nat) op" where
  "count_with_filters search = bnd (select Product (found_by search)) (\<lambda>rows. ret (length rows))"

definition get_by_name :: "string \<Rightarrow> (session, product option) op" where
  "get_by_name name = bnd (select Product (\<lambda>p. product_name p = name)) (\<lambda>result. pure_op (one_or_none result))"

section \<open>The service and the use cases\<close>

definition create_product_row :: "(real \<Rightarrow> real) \<Rightarrow> int \<Rightarrow> string \<Rightarrow> real \<Rightarrow> string option \<Rightarrow> (session, product) op" where
  "create_product_row rnd now name value description = db_insert Product
     \<lparr>product_id = 0, product_name = name, product_description = description, product_price_cents = cents_of rnd value,
      product_created_at = Aware now, product_updated_at = Aware now, product_deleted_at = None\<rparr>"

definition update_product_row :: "(real \<Rightarrow> real) \<Rightarrow> int \<Rightarrow> product \<Rightarrow> string option \<Rightarrow> real option \<Rightarrow> string option \<Rightarrow> (session, product) op" where
  "update_product_row rnd now p name value description =
     (let p1 = (case name of None \<Rightarrow> p | Some n \<Rightarrow> p\<lparr>product_name := n\<rparr>);
          p2 = (case value of None \<Rightarrow> p1 | Some v \<Rightarrow> p1\<lparr>product_price_cents := cents_of rnd v\<rparr>);
          p3 = (case description of None \<Rightarrow> p2 | Some d \<Rightarrow> p2\<lparr>product_description := Some d\<rparr>);
          p4 = p3\<lparr>product_updated_at := Aware now\<rparr>
      in bnd (db_save Product p4) (\<lambda>_. ret p4))"

definition delete_product_row :: "int \<Rightarrow> product \<Rightarrow> (session, unit) op" where
  "delete_product_row now p = db_save Product (p\<lparr>product_deleted_at := Some (Aware now), product_updated_at := Aware now\<rparr>)"

record product_create =
  pc_name :: string
  pc_description :: "string option"
  pc_price :: real

record product_update =
  pu_name :: "string option option"
  pu_description :: "string option option"
  pu_price :: "real option option"

definition make_product_create :: "string \<Rightarrow> string option \<Rightarrow> real \<Rightarrow> exn + product_create" where
  "make_product_create name description value =
     (if name = [] then Inl (invalid_field ''name'')
      else if \<not> 0 < value then Inl (invalid_field ''price'')
      else Inr \<lparr>pc_name = name, pc_description = description, pc_price = value\<rparr>)"

definition make_product_update :: "product_update \<Rightarrow> exn + product_update" where
  "make_product_update raw =
     bind_sum (check_set (\<lambda>n. if n = [] then Inl (invalid_field ''name'') else Inr n) (pu_name raw)) (\<lambda>_.
     bind_sum (check_set (\<lambda>v. if \<not> 0 < v then Inl (invalid_field ''price'') else Inr v) (pu_price raw)) (\<lambda>_.
     Inr raw))"

record product_out =
  po_id :: int
  po_name :: string
  po_description :: "string option"
  po_price :: real
  po_created_at :: datetime
  po_updated_at :: datetime

definition product_view :: "(real \<Rightarrow> real) \<Rightarrow> product \<Rightarrow> product_out" where
  "product_view rnd p = \<lparr>po_id = product_id p, po_name = product_name p, po_description = product_description p,
     po_price = price rnd (product_price_cents p), po_created_at = product_created_at p, po_updated_at = product_updated_at p\<rparr>"

definition create_product_use_case :: "(real \<Rightarrow> real) \<Rightarrow> int \<Rightarrow> product_create \<Rightarrow> (session, product_out) op" where
  "create_product_use_case rnd now payload =
     bnd (get_by_name (pc_name payload)) (\<lambda>existing.
       if existing \<noteq> None then throw (duplicate ''product'' None)
       else bnd (create_product_row rnd now (pc_name payload) (pc_price payload) (pc_description payload)) (\<lambda>p.
         ret (product_view rnd p)))"

text \<open>A field that is unset reads as its default, null.\<close>

definition unset_null :: "'a option option \<Rightarrow> 'a option" where
  "unset_null v = (case v of None \<Rightarrow> None | Some x \<Rightarrow> x)"

definition update_product_use_case :: "(real \<Rightarrow> real) \<Rightarrow> int \<Rightarrow> int \<Rightarrow> product_update \<Rightarrow> (session, product_out) op" where
  "update_product_use_case rnd now i payload =
     bnd (get_by_id Product i) (\<lambda>found. case found of
       None \<Rightarrow> throw (not_found ''product'')
     | Some p \<Rightarrow> bnd (update_product_row rnd now p (unset_null (pu_name payload)) (unset_null (pu_price payload))
           (unset_null (pu_description payload))) (\<lambda>p'. ret (product_view rnd p')))"

section \<open>The routes\<close>

definition emit :: "string \<Rightarrow> json \<Rightarrow> string \<Rightarrow> ('r app, unit) op" where
  "emit name data room = modify (\<lambda>s. s\<lparr>emitted := emitted s @ [(name, data, room)]\<rparr>)"

definition product_out_json :: "(datetime \<Rightarrow> string) \<Rightarrow> product_out \<Rightarrow> json" where
  "product_out_json fmt p = JObj [(''created_at'', JStr (fmt (po_created_at p))), (''updated_at'', JStr (fmt (po_updated_at p))),
     (''id'', JInt (po_id p)), (''name'', JStr (po_name p)), (''description'', opt_text (po_description p)), (''price'', JFloat (po_price p))]"

fun float_of :: "json \<Rightarrow> real option" where
  "float_of (JFloat x) = Some x"
| "float_of (JInt n) = Some (of_int n)"
| "float_of _ = None"

fun opt_text_of :: "json \<Rightarrow> string option option" where
  "opt_text_of JNull = Some None"
| "opt_text_of (JStr t) = Some (Some t)"
| "opt_text_of _ = None"

definition product_out_of_json :: "(string \<Rightarrow> datetime option) \<Rightarrow> json \<Rightarrow> exn + product_out" where
  "product_out_of_json of_iso v = (case v of
     JObj p \<Rightarrow> (let field = (\<lambda>k. payload_get p k JNull) in
       (case (Option.bind (text_of (field ''created_at'')) of_iso, Option.bind (text_of (field ''updated_at'')) of_iso,
              int_of (field ''id''), text_of (field ''name''), opt_text_of (field ''description''), float_of (field ''price'')) of
          (Some ca, Some ua, Some i, Some n, Some d, Some x) \<Rightarrow>
            Inr \<lparr>po_id = i, po_name = n, po_description = d, po_price = x, po_created_at = ca, po_updated_at = ua\<rparr>
        | _ \<Rightarrow> Inl (ValueError ''ProductOut'')))
   | _ \<Rightarrow> Inl (ValueError ''ProductOut''))"

definition list_products :: "(real \<Rightarrow> real) \<Rightarrow> string option \<Rightarrow> nat \<Rightarrow> nat \<Rightarrow> string option \<Rightarrow> string \<Rightarrow> ('r app, product_out paginated) op" where
  "list_products rnd search skip limit sort_by order = with_db
     (bnd (in_db (list_with_filters search skip limit sort_by order)) (\<lambda>rows.
      bnd (in_db (count_with_filters search)) (\<lambda>n.
      ret \<lparr>page_data = map (product_view rnd) rows, page_number = skip div limit + 1, page_size = limit, page_total = n,
           page_pages = (n + limit - 1) div limit\<rparr>)))"

definition read_product :: "(real \<Rightarrow> real) \<Rightarrow> int \<Rightarrow> ('r app, product_out) op" where
  "read_product rnd i = with_db (bnd (in_db (get_by_id Product i)) (\<lambda>found. case found of
     None \<Rightarrow> throw (to_http (not_found ''product''))
   | Some p \<Rightarrow> ret (product_view rnd p)))"

definition product_key :: "string \<Rightarrow> string" where
  "product_key k = ''products:create:'' @ k"

definition create_product :: "(real \<Rightarrow> real) \<Rightarrow> 'r api_env \<Rightarrow> int \<Rightarrow> request \<Rightarrow> product_create \<Rightarrow> string option \<Rightarrow> principal \<Rightarrow> ('r app, product_out) op" where
  "create_product rnd ae now req payload k caller = with_db
     (bnd (require_role [''admin'', ''staff''] caller) (\<lambda>current_user.
      bnd (if blank k then ret None else store_get (ae_redis ae) (ae_parse_float ae) (product_key (the k))) (\<lambda>cached. case cached of
        Some v \<Rightarrow> pure_op (product_out_of_json (ae_of_iso ae) v)
      | None \<Rightarrow> http_errors
          (bnd (in_db (create_product_use_case rnd now payload)) (\<lambda>p.
           bnd (emit ''product_created'' (JObj [(''message'', JStr ''product created''),
             (''data'', JObj [(''id'', JInt (po_id p)), (''name'', JStr (po_name p))])]) ''authenticated'') (\<lambda>_.
           bnd (audit_log (user_actor current_user) ''product.created'' (''products:'' @ show_int (po_id p))
             (JObj [(''name'', JStr (po_name p))]) (Some req) (Some 201) True now) (\<lambda>_.
           bnd (if blank k then ret () else store_set (ae_redis ae) (ae_float ae) (product_key (the k)) (product_out_json (ae_iso ae) p)) (\<lambda>_.
           ret p)))))))) "

definition product_changes :: "product_update \<Rightarrow> payload" where
  "product_changes p = opt_change ''name'' JStr (pu_name p) @ opt_change ''description'' JStr (pu_description p) @
     opt_change ''price'' JFloat (pu_price p)"

definition update_product :: "(real \<Rightarrow> real) \<Rightarrow> int \<Rightarrow> request \<Rightarrow> int \<Rightarrow> product_update \<Rightarrow> principal \<Rightarrow> ('r app, product_out) op" where
  "update_product rnd now req i payload caller = with_db
     (bnd (require_role [''admin'', ''staff''] caller) (\<lambda>current_user.
      http_errors
        (bnd (in_db (update_product_use_case rnd now i payload)) (\<lambda>updated.
         bnd (audit_log (user_actor current_user) ''product.updated'' (''products:'' @ show_int i)
           (JObj [(''changes'', JObj (product_changes payload))]) (Some req) (Some 200) True now) (\<lambda>_.
         ret updated)))))"

definition delete_product :: "int \<Rightarrow> request \<Rightarrow> int \<Rightarrow> principal \<Rightarrow> ('r app, unit) op" where
  "delete_product now req i caller = with_db
     (bnd (require_role [''admin'', ''staff''] caller) (\<lambda>current_user.
      bnd (in_db (get_by_id Product i)) (\<lambda>found. case found of
        None \<Rightarrow> throw (to_http (not_found ''product''))
      | Some p \<Rightarrow> bnd (in_db (delete_product_row now p)) (\<lambda>_.
          audit_log (user_actor current_user) ''product.deleted'' (''products:'' @ show_int i)
            (JObj [(''name'', JStr (product_name p))]) (Some req) (Some 204) True now))))"

section \<open>A price survives\<close>

definition rounds_well :: "(real \<Rightarrow> real) \<Rightarrow> bool" where
  "rounds_well rnd \<longleftrightarrow> (\<forall>x. \<bar>rnd x - x\<bar> \<le> \<bar>x\<bar> / 2 ^ 53)"

lemma py_round_near:
  assumes "\<bar>x - of_int n\<bar> < 1 / 2"
  shows "py_round x = n"
proof (cases "of_int n \<le> x")
  case True
  then have "\<lfloor>x\<rfloor> = n" using assms by (intro floor_unique) auto
  then show ?thesis using assms True by (simp add: py_round_def Let_def)
next
  case False
  then have "\<lfloor>x\<rfloor> = n - 1" using assms by (intro floor_unique) auto
  then show ?thesis using assms False by (simp add: py_round_def Let_def)
qed

text \<open>
  A price that fits the column survives the float: the cents stored for the price a
  product shows are the cents it has, although showing and storing each round a division and a
  product.
\<close>

theorem price_roundtrip:
  assumes "rounds_well rnd" and "\<bar>cents\<bar> \<le> 2 ^ 31"
  shows "cents_of rnd (price rnd cents) = cents"
proof -
  let ?c = "of_int cents :: real"
  define p where "p = price rnd cents"
  define e :: real where "e = 1 / 2 ^ 53"
  have c: "\<bar>?c\<bar> \<le> 2 ^ 31" using assms(2) by (metis of_int_abs of_int_le_iff of_int_numeral of_int_power)
  have 1: "\<bar>p - ?c / 100\<bar> \<le> \<bar>?c / 100\<bar> * e"
    using assms(1) unfolding rounds_well_def p_def price_def e_def times_divide_eq_right mult_1_right by blast
  have 2: "\<bar>rnd (p * 100) - p * 100\<bar> \<le> \<bar>p * 100\<bar> * e"
    using assms(1) unfolding rounds_well_def e_def times_divide_eq_right mult_1_right by blast
  have 3: "\<bar>p * 100 - ?c\<bar> \<le> \<bar>?c\<bar> * e" using 1 by (simp add: abs_if field_simps split: if_splits)
  have small: "\<bar>?c\<bar> * e \<le> 1 / 8" using c by (simp add: e_def field_simps)
  have "\<bar>p * 100\<bar> \<le> 2 ^ 31 + 1" using 3 small c by (simp add: abs_if split: if_splits)
  then have "\<bar>p * 100\<bar> * e \<le> 1 / 8" by (simp add: e_def field_simps)
  with 2 3 small have "\<bar>rnd (p * 100) - ?c\<bar> < 1 / 2" by linarith
  then show ?thesis by (simp add: cents_of_def p_def py_round_near)
qed

theorem price_roundtrip_witness: "cents_of (\<lambda>x. x) (price (\<lambda>x. x) 1999) = 1999"
  by (rule price_roundtrip) (simp_all add: rounds_well_def)
section \<open>Searching and listing\<close>

definition plain_text :: "string \<Rightarrow> bool" where
  "plain_text s \<longleftrightarrow> CHR ''%'' \<notin> set s \<and> CHR ''_'' \<notin> set s \<and> CHR 0x5C \<notin> set s"

lemma like_any: "like_matches (CHR ''%'' # p) t \<longleftrightarrow> (\<exists>a b. t = a @ b \<and> like_matches p b)"
proof (induction t)
  case Nil
  then show ?case by simp
next
  case (Cons c t)
  have "like_matches (CHR ''%'' # p) (c # t) \<longleftrightarrow> like_matches p (c # t) \<or> (\<exists>a b. t = a @ b \<and> like_matches p b)"
    using Cons by simp
  then show ?case by (auto simp: Cons_eq_append_conv)
qed

lemma like_plain: "plain_text s \<Longrightarrow> like_matches (s @ p) t \<longleftrightarrow> (\<exists>b. t = s @ b \<and> like_matches p b)"
proof (induction s arbitrary: t)
  case (Cons c s)
  then show ?case by (cases t) (auto simp: plain_text_def)
qed simp

text \<open>\<open>s\<close> occurs in \<open>t\<close>, whatever the case of the letters.\<close>

definition occurs :: "string \<Rightarrow> string \<Rightarrow> bool" where
  "occurs s t \<longleftrightarrow> (\<exists>a b. lower t = a @ lower s @ b)"

lemma ilike_occurs:
  assumes "plain_text (lower s)"
  shows "ilike (CHR ''%'' # lower s @ ''%'') t \<longleftrightarrow> occurs s t"
proof -
  have "lower (CHR ''%'' # lower s @ ''%'') = lower ''%'' @ lower (lower s) @ lower ''%''"
    using lower_append [of "''%''" "lower s @ ''%''"] lower_append [of "lower s" "''%''"] by simp
  also have "\<dots> = CHR ''%'' # lower s @ ''%''" by (simp add: lower_idem) (simp add: lower_def lower_char_def)
  finally have "ilike (CHR ''%'' # lower s @ ''%'') t \<longleftrightarrow> like_matches (CHR ''%'' # lower s @ ''%'') (lower t)"
    by (simp only: ilike_def)
  moreover have "like_matches ''%'' b" for b using like_any [of "[]" b] by simp
  ultimately show ?thesis
    using like_any [of "lower s @ ''%''" "lower t"] like_plain [OF assms, of "''%''"]
    by (auto simp: occurs_def simp del: like_matches.simps)
qed


definition sorted_by :: "string option \<Rightarrow> string \<Rightarrow> product list \<Rightarrow> bool" where
  "sorted_by c order rows \<longleftrightarrow> sorted_wrt (\<lambda>p q. if lower order = ''desc'' then column c q \<le> column c p else column c p \<le> column c q) rows"

lemma ordered_sorted: "sorted_by c order (ordered c order rows)" and mset_ordered: "mset (ordered c order rows) = mset rows"
proof -
  have up: "sorted_wrt (\<lambda>p q. column c p \<le> column c q) (sort_key (column c) xs)" for xs
    using sorted_sort_key [of "column c" xs] by (simp add: sorted_map)
  then show "sorted_by c order (ordered c order rows)"
    by (simp add: sorted_by_def ordered_def sorted_wrt_rev)
  show "mset (ordered c order rows) = mset rows" by (simp add: ordered_def)
qed

text \<open>
  The pages of a product list make up one list: it holds every product the search
  finds, each once, sorted by the column and in the direction asked for; page after page it is
  read from end to end, and the total the route reports is its length.
\<close>

theorem product_pages_cover:
  assumes "0 < limit"
  shows "\<exists>rows. mset rows = mset (filter (found_by search) (products (work s))) \<and> sorted_by sort_by order rows \<and>
    (\<forall>skip. list_with_filters search skip limit sort_by order s = (Inr (page_of skip limit rows), s)) \<and>
    concat (map (\<lambda>skip. page_of skip limit rows) (page_starts limit (length rows))) = rows \<and>
    count_with_filters search s = (Inr (length rows), s)"
proof -
  let ?rows = "ordered sort_by order (filter (found_by search) (products (work s)))"
  have len: "length ?rows = length (filter (found_by search) (products (work s)))"
    by (metis mset_ordered size_mset)
  show ?thesis
    using pages_cover [OF assms, of ?rows]
    by (intro exI [of _ ?rows])
      (simp add: len mset_ordered ordered_sorted list_with_filters_def count_with_filters_def bnd_apply select_def
        look_apply ret_apply Product_def)
qed
lemma one_or_none_two: "x \<in> set rows \<Longrightarrow> y \<in> set rows \<Longrightarrow> x \<noteq> y \<Longrightarrow> one_or_none rows = Inl MultipleResultsFound"
  by (auto simp: one_or_none_def split: list.split)

text \<open>
  Renaming is not checked: a product can be renamed to a name another one has, and
  from then on creating a product of that name fails with \<open>MultipleResultsFound\<close> (a 500) where a
  conflict was meant, whether or not the two are deleted later.
\<close>

theorem rename_breaks_creation:
  assumes "distinct (map product_id (products (work s)))" and "p \<in> set (products (work s))" and "q \<in> set (products (work s))"
    and "product_id p \<noteq> product_id q" and "product_deleted_at q = None" and "pc_name new = product_name p"
  shows "\<exists>o' t. update_product_use_case rnd now (product_id q)
      \<lparr>pu_name = Some (Some (product_name p)), pu_description = None, pu_price = None\<rparr> s = (Inr o', t) \<and>
    fst (create_product_use_case rnd now new t) = Inl MultipleResultsFound"
proof -
  let ?q = "q\<lparr>product_name := product_name p, product_updated_at := Aware now\<rparr>"
  let ?rows = "replace_row product_id ?q (products (work s))"
  let ?t = "s\<lparr>work := (work s)\<lparr>products := ?rows\<rparr>\<rparr>"
  have "filter (\<lambda>r. product_id r = product_id q \<and> product_deleted_at r = None) (products (work s)) = [q]"
    using filter_unique [OF assms(1,3), of "\<lambda>r. product_deleted_at r = None"] assms(5) by simp
  then have run: "update_product_use_case rnd now (product_id q)
      \<lparr>pu_name = Some (Some (product_name p)), pu_description = None, pu_price = None\<rparr> s = (Inr (product_view rnd ?q), ?t)"
    by (simp add: update_product_use_case_def get_by_id_def bnd_apply select_def look_apply pure_op_apply one_or_none_def Product_def
        alive_def update_product_row_def unset_null_def db_save_def violates_def ret_apply Let_def)
  have two: "p \<in> set ?rows" "?q \<in> set ?rows"
    using assms(2-4) by (auto simp: set_replace_row)
  have "product_id p \<noteq> product_id ?q" using assms(4) by simp
  then have differ: "p \<noteq> ?q" by metis
  have "one_or_none (filter (\<lambda>r. product_name r = product_name p) ?rows) = Inl MultipleResultsFound"
    by (rule one_or_none_two [OF _ _ differ]) (use two in simp_all)
  then have "fst (create_product_use_case rnd now new ?t) = Inl MultipleResultsFound"
    using assms(6) by (simp add: create_product_use_case_def get_by_name_def bnd_apply select_def look_apply pure_op_apply Product_def)
  with run show ?thesis by blast
qed

definition demo_product :: "int \<Rightarrow> string \<Rightarrow> product" where
  "demo_product i n = \<lparr>product_id = i, product_name = n, product_description = Some ''Blue'', product_price_cents = 999,
     product_created_at = Aware 0, product_updated_at = Aware 0, product_deleted_at = None\<rparr>"

definition demo_catalogue :: session where
  "demo_catalogue = \<lparr>work = empty_db\<lparr>products := [demo_product 1 ''b'', demo_product 2 ''a'']\<rparr>, stored = empty_db, fk_on = False\<rparr>"

theorem rename_breaks_creation_witness:
  "\<exists>o' t. update_product_use_case (\<lambda>x. x) 5 2 \<lparr>pu_name = Some (Some ''b''), pu_description = None, pu_price = None\<rparr> demo_catalogue = (Inr o', t) \<and>
    fst (create_product_use_case (\<lambda>x. x) 5 \<lparr>pc_name = ''b'', pc_description = None, pc_price = 1\<rparr> t) = Inl MultipleResultsFound"
  using rename_breaks_creation [of demo_catalogue "demo_product 1 ''b''" "demo_product 2 ''a''"
      "\<lparr>pc_name = ''b'', pc_description = None, pc_price = 1\<rparr>" "\<lambda>x. x" 5]
  by (simp add: demo_catalogue_def demo_product_def)


theorem product_pages_cover_witness:
  "\<exists>rows. mset rows = {#demo_product 1 ''b'', demo_product 2 ''a''#} \<and> sorted_by (Some ''name'') ''asc'' rows \<and>
    concat (map (\<lambda>skip. page_of skip 1 rows) (page_starts 1 2)) = rows"
proof -
  have found: "filter (found_by None) (products (work demo_catalogue)) = [demo_product 1 ''b'', demo_product 2 ''a'']"
    by (simp add: demo_catalogue_def found_by_def blank_def demo_product_def)
  have "0 < (1::nat)" by simp
  from product_pages_cover [OF this, of None demo_catalogue "Some ''name''" "''asc''"] obtain rows where
    *: "mset rows = mset (filter (found_by None) (products (work demo_catalogue)))" "sorted_by (Some ''name'') ''asc'' rows"
    "\<forall>skip. list_with_filters None skip 1 (Some ''name'') ''asc'' demo_catalogue = (Inr (page_of skip 1 rows), demo_catalogue)"
    "concat (map (\<lambda>skip. page_of skip 1 rows) (page_starts 1 (length rows))) = rows"
    "count_with_filters None demo_catalogue = (Inr (length rows), demo_catalogue)"
    by (elim exE conjE) (rule that)
  have "length rows = 2" using arg_cong [OF *(1), of size] by (simp add: found)
  with * show ?thesis by (intro exI [of _ rows]) (simp add: found add_mset_commute)
qed

end
