(* ===== verification/Web.thy ===== *)
theory Web
  imports Auth
begin

text \<open>
  The HTTP edge: \<open>backend/web/request_size_middleware.py\<close>, the request middleware and the routes
  of \<open>backend/main.py\<close>, and \<open>backend/observability/health_checks.py\<close>. Starlette and FastAPI are
  parameters: what lies behind the request middleware is an operation \<open>call_next\<close>, and an ASGI
  application behind the size limit is a tree of the receives it makes.

  Not modelled: the log lines, the span around \<open>call_next\<close>, the durations, the CORS middleware,
  and the Prometheus text of the metrics.
\<close>

section \<open>The size limit\<close>

text \<open>
  What an ASGI application does: it reads a message (and goes on one way with the message, another
  way when \<open>receive\<close> raises \<open>_BodyTooLarge\<close>), sends a response with a status, or lets that
  exception through.
\<close>

datatype message = BodyPart string | Disconnect

datatype asgi = Receives "message \<Rightarrow> asgi" asgi | Sends int | Raises

text \<open>
  \<open>limited_receive\<close>: \<open>received\<close> counts the bytes so far. The result is the status sent (none while
  the application waits for a message that has not come) and the body bytes handed to it.
\<close>

fun receive_limited :: "nat \<Rightarrow> nat \<Rightarrow> message list \<Rightarrow> asgi \<Rightarrow> int option \<times> string" where
  "receive_limited max_size received ms (Sends status) = (Some status, [])"
| "receive_limited max_size received ms Raises = (Some 413, [])"
| "receive_limited max_size received [] (Receives go caught) = (None, [])"
| "receive_limited max_size received (Disconnect # ms) (Receives go caught) =
     receive_limited max_size received ms (go Disconnect)"
| "receive_limited max_size received (BodyPart body # ms) (Receives go caught) =
     (if max_size < received + length body
      then receive_limited max_size (received + length body) ms caught
      else map_prod id ((@) body) (receive_limited max_size (received + length body) ms (go (BodyPart body))))"

text \<open>The first \<open>Content-Length\<close> header that is there decides; one that is no number is passed over.\<close>

fun declared_length :: "(string \<times> string) list \<Rightarrow> int option" where
  "declared_length [] = None"
| "declared_length ((name, value) # headers) =
     (if lower name = ''content-length'' then parse_int value else declared_length headers)"

definition request_size_limit :: "nat \<Rightarrow> (string \<times> string) list \<Rightarrow> message list \<Rightarrow> asgi \<Rightarrow> int option \<times> string" where
  "request_size_limit max_size headers ms app = (case declared_length headers of
     Some n \<Rightarrow> if n > int max_size then (Some 413, []) else receive_limited max_size 0 ms app
   | None \<Rightarrow> receive_limited max_size 0 ms app)"

section \<open>The request middleware\<close>

record response =
  resp_status :: int
  resp_headers :: "string \<rightharpoonup> string"
  resp_body :: json

text \<open>A request with its headers (by their names in lower case) and the route it matched.\<close>

record web_request = request +
  req_headers :: "string \<rightharpoonup> string"
  req_route :: "string option"

definition quoted :: "string \<Rightarrow> string" where
  "quoted w = [CHR 0x27] @ w @ [CHR 0x27]"

definition content_security_policy :: string where
  "content_security_policy = ''default-src '' @ quoted ''self'' @ ''; frame-ancestors '' @ quoted ''none'' @
     ''; base-uri '' @ quoted ''self''"

definition apply_security_headers :: "settings \<Rightarrow> string \<Rightarrow> string \<Rightarrow> response \<Rightarrow> response" where
  "apply_security_headers c rid tid r = r\<lparr>resp_headers := (let h = (resp_headers r)(
       lower (request_id_header c) \<mapsto> rid, ''x-trace-id'' \<mapsto> tid,
       ''x-content-type-options'' \<mapsto> ''nosniff'', ''x-frame-options'' \<mapsto> ''DENY'',
       ''referrer-policy'' \<mapsto> ''strict-origin-when-cross-origin'',
       ''content-security-policy'' \<mapsto> content_security_policy,
       ''permissions-policy'' \<mapsto> ''geolocation=(), microphone=(), camera=()'')
     in if require_https c then h(''strict-transport-security'' \<mapsto> ''max-age=31536000; includeSubDomains'') else h)\<rparr>"

definition request_id_of :: "settings \<Rightarrow> string \<Rightarrow> web_request \<Rightarrow> string" where
  "request_id_of c uuid req = (let h = req_headers req (lower (request_id_header c)) in if blank h then uuid else the h)"

definition trace_id_of :: "string \<Rightarrow> web_request \<Rightarrow> string" where
  "trace_id_of rid req = (let h = req_headers req ''x-trace-id'' in if blank h then rid else the h)"

text \<open>The address the limiter counts: a trusted proxy's word is taken for the first entry.\<close>

definition limiter_client :: "settings \<Rightarrow> web_request \<Rightarrow> string" where
  "limiter_client c req = (let peer = (case req_client_host req of None \<Rightarrow> ''unknown'' | Some h \<Rightarrow> h) in
     if trust_proxy_headers c \<and> peer \<in> set (trusted_proxy_ips c)
     then (let forwarded = req_headers req ''x-forwarded-for'' in
       if blank forwarded then peer else strip (hd (split_on (CHR '','') (the forwarded))))
     else peer)"

text \<open>
  The application's limiter is the shared one in \<open>dev\<close> alone. The Redis one has a fallback of its own,
  which is not kept apart from the shared one here: no call reaches it (\<open>redis_fallback_raises\<close>).
\<close>

definition main_allow :: "'r limiter_env \<Rightarrow> int \<Rightarrow> string \<Rightarrow> string \<Rightarrow> int \<Rightarrow> ('r app, bool) op" where
  "main_allow le now client path limit = (\<lambda>s.
     if environment (conf s) \<noteq> ''dev'' then
       (case redis_allow_request (pipeline le) (float_text le) client path limit 60 now
              \<lparr>lim_redis = redis (toks s), lim_fallback = lim s, lim_metrics = lim_counts s\<rparr> of
          (r, l) \<Rightarrow> (r, s\<lparr>toks := (toks s)\<lparr>redis := lim_redis l\<rparr>, lim := lim_fallback l, lim_counts := lim_metrics l\<rparr>))
     else (case allow_request client path (nat limit) now (lim s) of (ok, l) \<Rightarrow> (Inr ok, s\<lparr>lim := l\<rparr>)))"

text \<open>An audit entry of the middleware; \<open>request.state.user\<close>, its actor, is set nowhere.\<close>

definition audit_http :: "string \<Rightarrow> json \<Rightarrow> request \<Rightarrow> int \<Rightarrow> bool \<Rightarrow> string option \<Rightarrow> int \<Rightarrow> ('r app, unit) op" where
  "audit_http action details req status success error now = queue_job (PersistAuditLogEntry
     (audit_entry None Nobody action (req_path req) details (Some req) (Some status) success error (Aware now)))"

definition build_error_response :: "settings \<Rightarrow> string \<Rightarrow> string \<Rightarrow> request \<Rightarrow> int \<Rightarrow> string \<Rightarrow> int \<Rightarrow> ('r app, response) op" where
  "build_error_response c rid tid req status detail now =
     bnd (audit_http ''http.request_rejected'' (JObj [(''reason'', JStr detail)]) req status False None now) (\<lambda>_.
     ret (apply_security_headers c rid tid
       \<lparr>resp_status = status, resp_headers = Map.empty, resp_body = JObj [(''detail'', JStr detail)]\<rparr>))"

text \<open>The request as the handlers see it, with the two ids in its state.\<close>

definition with_ids :: "string \<Rightarrow> string \<Rightarrow> web_request \<Rightarrow> request" where
  "with_ids rid tid req = \<lparr>req_client_host = req_client_host req, req_method = req_method req, req_path = req_path req,
     req_request_id = Some rid, req_trace_id = Some tid\<rparr>"

text \<open>The body of the \<open>try\<close>: the answer, and the status the metrics are to count.\<close>

definition serve :: "'r limiter_env \<Rightarrow> int \<Rightarrow> settings \<Rightarrow> string \<Rightarrow> string \<Rightarrow> web_request \<Rightarrow>
    (request \<Rightarrow> ('r app, response) op) \<Rightarrow> ('r app, response) op" where
  "serve le now c rid tid req call_next = (let r = with_ids rid tid req in
     bnd (if enable_rate_limiting c
          then main_allow le now (limiter_client c req) (req_path req) (rate_limit_requests_per_minute c) else ret True) (\<lambda>ok.
     if \<not> ok then build_error_response c rid tid r 429 ''Too many requests'' now
     else bnd (call_next r) (\<lambda>answer.
       bnd (audit_http ''http.request'' (JObj [(''method'', JStr (req_method req))]) r (resp_status answer)
         (resp_status answer < 400) None now) (\<lambda>_.
       ret (apply_security_headers c rid tid answer)))))"

definition served_status :: "exn + response \<Rightarrow> int" where
  "served_status r = (case r of Inl e \<Rightarrow> 500 | Inr a \<Rightarrow> resp_status a)"

definition count_request :: "web_request \<Rightarrow> int \<Rightarrow> ('r app, unit) op" where
  "count_request req status = modify (\<lambda>s. s\<lparr>lim_counts := record_request (req_method req) status
     (case req_route req of Some p \<Rightarrow> p | None \<Rightarrow> ''unmatched'') (lim_counts s)\<rparr>)"

definition add_request_context :: "'r limiter_env \<Rightarrow> (exn \<Rightarrow> string) \<Rightarrow> int \<Rightarrow> string \<Rightarrow> web_request \<Rightarrow>
    (request \<Rightarrow> ('r app, response) op) \<Rightarrow> ('r app, response) op" where
  "add_request_context le exn_text now uuid req call_next = bnd (look conf) (\<lambda>c.
     let rid = request_id_of c uuid req; tid = trace_id_of rid req in
     (\<lambda>s. case try_except (serve le now c rid tid req call_next)
              (\<lambda>e. bnd (audit_http ''http.request'' (JObj [(''method'', JStr (req_method req))]) (with_ids rid tid req) 500 False
                (Some (exn_text e)) now) (\<lambda>_. throw e)) s of
        (r, t) \<Rightarrow> (r, snd (count_request req (served_status r) t))))"

section \<open>The routes\<close>

definition health_check :: "('r app, json) op" where
  "health_check = bnd (look conf) (\<lambda>c. ret (JObj [(''status'', JStr ''ok''), (''environment'', JStr (environment c)),
     (''version'', JStr ''0.1.0'')]))"

text \<open>What \<open>SELECT 1\<close> and \<open>ping\<close> came back with: an exception or not.\<close>

definition readiness_check :: "exn + unit \<Rightarrow> exn + unit \<Rightarrow> json" where
  "readiness_check select1 ping = (let db_ok = (case select1 of Inl e \<Rightarrow> False | Inr u \<Rightarrow> True);
       redis_ok = (case ping of Inl e \<Rightarrow> False | Inr u \<Rightarrow> True) in JObj [(''status'', JStr (if db_ok \<and> redis_ok then ''ready'' else ''degraded'')),
     (''checks'', JObj [(''database'', JBool db_ok), (''redis'', JBool redis_ok)])])"

text \<open>\<open>/metrics\<close>: the Prometheus text (\<open>None\<close>) or the snapshot, for administrators.\<close>

definition contains :: "string \<Rightarrow> string \<Rightarrow> bool" where
  "contains part t = list_ex (\<lambda>i. startswith (drop i t) part) [0..<Suc (length t)]"

definition metrics_route :: "web_request \<Rightarrow> principal \<Rightarrow>
    ('r app, (int \<times> (string \<rightharpoonup> int) \<times> (string \<rightharpoonup> int) \<times> (string \<rightharpoonup> int)) option) op" where
  "metrics_route req caller =
     bnd (require_role [''admin''] caller) (\<lambda>_.
     if contains ''text/plain'' (case req_headers req ''accept'' of Some h \<Rightarrow> h | None \<Rightarrow> '''') then ret None
     else look (\<lambda>s. Some (snapshot (lim_counts s))))"

text \<open>\<open>/runtime\<close>: \<open>started_at\<close> and \<open>now\<close> are times in microseconds.\<close>

definition runtime_snapshot :: "int \<Rightarrow> int \<Rightarrow> principal \<Rightarrow> ('r app, string \<times> int \<times> (int \<times> (string \<rightharpoonup> int) \<times> (string \<rightharpoonup> int) \<times> (string \<rightharpoonup> int))) op" where
  "runtime_snapshot started_at now caller =
     bnd (require_role [''admin''] caller) (\<lambda>_.
     look (\<lambda>s. (environment (conf s), (now - started_at) div 1000000, snapshot (lim_counts s))))"

section \<open>The size limit bounds the body\<close>

lemma nothing_after_too_large: "max_size < received \<Longrightarrow> snd (receive_limited max_size received ms app) = []"
  by (induction max_size received ms app rule: receive_limited.induct) simp_all

lemma delivered_bound:
  "received \<le> max_size \<Longrightarrow> length (snd (receive_limited max_size received ms app)) \<le> max_size - received"
proof (induction max_size received ms app rule: receive_limited.induct)
  case (5 max_size received body ms go caught)
  then show ?case
    by (cases "receive_limited max_size (received + length body) ms (go (BodyPart body))")
      (auto simp: nothing_after_too_large)
qed simp_all

lemma declared_too_large:
  "declared_length headers = Some n \<Longrightarrow> n > int max_size \<Longrightarrow> request_size_limit max_size headers ms app = (Some 413, [])"
  by (simp add: request_size_limit_def)

text \<open>An application that reads every message and does nothing about the exception.\<close>

fun reads_all :: "nat \<Rightarrow> int \<Rightarrow> asgi" where
  "reads_all 0 status = Sends status"
| "reads_all (Suc n) status = Receives (\<lambda>_. reads_all n status) Raises"

definition body_size :: "message list \<Rightarrow> nat" where
  "body_size ms = sum_list (map (\<lambda>m. case m of BodyPart b \<Rightarrow> length b | Disconnect \<Rightarrow> 0) ms)"

lemma reads_all_result:
  "received \<le> max_size \<Longrightarrow> fst (receive_limited max_size received ms (reads_all (length ms) status)) =
     (if received + body_size ms \<le> max_size then Some status else Some 413)"
proof (induction ms arbitrary: received)
  case Nil
  then show ?case by (simp add: body_size_def)
next
  case (Cons m ms)
  show ?case
  proof (cases m)
    case (BodyPart b)
    show ?thesis
    proof (cases "max_size < received + length b")
      case False
      then show ?thesis using Cons.IH [of "received + length b"] by (simp add: BodyPart body_size_def add.assoc)
    qed (simp add: BodyPart body_size_def)
  next
    case Disconnect
    then show ?thesis using Cons.IH [OF Cons.prems] by (simp add: body_size_def)
  qed
qed

text \<open>
  Property C35. No application behind the size limit is handed more body bytes than the limit,
  whatever it does and whatever length the client declares or leaves out; and a request that
  declares more is answered with 413 before any of it is read.
\<close>

theorem size_limit_bounds_body:
  "length (snd (request_size_limit max_size headers ms app)) \<le> max_size \<and>
   (\<forall>n. declared_length headers = Some n \<and> n > int max_size \<longrightarrow> request_size_limit max_size headers ms app = (Some 413, []))"
  using delivered_bound [of 0 max_size ms app] by (auto simp: request_size_limit_def split: option.split)

theorem size_limit_bounds_body_witness:
  "length (snd (request_size_limit 3 [(''content-length'', ''9'')] [BodyPart ''abcd''] (reads_all 1 200))) \<le> 3 \<and>
   request_size_limit 3 [(''content-length'', ''9'')] [BodyPart ''abcd''] (reads_all 1 200) = (Some 413, [])"
proof -
  have "declared_length [(''content-length'', ''9'')] = Some 9"
    by (simp add: lower_def lower_char_def parse_int_def strip_no_space is_space_def is_digit_def digit_val_def Let_def)
  then show ?thesis
    using size_limit_bounds_body [of 3 "[(''content-length'', ''9'')]" "[BodyPart ''abcd'']" "reads_all 1 200"] by simp
qed

section \<open>The edge of every request\<close>

lemma main_allow_keeps: "jobs (snd (main_allow le now client path limit s)) = jobs s"
    "conf (snd (main_allow le now client path limit s)) = conf s" "sess (snd (main_allow le now client path limit s)) = sess s"
  by (simp_all add: main_allow_def split: prod.split)

definition secured :: "settings \<Rightarrow> string \<Rightarrow> string \<Rightarrow> response \<Rightarrow> bool" where
  "secured c rid tid r \<longleftrightarrow> (\<exists>a. r = apply_security_headers c rid tid a)"

lemma serve_secured:
  assumes "serve le now c rid tid req call_next s = (Inr r, t)"
  shows "secured c rid tid r"
  using assms unfolding serve_def Let_def secured_def
  by (elim bnd_InrE) (auto simp: build_error_response_def ret_apply elim!: bnd_InrE split: if_splits)


text \<open>The headers every answer of the application carries, and the request's id with them.\<close>

definition carries_security_headers :: "settings \<Rightarrow> string \<Rightarrow> response \<Rightarrow> bool" where
  "carries_security_headers c rid r \<longleftrightarrow>
     resp_headers r ''x-content-type-options'' = Some ''nosniff'' \<and> resp_headers r ''x-frame-options'' = Some ''DENY'' \<and>
     resp_headers r ''content-security-policy'' = Some content_security_policy \<and>
     resp_headers r ''referrer-policy'' = Some ''strict-origin-when-cross-origin'' \<and>
     (require_https c \<longrightarrow> resp_headers r ''strict-transport-security'' = Some ''max-age=31536000; includeSubDomains'') \<and>
     resp_headers r (lower (request_id_header c)) = Some rid"

text \<open>A header name for the request id that is none of the fixed ones.\<close>

definition own_header :: "settings \<Rightarrow> bool" where
  "own_header c \<longleftrightarrow> lower (request_id_header c) \<notin> {''x-trace-id'', ''x-content-type-options'', ''x-frame-options'',
     ''referrer-policy'', ''content-security-policy'', ''permissions-policy'', ''strict-transport-security''}"

lemma secured_headers: "secured c rid tid r \<Longrightarrow> own_header c \<Longrightarrow> carries_security_headers c rid r"
  by (auto simp: secured_def apply_security_headers_def carries_security_headers_def own_header_def Let_def)

lemma add_request_context_result:
  "fst (add_request_context le exn_text now uuid req call_next s) =
     fst (serve le now (conf s) (request_id_of (conf s) uuid req)
       (trace_id_of (request_id_of (conf s) uuid req) req) req call_next s)"
  by (auto simp: add_request_context_def Let_def try_except_def bnd_apply look_apply audit_http_def queue_job_apply throw_apply
      split: prod.split sum.split)

lemma counted_once:
  "count_request req status s = (Inr (), t) \<Longrightarrow> request_count (lim_counts t) = request_count (lim_counts s) + 1"
  by (auto simp: count_request_def modify_apply record_request_def)



definition demo_web_request :: web_request where
  "demo_web_request = \<lparr>req_client_host = Some ''h'', req_method = ''get'', req_path = ''/health'', req_request_id = None,
     req_trace_id = None, req_headers = [''x-request-id'' \<mapsto> ''r1''], req_route = Some ''/health''\<rparr>"

definition demo_answer :: response where
  "demo_answer = \<lparr>resp_status = 200, resp_headers = Map.empty, resp_body = JNull\<rparr>"

abbreviation demo_limits :: "(string \<Rightarrow> pyval option) limiter_env" where
  "demo_limits \<equiv> \<lparr>pipeline = \<lambda>_ _. None, float_text = \<lambda>_. []\<rparr>"

lemma demo_web_facts: "own_header (conf (demo_app d))" "environment (conf (demo_app d)) = ''dev''"
  "request_id_of (conf (demo_app d)) ''u'' demo_web_request = ''r1''"
  by (simp_all add: demo_app_def default_settings_def own_header_def lower_def lower_char_def request_id_of_def demo_web_request_def
      blank_def Let_def)

lemma demo_served:
  "fst (serve demo_limits 5 (conf (demo_app empty_db)) rid tid demo_web_request (\<lambda>_. ret demo_answer) (demo_app empty_db)) =
     Inr (apply_security_headers (conf (demo_app empty_db)) rid tid demo_answer)"
  by (simp add: serve_def Let_def bnd_apply main_allow_def demo_web_facts ret_apply audit_http_def queue_job_apply
      allow_request_def new_limiter_def demo_app_def default_settings_def limiter_client_def demo_web_request_def
      split: prod.split)


lemma main_allow_counts:
  "request_count (lim_counts (snd (main_allow le now client path limit s))) = request_count (lim_counts s)"
  by (auto simp: main_allow_def redis_allow_request_def Let_def bnd_apply zoom_def record_rate_limiter_fallback_def
      split: prod.splits option.splits list.splits sum.splits)

lemma serve_counts:
  assumes "\<And>r s. request_count (lim_counts (snd (call_next r s))) = request_count (lim_counts s)"
  shows "request_count (lim_counts (snd (serve le now c rid tid req call_next s))) = request_count (lim_counts s)"
proof -
  have "call_next r s = (a, t) \<Longrightarrow> request_count (lim_counts t) = request_count (lim_counts s)" for r s a t
    using assms [of r s] by simp
  moreover have "main_allow le now client path limit s = (a, t) \<Longrightarrow> request_count (lim_counts t) = request_count (lim_counts s)"
    for client path limit a t using main_allow_counts [of le now client path limit s] by simp
  ultimately show ?thesis
    by (auto simp: serve_def Let_def bnd_apply build_error_response_def audit_http_def queue_job_apply ret_apply
        split: prod.split sum.split)
qed

text \<open>
  Every request adds exactly one to the request counter, whether it is answered,
  turned away by the limit or ends in an exception, as long as what lies behind the middleware
  leaves the counter alone.
\<close>

theorem every_request_counted:
  assumes "\<And>r s. request_count (lim_counts (snd (call_next r s))) = request_count (lim_counts s)"
  shows "request_count (lim_counts (snd (add_request_context le exn_text now uuid req call_next s))) =
    request_count (lim_counts s) + 1"
proof -
  have served: "request_count (lim_counts t) = request_count (lim_counts s)"
    if "serve le now c rid tid req call_next s = (r, t)" for c rid tid r t
    using serve_counts [where call_next = call_next and s = s and le = le and now = now and c = c and rid = rid and tid = tid and req = req]
    unfolding that by (simp add: assms)
  show ?thesis
    by (auto simp: add_request_context_def Let_def bnd_apply look_apply try_except_def audit_http_def queue_job_apply throw_apply
        count_request_def modify_apply record_request_def dest!: served split: prod.split sum.split)
qed

theorem every_request_counted_witness:
  "request_count (lim_counts (snd (add_request_context demo_limits (\<lambda>_. []) 5 ''u'' demo_web_request (\<lambda>_. throw KeyError)
     (demo_app empty_db)))) = 1"
proof -
  have "request_count (lim_counts (demo_app empty_db)) = 0" by (simp add: demo_app_def new_metrics_def)
  then show ?thesis
    using every_request_counted [of "\<lambda>_. throw KeyError" demo_limits "\<lambda>_. []" 5 "''u''" demo_web_request "demo_app empty_db"]
    by (simp add: throw_apply)
qed

text \<open>A peer that is no trusted proxy does not choose the address the limiter counts.\<close>

theorem untrusted_peer_keeps_address:
  assumes "\<not> (trust_proxy_headers c \<and> client_ip (with_ids rid tid req) \<in> set (trusted_proxy_ips c))"
  shows "limiter_client c req = client_ip (with_ids rid tid req)"
  using assms by (auto simp: limiter_client_def Let_def client_ip_def with_ids_def split: option.splits)

text \<open>
  A client behind a trusted proxy that appends to the header does: it writes the first entry, so
  with a fresh one for each request it is never limited.
\<close>

fun arrivals :: "nat \<Rightarrow> string \<Rightarrow> (string \<times> int) list \<Rightarrow> rate_limiter \<Rightarrow> bool list" where
  "arrivals limit path [] l = []"
| "arrivals limit path ((client, now) # rs) l = (case allow_request client path limit now l of
     (ok, l') \<Rightarrow> ok # arrivals limit path rs l')"

theorem fresh_addresses_never_limited:
  assumes "0 < limit" "distinct (map fst rs)" "\<forall>a\<in>set rs. requests l (fst a, path) = []"
  shows "arrivals limit path rs l = replicate (length rs) True"
  using assms(2,3)
proof (induction rs arbitrary: l)
  case (Cons r rs)
  obtain client now where r: "r = (client, now)" by (cases r)
  have "requests l (client, path) = []" using Cons.prems(2) by (simp add: r)
  then have "allow_request client path limit now l = (True, l\<lparr>requests := (requests l)((client, path) := [now])\<rparr>)"
    using assms(1) by (simp add: allow_request_def Let_def)
  moreover have "\<forall>a\<in>set rs. requests (l\<lparr>requests := (requests l)((client, path) := [now])\<rparr>) (fst a, path) = []"
    using Cons.prems by (auto simp: r)
  ultimately show ?case using Cons.prems(1) Cons.IH [of "l\<lparr>requests := (requests l)((client, path) := [now])\<rparr>"] by (simp add: r)
qed simp

lemma split_on_head: "c \<notin> set p \<Longrightarrow> split_on c (p @ c # r) = p # split_on c r"
  by (induction p) auto

lemma forwarded_entry:
  assumes "trust_proxy_headers c" "client_ip (with_ids rid tid req) \<in> set (trusted_proxy_ips c)"
    and "req_headers req ''x-forwarded-for'' = Some (entry @ CHR '','' # rest)" and "CHR '','' \<notin> set entry"
  shows "limiter_client c req = strip entry"
  using assms split_on_head [OF assms(4), of rest] by (auto simp: limiter_client_def Let_def client_ip_def with_ids_def blank_def split: option.splits)

end
