(* ===== verification/Files.thy ===== *)
theory Files
  imports PyStr "HOL-Library.Sublist"
begin

text \<open>
  \<open>backend/infrastructure/upload_storage.py\<close> and what it uses of \<open>pathlib\<close>: POSIX paths as lists
  of components, a file system as a map from absolute paths to files and folders, and the three
  storage backends. The objects of the remote backends live in a state of a parameter's type, with
  the calls of \<open>boto3\<close> and of Azure's SDK as parameters.

  A path is resolved against the working directory \<open>cwd\<close> on a file system without symbolic links.
\<close>

section \<open>Paths\<close>

text \<open>\<open>Path(s)\<close>: whether it is absolute, and its components; \<open>.\<close> and empty ones are dropped.\<close>

type_synonym path = "bool \<times> string list"

definition path_of :: "string \<Rightarrow> path" where
  "path_of s = (startswith s ''/'', filter (\<lambda>x. x \<noteq> [] \<and> x \<noteq> ''.'') (split_on (CHR ''/'') s))"

text \<open>\<open>p / s\<close>.\<close>

definition slash :: "path \<Rightarrow> string \<Rightarrow> path" where
  "slash p s = (if fst (path_of s) then path_of s else (fst p, snd p @ snd (path_of s)))"

definition path_name :: "path \<Rightarrow> string" where
  "path_name p = (if snd p = [] then [] else last (snd p))"

text \<open>\<open>suffix\<close>: from the last dot on, unless it is the first or the last character of the name.\<close>

definition path_suffix :: "path \<Rightarrow> string" where
  "path_suffix p = (let name = path_name p; ext = rev (takeWhile (\<lambda>c. c \<noteq> CHR ''.'') (rev name))
     in if CHR ''.'' \<in> set name \<and> ext \<noteq> [] \<and> length ext + 1 < length name then CHR ''.'' # ext else [])"

text \<open>\<open>resolve()\<close>: from the root or the working directory, \<open>..\<close> going up.\<close>

fun walk :: "string list \<Rightarrow> string list \<Rightarrow> string list" where
  "walk at_dir [] = at_dir"
| "walk at_dir (x # xs) = walk (if x = ''..'' then butlast at_dir else at_dir @ [x]) xs"

definition resolve :: "string list \<Rightarrow> path \<Rightarrow> string list" where
  "resolve cwd p = walk (if fst p then [] else cwd) (snd p)"

text \<open>\<open>base in p.parents\<close> for resolved paths.\<close>

definition in_parents :: "string list \<Rightarrow> string list \<Rightarrow> bool" where
  "in_parents base p \<longleftrightarrow> length base < length p \<and> take (length base) p = base"

section \<open>The file system\<close>

datatype node = File string | Folder

type_synonym disk = "string list \<Rightarrow> node option"

text \<open>The root directory is always there.\<close>

definition node_at :: "disk \<Rightarrow> string list \<Rightarrow> node option" where
  "node_at d p = (if p = [] then Some Folder else d p)"

definition write_bytes :: "string list \<Rightarrow> string \<Rightarrow> (disk, unit) op" where
  "write_bytes p b = (\<lambda>d.
     if node_at d p = Some Folder then (Inl (RemoteError ''IsADirectoryError''), d)
     else case node_at d (butlast p) of
       Some Folder \<Rightarrow> (Inr (), d(p \<mapsto> File b))
     | Some (File _) \<Rightarrow> (Inl (RemoteError ''NotADirectoryError''), d)
     | None \<Rightarrow> (Inl (RemoteError ''FileNotFoundError''), d))"

text \<open>\<open>mkdir(parents=True, exist_ok=True)\<close>, folder by folder from the root.\<close>

fun mkdir_below :: "string list \<Rightarrow> string list \<Rightarrow> (disk, unit) op" where
  "mkdir_below at_dir [] d = (Inr (), d)"
| "mkdir_below at_dir (x # xs) d = (let p = at_dir @ [x] in case d p of
     Some (File _) \<Rightarrow> (Inl (RemoteError ''FileExistsError''), d)
   | _ \<Rightarrow> mkdir_below p xs (d(p \<mapsto> Folder)))"

definition mkdir :: "string list \<Rightarrow> (disk, unit) op" where
  "mkdir p = mkdir_below [] p"

text \<open>\<open>unlink(missing_ok=True)\<close>.\<close>

definition unlink :: "string list \<Rightarrow> (disk, unit) op" where
  "unlink p = (\<lambda>d. case node_at d p of
     Some Folder \<Rightarrow> (Inl (RemoteError ''IsADirectoryError''), d)
   | _ \<Rightarrow> (Inr (), d(p := None)))"

section \<open>The storage backends\<close>

text \<open>
  What \<open>app.state.upload_storage\<close> may be: one of the three backends, or the base class, whose
  \<open>save\<close> is not implemented.
\<close>

datatype upload_storage = UploadStorage | LocalUploadStorage string | S3UploadStorage string | AzureBlobUploadStorage string

text \<open>
  The remote stores: \<open>put_object(Bucket, Key, Body)\<close>, \<open>upload_blob(..., overwrite=True)\<close> in a
  container, and the object under a name. Either call may raise.
\<close>

record 'c remote_api =
  put_object :: "string \<Rightarrow> string \<Rightarrow> string \<Rightarrow> ('c, unit) op"
  s3_object :: "string \<Rightarrow> string \<Rightarrow> 'c \<Rightarrow> string option"
  upload_blob :: "string \<Rightarrow> string \<Rightarrow> string \<Rightarrow> ('c, unit) op"
  azure_object :: "string \<Rightarrow> string \<Rightarrow> 'c \<Rightarrow> string option"

record 'c stores =
  disk :: disk
  remote :: 'c

record upload_result =
  res_filename :: string
  res_stored_as :: string
  res_stored_path :: string
  res_content_type :: string

definition content_type_or_default :: "string option \<Rightarrow> string" where
  "content_type_or_default ct = (case ct of Some (c # cs) \<Rightarrow> c # cs | _ \<Rightarrow> ''application/octet-stream'')"

definition in_disk :: "(disk, 'a) op \<Rightarrow> ('c stores, 'a) op" where
  "in_disk m = zoom disk (\<lambda>d s. s\<lparr>disk := d\<rparr>) m"

definition in_remote :: "('c, 'a) op \<Rightarrow> ('c stores, 'a) op" where
  "in_remote m = zoom remote (\<lambda>c s. s\<lparr>remote := c\<rparr>) m"

definition new_local_storage :: "string list \<Rightarrow> string \<Rightarrow> ('c stores, upload_storage) op" where
  "new_local_storage cwd upload_dir =
     bnd (in_disk (mkdir (resolve cwd (path_of upload_dir)))) (\<lambda>_. ret (LocalUploadStorage upload_dir))"

text \<open>The three \<open>save\<close>s; \<open>hex\<close> is the new \<open>uuid4().hex\<close>.\<close>

definition local_save :: "string list \<Rightarrow> string \<Rightarrow> string \<Rightarrow> string \<Rightarrow> string \<Rightarrow> string option \<Rightarrow> ('c stores, upload_result) op" where
  "local_save cwd upload_dir hex contents original_filename content_type =
     (let stored_name = hex @ path_suffix (path_of original_filename);
          destination = resolve cwd (slash (path_of upload_dir) stored_name)
      in if \<not> in_parents (resolve cwd (path_of upload_dir)) destination
         then throw (ValueError ''Resolved upload path escapes the upload directory'')
         else bnd (in_disk (write_bytes destination contents)) (\<lambda>_. ret
           \<lparr>res_filename = original_filename, res_stored_as = stored_name,
            res_stored_path = ''/api/v1/uploads/'' @ stored_name, res_content_type = content_type_or_default content_type\<rparr>))"

definition remote_save :: "(string \<Rightarrow> string \<Rightarrow> ('c, unit) op) \<Rightarrow> string \<Rightarrow> string \<Rightarrow> string \<Rightarrow> string \<Rightarrow> string option \<Rightarrow>
    ('c stores, upload_result) op" where
  "remote_save put scheme hex contents original_filename content_type =
     (let safe_name = path_name (path_of original_filename) in
      if safe_name = [] then throw (ValueError ''filename is required'')
      else let stored_name = hex @ lower (path_suffix (path_of safe_name)) in
        bnd (in_remote (put stored_name contents)) (\<lambda>_. ret
          \<lparr>res_filename = safe_name, res_stored_as = stored_name,
           res_stored_path = scheme @ stored_name, res_content_type = content_type_or_default content_type\<rparr>))"

definition s3_save :: "'c remote_api \<Rightarrow> string \<Rightarrow> string \<Rightarrow> string \<Rightarrow> string \<Rightarrow> string option \<Rightarrow> ('c stores, upload_result) op" where
  "s3_save api bucket = remote_save (put_object api bucket) (''s3://'' @ bucket @ ''/'')"

definition azure_save :: "'c remote_api \<Rightarrow> string \<Rightarrow> string \<Rightarrow> string \<Rightarrow> string \<Rightarrow> string option \<Rightarrow> ('c stores, upload_result) op" where
  "azure_save api container = remote_save (upload_blob api container) (''azure://'' @ container @ ''/'')"

fun save_upload :: "'c remote_api \<Rightarrow> string list \<Rightarrow> upload_storage \<Rightarrow> string \<Rightarrow> string \<Rightarrow> string \<Rightarrow> string option \<Rightarrow>
    ('c stores, upload_result) op" where
  "save_upload api cwd UploadStorage = (\<lambda>hex contents name content_type. throw (RemoteError ''NotImplementedError''))"
| "save_upload api cwd (LocalUploadStorage upload_dir) = local_save cwd upload_dir"
| "save_upload api cwd (S3UploadStorage bucket) = s3_save api bucket"
| "save_upload api cwd (AzureBlobUploadStorage container) = azure_save api container"

section \<open>Lemmas on paths\<close>

text \<open>A name that is one component of its own and no way up.\<close>

definition plain_name :: "string \<Rightarrow> bool" where
  "plain_name n \<longleftrightarrow> n \<noteq> [] \<and> n \<noteq> ''.'' \<and> n \<noteq> ''..'' \<and> CHR ''/'' \<notin> set n"

lemma split_on_fresh: "c \<notin> set s \<Longrightarrow> split_on c s = [s]"
  by (induction s) auto

lemma split_on_pieces: "x \<in> set (split_on c s) \<Longrightarrow> c \<notin> set x"
  by (induction s arbitrary: x) (auto split: list.splits if_splits)

lemma path_of_plain: "plain_name n \<Longrightarrow> path_of n = (False, [n])"
  by (cases n) (auto simp: plain_name_def path_of_def split_on_fresh startswith_def)

lemma slash_plain: "plain_name n \<Longrightarrow> slash p n = (fst p, snd p @ [n])"
  by (simp add: slash_def path_of_plain)

lemma path_name_plain [simp]: "plain_name n \<Longrightarrow> path_name (path_of n) = n"
  by (simp add: path_name_def path_of_plain)

lemma walk_append: "walk a (xs @ ys) = walk (walk a xs) ys"
  by (induction xs arbitrary: a) simp_all

lemma resolve_slash: "plain_name n \<Longrightarrow> resolve cwd (slash p n) = resolve cwd p @ [n]"
  by (simp add: slash_plain resolve_def walk_append plain_name_def)

lemma in_parents_snoc [simp]: "in_parents p (p @ [n])"
  by (simp add: in_parents_def)

lemma in_parents_iff: "in_parents base p \<longleftrightarrow> strict_prefix base p"
  by (auto simp: in_parents_def strict_prefix_def prefix_def take_all_iff) (metis append_take_drop_id)+

lemma path_name_no_slash: "CHR ''/'' \<notin> set (path_name (path_of s))"
  using split_on_pieces by (auto simp: path_name_def path_of_def dest!: last_in_set)

lemma suffix_chars: "set (path_suffix p) \<subseteq> insert (CHR ''.'') (set (path_name p))"
  by (auto simp: path_suffix_def Let_def dest!: set_takeWhileD)

lemma suffix_no_slash: "CHR ''/'' \<notin> set (path_suffix (path_of s))"
  using suffix_chars [of "path_of s"] path_name_no_slash [of s] by auto

lemma lower_char_slash: "lower_char c = CHR ''/'' \<Longrightarrow> c = CHR ''/''"
proof -
  assume "lower_char c = CHR ''/''"
  then have "of_char (lower_char c) = (47 :: nat)" by simp
  moreover have "(of_char c :: nat) < 256" by simp
  ultimately have "of_char c = (47 :: nat)" by (auto simp: lower_char_def Let_def of_char_of split: if_splits)
  then have "of_char c = (of_char (CHR ''/'') :: nat)" by simp
  then show ?thesis by (simp only: of_char_eq_iff)
qed

lemma lower_no_slash: "CHR ''/'' \<notin> set s \<Longrightarrow> CHR ''/'' \<notin> set (lower s)"
  using lower_char_slash by (fastforce simp: lower_def)

section \<open>Stored names\<close>

text \<open>What \<open>uuid4().hex\<close> looks like.\<close>

definition is_hex :: "string \<Rightarrow> bool" where
  "is_hex h \<longleftrightarrow> length h = 32 \<and> (\<forall>c \<in> set h. c \<in> set ''0123456789abcdef'')"

lemma hex_then_plain: "is_hex h \<Longrightarrow> CHR ''/'' \<notin> set e \<Longrightarrow> plain_name (h @ e)"
proof -
  assume h: "is_hex h" and e: "CHR ''/'' \<notin> set e"
  have "length (h @ e) \<ge> 32" using h by (simp add: is_hex_def)
  then have "h @ e \<noteq> n" if "length n < 32" for n using that by (metis leD)
  moreover have "CHR ''/'' \<notin> set h" using h by (auto simp: is_hex_def)
  ultimately show ?thesis using e by (simp add: plain_name_def del: append_is_Nil_conv)
qed

lemma hex_names_differ: "is_hex h \<Longrightarrow> is_hex h' \<Longrightarrow> h \<noteq> h' \<Longrightarrow> h @ e \<noteq> h' @ e'"
  by (simp add: is_hex_def append_eq_append_conv)

definition objects :: "'c remote_api \<Rightarrow> string list \<Rightarrow> upload_storage \<Rightarrow> 'c stores \<Rightarrow> string \<rightharpoonup> string" where
  "objects api cwd st s = (\<lambda>k. case st of
     UploadStorage \<Rightarrow> None
   | LocalUploadStorage dir \<Rightarrow> (case node_at (disk s) (resolve cwd (path_of dir) @ [k]) of Some (File b) \<Rightarrow> Some b | _ \<Rightarrow> None)
   | S3UploadStorage bucket \<Rightarrow> s3_object api bucket k (remote s)
   | AzureBlobUploadStorage container \<Rightarrow> azure_object api container k (remote s))"

text \<open>
  What the program relies on of the remote stores: after a call that returned, the name holds the
  contents and every other name of that bucket what it held.
\<close>

definition remote_ok :: "'c remote_api \<Rightarrow> bool" where
  "remote_ok api \<longleftrightarrow>
     (\<forall>bucket k b c c'. put_object api bucket k b c = (Inr (), c') \<longrightarrow>
        (\<lambda>n. s3_object api bucket n c') = (\<lambda>n. s3_object api bucket n c)(k \<mapsto> b)) \<and>
     (\<forall>container k b c c'. upload_blob api container k b c = (Inr (), c') \<longrightarrow>
        (\<lambda>n. azure_object api container n c') = (\<lambda>n. azure_object api container n c)(k \<mapsto> b))"

text \<open>
  The interface the upload route relies on: a store of named objects. A \<open>save\<close> that returns has
  put the contents under the name it reports, which starts with the new hex digits, and nothing else.
\<close>

locale object_storage =
  fixes save :: "string \<Rightarrow> string \<Rightarrow> string \<Rightarrow> string option \<Rightarrow> ('s, upload_result) op"
    and held :: "'s \<Rightarrow> string \<rightharpoonup> string"
  assumes saved: "is_hex h \<Longrightarrow> save h b f ct s = (Inr r, t) \<Longrightarrow> held t = (held s)(res_stored_as r \<mapsto> b)"
    and named: "is_hex h \<Longrightarrow> save h b f ct s = (Inr r, t) \<Longrightarrow> \<exists>e. res_stored_as r = h @ e"
begin

lemma first_survives_second:
  assumes "is_hex h" "is_hex h'" "h \<noteq> h'"
    and "save h b f ct s = (Inr r, t)" "save h' b' f' ct' t = (Inr r', t')"
  shows "held t' = (held s)(res_stored_as r \<mapsto> b, res_stored_as r' \<mapsto> b') \<and> res_stored_as r \<noteq> res_stored_as r'"
proof -
  have "res_stored_as r \<noteq> res_stored_as r'"
    using named [OF assms(1,4)] named [OF assms(2,5)] hex_names_differ [OF assms(1-3)] by metis
  then show ?thesis using saved [OF assms(1,4)] saved [OF assms(2,5)] by simp
qed

end

lemma bnd_in_disk: "bnd (in_disk m) f s = (case m (disk s) of (Inl e, d) \<Rightarrow> (Inl e, s\<lparr>disk := d\<rparr>) | (Inr a, d) \<Rightarrow> f a (s\<lparr>disk := d\<rparr>))"
  by (simp add: in_disk_def bnd_zoom)

lemma bnd_in_remote: "bnd (in_remote m) f s = (case m (remote s) of (Inl e, c) \<Rightarrow> (Inl e, s\<lparr>remote := c\<rparr>) | (Inr a, c) \<Rightarrow> f a (s\<lparr>remote := c\<rparr>))"
  by (simp add: in_remote_def bnd_zoom)

lemma write_bytes_Inr: "write_bytes p b d = (Inr (), d') \<longleftrightarrow> node_at d p \<noteq> Some Folder \<and> node_at d (butlast p) = Some Folder \<and> d' = d(p \<mapsto> File b)"
  by (auto simp: write_bytes_def split: option.splits node.splits)

lemma local_save_result:
  assumes "is_hex h"
  shows "local_save cwd dir h b f ct s = (let n = h @ path_suffix (path_of f); p = resolve cwd (path_of dir) @ [n] in
    case write_bytes p b (disk s) of (Inl e, d) \<Rightarrow> (Inl e, s\<lparr>disk := d\<rparr>)
    | (Inr u, d) \<Rightarrow> (Inr \<lparr>res_filename = f, res_stored_as = n, res_stored_path = ''/api/v1/uploads/'' @ n,
        res_content_type = content_type_or_default ct\<rparr>, s\<lparr>disk := d\<rparr>))"
  using hex_then_plain [OF assms suffix_no_slash [of f]]
  by (simp add: local_save_def Let_def resolve_slash bnd_in_disk ret_apply split: prod.split sum.split)

lemma local_storage: "object_storage (local_save cwd dir) (objects api cwd (LocalUploadStorage dir))"
proof
  fix h b f ct and s t :: "'a stores" and r
  assume h: "is_hex h" and "local_save cwd dir h b f ct s = (Inr r, t)"
  then have w: "write_bytes (resolve cwd (path_of dir) @ [res_stored_as r]) b (disk s) = (Inr (), disk t)"
    and n: "res_stored_as r = h @ path_suffix (path_of f)"
    by (auto simp: local_save_result Let_def split: prod.splits sum.splits)
  show "objects api cwd (LocalUploadStorage dir) t = (objects api cwd (LocalUploadStorage dir) s)(res_stored_as r \<mapsto> b)"
    using w by (auto simp: write_bytes_Inr objects_def node_at_def fun_eq_iff)
  show "\<exists>e. res_stored_as r = h @ e" using n by auto
qed

lemma s3_storage:
  assumes "remote_ok api"
  shows "object_storage (s3_save api bucket) (objects api cwd (S3UploadStorage bucket))"
  using assms by unfold_locales (auto simp: s3_save_def remote_save_def objects_def remote_ok_def Let_def bnd_in_remote throw_apply ret_apply
      split: prod.splits sum.splits if_splits)

lemma azure_storage:
  assumes "remote_ok api"
  shows "object_storage (azure_save api container) (objects api cwd (AzureBlobUploadStorage container))"
  using assms by unfold_locales (auto simp: azure_save_def remote_save_def objects_def remote_ok_def Let_def bnd_in_remote throw_apply ret_apply
      split: prod.splits sum.splits if_splits)

interpretation local_store: object_storage "local_save cwd dir" "objects api cwd (LocalUploadStorage dir)" for cwd dir api
  by (rule local_storage)

lemma every_storage: "remote_ok api \<Longrightarrow> object_storage (save_upload api cwd st) (objects api cwd st)"
proof (cases st)
  case UploadStorage
  show ?thesis by standard (auto simp: UploadStorage throw_apply)
qed (simp_all add: local_storage s3_storage azure_storage)

text \<open>A local save into a folder that is there, under a name that is not.\<close>

lemma local_save_into:
  assumes "is_hex h" and "node_at (disk s) (resolve cwd (path_of dir)) = Some Folder"
    and "disk s (resolve cwd (path_of dir) @ [h @ path_suffix (path_of f)]) = None"
  obtains r where "local_save cwd dir h b f ct s =
      (Inr r, s\<lparr>disk := (disk s)(resolve cwd (path_of dir) @ [h @ path_suffix (path_of f)] \<mapsto> File b)\<rparr>)"
    and "res_stored_as r = h @ path_suffix (path_of f)" and "res_filename r = f"
proof -
  have "write_bytes (resolve cwd (path_of dir) @ [h @ path_suffix (path_of f)]) b (disk s) =
      (Inr (), (disk s)(resolve cwd (path_of dir) @ [h @ path_suffix (path_of f)] \<mapsto> File b))"
    using assms(2,3) by (simp add: write_bytes_def) (simp add: node_at_def)
  then show ?thesis
    by (intro that [of "\<lparr>res_filename = f, res_stored_as = h @ path_suffix (path_of f),
          res_stored_path = ''/api/v1/uploads/'' @ h @ path_suffix (path_of f), res_content_type = content_type_or_default ct\<rparr>"])
      (simp_all add: local_save_result [OF assms(1)] Let_def)
qed

text \<open>
  Property C37. Every storage backend refines a map from names to contents: a \<open>save\<close> that returns
  is the update of that map at the name it reports, and two saves under different \<open>uuid4\<close>s leave
  both contents in place.
\<close>

theorem storage_refines_object_map:
  assumes "remote_ok api" and "is_hex h" and "is_hex h'" and "h \<noteq> h'"
    and "save_upload api cwd st h b f ct s = (Inr r, t)" and "save_upload api cwd st h' b' f' ct' t = (Inr r', t')"
  shows "objects api cwd st t' = (objects api cwd st s)(res_stored_as r \<mapsto> b, res_stored_as r' \<mapsto> b') \<and>
    res_stored_as r \<noteq> res_stored_as r'"
  using object_storage.first_survives_second [OF every_storage [OF assms(1)] assms(2-6)] .

text \<open>A remote store whose calls always succeed.\<close>

definition demo_remote :: "(string \<times> string \<Rightarrow> string option) remote_api" where
  "demo_remote = \<lparr>put_object = \<lambda>bucket k b. modify (\<lambda>c. c((bucket, k) \<mapsto> b)), s3_object = \<lambda>bucket k c. c (bucket, k),
     upload_blob = \<lambda>bucket k b. modify (\<lambda>c. c((bucket, k) \<mapsto> b)), azure_object = \<lambda>bucket k c. c (bucket, k)\<rparr>"

lemma demo_remote_ok: "remote_ok demo_remote"
  by (auto simp: remote_ok_def demo_remote_def modify_apply fun_eq_iff)

definition hex_a :: string where "hex_a = ''aaaaaaaaaaaaaaaaaaaaaaaaaaaaaaaa''"
definition hex_b :: string where "hex_b = ''bbbbbbbbbbbbbbbbbbbbbbbbbbbbbbbb''"

lemma hex_ab: "is_hex hex_a" "is_hex hex_b" "hex_a \<noteq> hex_b"
  by (simp_all add: is_hex_def hex_a_def hex_b_def)

definition demo_stores :: "(string \<times> string \<Rightarrow> string option) stores" where
  "demo_stores = \<lparr>disk = [[''srv''] \<mapsto> Folder], remote = Map.empty\<rparr>"

lemma demo_suffix: "path_suffix (path_of ''x.png'') = ''.png''"
  by (simp add: path_suffix_def path_of_def path_name_def startswith_def Let_def)

lemma demo_srv: "resolve cwd (path_of ''/srv'') = [''srv'']"
  by (simp add: resolve_def path_of_def startswith_def)

theorem storage_refines_object_map_witness:
  "\<exists>t' (r :: upload_result) (r' :: upload_result). objects demo_remote [] (LocalUploadStorage ''/srv'') t' =
     (objects demo_remote [] (LocalUploadStorage ''/srv'') demo_stores)(res_stored_as r \<mapsto> ''one'', res_stored_as r' \<mapsto> ''two'') \<and>
     res_stored_as r \<noteq> res_stored_as r'"
proof -
  have d: "node_at (disk demo_stores) [''srv''] = Some Folder" "disk demo_stores ([''srv''] @ [n]) = None" for n
    by (simp_all add: demo_stores_def node_at_def)
  obtain r where 1: "local_save [] ''/srv'' hex_a ''one'' ''x.png'' None demo_stores =
      (Inr r, demo_stores\<lparr>disk := (disk demo_stores)([''srv''] @ [hex_a @ ''.png''] \<mapsto> File ''one'')\<rparr>)"
    by (rule local_save_into [OF hex_ab(1), of demo_stores "[]" "''/srv''" "''x.png''", unfolded demo_srv demo_suffix, OF d])
  define t where "t = demo_stores\<lparr>disk := (disk demo_stores)([''srv''] @ [hex_a @ ''.png''] \<mapsto> File ''one'')\<rparr>"
  have "node_at (disk t) [''srv''] = Some Folder" "disk t ([''srv''] @ [hex_b @ ''.png'']) = None"
    using hex_names_differ [OF hex_ab, of "''.png''" "''.png''"] d by (simp_all add: t_def node_at_def)
  from local_save_into [OF hex_ab(2), of t "[]" "''/srv''" "''x.png''", unfolded demo_srv demo_suffix, OF this]
  obtain r' t' where 2: "local_save [] ''/srv'' hex_b ''two'' ''x.png'' None t = (Inr r', t')" by metis
  have 1: "save_upload demo_remote [] (LocalUploadStorage ''/srv'') hex_a ''one'' ''x.png'' None demo_stores = (Inr r, t)"
    and 2: "save_upload demo_remote [] (LocalUploadStorage ''/srv'') hex_b ''two'' ''x.png'' None t = (Inr r', t')"
    using 1 2 by (simp_all add: t_def)
  from storage_refines_object_map [OF demo_remote_ok hex_ab 1 2] show ?thesis by (intro exI)
qed

text \<open>The guard against escaping the upload directory never fires on a new name.\<close>

theorem escape_guard_never_fires:
  assumes "is_hex h"
  shows "fst (local_save cwd dir h b f ct s) \<noteq> Inl (ValueError ''Resolved upload path escapes the upload directory'')"
  using assms by (auto simp: local_save_result Let_def write_bytes_def split: prod.splits sum.splits option.splits node.splits if_splits)

end
