(* ===== verification/Uploads.thy ===== *)
theory Uploads
  imports Auth Files Billing
begin

text \<open>
  \<open>backend/app/api/v1/uploads/router.py\<close> and the clean-up job of \<open>backend/common/background_jobs.py\<close>,
  over \<open>Files\<close>. The ORM class \<open>UploadRecord\<close> they import is not in the repository: it is a parameter,
  of which the routes use its constructor, three attributes and whatever constraints its table has.
\<close>

section \<open>State\<close>

record 'u upload_model =
  new_upload :: "int \<Rightarrow> string \<Rightarrow> string \<Rightarrow> int \<Rightarrow> 'u"
  up_stored_name :: "'u \<Rightarrow> string"
  up_owner_id :: "'u \<Rightarrow> int"
  up_created_at :: "'u \<Rightarrow> int"
  up_conflict :: "'u \<Rightarrow> 'u \<Rightarrow> bool"

text \<open>What the program relies on: the attributes are what the constructor was given.\<close>

definition upload_model_ok :: "'u upload_model \<Rightarrow> bool" where
  "upload_model_ok M \<longleftrightarrow> (\<forall>now n f o_id. up_stored_name M (new_upload M now n f o_id) = n \<and>
     up_owner_id M (new_upload M now n f o_id) = o_id \<and> up_created_at M (new_upload M now n f o_id) = now)"

text \<open>The application, the upload table as the session sees it and as committed, and the stores.\<close>

record ('r, 'u, 'c) site =
  web_app :: "'r app"
  up_rows :: "'u list"
  up_committed :: "'u list"
  stores :: "'c stores"

definition in_app :: "('r app, 'a) op \<Rightarrow> (('r, 'u, 'c) site, 'a) op" where
  "in_app m = zoom web_app (\<lambda>a s. s\<lparr>web_app := a\<rparr>) m"

definition in_stores :: "('c stores, 'a) op \<Rightarrow> (('r, 'u, 'c) site, 'a) op" where
  "in_stores m = zoom stores (\<lambda>c s. s\<lparr>stores := c\<rparr>) m"

text \<open>\<open>get_db\<close> over both: files written stay when the session is rolled back.\<close>

definition site_db :: "(('r, 'u, 'c) site, 'a) op \<Rightarrow> (('r, 'u, 'c) site, 'a) op" where
  "site_db handler = try_except
     (bnd handler (\<lambda>r. bnd (in_app (in_db commit)) (\<lambda>_. bnd (modify (\<lambda>s. s\<lparr>up_committed := up_rows s\<rparr>)) (\<lambda>_. ret r))))
     (\<lambda>e. bnd (in_app (in_db rollback)) (\<lambda>_. bnd (modify (\<lambda>s. s\<lparr>up_rows := up_committed s\<rparr>)) (\<lambda>_. throw e)))"

section \<open>Checks\<close>

record sent_file =
  file_name :: "string option"
  file_bytes :: string
  file_type :: "string option"

definition allowed_extensions :: "string list" where
  "allowed_extensions = [''.png'', ''.jpg'', ''.jpeg'', ''.pdf'', ''.txt'', ''.csv'']"

definition bytes :: "nat list \<Rightarrow> string" where
  "bytes ns = map char_of ns"

definition magic_bytes :: "string \<rightharpoonup> string list" where
  "magic_bytes = [''.png'' \<mapsto> [bytes [0x89, 0x50, 0x4E, 0x47, 0x0D, 0x0A, 0x1A, 0x0A]], ''.jpg'' \<mapsto> [bytes [0xFF, 0xD8, 0xFF]],
     ''.jpeg'' \<mapsto> [bytes [0xFF, 0xD8, 0xFF]], ''.pdf'' \<mapsto> [''%PDF-'']]"

definition validate_filename :: "string option \<Rightarrow> exn + string" where
  "validate_filename original = (case original of None \<Rightarrow> Inl TypeError
   | Some f \<Rightarrow> (let safe_name = path_name (path_of f) in
       if safe_name = [] then Inl (HTTPException 400 (DetailText ''filename is required''))
       else if lower (path_suffix (path_of safe_name)) \<notin> set allowed_extensions
         then Inl (HTTPException 400 (DetailText ''File type not allowed''))
       else Inr safe_name))"

definition content_matches :: "string \<Rightarrow> string \<Rightarrow> bool" where
  "content_matches ext contents = (case magic_bytes ext of None \<Rightarrow> True
   | Some signatures \<Rightarrow> list_ex (startswith contents) signatures)"

definition validate_content_matches_extension :: "string \<Rightarrow> string \<Rightarrow> exn + unit" where
  "validate_content_matches_extension ext contents = (if content_matches ext contents then Inr ()
     else Inl (HTTPException 400 (DetailText ''File content does not match its declared type'')))"

section \<open>The routes\<close>

definition add_upload :: "'u upload_model \<Rightarrow> 'u \<Rightarrow> (('r, 'u, 'c) site, unit) op" where
  "add_upload M row = (\<lambda>s. if list_ex (\<lambda>x. up_conflict M x row) (up_rows s) then (Inl IntegrityError, s)
     else (Inr (), s\<lparr>up_rows := up_rows s @ [row]\<rparr>))"

definition upload_file :: "'u upload_model \<Rightarrow> 'c remote_api \<Rightarrow> string list \<Rightarrow> upload_storage option \<Rightarrow> string \<Rightarrow> int \<Rightarrow> sent_file \<Rightarrow>
    principal \<Rightarrow> (('r, 'u, 'c) site, upload_result) op" where
  "upload_file M api cwd storage hex now file current_user =
     bnd (pure_op (validate_filename (file_name file))) (\<lambda>original_name.
     bnd (pure_op (validate_content_matches_extension (lower (path_suffix (path_of original_name))) (file_bytes file))) (\<lambda>_.
     case storage of None \<Rightarrow> throw (HTTPException 500 (DetailText ''Upload storage not configured''))
     | Some st \<Rightarrow>
         bnd (in_stores (save_upload api cwd st hex (file_bytes file) original_name (file_type file))) (\<lambda>result.
         bnd (add_upload M (new_upload M now (res_stored_as result) original_name (user_id current_user))) (\<lambda>_.
         ret result))))"

record file_answer =
  fa_path :: "string list"
  fa_disposition :: string

definition not_found_file :: exn where
  "not_found_file = HTTPException 404 (DetailText ''File not found'')"

definition download_file :: "'u upload_model \<Rightarrow> string list \<Rightarrow> string \<Rightarrow> principal \<Rightarrow> (('r, 'u, 'c) site, file_answer) op" where
  "download_file M cwd stored_name current_user =
     bnd (look (\<lambda>s. find_row (\<lambda>r. up_stored_name M r = stored_name) (up_rows s))) (\<lambda>found. case found of
       None \<Rightarrow> throw not_found_file
     | Some upload_record \<Rightarrow>
         if up_owner_id M upload_record \<noteq> user_id current_user \<and> \<not> user_is_superuser current_user
         then throw (HTTPException 403 (DetailText ''Not authorized to access this file''))
         else bnd (look (\<lambda>s. conf (web_app s))) (\<lambda>c.
           if upload_backend c \<noteq> LocalBackend
           then throw (HTTPException 501 (DetailText (''Download proxying for remote storage backends is not implemented; '' @
                  ''issue a short-lived signed URL from the storage provider instead.'')))
           else let safe_name = path_name (path_of stored_name);
                    file_path = resolve cwd (slash (path_of (upload_dir c)) safe_name);
                    upload_root = resolve cwd (path_of (upload_dir c))
             in if \<not> in_parents upload_root file_path then throw not_found_file
                else bnd (look (\<lambda>s. node_at (disk (stores s)) file_path)) (\<lambda>node.
                  if node = None then throw not_found_file
                  else ret \<lparr>fa_path = file_path,
                      fa_disposition = ''attachment; filename='' @ [CHR 0x22] @ safe_name @ [CHR 0x22]\<rparr>)))"

text \<open>The routes with their dependencies: the caller and the session.\<close>

definition upload_route :: "'u upload_model \<Rightarrow> 'c remote_api \<Rightarrow> string list \<Rightarrow> upload_storage option \<Rightarrow> 'r redis_ops \<Rightarrow> crypto \<Rightarrow>
    string \<Rightarrow> int \<Rightarrow> string option \<Rightarrow> string option \<Rightarrow> sent_file \<Rightarrow> (('r, 'u, 'c) site, upload_result) op" where
  "upload_route M api cwd storage rc cr hex now api_key credentials file = site_db
     (bnd (in_app (get_current_active_user rc cr now api_key credentials)) (\<lambda>current_user.
      upload_file M api cwd storage hex now file current_user))"

definition download_route :: "'u upload_model \<Rightarrow> string list \<Rightarrow> 'r redis_ops \<Rightarrow> crypto \<Rightarrow>
    int \<Rightarrow> string option \<Rightarrow> string option \<Rightarrow> string \<Rightarrow> (('r, 'u, 'c) site, file_answer) op" where
  "download_route M cwd rc cr now api_key credentials stored_name = site_db
     (bnd (in_app (get_current_active_user rc cr now api_key credentials)) (\<lambda>current_user.
      download_file M cwd stored_name current_user))"

section \<open>The clean-up job\<close>

definition stale :: "'u upload_model \<Rightarrow> int \<Rightarrow> int \<Rightarrow> 'u \<Rightarrow> bool" where
  "stale M now older_than_days r \<longleftrightarrow> up_created_at M r \<le> now - max 0 older_than_days * 86400000000"

definition remove_file :: "'u upload_model \<Rightarrow> string list \<Rightarrow> settings \<Rightarrow> 'u \<Rightarrow> (('r, 'u, 'c) site, unit) op" where
  "remove_file M cwd c r = (if upload_backend c = LocalBackend
     then let file_path = resolve cwd (slash (path_of (upload_dir c)) (up_stored_name M r)) in
       bnd (look (\<lambda>s. node_at (disk (stores s)) file_path)) (\<lambda>node.
       when_op (node \<noteq> None) (in_stores (in_disk (unlink file_path))))
     else ret ())"

definition remove_upload :: "'u upload_model \<Rightarrow> string list \<Rightarrow> settings \<Rightarrow> 'u \<Rightarrow> (('r, 'u, 'c) site, unit) op" where
  "remove_upload M cwd c r = bnd (remove_file M cwd c r) (\<lambda>_.
     modify (\<lambda>s. s\<lparr>up_rows := filter (\<lambda>x. x \<noteq> r) (up_rows s)\<rparr>))"

definition cleanup_stale_uploads :: "'u upload_model \<Rightarrow> string list \<Rightarrow> int \<Rightarrow> int \<Rightarrow> (('r, 'u, 'c) site, nat) op" where
  "cleanup_stale_uploads M cwd now older_than_days = (\<lambda>s.
     case bnd (look (\<lambda>s. (conf (web_app s), filter (stale M now older_than_days) (up_rows s)))) (\<lambda>(c, records).
       bnd (for_each records (remove_upload M cwd c)) (\<lambda>_.
       bnd (modify (\<lambda>s. s\<lparr>up_committed := up_rows s\<rparr>)) (\<lambda>_. ret (length records)))) (s\<lparr>up_rows := up_committed s\<rparr>) of
     (r, t) \<Rightarrow> (r, t\<lparr>up_rows := up_committed t\<rparr>))"

section \<open>Downloads stay in the upload directory\<close>

lemma bnd_in_stores: "bnd (in_stores m) f s =
    (case m (stores s) of (Inl e, c) \<Rightarrow> (Inl e, s\<lparr>stores := c\<rparr>) | (Inr a, c) \<Rightarrow> f a (s\<lparr>stores := c\<rparr>))"
  by (simp add: in_stores_def bnd_zoom)

text \<open>The last component of a parsed path: none, the way up, or a plain name.\<close>

lemma path_name_cases:
  obtains "path_name (path_of s) = []" | "path_name (path_of s) = ''..''" | "plain_name (path_name (path_of s))"
proof -
  have "path_name (path_of s) \<noteq> ''.''"
    by (auto simp: path_name_def path_of_def dest!: last_in_set)
  then show ?thesis using that path_name_no_slash [of s] by (auto simp: plain_name_def)
qed

lemma contained_name:
  assumes "in_parents (resolve cwd p) (resolve cwd (slash p (path_name (path_of s))))"
  shows "plain_name (path_name (path_of s)) \<and> resolve cwd (slash p (path_name (path_of s))) = resolve cwd p @ [path_name (path_of s)]"
proof (cases rule: path_name_cases [of s])
  case 1
  then have e: "resolve cwd (slash p (path_name (path_of s))) = resolve cwd p"
    by (simp add: slash_def path_of_def resolve_def startswith_def)
  show ?thesis using assms unfolding e by (auto simp: in_parents_def)
next
  case 2
  then have e: "resolve cwd (slash p (path_name (path_of s))) = butlast (resolve cwd p)"
    by (simp add: slash_def path_of_def resolve_def startswith_def walk_append)
  show ?thesis using assms unfolding e by (auto simp: in_parents_def)
next
  case 3
  then show ?thesis by (simp add: resolve_slash)
qed

text \<open>
  Property C15. A download that succeeds is of a file directly in the upload directory, whatever the
  name asked for, and the first record under that name belongs to the caller, unless the caller is
  a superuser.
\<close>

theorem download_is_contained:
  assumes "download_file M cwd stored_name user s = (Inr a, t)"
  shows "\<exists>r n. find_row (\<lambda>r. up_stored_name M r = stored_name) (up_rows s) = Some r \<and>
    (up_owner_id M r = user_id user \<or> user_is_superuser user) \<and>
    plain_name n \<and> fa_path a = resolve cwd (path_of (upload_dir (conf (web_app s)))) @ [n] \<and>
    node_at (disk (stores s)) (fa_path a) \<noteq> None"
  using assms unfolding download_file_def bnd_look
  by (auto simp: throw_apply ret_apply bnd_look Let_def split: option.splits if_splits dest!: contained_name)

section \<open>A file that was uploaded comes back\<close>

definition saved_name :: "string \<Rightarrow> string \<Rightarrow> string" where
  "saved_name hex f = hex @ path_suffix (path_of (path_name (path_of f)))"

definition upload_ready :: "'u upload_model \<Rightarrow> string list \<Rightarrow> string \<Rightarrow> (('r, 'u, 'c) site) \<Rightarrow> bool" where
  "upload_ready M cwd n s \<longleftrightarrow> (let root_dir = resolve cwd (path_of (upload_dir (conf (web_app s)))) in
     upload_backend (conf (web_app s)) = LocalBackend \<and> node_at (disk (stores s)) root_dir = Some Folder \<and>
     disk (stores s) (root_dir @ [n]) = None \<and> (\<forall>x \<in> set (up_rows s). up_stored_name M x \<noteq> n))"

lemma upload_result:
  assumes "is_hex hex" "upload_model_ok M" "validate_filename (file_name file) = Inr f"
    and "content_matches (lower (path_suffix (path_of f))) (file_bytes file)"
    and "upload_ready M cwd (hex @ path_suffix (path_of f)) s"
    and "\<forall>x \<in> set (up_rows s). \<not> up_conflict M x (new_upload M now (hex @ path_suffix (path_of f)) f (user_id user))"
  obtains r t where "upload_file M api cwd (Some (LocalUploadStorage (upload_dir (conf (web_app s))))) hex now file user s = (Inr r, t)"
    and "res_stored_as r = hex @ path_suffix (path_of f)" and "res_filename r = f" and "web_app t = web_app s"
    and "up_rows t = up_rows s @ [new_upload M now (hex @ path_suffix (path_of f)) f (user_id user)]"
    and "disk (stores t) = (disk (stores s))(resolve cwd (path_of (upload_dir (conf (web_app s)))) @ [hex @ path_suffix (path_of f)]
           \<mapsto> File (file_bytes file))"
proof -
  let ?n = "hex @ path_suffix (path_of f)"
  let ?dir = "upload_dir (conf (web_app s))"
  obtain r where r: "local_save cwd ?dir hex (file_bytes file) f (file_type file) (stores s) =
      (Inr r, (stores s)\<lparr>disk := (disk (stores s))(resolve cwd (path_of ?dir) @ [?n] \<mapsto> File (file_bytes file))\<rparr>)"
    "res_stored_as r = ?n" "res_filename r = f"
    using local_save_into [OF assms(1), of "stores s" cwd ?dir f "file_bytes file" "file_type file"] assms(5)
    by (auto simp: upload_ready_def Let_def)
  show ?thesis
    by (intro that [of r "s\<lparr>stores := (stores s)\<lparr>disk := (disk (stores s))(resolve cwd (path_of ?dir) @ [?n] \<mapsto> File (file_bytes file))\<rparr>,
          up_rows := up_rows s @ [new_upload M now ?n f (user_id user)]\<rparr>"])
      (use assms(6) r in \<open>simp_all add: upload_file_def assms(3,4) pure_op_apply validate_content_matches_extension_def in_stores_def zoom_apply bnd_apply
          add_upload_def ret_apply list_ex_iff\<close>)
qed

lemma validated_plain:
  assumes "validate_filename original = Inr f"
  shows "plain_name f"
proof -
  obtain g where g: "f = path_name (path_of g)" "f \<noteq> []" and e: "lower (path_suffix (path_of f)) \<in> set allowed_extensions"
    using assms by (auto simp: validate_filename_def Let_def split: option.splits if_splits)
  have "path_suffix (path_of ''..'') = []"
    by (simp add: path_suffix_def path_of_def path_name_def startswith_def Let_def)
  then have "f \<noteq> ''..''" using e by (auto simp: allowed_extensions_def lower_def)
  then show ?thesis using g by (cases rule: path_name_cases [of g]) auto
qed

lemma upload_then_download:
  assumes "is_hex hex" and "upload_model_ok M" and "validate_filename (file_name file) = Inr f"
    and "content_matches (lower (path_suffix (path_of f))) (file_bytes file)"
    and "upload_ready M cwd (hex @ path_suffix (path_of f)) s"
    and "\<forall>x \<in> set (up_rows s). \<not> up_conflict M x (new_upload M now (hex @ path_suffix (path_of f)) f (user_id user))"
  shows "\<exists>r t a. upload_file M api cwd (Some (LocalUploadStorage (upload_dir (conf (web_app s))))) hex now file user s = (Inr r, t) \<and>
    download_file M cwd (res_stored_as r) user t = (Inr a, t) \<and> node_at (disk (stores t)) (fa_path a) = Some (File (file_bytes file))"
proof -
  let ?n = "hex @ path_suffix (path_of f)"
  let ?root = "resolve cwd (path_of (upload_dir (conf (web_app s))))"
  obtain r t where u: "upload_file M api cwd (Some (LocalUploadStorage (upload_dir (conf (web_app s))))) hex now file user s = (Inr r, t)"
    and n: "res_stored_as r = ?n" and app: "web_app t = web_app s"
    and rows: "up_rows t = up_rows s @ [new_upload M now ?n f (user_id user)]"
    and d: "disk (stores t) = (disk (stores s))(?root @ [?n] \<mapsto> File (file_bytes file))"
    by (rule upload_result [OF assms])
  have "find_row (\<lambda>r. up_stored_name M r = ?n) (up_rows s) = None"
    using assms(5) by (simp add: find_row_None upload_ready_def Let_def)
  then have "find_row (\<lambda>r. up_stored_name M r = ?n) (up_rows t) = Some (new_upload M now ?n f (user_id user))"
    using assms(2) by (simp add: rows find_row_append) (simp add: find_row_def upload_model_ok_def)
  moreover have "plain_name ?n" using hex_then_plain [OF assms(1) suffix_no_slash] .
  ultimately have "download_file M cwd ?n user t = (Inr \<lparr>fa_path = ?root @ [?n],
      fa_disposition = ''attachment; filename='' @ [CHR 0x22] @ ?n @ [CHR 0x22]\<rparr>, t)"
    using assms(2,5) by (simp add: download_file_def bnd_look upload_model_ok_def app upload_ready_def Let_def resolve_slash d node_at_def ret_apply)
  moreover have "node_at (disk (stores t)) (?root @ [?n]) = Some (File (file_bytes file))" by (simp add: d node_at_def)
  ultimately show ?thesis using u n by (metis file_answer.select_convs(1))
qed

text \<open>
  Property C16. With the local backend, a file that passes the checks is stored, and its owner gets it
  back under the name the answer gives: the answer's path holds the very bytes.
\<close>

theorem uploaded_file_comes_back:
  assumes "is_hex hex" and "upload_model_ok M" and "validate_filename (file_name file) = Inr f"
    and "content_matches (lower (path_suffix (path_of f))) (file_bytes file)"
    and "upload_ready M cwd (hex @ path_suffix (path_of f)) s"
    and "\<forall>x \<in> set (up_rows s). \<not> up_conflict M x (new_upload M now (hex @ path_suffix (path_of f)) f (user_id user))"
  shows "\<exists>r t a. upload_file M api cwd (Some (LocalUploadStorage (upload_dir (conf (web_app s))))) hex now file user s = (Inr r, t) \<and>
    download_file M cwd (res_stored_as r) user t = (Inr a, t) \<and> node_at (disk (stores t)) (fa_path a) = Some (File (file_bytes file))"
  by (rule upload_then_download [OF assms])

section \<open>What is stored matches its extension\<close>

lemma suffix_shape:
  obtains "path_suffix p = []" | e where "path_suffix p = CHR ''.'' # e" "e \<noteq> []" "CHR ''.'' \<notin> set e"
  by (cases "path_suffix p = []") (auto simp: path_suffix_def Let_def split: if_splits dest!: set_takeWhileD)

lemma takeWhile_until: "c \<notin> set xs \<Longrightarrow> takeWhile (\<lambda>x. x \<noteq> c) (xs @ c # ys) = xs"
  by (induction xs) auto

lemma suffix_of_stored:
  assumes "is_hex h" "e \<noteq> []" "CHR ''.'' \<notin> set e" "CHR ''/'' \<notin> set e"
  shows "path_suffix (path_of (h @ CHR ''.'' # e)) = CHR ''.'' # e"
proof -
  let ?n = "h @ CHR ''.'' # e"
  have 1: "path_name (path_of ?n) = ?n"
    using assms(4) by (intro path_name_plain hex_then_plain [OF assms(1)]) simp
  have "rev ?n = rev e @ CHR ''.'' # rev h" by simp
  moreover have "takeWhile (\<lambda>c. c \<noteq> CHR ''.'') (rev e @ CHR ''.'' # rev h) = rev e"
    using assms(3) by (intro takeWhile_until) simp
  ultimately have 2: "rev (takeWhile (\<lambda>c. c \<noteq> CHR ''.'') (rev ?n)) = e" by (simp only: rev_rev_ident)
  have 3: "CHR ''.'' \<in> set ?n" by simp
  have 4: "length e + 1 < length ?n" using assms(1) by (simp add: is_hex_def)
  show ?thesis by (simp only: path_suffix_def Let_def 1 2 3 4 assms(2) simp_thms if_True not_False_eq_True)
qed

lemma lower_char_dot: "lower_char c = CHR ''.'' \<Longrightarrow> c = CHR ''.''"
proof -
  assume "lower_char c = CHR ''.''"
  then have "of_char (lower_char c) = (46 :: nat)" by simp
  moreover have "(of_char c :: nat) < 256" by simp
  ultimately have "of_char c = (46 :: nat)" by (auto simp: lower_char_def Let_def of_char_of split: if_splits)
  then have "of_char c = (of_char (CHR ''.'') :: nat)" by simp
  then show ?thesis by (simp only: of_char_eq_iff)
qed

lemma lower_suffix_of_stored:
  assumes "is_hex h" and "path_suffix (path_of f) \<noteq> []"
  shows "lower (path_suffix (path_of (h @ path_suffix (path_of f)))) = lower (path_suffix (path_of f))"
    and "lower (path_suffix (path_of (h @ lower (path_suffix (path_of f))))) = lower (path_suffix (path_of f))"
proof -
  obtain e where e: "path_suffix (path_of f) = CHR ''.'' # e" "e \<noteq> []" "CHR ''.'' \<notin> set e"
    by (cases rule: suffix_shape [of "path_of f"]) (use assms(2) in auto)
  have s: "CHR ''/'' \<notin> set e" using suffix_no_slash [of f] by (simp add: e)
  show "lower (path_suffix (path_of (h @ path_suffix (path_of f)))) = lower (path_suffix (path_of f))"
    by (simp add: e suffix_of_stored [OF assms(1) e(2,3) s])
  have "lower (CHR ''.'' # e) = CHR ''.'' # lower e" by (simp add: lower_def lower_char_def)
  moreover have "CHR ''.'' \<notin> set (lower e)" using lower_char_dot e(3) by (fastforce simp: lower_def)
  moreover have "lower e \<noteq> []" using e(2) by (simp add: lower_def)
  ultimately have "path_suffix (path_of (h @ lower (CHR ''.'' # e))) = lower (CHR ''.'' # e)"
    using suffix_of_stored [OF assms(1), of "lower e"] lower_no_slash [OF s] by simp
  then show "lower (path_suffix (path_of (h @ lower (path_suffix (path_of f))))) = lower (path_suffix (path_of f))"
    by (simp only: e lower_idem)
qed

lemma stored_extension:
  assumes "is_hex h" "plain_name f" "path_suffix (path_of f) \<noteq> []" and "save_upload api cwd st h b f ct s = (Inr r, t)"
  shows "lower (path_suffix (path_of (res_stored_as r))) = lower (path_suffix (path_of f))"
  using assms(4) by (cases st) (auto simp: throw_apply local_save_result [OF assms(1)] s3_save_def azure_save_def remote_save_def
      bnd_in_remote ret_apply Let_def lower_suffix_of_stored [OF assms(1,3)] path_name_plain [OF assms(2)]
      split: prod.splits sum.splits if_splits)

text \<open>
  Whatever the backend, an upload that succeeds has stored contents that begin as the
  extension of the name they are stored under says, that extension is an allowed one, and the new
  record under that name is the caller's.
\<close>

theorem stored_contents_match_extension:
  assumes "is_hex hex" and "upload_model_ok M" and "upload_file M api cwd storage hex now file user s = (Inr r, t)"
  shows "lower (path_suffix (path_of (res_stored_as r))) \<in> set allowed_extensions \<and>
    content_matches (lower (path_suffix (path_of (res_stored_as r)))) (file_bytes file) \<and>
    (\<exists>row. up_rows t = up_rows s @ [row] \<and> up_stored_name M row = res_stored_as r \<and> up_owner_id M row = user_id user)"
proof -
  from assms(3) obtain f st c where f: "validate_filename (file_name file) = Inr f"
    and m: "content_matches (lower (path_suffix (path_of f))) (file_bytes file)"
    and sv: "save_upload api cwd st hex (file_bytes file) f (file_type file) (stores s) = (Inr r, c)"
    and t: "up_rows t = up_rows s @ [new_upload M now (res_stored_as r) f (user_id user)]"
    by (auto simp: upload_file_def bnd_apply pure_op_apply validate_content_matches_extension_def throw_apply in_stores_def zoom_def
        add_upload_def ret_apply split: sum.splits option.splits prod.splits if_splits)
  have a: "lower (path_suffix (path_of f)) \<in> set allowed_extensions"
    using f path_name_plain [OF validated_plain [OF f]] by (auto simp: validate_filename_def Let_def split: option.splits if_splits)
  then have "path_suffix (path_of f) \<noteq> []" by (auto simp: allowed_extensions_def lower_def)
  from stored_extension [OF assms(1) validated_plain [OF f] this sv] a m t assms(2)
  show ?thesis by (simp add: upload_model_ok_def)
qed

section \<open>The clean-up removes what is stale and nothing else\<close>

definition without_files :: "string list \<Rightarrow> string list \<Rightarrow> disk \<Rightarrow> disk" where
  "without_files root_dir names d = (\<lambda>p. if p \<in> (\<lambda>n. root_dir @ [n]) ` set names then None else d p)"

lemma without_files_Cons: "without_files root_dir (n # names) d = without_files root_dir names (d(root_dir @ [n] := None))"
  by (auto simp: without_files_def fun_eq_iff)

lemma remove_file_run:
  assumes "upload_backend c = LocalBackend" "plain_name (up_stored_name M r)"
    and "disk (stores s) (resolve cwd (path_of (upload_dir c)) @ [up_stored_name M r]) \<noteq> Some Folder"
  shows "remove_file M cwd c r s = (Inr (), s\<lparr>stores := (stores s)\<lparr>disk :=
     (disk (stores s))(resolve cwd (path_of (upload_dir c)) @ [up_stored_name M r] := None)\<rparr>\<rparr>)"
proof (cases "disk (stores s) (resolve cwd (path_of (upload_dir c)) @ [up_stored_name M r])")
  case None
  then have "(disk (stores s))(resolve cwd (path_of (upload_dir c)) @ [up_stored_name M r] := None) = disk (stores s)"
    by (simp add: fun_upd_idem)
  then show ?thesis using None assms(1,2)
    by (simp add: remove_file_def Let_def bnd_look resolve_slash node_at_def op_simps)
next
  case (Some node)
  then show ?thesis using assms
    by (cases node) (simp_all add: remove_file_def Let_def bnd_look resolve_slash node_at_def op_simps in_stores_def in_disk_def zoom_apply unlink_def)
qed

lemma remove_all:
  assumes "upload_backend c = LocalBackend" "\<forall>r \<in> set rs. plain_name (up_stored_name M r)"
    and "\<forall>r \<in> set rs. disk (stores s) (resolve cwd (path_of (upload_dir c)) @ [up_stored_name M r]) \<noteq> Some Folder"
  shows "for_each rs (remove_upload M cwd c) s =
    (Inr (), s\<lparr>up_rows := filter (\<lambda>x. x \<notin> set rs) (up_rows s),
      stores := (stores s)\<lparr>disk := without_files (resolve cwd (path_of (upload_dir c))) (map (up_stored_name M) rs) (disk (stores s))\<rparr>\<rparr>)"
  using assms(2,3)
proof (induction rs arbitrary: s)
  case Nil
  then show ?case by (simp add: ret_apply without_files_def)
next
  case (Cons r rs)
  let ?root = "resolve cwd (path_of (upload_dir c))"
  let ?s = "s\<lparr>up_rows := filter (\<lambda>x. x \<noteq> r) (up_rows s), stores := (stores s)\<lparr>disk := (disk (stores s))(?root @ [up_stored_name M r] := None)\<rparr>\<rparr>"
  have step: "remove_upload M cwd c r s = (Inr (), ?s)"
    using Cons.prems by (simp add: remove_upload_def bnd_apply remove_file_run [OF assms(1)] modify_apply)
  have "\<forall>r' \<in> set rs. disk (stores ?s) (?root @ [up_stored_name M r']) \<noteq> Some Folder" using Cons.prems by simp
  from Cons.IH [of ?s, OF _ this] Cons.prems(1) show ?case
    by (simp add: bnd_apply step without_files_Cons filter_filter conj_commute fun_upd_def)
qed

text \<open>
  With the local backend and rows whose names are plain (as every upload makes them), the
  clean-up deletes the rows older than the bound and their files, leaves every other row and file
  alone, and returns how many it deleted.
\<close>

theorem cleanup_removes_only_stale:
  assumes "upload_backend (conf (web_app s)) = LocalBackend" and "\<forall>r \<in> set (up_committed s). plain_name (up_stored_name M r)"
    and "\<forall>r \<in> set (up_committed s).
      disk (stores s) (resolve cwd (path_of (upload_dir (conf (web_app s)))) @ [up_stored_name M r]) \<noteq> Some Folder"
  shows "cleanup_stale_uploads M cwd now days s =
    (let old = filter (stale M now days) (up_committed s); kept = filter (\<lambda>r. \<not> stale M now days r) (up_committed s) in
     (Inr (length old), s\<lparr>up_rows := kept, up_committed := kept, stores := (stores s)\<lparr>disk :=
        without_files (resolve cwd (path_of (upload_dir (conf (web_app s))))) (map (up_stored_name M) old) (disk (stores s))\<rparr>\<rparr>))"
proof -
  let ?c = "conf (web_app s)"
  let ?old = "filter (stale M now days) (up_committed s)"
  let ?s = "s\<lparr>up_rows := up_committed s\<rparr>"
  have run: "for_each ?old (remove_upload M cwd ?c) ?s =
    (Inr (), ?s\<lparr>up_rows := filter (\<lambda>x. x \<notin> set ?old) (up_committed s),
      stores := (stores s)\<lparr>disk := without_files (resolve cwd (path_of (upload_dir ?c))) (map (up_stored_name M) ?old) (disk (stores s))\<rparr>\<rparr>)"
    using remove_all [OF assms(1), of ?old M ?s cwd] assms(2,3) by simp
  have "filter (\<lambda>x. x \<notin> set ?old) (up_committed s) = filter (\<lambda>r. \<not> stale M now days r) (up_committed s)"
    by (rule filter_cong) auto
  with run show ?thesis
    by (simp add: cleanup_stale_uploads_def bnd_apply look_apply modify_apply ret_apply Let_def)
qed

theorem remote_objects_outlive_records:
  assumes "upload_backend (conf (web_app s)) \<noteq> LocalBackend" and "cleanup_stale_uploads M cwd now days s = (Inr n, t)"
  shows "stores t = stores s"
proof -
  have "preserves (\<lambda>u. stores u = stores s) (for_each rs (remove_upload M cwd (conf (web_app s))))" for rs
    using assms(1) by (induction rs)
      (auto simp: remove_upload_def remove_file_def intro!: preserves_intros preserves_modify)
  from preserves_result [OF this, of "s\<lparr>up_rows := up_committed s\<rparr>"] show ?thesis
    using assms(2) by (auto simp: cleanup_stale_uploads_def bnd_apply look_apply modify_apply ret_apply split: prod.splits sum.splits)
qed

section \<open>Witnesses\<close>

definition demo_uploads :: "(int \<times> string \<times> string \<times> int) upload_model" where
  "demo_uploads = \<lparr>new_upload = \<lambda>now n f o_id. (now, n, f, o_id), up_stored_name = \<lambda>(_, n, _, _). n,
     up_owner_id = \<lambda>(_, _, _, o_id). o_id, up_created_at = fst, up_conflict = \<lambda>_ _. False\<rparr>"

definition upload_site :: "(int \<times> string \<times> string \<times> int) list \<Rightarrow>
    (string \<Rightarrow> pyval option, int \<times> string \<times> string \<times> int, string \<times> string \<Rightarrow> string option) site" where
  "upload_site rows = \<lparr>web_app = (demo_app empty_db)\<lparr>conf := default_settings\<lparr>upload_dir := ''/srv''\<rparr>\<rparr>, up_rows = rows,
     up_committed = rows, stores = demo_stores\<rparr>"

definition demo_file :: sent_file where
  "demo_file = \<lparr>file_name = Some ''a/x.pdf'', file_bytes = ''%PDF-1'', file_type = None\<rparr>"

abbreviation demo_caller :: principal where
  "demo_caller \<equiv> principal_of demo_user None None"

lemma demo_upload_facts:
  "upload_model_ok demo_uploads" "validate_filename (file_name demo_file) = Inr ''x.pdf''" "path_suffix (path_of ''x.pdf'') = ''.pdf''"
  "content_matches (lower ''.pdf'') (file_bytes demo_file)"
  "upload_ready demo_uploads [] (hex_a @ ''.pdf'') (upload_site [])"
proof -
  show s: "path_suffix (path_of ''x.pdf'') = ''.pdf''"
    by (simp add: path_suffix_def path_of_def path_name_def startswith_def Let_def)
  have "path_name (path_of ''a/x.pdf'') = ''x.pdf''" by (simp add: path_of_def path_name_def startswith_def)
  moreover have l: "lower ''.pdf'' = ''.pdf''" by (simp add: lower_def lower_char_def)
  ultimately show "validate_filename (file_name demo_file) = Inr ''x.pdf''"
    by (simp add: validate_filename_def demo_file_def s allowed_extensions_def)
  show "content_matches (lower ''.pdf'') (file_bytes demo_file)"
    by (simp add: l content_matches_def magic_bytes_def demo_file_def startswith_def)
  show "upload_model_ok demo_uploads" by (simp add: upload_model_ok_def demo_uploads_def)
  show "upload_ready demo_uploads [] (hex_a @ ''.pdf'') (upload_site [])"
    by (simp add: upload_ready_def upload_site_def default_settings_def demo_srv Let_def node_at_def demo_stores_def)
qed

lemma demo_upload:
  obtains r t a where "upload_file demo_uploads demo_remote [] (Some (LocalUploadStorage ''/srv'')) hex_a 5 demo_file demo_caller (upload_site []) = (Inr r, t)"
    and "download_file demo_uploads [] (res_stored_as r) demo_caller t = (Inr a, t)"
    and "node_at (disk (stores t)) (fa_path a) = Some (File ''%PDF-1'')"
proof -
  have "upload_dir (conf (web_app (upload_site []))) = ''/srv''" "up_rows (upload_site []) = []" "file_bytes demo_file = ''%PDF-1''"
    by (simp_all add: upload_site_def demo_file_def)
  with upload_then_download [OF hex_ab(1) demo_upload_facts(1,2), unfolded demo_upload_facts(3), OF demo_upload_facts(4,5), of 5 demo_caller demo_remote]
  show ?thesis using that by auto
qed

theorem download_is_contained_witness:
  "\<exists>(a :: file_answer) t n. plain_name n \<and> fa_path a = resolve [] (path_of (upload_dir (conf (web_app t)))) @ [n] \<and>
     node_at (disk (stores (t :: (string \<Rightarrow> pyval option, int \<times> string \<times> string \<times> int, string \<times> string \<Rightarrow> string option) site))) (fa_path a) \<noteq> None"
proof -
  obtain r t a where
    "upload_file demo_uploads demo_remote [] (Some (LocalUploadStorage ''/srv'')) hex_a 5 demo_file demo_caller (upload_site []) = (Inr r, t)"
    and d: "download_file demo_uploads [] (res_stored_as r) demo_caller t = (Inr a, t)"
    by (rule demo_upload)
  from download_is_contained [OF d] show ?thesis by blast
qed

theorem uploaded_file_comes_back_witness:
  "\<exists>r t a. upload_file demo_uploads demo_remote [] (Some (LocalUploadStorage ''/srv'')) hex_a 5 demo_file demo_caller (upload_site []) = (Inr r, t) \<and>
     download_file demo_uploads [] (res_stored_as r) demo_caller t = (Inr a, t) \<and>
     node_at (disk (stores t)) (fa_path a) = Some (File ''%PDF-1'')"
proof -
  have "upload_dir (conf (web_app (upload_site []))) = ''/srv''" "up_rows (upload_site []) = []" "file_bytes demo_file = ''%PDF-1''"
    by (simp_all add: upload_site_def demo_file_def)
  with uploaded_file_comes_back [OF hex_ab(1) demo_upload_facts(1,2), unfolded demo_upload_facts(3), OF demo_upload_facts(4,5), of 5 demo_caller demo_remote]
  show ?thesis by simp
qed

theorem stored_contents_match_extension_witness:
  "\<exists>(r :: upload_result). lower (path_suffix (path_of (res_stored_as r))) \<in> set allowed_extensions \<and>
     content_matches (lower (path_suffix (path_of (res_stored_as r)))) ''%PDF-1''"
proof -
  obtain r t a where "upload_file demo_uploads demo_remote [] (Some (LocalUploadStorage ''/srv'')) hex_a 5 demo_file demo_caller (upload_site []) = (Inr r, t)"
    by (rule demo_upload)
  from stored_contents_match_extension [OF hex_ab(1) demo_upload_facts(1) this] show ?thesis
    by (auto simp: demo_file_def)
qed

theorem cleanup_removes_only_stale_witness:
  "fst (cleanup_stale_uploads demo_uploads [] 86400000005 1 (upload_site [(5, ''old.txt'', ''o.txt'', 1), (6, ''new.txt'', ''n.txt'', 1)])) = Inr 1"
proof -
  let ?s = "upload_site [(5, ''old.txt'', ''o.txt'', 1), (6, ''new.txt'', ''n.txt'', 1)]"
  have c: "upload_backend (conf (web_app ?s)) = LocalBackend" "upload_dir (conf (web_app ?s)) = ''/srv''"
    "up_committed ?s = [(5, ''old.txt'', ''o.txt'', 1), (6, ''new.txt'', ''n.txt'', 1)]" "disk (stores ?s) = [[''srv''] \<mapsto> Folder]"
    by (simp_all add: upload_site_def default_settings_def demo_stores_def)
  show ?thesis
    using cleanup_removes_only_stale [of ?s demo_uploads "[]" 86400000005 1, unfolded c demo_srv]
    by (simp add: demo_uploads_def plain_name_def stale_def Let_def)
qed

section \<open>The periodic jobs\<close>

text \<open>\<open>run_periodic_lifecycle_jobs\<close>: the clean-up, then the trials; an exception of the first ends both.\<close>

definition run_periodic_lifecycle_jobs :: "'u upload_model \<Rightarrow> string list \<Rightarrow> int \<Rightarrow> int \<Rightarrow>
    (('r, 'u, 'c) site, (string \<times> nat) list) op" where
  "run_periodic_lifecycle_jobs M cwd now older_than_days =
     bnd (cleanup_stale_uploads M cwd now older_than_days) (\<lambda>cleaned_uploads.
     bnd (in_app (process_trial_expiry_jobs now)) (\<lambda>expired_subscriptions.
     ret [(''cleaned_uploads'', cleaned_uploads), (''expired_subscriptions'', expired_subscriptions)]))"

text \<open>
  A round of the periodic jobs reports how many uploads were stale and how many trials were over, leaves the
  rows that are not stale, and the subscriptions with exactly those trials expired.
\<close>

theorem periodic_round:
  assumes "upload_backend (conf (web_app s)) = LocalBackend" and "\<forall>r \<in> set (up_committed s). plain_name (up_stored_name M r)"
    and "\<forall>r \<in> set (up_committed s).
      disk (stores s) (resolve cwd (path_of (upload_dir (conf (web_app s)))) @ [up_stored_name M r]) \<noteq> Some Folder"
    and "subs_ok (stored (sess (web_app s)))" and "job_queue (conf (web_app s)) = InProcessJobQueue"
    and "\<exists>sub \<in> set (subscriptions (stored (sess (web_app s)))). trial_over now sub"
  shows "\<exists>t. run_periodic_lifecycle_jobs M cwd now days s =
      (Inr [(''cleaned_uploads'', length (filter (stale M now days) (up_committed s))),
        (''expired_subscriptions'', length (filter (trial_over now) (subscriptions (stored (sess (web_app s))))))], t) \<and>
    up_committed t = filter (\<lambda>r. \<not> stale M now days r) (up_committed s) \<and>
    subscriptions (stored (sess (web_app t))) = map (expired_subscription now) (subscriptions (stored (sess (web_app s))))"
  using trial_round [OF assms(4-6)] cleanup_removes_only_stale [OF assms(1-3), of now days]
  by (auto simp: run_periodic_lifecycle_jobs_def bnd_apply Let_def in_app_def zoom_apply ret_apply)

theorem periodic_round_witness:
  "\<exists>t :: (string \<Rightarrow> pyval option, int \<times> string \<times> string \<times> int, string \<times> string \<Rightarrow> string option) site.
    up_committed t = [] \<and> map sub_status (subscriptions (stored (sess (web_app t)))) = [''expired'']"
proof -
  let ?a = "(demo_app demo_billing)\<lparr>conf := default_settings\<lparr>upload_dir := ''/srv''\<rparr>\<rparr>"
  let ?s = "(upload_site [(5, ''old.txt'', ''o.txt'', 1)])\<lparr>web_app := ?a\<rparr>"
  have c: "upload_backend (conf (web_app ?s)) = LocalBackend" "upload_dir (conf (web_app ?s)) = ''/srv''"
    "up_committed ?s = [(5, ''old.txt'', ''o.txt'', 1)]" "disk (stores ?s) = [[''srv''] \<mapsto> Folder]"
    "stored (sess (web_app ?s)) = demo_billing" "job_queue (conf (web_app ?s)) = InProcessJobQueue"
    by (simp_all add: upload_site_def default_settings_def demo_stores_def demo_app_def job_queue_def)
  have over: "trial_over 86400000005 demo_sub" by (simp add: trial_over_def demo_sub_def)
  have subs: "subscriptions demo_billing = [demo_sub]" by (simp add: demo_billing_def)
  have ok: "subs_ok demo_billing"
    by (simp add: subs_ok_def demo_billing_def demo_sub_def has_user_def has_plan_def demo_user_def demo_plan_def)
  show ?thesis
    using periodic_round [of ?s demo_uploads "[]" 86400000005 1, unfolded c demo_srv] ok over
    by (fastforce simp: demo_uploads_def plain_name_def stale_def subs expired_subscription_def)
qed

end
