(* ===== verification/Migration.thy ===== *)
theory Migration
  imports Rbac Billing
begin

text \<open>
  The database migration \<open>src/alembic/versions/20260704_initial_schema.py\<close>: its statements as data, and
  a catalog of tables, indexes and inserted rows on which they run. What databases differ in is a
  parameter: whether an integer literal may be assigned to a boolean column (SQLite lets it,
  PostgreSQL does not), and whether a table that others refer to may be dropped (likewise).
  An index is only ever made unique on a table without rows, so that it is not checked against any.
\<close>

section \<open>Statements\<close>

datatype sql_type = IntegerT | StringT nat | BooleanT | DateTimeT | JsonT

record sql_column =
  col_name :: string
  col_type :: sql_type
  col_nullable :: bool
  col_default :: "string option"
  col_unique :: bool

definition col :: "string \<Rightarrow> sql_type \<Rightarrow> sql_column" where
  "col n ty = \<lparr>col_name = n, col_type = ty, col_nullable = False, col_default = None, col_unique = False\<rparr>"

definition nullable_col :: "string \<Rightarrow> sql_type \<Rightarrow> sql_column" where
  "nullable_col n ty = (col n ty)\<lparr>col_nullable := True\<rparr>"

definition unique_col :: "string \<Rightarrow> sql_type \<Rightarrow> sql_column" where
  "unique_col n ty = (col n ty)\<lparr>col_unique := True\<rparr>"

definition default_col :: "string \<Rightarrow> sql_type \<Rightarrow> string \<Rightarrow> sql_column" where
  "default_col n ty d = (col n ty)\<lparr>col_default := Some d\<rparr>"

definition stamp :: "string \<Rightarrow> sql_column" where
  "stamp n = default_col n DateTimeT ''CURRENT_TIMESTAMP''"

definition quoted :: "string \<Rightarrow> string" where
  "quoted w = [CHR 0x27] @ w @ [CHR 0x27]"

datatype table_constraint = PrimaryKey "string list" | ForeignKey string string string | Unique "string list"

datatype sql_value = SqlText string | SqlInt int

datatype ddl =
    CreateTable string "sql_column list" "table_constraint list"
  | CreateIndex string string "string list" bool
  | InsertInto string "string list" "sql_value list list"
  | DropIndex string string
  | DropTable string

section \<open>Catalogs\<close>

record sql_table =
  tab_name :: string
  tab_columns :: "sql_column list"
  tab_constraints :: "table_constraint list"

record sql_index =
  ix_name :: string
  ix_table :: string
  ix_columns :: "string list"
  ix_unique :: bool

record catalog =
  tables :: "sql_table list"
  indexes :: "sql_index list"
  inserted :: "(string \<times> (string \<times> sql_value) list) list"

definition empty_catalog :: catalog where
  "empty_catalog = \<lparr>tables = [], indexes = [], inserted = []\<rparr>"

record dialect =
  int_as_bool :: bool
  protects_references :: bool

datatype ddl_error =
    DuplicateTable string
  | UndefinedTable string
  | DuplicateObject string
  | UndefinedObject string
  | UndefinedColumn string
  | DependentObjects string
  | DatatypeMismatch string
  | NotNullViolation string
  | UniqueViolation string

definition find_table :: "string \<Rightarrow> catalog \<Rightarrow> sql_table option" where
  "find_table n c = find_row (\<lambda>t. tab_name t = n) (tables c)"

definition column_names :: "sql_table \<Rightarrow> string list" where
  "column_names t = map col_name (tab_columns t)"

fun constraint_ok :: "catalog \<Rightarrow> sql_table \<Rightarrow> table_constraint \<Rightarrow> bool" where
  "constraint_ok c t (PrimaryKey ks) = list_all (\<lambda>k. k \<in> set (column_names t)) ks"
| "constraint_ok c t (Unique ks) = list_all (\<lambda>k. k \<in> set (column_names t)) ks"
| "constraint_ok c t (ForeignKey k target tk) = (k \<in> set (column_names t) \<and>
     (case find_table target c of None \<Rightarrow> False | Some u \<Rightarrow> tk \<in> set (column_names u)))"

fun refers_to :: "string \<Rightarrow> table_constraint \<Rightarrow> bool" where
  "refers_to n (ForeignKey k target tk) = (target = n)"
| "refers_to n (PrimaryKey ks) = False"
| "refers_to n (Unique ks) = False"

fun value_fits :: "dialect \<Rightarrow> sql_type \<Rightarrow> sql_value \<Rightarrow> bool" where
  "value_fits d IntegerT (SqlInt n) = True"
| "value_fits d BooleanT (SqlInt n) = int_as_bool d"
| "value_fits d (StringT k) (SqlText s) = (length s \<le> k)"
| "value_fits d ty v = False"

text \<open>The column sets that must be unique in a table.\<close>

definition unique_keys :: "catalog \<Rightarrow> sql_table \<Rightarrow> string list list" where
  "unique_keys c t = map (\<lambda>k. [col_name k]) (filter col_unique (tab_columns t)) @
     concat (map (\<lambda>k. case k of PrimaryKey ks \<Rightarrow> [ks] | Unique ks \<Rightarrow> [ks] | ForeignKey _ _ _ \<Rightarrow> []) (tab_constraints t)) @
     map ix_columns (filter (\<lambda>i. ix_table i = tab_name t \<and> ix_unique i) (indexes c))"

definition same_key :: "string list \<Rightarrow> (string \<times> sql_value) list \<Rightarrow> (string \<times> sql_value) list \<Rightarrow> bool" where
  "same_key ks a b \<longleftrightarrow> list_all (\<lambda>k. map_of a k \<noteq> None \<and> map_of a k = map_of b k) ks"

text \<open>A column without a value: its default, null, or the next number of an integer primary key.\<close>

definition may_omit :: "sql_table \<Rightarrow> sql_column \<Rightarrow> bool" where
  "may_omit t k \<longleftrightarrow> col_nullable k \<or> col_default k \<noteq> None \<or>
     (col_type k = IntegerT \<and> PrimaryKey [col_name k] \<in> set (tab_constraints t))"

definition row_error :: "dialect \<Rightarrow> catalog \<Rightarrow> sql_table \<Rightarrow> (string \<times> sql_value) list \<Rightarrow> ddl_error option" where
  "row_error d c t row =
     (case find (\<lambda>(k, v). \<not> list_ex (\<lambda>x. col_name x = k) (tab_columns t)) row of Some (k, v) \<Rightarrow> Some (UndefinedColumn k)
      | None \<Rightarrow>
     (case find (\<lambda>(k, v). \<not> list_ex (\<lambda>x. col_name x = k \<and> value_fits d (col_type x) v) (tab_columns t)) row of
        Some (k, v) \<Rightarrow> Some (DatatypeMismatch k)
      | None \<Rightarrow>
     (case find (\<lambda>x. map_of row (col_name x) = None \<and> \<not> may_omit t x) (tab_columns t) of Some x \<Rightarrow> Some (NotNullViolation (col_name x))
      | None \<Rightarrow>
        if list_ex (\<lambda>ks. list_ex (\<lambda>(n, old). n = tab_name t \<and> same_key ks row old) (inserted c)) (unique_keys c t)
        then Some (UniqueViolation (tab_name t)) else None)))"

fun insert_rows :: "dialect \<Rightarrow> sql_table \<Rightarrow> (string \<times> sql_value) list list \<Rightarrow> catalog \<Rightarrow> ddl_error + catalog" where
  "insert_rows d t [] c = Inr c"
| "insert_rows d t (row # rows) c = (case row_error d c t row of
     Some e \<Rightarrow> Inl e
   | None \<Rightarrow> insert_rows d t rows (c\<lparr>inserted := inserted c @ [(tab_name t, row)]\<rparr>))"

fun run_ddl :: "dialect \<Rightarrow> ddl \<Rightarrow> catalog \<Rightarrow> ddl_error + catalog" where
  "run_ddl d (CreateTable n cols cons) c =
     (let t = \<lparr>tab_name = n, tab_columns = cols, tab_constraints = cons\<rparr>; c' = c\<lparr>tables := tables c @ [t]\<rparr> in
      if find_table n c \<noteq> None then Inl (DuplicateTable n)
      else if \<not> distinct (map col_name cols) then Inl (DuplicateObject n)
      else if \<not> list_all (constraint_ok c' t) cons then Inl (UndefinedObject n)
      else Inr c')"
| "run_ddl d (CreateIndex n tn ks u) c = (case find_table tn c of
     None \<Rightarrow> Inl (UndefinedTable tn)
   | Some t \<Rightarrow> if n \<in> ix_name ` set (indexes c) then Inl (DuplicateObject n)
       else if \<not> list_all (\<lambda>k. k \<in> set (column_names t)) ks then Inl (UndefinedColumn n)
       else Inr (c\<lparr>indexes := indexes c @ [\<lparr>ix_name = n, ix_table = tn, ix_columns = ks, ix_unique = u\<rparr>]\<rparr>))"
| "run_ddl d (InsertInto tn ks rows) c = (case find_table tn c of
     None \<Rightarrow> Inl (UndefinedTable tn)
   | Some t \<Rightarrow> insert_rows d t (map (zip ks) rows) c)"
| "run_ddl d (DropIndex n tn) c =
     (if n \<notin> ix_name ` set (indexes c) then Inl (UndefinedObject n)
      else Inr (c\<lparr>indexes := filter (\<lambda>i. ix_name i \<noteq> n) (indexes c)\<rparr>))"
| "run_ddl d (DropTable n) c =
     (if find_table n c = None then Inl (UndefinedTable n)
      else if protects_references d \<and> list_ex (\<lambda>t. tab_name t \<noteq> n \<and> list_ex (refers_to n) (tab_constraints t)) (tables c)
      then Inl (DependentObjects n)
      else Inr (c\<lparr>tables := filter (\<lambda>t. tab_name t \<noteq> n) (tables c), indexes := filter (\<lambda>i. ix_table i \<noteq> n) (indexes c),
        inserted := filter (\<lambda>r. fst r \<noteq> n) (inserted c)\<rparr>))"

fun run_all :: "dialect \<Rightarrow> ddl list \<Rightarrow> catalog \<Rightarrow> ddl_error + catalog" where
  "run_all d [] c = Inr c"
| "run_all d (x # xs) c = (case run_ddl d x c of Inl e \<Rightarrow> Inl e | Inr c' \<Rightarrow> run_all d xs c')"

section \<open>The initial schema\<close>

definition create_users :: "ddl list" where
  "create_users = [CreateTable ''users'' [
      col ''id'' IntegerT, col ''email'' (StringT 255), col ''username'' (StringT 100),
      col ''hashed_password'' (StringT 255), default_col ''is_active'' BooleanT ''true'',
      default_col ''is_verified'' BooleanT ''false'', default_col ''is_superuser'' BooleanT ''false'',
      default_col ''failed_login_attempts'' IntegerT ''0'', nullable_col ''locked_until'' DateTimeT,
      default_col ''role'' (StringT 50) ''user'', default_col ''permissions'' JsonT (quoted ''[]''),
      stamp ''created_at'', stamp ''updated_at'', nullable_col ''deleted_at'' DateTimeT]
      [PrimaryKey [''id'']],
    CreateIndex ''ix_users_id'' ''users'' [''id''] False,
    CreateIndex ''ix_users_email'' ''users'' [''email''] True,
    CreateIndex ''ix_users_username'' ''users'' [''username''] True]"

definition create_api_keys :: "ddl list" where
  "create_api_keys = [CreateTable ''api_keys'' [
      col ''id'' IntegerT, col ''owner_id'' IntegerT, col ''name'' (StringT 150), col ''key_prefix'' (StringT 50),
      col ''hashed_secret'' (StringT 255), default_col ''scopes'' JsonT (quoted ''[]''),
      nullable_col ''expires_at'' DateTimeT, nullable_col ''last_used_at'' DateTimeT,
      nullable_col ''revoked_at'' DateTimeT, stamp ''created_at'']
      [ForeignKey ''owner_id'' ''users'' ''id'', PrimaryKey [''id'']],
    CreateIndex ''ix_api_keys_id'' ''api_keys'' [''id''] False,
    CreateIndex ''ix_api_keys_owner_id'' ''api_keys'' [''owner_id''] False,
    CreateIndex ''ix_api_keys_key_prefix'' ''api_keys'' [''key_prefix''] False]"

definition create_audit_log_entries :: "ddl list" where
  "create_audit_log_entries = [CreateTable ''audit_log_entries'' [
      col ''id'' IntegerT, nullable_col ''actor_id'' IntegerT, nullable_col ''actor_username'' (StringT 150),
      col ''action'' (StringT 200), col ''resource'' (StringT 200), default_col ''details'' JsonT (quoted ''{}''),
      nullable_col ''request_id'' (StringT 100), nullable_col ''trace_id'' (StringT 100),
      nullable_col ''method'' (StringT 20), nullable_col ''path'' (StringT 500),
      nullable_col ''status_code'' IntegerT, default_col ''success'' BooleanT ''false'',
      nullable_col ''error'' (StringT 400), stamp ''created_at'']
      [ForeignKey ''actor_id'' ''users'' ''id'', PrimaryKey [''id'']],
    CreateIndex ''ix_audit_log_entries_id'' ''audit_log_entries'' [''id''] False,
    CreateIndex ''ix_audit_log_entries_actor_id'' ''audit_log_entries'' [''actor_id''] False,
    CreateIndex ''ix_audit_log_entries_action'' ''audit_log_entries'' [''action''] False,
    CreateIndex ''ix_audit_log_entries_resource'' ''audit_log_entries'' [''resource''] False]"

definition create_webhook_endpoints :: "ddl list" where
  "create_webhook_endpoints = [CreateTable ''webhook_endpoints'' [
      col ''id'' IntegerT, col ''owner_id'' IntegerT, col ''name'' (StringT 150), col ''url'' (StringT 2000),
      default_col ''subscribed_events'' JsonT (quoted ''[]''), col ''signing_secret'' (StringT 255),
      default_col ''is_active'' BooleanT ''true'', stamp ''created_at'']
      [ForeignKey ''owner_id'' ''users'' ''id'', PrimaryKey [''id'']],
    CreateIndex ''ix_webhook_endpoints_id'' ''webhook_endpoints'' [''id''] False,
    CreateIndex ''ix_webhook_endpoints_owner_id'' ''webhook_endpoints'' [''owner_id''] False]"

definition create_webhook_deliveries :: "ddl list" where
  "create_webhook_deliveries = [CreateTable ''webhook_deliveries'' [
      col ''id'' IntegerT, col ''endpoint_id'' IntegerT, col ''event_type'' (StringT 100), col ''payload'' JsonT,
      default_col ''attempt_count'' IntegerT ''0'', nullable_col ''last_attempt_at'' DateTimeT,
      nullable_col ''last_status_code'' IntegerT, nullable_col ''delivered_at'' DateTimeT, stamp ''created_at'']
      [ForeignKey ''endpoint_id'' ''webhook_endpoints'' ''id'', PrimaryKey [''id'']],
    CreateIndex ''ix_webhook_deliveries_id'' ''webhook_deliveries'' [''id''] False,
    CreateIndex ''ix_webhook_deliveries_endpoint_id'' ''webhook_deliveries'' [''endpoint_id''] False]"

definition create_products :: "ddl list" where
  "create_products = [CreateTable ''products'' [
      col ''id'' IntegerT, col ''name'' (StringT 255), nullable_col ''description'' (StringT 500),
      default_col ''price_cents'' IntegerT ''0'', stamp ''created_at'', stamp ''updated_at'',
      nullable_col ''deleted_at'' DateTimeT]
      [PrimaryKey [''id'']],
    CreateIndex ''ix_products_id'' ''products'' [''id''] False,
    CreateIndex ''ix_products_name'' ''products'' [''name''] True]"

definition create_roles :: "ddl list" where
  "create_roles = [CreateTable ''roles'' [
      col ''id'' IntegerT, unique_col ''key'' (StringT 100), col ''name'' (StringT 150),
      nullable_col ''description'' (StringT 255), default_col ''is_system'' BooleanT ''false'', stamp ''created_at'',
      stamp ''updated_at'']
      [PrimaryKey [''id'']],
    CreateIndex ''ix_roles_id'' ''roles'' [''id''] False,
    CreateIndex ''ix_roles_key'' ''roles'' [''key''] False]"

definition create_permissions :: "ddl list" where
  "create_permissions = [CreateTable ''permissions'' [
      col ''id'' IntegerT, unique_col ''key'' (StringT 100), col ''name'' (StringT 150),
      nullable_col ''description'' (StringT 255), stamp ''created_at'', stamp ''updated_at'']
      [PrimaryKey [''id'']],
    CreateIndex ''ix_permissions_id'' ''permissions'' [''id''] False,
    CreateIndex ''ix_permissions_key'' ''permissions'' [''key''] False]"

definition create_role_permissions :: "ddl list" where
  "create_role_permissions = [CreateTable ''role_permissions'' [
      col ''role_id'' IntegerT, col ''permission_id'' IntegerT]
      [ForeignKey ''role_id'' ''roles'' ''id'', ForeignKey ''permission_id'' ''permissions'' ''id'',
       PrimaryKey [''role_id'', ''permission_id'']]]"

definition create_user_roles :: "ddl list" where
  "create_user_roles = [CreateTable ''user_roles'' [
      col ''user_id'' IntegerT, col ''role_id'' IntegerT]
      [ForeignKey ''user_id'' ''users'' ''id'', ForeignKey ''role_id'' ''roles'' ''id'',
       PrimaryKey [''user_id'', ''role_id'']]]"

definition create_plans :: "ddl list" where
  "create_plans = [CreateTable ''plans'' [
      col ''id'' IntegerT, unique_col ''key'' (StringT 100), col ''name'' (StringT 150),
      default_col ''price_cents'' IntegerT ''0'', default_col ''billing_interval'' (StringT 20) ''month'',
      default_col ''is_active'' BooleanT ''true'', stamp ''created_at'', stamp ''updated_at'']
      [PrimaryKey [''id'']],
    CreateIndex ''ix_plans_id'' ''plans'' [''id''] False]"

definition create_features :: "ddl list" where
  "create_features = [CreateTable ''features'' [
      col ''id'' IntegerT, unique_col ''key'' (StringT 100), col ''name'' (StringT 150),
      nullable_col ''description'' (StringT 255), stamp ''created_at'', stamp ''updated_at'']
      [PrimaryKey [''id'']],
    CreateIndex ''ix_features_id'' ''features'' [''id''] False]"

definition create_plan_features :: "ddl list" where
  "create_plan_features = [CreateTable ''plan_features'' [
      col ''plan_id'' IntegerT, col ''feature_id'' IntegerT]
      [ForeignKey ''plan_id'' ''plans'' ''id'', ForeignKey ''feature_id'' ''features'' ''id'',
       PrimaryKey [''plan_id'', ''feature_id'']]]"

definition create_subscriptions :: "ddl list" where
  "create_subscriptions = [CreateTable ''subscriptions'' [
      col ''id'' IntegerT, col ''user_id'' IntegerT, col ''plan_id'' IntegerT,
      default_col ''status'' (StringT 50) ''active'', default_col ''provider'' (StringT 50) ''manual'',
      nullable_col ''trial_ends_at'' DateTimeT, stamp ''created_at'', stamp ''updated_at'']
      [ForeignKey ''user_id'' ''users'' ''id'', ForeignKey ''plan_id'' ''plans'' ''id'', PrimaryKey [''id'']],
    CreateIndex ''ix_subscriptions_id'' ''subscriptions'' [''id''] False]"

definition create_payment_events :: "ddl list" where
  "create_payment_events = [CreateTable ''payment_events'' [
      col ''id'' IntegerT, col ''provider'' (StringT 50), col ''provider_event_id'' (StringT 255),
      col ''event_type'' (StringT 100), col ''payload'' (StringT 4000), nullable_col ''processed_at'' DateTimeT,
      stamp ''created_at'', stamp ''updated_at'']
      [PrimaryKey [''id''], Unique [''provider'', ''provider_event_id'']],
    CreateIndex ''ix_payment_events_id'' ''payment_events'' [''id''] False,
    CreateIndex ''ix_payment_events_provider_event_id'' ''payment_events'' [''provider_event_id''] False]"

definition create_notifications :: "ddl list" where
  "create_notifications = [CreateTable ''notifications'' [
      col ''id'' IntegerT, col ''user_id'' IntegerT, default_col ''channel'' (StringT 30) ''in_app'',
      col ''kind'' (StringT 50), col ''title'' (StringT 150), col ''body'' (StringT 500),
      default_col ''is_read'' BooleanT ''false'', stamp ''created_at'', stamp ''updated_at'']
      [ForeignKey ''user_id'' ''users'' ''id'', PrimaryKey [''id'']],
    CreateIndex ''ix_notifications_id'' ''notifications'' [''id''] False,
    CreateIndex ''ix_notifications_user_id'' ''notifications'' [''user_id''] False]"

definition create_invoices :: "ddl list" where
  "create_invoices = [CreateTable ''invoices'' [
      col ''id'' IntegerT, nullable_col ''subscription_id'' IntegerT, col ''user_id'' IntegerT,
      col ''plan_id'' IntegerT, default_col ''amount_cents'' IntegerT ''0'',
      default_col ''currency'' (StringT 3) ''usd'', default_col ''status'' (StringT 30) ''issued'',
      nullable_col ''description'' (StringT 255), stamp ''issued_at'', stamp ''created_at'', stamp ''updated_at'']
      [ForeignKey ''subscription_id'' ''subscriptions'' ''id'', ForeignKey ''user_id'' ''users'' ''id'',
       ForeignKey ''plan_id'' ''plans'' ''id'', PrimaryKey [''id'']],
    CreateIndex ''ix_invoices_id'' ''invoices'' [''id''] False,
    CreateIndex ''ix_invoices_subscription_id'' ''invoices'' [''subscription_id''] False,
    CreateIndex ''ix_invoices_user_id'' ''invoices'' [''user_id''] False,
    CreateIndex ''ix_invoices_plan_id'' ''invoices'' [''plan_id''] False]"

definition insert_seed :: "ddl list" where
  "insert_seed = [InsertInto ''roles'' [''key'', ''name'', ''description'', ''is_system''] [
      [SqlText ''user'', SqlText ''User'', SqlText ''Default user role'', SqlInt 1],
      [SqlText ''staff'', SqlText ''Staff'', SqlText ''Staff role'', SqlInt 1],
      [SqlText ''admin'', SqlText ''Admin'', SqlText ''Administrative role'', SqlInt 1]],
    InsertInto ''permissions'' [''key'', ''name'', ''description''] [
      [SqlText ''rbac.manage'', SqlText ''Manage RBAC'', SqlText ''Manage roles and permissions''],
      [SqlText ''billing.manage'', SqlText ''Manage Billing'', SqlText ''Manage billing configuration''],
      [SqlText ''system.billing_toggle'', SqlText ''Toggle Billing System'', SqlText ''Toggle billing system availability'']],
    InsertInto ''plans'' [''key'', ''name'', ''price_cents'', ''billing_interval'', ''is_active''] [
      [SqlText ''free'', SqlText ''Free'', SqlInt 0, SqlText ''month'', SqlInt 1]]]"

definition upgrade :: "ddl list" where
  "upgrade = create_users @ create_api_keys @ create_audit_log_entries @ create_webhook_endpoints @
     create_webhook_deliveries @ create_products @ create_roles @ create_permissions @
     create_role_permissions @ create_user_roles @ create_plans @ create_features @
     create_plan_features @ create_subscriptions @ create_payment_events @ create_notifications @
     create_invoices @ insert_seed"

definition downgrade :: "ddl list" where
  "downgrade = [
    DropIndex ''ix_notifications_user_id'' ''notifications'', DropIndex ''ix_notifications_id'' ''notifications'',
    DropTable ''notifications'', DropIndex ''ix_invoices_plan_id'' ''invoices'',
    DropIndex ''ix_invoices_user_id'' ''invoices'', DropIndex ''ix_invoices_subscription_id'' ''invoices'',
    DropIndex ''ix_invoices_id'' ''invoices'', DropTable ''invoices'',
    DropIndex ''ix_payment_events_provider_event_id'' ''payment_events'', DropIndex ''ix_payment_events_id'' ''payment_events'',
    DropTable ''payment_events'', DropIndex ''ix_subscriptions_id'' ''subscriptions'',
    DropTable ''subscriptions'', DropTable ''plan_features'',
    DropIndex ''ix_features_id'' ''features'', DropTable ''features'',
    DropIndex ''ix_plans_id'' ''plans'', DropTable ''plans'',
    DropTable ''user_roles'', DropTable ''role_permissions'',
    DropIndex ''ix_permissions_key'' ''permissions'', DropIndex ''ix_permissions_id'' ''permissions'',
    DropTable ''permissions'', DropIndex ''ix_roles_key'' ''roles'',
    DropIndex ''ix_roles_id'' ''roles'', DropTable ''roles'',
    DropIndex ''ix_products_name'' ''products'', DropIndex ''ix_products_id'' ''products'',
    DropTable ''products'', DropIndex ''ix_users_username'' ''users'',
    DropIndex ''ix_users_email'' ''users'', DropIndex ''ix_users_id'' ''users'',
    DropTable ''users'']"

section \<open>Catalogs stay well formed\<close>

definition row_typed :: "dialect \<Rightarrow> sql_table \<Rightarrow> (string \<times> sql_value) list \<Rightarrow> bool" where
  "row_typed d t row \<longleftrightarrow>
     (\<forall>(k, v) \<in> set row. \<exists>x \<in> set (tab_columns t). col_name x = k \<and> value_fits d (col_type x) v) \<and>
     (\<forall>x \<in> set (tab_columns t). map_of row (col_name x) = None \<longrightarrow> may_omit t x)"

definition catalog_ok :: "dialect \<Rightarrow> catalog \<Rightarrow> bool" where
  "catalog_ok d c \<longleftrightarrow> distinct (map tab_name (tables c)) \<and>
     (\<forall>t \<in> set (tables c). distinct (column_names t) \<and> list_all (constraint_ok c t) (tab_constraints t)) \<and>
     distinct (map ix_name (indexes c)) \<and>
     (\<forall>i \<in> set (indexes c). \<exists>t. find_table (ix_table i) c = Some t \<and> set (ix_columns i) \<subseteq> set (column_names t)) \<and>
     (\<forall>(n, row) \<in> set (inserted c). \<exists>t. find_table n c = Some t \<and> row_typed d t row)"

lemma find_table_name: "find_table n c = Some t \<Longrightarrow> tab_name t = n \<and> t \<in> set (tables c)"
  by (auto simp: find_table_def dest: find_row_Some)

lemma find_table_None: "find_table n c = None \<longleftrightarrow> n \<notin> tab_name ` set (tables c)"
  by (auto simp: find_table_def find_row_None)

lemma find_table_more: "find_table n c = Some t \<Longrightarrow> find_table n (c\<lparr>tables := tables c @ ts\<rparr>) = Some t"
  by (simp add: find_table_def find_row_append)

lemma find_table_simps [simp]:
  "find_table n (c\<lparr>indexes := is\<rparr>) = find_table n c" "find_table n (c\<lparr>inserted := rs\<rparr>) = find_table n c"
  by (simp_all add: find_table_def)

lemma constraint_ok_cong: "(\<And>n. find_table n c' = find_table n c) \<Longrightarrow> constraint_ok c' t k = constraint_ok c t k"
  by (cases k) simp_all

lemma constraint_ok_more: "constraint_ok c t k \<Longrightarrow> constraint_ok (c\<lparr>tables := tables c @ ts\<rparr>) t k"
  by (cases k) (auto simp: find_table_more split: option.splits)

lemma row_error_typed: "row_error d c t row = None \<Longrightarrow> row_typed d t row"
  by (auto simp: row_error_def row_typed_def find_None_iff list_ex_iff split: option.splits if_splits)

lemma insert_rows_tables: "insert_rows d t rows c = Inr c' \<Longrightarrow> tables c' = tables c \<and> indexes c' = indexes c"
  by (induction rows arbitrary: c) (auto split: option.splits)

lemma insert_rows_typed:
  "insert_rows d t rows c = Inr c' \<Longrightarrow> r \<in> set (inserted c') \<Longrightarrow> r \<in> set (inserted c) \<or> (fst r = tab_name t \<and> row_typed d t (snd r))"
proof (induction rows arbitrary: c)
  case (Cons row rows)
  then have "row_error d c t row = None" "insert_rows d t rows (c\<lparr>inserted := inserted c @ [(tab_name t, row)]\<rparr>) = Inr c'"
    by (auto split: option.splits)
  with Cons.IH [OF this(2) Cons.prems(2)] show ?case using row_error_typed [of d c t row] by auto
qed simp

lemma find_table_drop:
  assumes "m \<noteq> n"
  shows "find_table m (c\<lparr>tables := filter (\<lambda>t. tab_name t \<noteq> n) (tables c)\<rparr>) = find_table m c"
proof -
  have "filter (\<lambda>t. tab_name t = m \<and> tab_name t \<noteq> n) ts = filter (\<lambda>t. tab_name t = m) ts" for ts :: "sql_table list"
    using assms by (intro filter_cong) auto
  then show ?thesis by (simp add: find_table_def find_row_def filter_filter conj_commute)
qed

lemma constraint_ok_drop:
  "constraint_ok c t k \<Longrightarrow> \<not> refers_to n k \<Longrightarrow>
     constraint_ok (c\<lparr>tables := filter (\<lambda>t. tab_name t \<noteq> n) (tables c), indexes := is, inserted := rs\<rparr>) t k"
  by (cases k) (auto simp: find_table_drop)

lemma create_table_ok:
  assumes "catalog_ok d c" "run_ddl d (CreateTable n cols cons) c = Inr c'"
  shows "catalog_ok d c'"
proof -
  let ?t = "\<lparr>tab_name = n, tab_columns = cols, tab_constraints = cons\<rparr>"
  have new: "find_table n c = None" "distinct (map col_name cols)" and c': "c' = c\<lparr>tables := tables c @ [?t]\<rparr>"
    and cons: "list_all (constraint_ok c' ?t) cons"
    using assms(2) by (auto simp: Let_def split: if_splits)
  have old: "constraint_ok c' t k" if "constraint_ok c t k" for t k
    using constraint_ok_more [OF that, of "[?t]"] by (simp add: c')
  have found: "find_table m c' = Some t" if "find_table m c = Some t" for m t
    using find_table_more [OF that, of "[?t]"] by (simp add: c')
  have ok: "distinct (map tab_name (tables c))" "\<forall>t \<in> set (tables c). distinct (column_names t) \<and> list_all (constraint_ok c t) (tab_constraints t)"
    "distinct (map ix_name (indexes c))"
    "\<forall>i \<in> set (indexes c). \<exists>t. find_table (ix_table i) c = Some t \<and> set (ix_columns i) \<subseteq> set (column_names t)"
    "\<forall>(n, row) \<in> set (inserted c). \<exists>t. find_table n c = Some t \<and> row_typed d t row"
    using assms(1) by (auto simp: catalog_ok_def)
  have "distinct (map tab_name (tables c'))" using ok(1) new(1) by (simp add: c' find_table_None)
  moreover have "\<forall>t \<in> set (tables c'). distinct (column_names t) \<and> list_all (constraint_ok c' t) (tab_constraints t)"
    using ok(2) cons new(2) old by (simp add: c' column_names_def list_all_iff)
  moreover have "distinct (map ix_name (indexes c'))" using ok(3) by (simp add: c')
  moreover have "\<forall>i \<in> set (indexes c'). \<exists>t. find_table (ix_table i) c' = Some t \<and> set (ix_columns i) \<subseteq> set (column_names t)"
    using ok(4) found by (metis (no_types) c' catalog.select_convs(2) catalog.surjective catalog.update_convs(1))
  moreover have "\<forall>(n, row) \<in> set (inserted c'). \<exists>t. find_table n c' = Some t \<and> row_typed d t row"
    using ok(5) found by (fastforce simp: c')
  ultimately show ?thesis unfolding catalog_ok_def by blast
qed

lemma create_index_ok:
  "catalog_ok d c \<Longrightarrow> run_ddl d (CreateIndex n tn ks u) c = Inr c' \<Longrightarrow> catalog_ok d c'"
  using constraint_ok_cong [of "c\<lparr>indexes := is\<rparr>" c for "is"]
  by (auto simp: catalog_ok_def list_all_iff split: option.splits if_splits)

lemma insert_ok:
  assumes "catalog_ok d c" "run_ddl d (InsertInto tn ks rows) c = Inr c'"
  shows "catalog_ok d c'"
proof -
  obtain t where t: "find_table tn c = Some t" and r: "insert_rows d t (map (zip ks) rows) c = Inr c'"
    using assms(2) by (auto split: option.splits)
  have same: "find_table n c' = find_table n c" for n
    using insert_rows_tables [OF r] by (simp add: find_table_def)
  have "\<exists>u. find_table (fst x) c' = Some u \<and> row_typed d u (snd x)" if "x \<in> set (inserted c')" for x
    using insert_rows_typed [OF r that] find_table_name [OF t] t assms(1) by (auto simp: same catalog_ok_def)
  then show ?thesis
    using assms(1) insert_rows_tables [OF r] constraint_ok_cong [of c' c, OF same]
    by (auto simp: catalog_ok_def list_all_iff same)
qed

lemma drop_index_ok:
  "catalog_ok d c \<Longrightarrow> run_ddl d (DropIndex n tn) c = Inr c' \<Longrightarrow> catalog_ok d c'"
  using constraint_ok_cong [of "c\<lparr>indexes := is\<rparr>" c for "is"]
  by (auto simp: catalog_ok_def list_all_iff distinct_map_filter split: if_splits)

lemma drop_table_ok:
  assumes "protects_references d" "catalog_ok d c" "run_ddl d (DropTable n) c = Inr c'"
  shows "catalog_ok d c'"
proof -
  have c': "c' = c\<lparr>tables := filter (\<lambda>t. tab_name t \<noteq> n) (tables c), indexes := filter (\<lambda>i. ix_table i \<noteq> n) (indexes c),
        inserted := filter (\<lambda>r. fst r \<noteq> n) (inserted c)\<rparr>"
    and free: "\<forall>t \<in> set (tables c). tab_name t \<noteq> n \<longrightarrow> (\<forall>k \<in> set (tab_constraints t). \<not> refers_to n k)"
    using assms(1,3) by (auto simp: list_ex_iff split: if_splits)
  have found: "find_table m c' = find_table m c" if "m \<noteq> n" for m
    using find_table_drop [OF that] by (simp add: c')
  have old: "constraint_ok c' t k" if "constraint_ok c t k" "\<not> refers_to n k" for t k
    using constraint_ok_drop [OF that] by (simp add: c')
  have ok: "distinct (map tab_name (tables c))" "\<forall>t \<in> set (tables c). distinct (column_names t) \<and> list_all (constraint_ok c t) (tab_constraints t)"
    "distinct (map ix_name (indexes c))"
    "\<forall>i \<in> set (indexes c). \<exists>t. find_table (ix_table i) c = Some t \<and> set (ix_columns i) \<subseteq> set (column_names t)"
    "\<forall>(n, row) \<in> set (inserted c). \<exists>t. find_table n c = Some t \<and> row_typed d t row"
    using assms(2) by (auto simp: catalog_ok_def)
  have sel: "tables c' = filter (\<lambda>t. tab_name t \<noteq> n) (tables c)" by (simp add: c')
  have "distinct (map tab_name (tables c'))" using ok(1) by (simp add: sel distinct_map_filter)
  moreover have "\<forall>t \<in> set (tables c'). distinct (column_names t) \<and> list_all (constraint_ok c' t) (tab_constraints t)"
    using ok(2) free old by (simp add: sel list_all_iff) blast
  moreover have "distinct (map ix_name (indexes c'))" using ok(3) by (simp add: c' distinct_map_filter)
  moreover have "\<forall>i \<in> set (indexes c'). \<exists>t. find_table (ix_table i) c' = Some t \<and> set (ix_columns i) \<subseteq> set (column_names t)"
    using ok(4) found by (simp add: c')
  moreover have "\<forall>(n, row) \<in> set (inserted c'). \<exists>t. find_table n c' = Some t \<and> row_typed d t row"
    using ok(5) found by (fastforce simp: c')
  ultimately show ?thesis unfolding catalog_ok_def by blast
qed

lemma run_ddl_ok:
  assumes "protects_references d" "catalog_ok d c" "run_ddl d x c = Inr c'"
  shows "catalog_ok d c'"
proof (cases x)
  case CreateTable
  show ?thesis by (rule create_table_ok [OF assms(2)]) (use assms(3) in \<open>simp only: CreateTable\<close>)
next
  case CreateIndex
  show ?thesis by (rule create_index_ok [OF assms(2)]) (use assms(3) in \<open>simp only: CreateIndex\<close>)
next
  case InsertInto
  show ?thesis by (rule insert_ok [OF assms(2)]) (use assms(3) in \<open>simp only: InsertInto\<close>)
next
  case DropIndex
  show ?thesis by (rule drop_index_ok [OF assms(2)]) (use assms(3) in \<open>simp only: DropIndex\<close>)
next
  case DropTable
  show ?thesis by (rule drop_table_ok [OF assms(1,2)]) (use assms(3) in \<open>simp only: DropTable\<close>)
qed



section \<open>The upgrade\<close>

text \<open>The catalog a script declares, without running it.\<close>

fun declares :: "ddl \<Rightarrow> catalog \<Rightarrow> catalog" where
  "declares (CreateTable n cols cons) c = c\<lparr>tables := tables c @ [\<lparr>tab_name = n, tab_columns = cols, tab_constraints = cons\<rparr>]\<rparr>"
| "declares (CreateIndex n tn ks u) c = c\<lparr>indexes := indexes c @ [\<lparr>ix_name = n, ix_table = tn, ix_columns = ks, ix_unique = u\<rparr>]\<rparr>"
| "declares (InsertInto tn ks rows) c = c\<lparr>inserted := inserted c @ map (\<lambda>r. (tn, zip ks r)) rows\<rparr>"
| "declares (DropIndex n tn) c = c"
| "declares (DropTable n) c = c"

definition declared :: "ddl list \<Rightarrow> catalog" where
  "declared script = fold declares script empty_catalog"

definition sqlite :: dialect where
  "sqlite = \<lparr>int_as_bool = True, protects_references = False\<rparr>"

definition guarded_sqlite :: dialect where
  "guarded_sqlite = \<lparr>int_as_bool = True, protects_references = True\<rparr>"

definition postgres :: dialect where
  "postgres = \<lparr>int_as_bool = False, protects_references = True\<rparr>"

text \<open>A script that drops no table runs alike on dialects that agree on booleans.\<close>

definition drops_no_table :: "ddl list \<Rightarrow> bool" where
  "drops_no_table script = list_all (\<lambda>x. case x of DropTable n \<Rightarrow> False | _ \<Rightarrow> True) script"

lemma insert_rows_dialect: "int_as_bool d = int_as_bool d' \<Longrightarrow> insert_rows d t rows c = insert_rows d' t rows c"
proof (induction rows arbitrary: c)
  case (Cons row rows)
  have "value_fits d ty v = value_fits d' ty v" for ty v
    using Cons.prems by (cases ty; cases v) simp_all
  then have fits: "value_fits d = value_fits d'" by (intro ext)
  have "row_error d c t row = row_error d' c t row" unfolding row_error_def fits by (rule refl)
  then show ?case using Cons by (simp split: option.split)
qed simp

lemma run_all_dialect:
  "int_as_bool d = int_as_bool d' \<Longrightarrow> drops_no_table script \<Longrightarrow> run_all d script c = run_all d' script c"
proof (induction script arbitrary: c)
  case (Cons x xs)
  have "run_ddl d x c = run_ddl d' x c"
    using Cons.prems insert_rows_dialect [OF Cons.prems(1)] by (cases x) (auto simp: drops_no_table_def split: option.split)
  then show ?case using Cons by (simp add: drops_no_table_def split: sum.split)
qed simp

lemma upgrade_drops_nothing: "drops_no_table upgrade"
  by (simp add: drops_no_table_def upgrade_def create_users_def create_api_keys_def create_audit_log_entries_def
      create_webhook_endpoints_def create_webhook_deliveries_def create_products_def create_roles_def create_permissions_def
      create_role_permissions_def create_user_roles_def create_plans_def create_features_def create_plan_features_def
      create_subscriptions_def create_payment_events_def create_notifications_def create_invoices_def insert_seed_def)

lemma upgrade_sqlite: "run_all sqlite upgrade empty_catalog = Inr (declared upgrade)"
  by code_simp

lemma upgrade_postgres: "run_all postgres upgrade empty_catalog = Inl (DatatypeMismatch ''is_system'')"
  by code_simp

text \<open>
  Where integers pass for booleans, the upgrade of an empty database succeeds and makes
  exactly the tables, indexes and rows it declares: every foreign key names a table made before, and no
  statement undoes another. Where they do not, as on PostgreSQL, the whole upgrade fails at the
  literal 1 for \<open>is_system\<close>.
\<close>

theorem upgrade_outcome:
  "run_all d upgrade empty_catalog = (if int_as_bool d then Inr (declared upgrade) else Inl (DatatypeMismatch ''is_system''))"
  using run_all_dialect [OF _ upgrade_drops_nothing, of d sqlite empty_catalog]
    run_all_dialect [OF _ upgrade_drops_nothing, of d postgres empty_catalog] upgrade_sqlite upgrade_postgres
  by (simp add: sqlite_def postgres_def)

section \<open>The downgrade\<close>

lemma downgrade_sqlite:
  "(case run_all sqlite downgrade (declared upgrade) of Inl e \<Rightarrow> [] | Inr c \<Rightarrow> map tab_name (tables c)) =
     [''api_keys'', ''audit_log_entries'', ''webhook_endpoints'', ''webhook_deliveries'']"
  by code_simp

lemma downgrade_guarded: "run_all guarded_sqlite downgrade (declared upgrade) = Inl (DependentObjects ''users'')"
  by code_simp

text \<open>The tables the downgrade leaves behind.\<close>

definition left_behind :: "string list" where
  "left_behind = [''api_keys'', ''audit_log_entries'', ''webhook_endpoints'', ''webhook_deliveries'']"


section \<open>The schema and the program\<close>

text \<open>
  The keys of the rows the migration inserts are the ones the services' own seeds look for, so that
  a seed after the migration inserts no role and no plan again.
\<close>

definition inserted_keys :: "string \<Rightarrow> catalog \<Rightarrow> sql_value list" where
  "inserted_keys n c = map (\<lambda>r. the (map_of (snd r) ''key'')) (filter (\<lambda>r. fst r = n) (inserted c))"

theorem migration_seed_agrees:
  "inserted_keys ''roles'' (declared upgrade) = map (SqlText \<circ> role_key) seed_roles \<and>
   inserted_keys ''plans'' (declared upgrade) = [SqlText (plan_key free_plan)] \<and>
   set (inserted_keys ''permissions'' (declared upgrade)) \<subseteq> set (map (SqlText \<circ> perm_key) seed_permissions)"
proof -
  have i: "inserted (declared upgrade) = concat (map (\<lambda>x. case x of InsertInto tn ks rows \<Rightarrow> map (\<lambda>r. (tn, zip ks r)) rows | _ \<Rightarrow> []) insert_seed)"
    by code_simp
  show ?thesis unfolding inserted_keys_def i
    by (simp add: insert_seed_def seed_roles_def free_plan_def seed_permissions_def new_permission_def)
qed

text \<open>
  The product table of the migration has a unique index on the name, the ORM class none: a second row
  of the same name is refused by a migrated database and accepted by one the application made itself.
\<close>

theorem product_names_diverge:
  "[''name''] \<in> set (unique_keys (declared create_products) (hd (tables (declared create_products)))) \<and>
   \<not> mc_conflict Product a b"
  by (simp add: unique_keys_def declared_def create_products_def empty_catalog_def Product_def)


lemma empty_catalog_ok: "catalog_ok d empty_catalog"
  by (simp add: catalog_ok_def empty_catalog_def)


end
