(* ===== verification/Sockets.thy ===== *)
theory Sockets
  imports Products
begin

text \<open>
  \<open>backend/app/socketio_app.py\<close>: the Socket.IO server, with the sessions and rooms its library keeps;
  what it emits is in the application's \<open>emitted\<close>, with the client's id as the room.
\<close>

section \<open>Events\<close>

record 'r hub =
  hub_app :: "'r app"
  hub_sessions :: "string \<rightharpoonup> string"
  hub_rooms :: "(string \<times> string) list"

definition in_hub_app :: "('r app, 'a) op \<Rightarrow> ('r hub, 'a) op" where
  "in_hub_app m = zoom hub_app (\<lambda>a s. s\<lparr>hub_app := a\<rparr>) m"

text \<open>\<open>(auth or {}).get("token")\<close>; only a dict has a \<open>get\<close>.\<close>

definition token_of :: "json \<Rightarrow> exn + json" where
  "token_of auth = (if \<not> truthy auth then Inr JNull
     else case auth of JObj kvs \<Rightarrow> Inr (payload_get kvs ''token'' JNull) | _ \<Rightarrow> Inl (AttributeError ''get''))"

text \<open>
  The handler's result is whether the connection is accepted: \<open>False\<close> turns it away. A token that is no
  text makes the JWT library raise something that is no \<open>JWTError\<close>.
\<close>

definition connect :: "'r redis_ops \<Rightarrow> crypto \<Rightarrow> int \<Rightarrow> string \<Rightarrow> json \<Rightarrow> ('r hub, bool) op" where
  "connect rc cr now sid auth =
     bnd (pure_op (token_of auth)) (\<lambda>token.
     if \<not> truthy token then ret False
     else case token of
       JStr text \<Rightarrow> bnd (look (\<lambda>s. conf (hub_app s))) (\<lambda>c.
         case jwt_decode cr now text (secret_key c) (algorithm c) of
           None \<Rightarrow> ret False
         | Some payload \<Rightarrow> (let jti = payload_get payload ''jti'' JNull in
             if \<not> truthy jti then ret False
             else bnd (in_hub_app (in_toks (\<lambda>c. is_revoked rc c WsRevocationStore (py_str (py_repr cr) jti)))) (\<lambda>revoked.
               if revoked then ret False
               else bnd (modify (\<lambda>s. s\<lparr>hub_sessions := (hub_sessions s)(sid \<mapsto> text), hub_rooms := hub_rooms s @ [(sid, ''authenticated'')]\<rparr>)) (\<lambda>_.
                 bnd (in_hub_app (emit ''status'' (JObj [(''message'', JStr ''connected'')]) sid)) (\<lambda>_.
                 ret True)))))
     | _ \<Rightarrow> throw (AttributeError ''rsplit''))"

definition ping :: "string \<Rightarrow> json \<Rightarrow> ('r hub, unit) op" where
  "ping sid data = in_hub_app (emit ''pong'' (JObj [(''message'', JStr ''pong''), (''data'', data)]) sid)"

definition socket_product_created :: "string \<Rightarrow> json \<Rightarrow> ('r hub, unit) op" where
  "socket_product_created sid data =
     in_hub_app (emit ''product_created'' (JObj [(''message'', JStr ''product created''), (''data'', data)]) sid)"

section \<open>Who gets in\<close>

lemma in_hub_app_apply: "in_hub_app m s = (fst (m (hub_app s)), s\<lparr>hub_app := snd (m (hub_app s))\<rparr>)"
  by (simp add: in_hub_app_def zoom_apply)

text \<open>
  Property C18. A client is let in only with a token that decodes under the application's key and
  carries an id that is not revoked at that moment; it is then in the authenticated room, with that
  token as its session.
\<close>

theorem connected_with_live_token:
  assumes "connect rc cr now sid auth s = (Inr True, t)"
  shows "\<exists>kvs text payload. auth = JObj kvs \<and> payload_get kvs ''token'' JNull = JStr text \<and>
    jwt_decode cr now text (secret_key (conf (hub_app s))) (algorithm (conf (hub_app s))) = Some payload \<and>
    truthy (payload_get payload ''jti'' JNull) \<and>
    fst (is_revoked rc (conf (hub_app s)) WsRevocationStore (py_str (py_repr cr) (payload_get payload ''jti'' JNull)) (toks (hub_app s))) = Inr False \<and>
    hub_sessions t sid = Some text \<and> (sid, ''authenticated'') \<in> set (hub_rooms t)"
  using assms unfolding connect_def token_of_def
  by (auto simp: bnd_apply pure_op_apply ret_apply throw_apply look_apply Let_def in_hub_app_apply in_toks_apply emit_def modify_apply
      split: if_splits json.splits option.splits prod.splits sum.splits)

context redis_service
begin

lemma revoked_for_same_prefix:
  assumes "prefix_of self' = prefix_of self"
  shows "\<exists>s'. revoke_jti rc c self j None s = (Inr (), s') \<and> is_revoked rc c self' j s' = (Inr True, s')"
proof -
  have "(0::int) < 24 * 60 * 60" by simp
  from rd_set_law [OF this] obtain r where r: "rd_set rc (key self j) ''revoked'' (24 * 60 * 60) (redis s) = Some r"
    "view r = (view (redis s))(key self j \<mapsto> PStr ''revoked'')" by blast
  have "rd_get rc (key self' j) r = Some (Some ''revoked'')"
    using rd_get_law [of "key self' j" r] assms by (simp add: r(2) key_def)
  then show ?thesis using r(1)
    by (simp add: revoke_jti_def set_token_def is_revoked_def get_token_def bnd_apply ret_apply)
qed

end

text \<open>
  While Redis works, a token whose id was revoked, as a logout does, no longer lets
  anyone in: the two stores, the routes' and the socket's, share their keys.
\<close>

theorem revoked_token_cannot_connect:
  assumes "redis_service rc view"
    and "payload_get kvs ''token'' JNull = JStr text"
    and "jwt_decode cr now text (secret_key (conf (hub_app s))) (algorithm (conf (hub_app s))) = Some payload"
    and "truthy (payload_get payload ''jti'' JNull)"
  shows "\<exists>t. in_toks (\<lambda>c. revoke_jti rc c RevocationStore (py_str (py_repr cr) (payload_get payload ''jti'' JNull)) None) (hub_app s) = (Inr (), t) \<and>
    connect rc cr now sid (JObj kvs) (s\<lparr>hub_app := t\<rparr>) = (Inr False, s\<lparr>hub_app := t\<rparr>)"
proof -
  let ?j = "py_str (py_repr cr) (payload_get payload ''jti'' JNull)"
  have "prefix_of WsRevocationStore = prefix_of RevocationStore" by (simp add: prefix_of_def)
  from redis_service.revoked_for_same_prefix [OF assms(1) this] obtain u where
    u: "revoke_jti rc (conf (hub_app s)) RevocationStore ?j None (toks (hub_app s)) = (Inr (), u)"
    and v: "is_revoked rc (conf (hub_app s)) WsRevocationStore ?j u = (Inr True, u)" by blast
  have e: "truthy (JObj kvs)" using assms(2) by (cases kvs) (simp_all add: payload_get_def)
  show ?thesis
    using assms(2-4) u v e
    by (cases "text = []") (simp_all add: connect_def token_of_def in_toks_apply in_hub_app_apply bnd_apply pure_op_apply look_apply ret_apply)
qed

text \<open>
  Without Redis, in \<open>dev\<close>, each store has a memory of its own, and the socket's never learns of the
  revocation.
\<close>

theorem outage_logout_misses_sockets:
  assumes "redis_outage rc c" and "mem s WsRevocationStore = (\<lambda>_. None)"
  shows "\<exists>t. revoke_jti rc c RevocationStore j None s = (Inr (), t) \<and> is_revoked rc c RevocationStore j t = (Inr True, t) \<and>
    is_revoked rc c WsRevocationStore j t = (Inr False, t)"
  using assms by (intro exI [of _ "mem_put RevocationStore (key RevocationStore j) (Some (PStr ''revoked'')) s"])
    (simp add: redis_outage_def revoke_jti_def set_token_def is_revoked_def get_token_def unavailable_def bnd_apply
      look_apply modify_apply ret_apply mem_put_def)

text \<open>Neither the account behind the token nor its state is looked at: the tables do not matter.\<close>

theorem connect_ignores_accounts:
  "fst (connect rc cr now sid auth (s\<lparr>hub_app := (hub_app s)\<lparr>sess := x\<rparr>\<rparr>)) = fst (connect rc cr now sid auth s)"
  by (auto simp: connect_def bnd_apply pure_op_apply ret_apply throw_apply look_apply Let_def in_hub_app_apply in_toks_apply emit_def modify_apply
      split: json.split option.split prod.split sum.split)

section \<open>Witnesses\<close>

definition socket_crypto :: crypto where
  "socket_crypto = demo_crypto\<lparr>jwt_decode := \<lambda>now t k a. Some [(''sub'', JStr ''1''), (''jti'', JStr ''j1'')]\<rparr>"

definition demo_hub :: "(string \<Rightarrow> pyval option) hub" where
  "demo_hub = \<lparr>hub_app = demo_app empty_db, hub_sessions = Map.empty, hub_rooms = []\<rparr>"

lemma demo_connect: "connect redis_map socket_crypto 5 ''s1'' (JObj [(''token'', JStr ''t'')]) demo_hub =
  (Inr True, demo_hub\<lparr>hub_sessions := [''s1'' \<mapsto> ''t''], hub_rooms := [(''s1'', ''authenticated'')],
     hub_app := (demo_app empty_db)\<lparr>emitted := [(''status'', JObj [(''message'', JStr ''connected'')], ''s1'')]\<rparr>\<rparr>)"
  by (simp add: connect_def token_of_def payload_get_def bnd_apply pure_op_apply ret_apply look_apply in_hub_app_apply in_toks_apply
      socket_crypto_def is_revoked_def get_token_def redis_map_def demo_hub_def demo_app_def emit_def modify_apply)

theorem connected_with_live_token_witness:
  "fst (is_revoked redis_map default_settings WsRevocationStore ''j1'' (toks (demo_app empty_db))) = Inr False"
proof -
  from connected_with_live_token [OF demo_connect] show ?thesis
    by (auto simp: demo_hub_def demo_app_def socket_crypto_def payload_get_def)
qed

theorem revoked_token_cannot_connect_witness:
  "\<exists>t. fst (connect redis_map socket_crypto 5 ''s1'' (JObj [(''token'', JStr ''t'')]) (demo_hub\<lparr>hub_app := t\<rparr>)) = Inr False"
proof -
  have "redis_service redis_map (\<lambda>r. r)" by (rule live.redis_service_axioms)
  from revoked_token_cannot_connect [OF this, of "[(''token'', JStr ''t'')]" "''t''" socket_crypto 5 demo_hub
      "[(''sub'', JStr ''1''), (''jti'', JStr ''j1'')]" "''s1''"]
  obtain t where "connect redis_map socket_crypto 5 ''s1'' (JObj [(''token'', JStr ''t'')]) (demo_hub\<lparr>hub_app := t\<rparr>) =
      (Inr False, demo_hub\<lparr>hub_app := t\<rparr>)"
    by (auto simp: payload_get_def socket_crypto_def)
  then show ?thesis by (intro exI [of _ t]) simp
qed

end
