(* ===== verification/AuditTrail.thy ===== *)
theory AuditTrail
  imports Rbac
begin

text \<open>
  Reading the audit log: \<open>backend/domain/audit_log/repository.py\<close> and the route of
  \<open>backend/app/api/v1/audit_log/router.py\<close>. Writing it is in \<open>App\<close>. Rows of one instant are listed in
  the order of their insertion.
\<close>

section \<open>Search\<close>

record audit_query =
  aq_actor_id :: "int option"
  aq_action :: "string option"
  aq_resource :: "string option"
  aq_since :: "datetime option"
  aq_until :: "datetime option"
  aq_success :: "bool option"

definition any_entry :: audit_query where
  "any_entry = \<lparr>aq_actor_id = None, aq_action = None, aq_resource = None, aq_since = None, aq_until = None, aq_success = None\<rparr>"

fun instant :: "datetime \<Rightarrow> int" where
  "instant (Naive t) = t"
| "instant (Aware t) = t"

text \<open>An empty action or resource filters nothing.\<close>

definition audit_matches :: "audit_query \<Rightarrow> audit_log_entry \<Rightarrow> bool" where
  "audit_matches q e \<longleftrightarrow>
     (case aq_actor_id q of None \<Rightarrow> True | Some a \<Rightarrow> audit_actor_id e = Some a) \<and>
     (blank (aq_action q) \<or> aq_action q = Some (audit_action e)) \<and>
     (blank (aq_resource q) \<or> aq_resource q = Some (audit_resource e)) \<and>
     (case aq_since q of None \<Rightarrow> True | Some t \<Rightarrow> instant (audit_created_at e) \<ge> instant t) \<and>
     (case aq_until q of None \<Rightarrow> True | Some t \<Rightarrow> instant (audit_created_at e) \<le> instant t) \<and>
     (case aq_success q of None \<Rightarrow> True | Some b \<Rightarrow> audit_success e = b)"

definition newest_first :: "audit_log_entry list \<Rightarrow> audit_log_entry list" where
  "newest_first = sort_key (\<lambda>e. - instant (audit_created_at e))"

definition search_audit :: "audit_query \<Rightarrow> nat \<Rightarrow> nat \<Rightarrow> (session, audit_log_entry list \<times> nat) op" where
  "search_audit q skip limit =
     bnd (select AuditLogEntry (audit_matches q)) (\<lambda>counted.
     bnd (select AuditLogEntry (audit_matches q)) (\<lambda>rows.
     ret (page_of skip limit (newest_first rows), length counted)))"

definition list_audit_entries :: "audit_query \<Rightarrow> nat \<Rightarrow> nat \<Rightarrow> principal \<Rightarrow> ('r app, audit_log_entry list) op" where
  "list_audit_entries q skip limit caller = with_db
     (bnd (in_db (require_permission [''audit.view''] caller)) (\<lambda>_.
      bnd (in_db (search_audit q skip limit)) (\<lambda>(entries, _). ret entries)))"

section \<open>Properties\<close>

lemma search_run:
  "search_audit q skip limit s =
     (Inr (page_of skip limit (newest_first (filter (audit_matches q) (audit_log_entries (work s)))),
       length (filter (audit_matches q) (audit_log_entries (work s)))), s)"
  by (simp add: search_audit_def bnd_apply select_def look_apply ret_apply AuditLogEntry_def)

text \<open>
  The pages of a search are one list: every entry the filters let through, once,
  the newest first; and the total reported is its length.
\<close>

theorem audit_pages_cover:
  assumes "0 < limit"
  shows "\<exists>rows. mset rows = mset (filter (audit_matches q) (audit_log_entries (work s))) \<and>
    sorted_wrt (\<lambda>a b. instant (audit_created_at a) \<ge> instant (audit_created_at b)) rows \<and>
    (\<forall>skip. search_audit q skip limit s = (Inr (page_of skip limit rows, length rows), s)) \<and>
    concat (map (\<lambda>skip. page_of skip limit rows) (page_starts limit (length rows))) = rows"
proof -
  let ?rows = "newest_first (filter (audit_matches q) (audit_log_entries (work s)))"
  have "sorted (map (\<lambda>e. - instant (audit_created_at e)) ?rows)" by (simp add: newest_first_def)
  then have "sorted_wrt (\<lambda>a b. instant (audit_created_at a) \<ge> instant (audit_created_at b)) ?rows"
    by (simp add: sorted_map)
  then show ?thesis using pages_cover [OF assms, of ?rows]
    by (intro exI [of _ ?rows]) (simp add: search_run newest_first_def)
qed


section \<open>Witnesses\<close>

definition demo_entry :: "int \<Rightarrow> string \<Rightarrow> int \<Rightarrow> audit_log_entry" where
  "demo_entry i action t = (audit_entry None Nobody action ''r'' (JObj []) None None True None (Aware t))\<lparr>audit_id := i\<rparr>"

theorem audit_pages_cover_witness:
  "\<exists>rows. mset rows = {#demo_entry 1 ''a'' 5, demo_entry 2 ''a'' 9#} \<and>
    concat (map (\<lambda>skip. page_of skip 1 rows) (page_starts 1 2)) = rows"
proof -
  let ?d = "empty_db\<lparr>audit_log_entries := [demo_entry 1 ''a'' 5, demo_entry 2 ''a'' 9]\<rparr>"
  let ?s = "\<lparr>work = ?d, stored = ?d, fk_on = False\<rparr>"
  let ?q = "any_entry\<lparr>aq_action := Some ''a''\<rparr>"
  have found: "filter (audit_matches ?q) (audit_log_entries (work ?s)) = [demo_entry 1 ''a'' 5, demo_entry 2 ''a'' 9]"
    by (simp add: audit_matches_def any_entry_def demo_entry_def audit_entry_def blank_def Let_def)
  have "0 < (1::nat)" by simp
  from audit_pages_cover [OF this, of ?q ?s] obtain rows where
    *: "mset rows = mset (filter (audit_matches ?q) (audit_log_entries (work ?s)))"
    "concat (map (\<lambda>skip. page_of skip 1 rows) (page_starts 1 (length rows))) = rows" by (elim exE conjE) (rule that)
  have "length rows = 2" using arg_cong [OF *(1), of size] unfolding found by simp
  with * show ?thesis unfolding found by (intro exI [of _ rows]) (simp add: add_mset_commute)
qed


end
