(* ===== verification/SettingsLoad.thy ===== *)
theory SettingsLoad
  imports Config Files
begin

text \<open>
  Where the settings come from: the environment files, the secret files and \<open>get_settings\<close> of
  \<open>backend/core/config.py\<close>. \<open>os.environ\<close> is the state; the files are read from a disk of \<open>Files\<close>, as
  Latin-1 text. What \<open>BaseSettings\<close> makes of the environment before the validators run is a parameter
  \<open>raw\<close>. \<open>lru_cache\<close>, which lets one process read them once, is not modelled.
\<close>

section \<open>Texts\<close>

text \<open>The line boundaries of \<open>str.splitlines\<close> below 256.\<close>

definition is_line_end :: "char \<Rightarrow> bool" where
  "is_line_end c = (let n = of_char c :: nat in n \<in> {10, 11, 12, 13, 28, 29, 30, 133})"

fun split_lines :: "string \<Rightarrow> string list" where
  "split_lines [] = []"
| "split_lines (c # cs) =
     (if is_line_end c
      then [] # split_lines (if c = char_of (13 :: nat) \<and> cs \<noteq> [] \<and> hd cs = char_of (10 :: nat) then tl cs else cs)
      else case split_lines cs of [] \<Rightarrow> [[c]] | l # ls \<Rightarrow> (c # l) # ls)"

definition strip_char :: "char \<Rightarrow> string \<Rightarrow> string" where
  "strip_char q s = rev (dropWhile (\<lambda>c. c = q) (rev (dropWhile (\<lambda>c. c = q) s)))"

text \<open>\<open>str(Path(s))\<close>.\<close>

definition path_str :: "path \<Rightarrow> string" where
  "path_str p = (if fst p then ''/'' else if snd p = [] then ''.'' else []) @ join ''/'' (snd p)"

definition file_at :: "string list \<Rightarrow> disk \<Rightarrow> string \<Rightarrow> node option" where
  "file_at cwd d s = node_at d (resolve cwd (path_of s))"

text \<open>\<open>read_text()\<close> of what exists.\<close>

definition read_text :: "node \<Rightarrow> exn + string" where
  "read_text n = (case n of File b \<Rightarrow> Inr b | Folder \<Rightarrow> Inl (RemoteError ''IsADirectoryError''))"

section \<open>Secrets in files\<close>

definition resolve_secret_path :: "string list \<Rightarrow> disk \<Rightarrow> environ \<Rightarrow> string option \<Rightarrow> string option" where
  "resolve_secret_path cwd d env path_value =
     (if blank path_value then None
      else let v = the path_value; p = path_of v in
        if fst p then Some (path_str p)
        else if blank (env ''SECRETS_DIR'') then Some v
        else let candidate = slash (path_of (the (env ''SECRETS_DIR''))) v in
          if node_at d (resolve cwd candidate) \<noteq> None then Some (path_str candidate) else Some v)"

definition read_secret_value :: "string list \<Rightarrow> disk \<Rightarrow> environ \<Rightarrow> string option \<Rightarrow> string option \<Rightarrow> exn + string option" where
  "read_secret_value cwd d env val file_field =
     (let from_file = (if blank file_field then None
          else file_at cwd d (the (or_text (resolve_secret_path cwd d env file_field) file_field)))
      in case from_file of
           Some n \<Rightarrow> map_sum id (\<lambda>b. Some (strip b)) (read_text n)
         | None \<Rightarrow> Inr (if blank val then None else val))"

section \<open>Environment files\<close>

text \<open>A line that defines something: its key and value.\<close>

definition env_line :: "string \<Rightarrow> (string \<times> string) option" where
  "env_line raw = (let line = strip raw in
     if line = [] \<or> startswith line ''#'' then None
     else case split_once (CHR ''='') line of
       None \<Rightarrow> None
     | Some (k, v) \<Rightarrow> Some (strip k, strip_char (CHR 0x27) (strip_char (CHR 0x22) (strip v))))"

text \<open>\<open>os.environ.setdefault\<close>; the operating system refuses an empty name.\<close>

definition set_default :: "string \<Rightarrow> string \<Rightarrow> (environ, unit) op" where
  "set_default k v = (\<lambda>env. if env k \<noteq> None then (Inr (), env)
     else if k = [] then (Inl (RemoteError ''OSError''), env) else (Inr (), env(k \<mapsto> v)))"

definition load_env_line :: "string \<Rightarrow> (environ, unit) op" where
  "load_env_line raw = (case env_line raw of None \<Rightarrow> ret () | Some (k, v) \<Rightarrow> set_default k v)"

definition load_env_file :: "string list \<Rightarrow> disk \<Rightarrow> string \<Rightarrow> (environ, unit) op" where
  "load_env_file cwd d p = (case file_at cwd d p of
     None \<Rightarrow> ret ()
   | Some n \<Rightarrow> bnd (pure_op (read_text n)) (\<lambda>text. for_each (split_lines text) load_env_line))"

definition env_paths :: "environ \<Rightarrow> string list" where
  "env_paths env = (let e = text_or_empty (or_text (or_text (env ''ENVIRONMENT'') (env ''APP_ENV'')) (Some ''dev'')) in
     (if blank (env ''ENV_FILE'') then [] else [the (env ''ENV_FILE'')]) @
     [''.env'', ''.env.'' @ e, ''.env.'' @ e @ ''.local'', ''.env.local''])"

section \<open>get_settings\<close>

definition secret_names :: "string list" where
  "secret_names = [''DATABASE_URL'', ''REDIS_URL'', ''SECRET_KEY'']"

definition resolved_secret :: "string list \<Rightarrow> disk \<Rightarrow> string \<Rightarrow> (environ, string option) op" where
  "resolved_secret cwd d name =
     bnd (look (\<lambda>env. read_secret_value cwd d env (env name) (env (name @ ''_FILE'')))) pure_op"

definition put_secret :: "string \<times> string option \<Rightarrow> (environ, unit) op" where
  "put_secret = (\<lambda>(name, v). case v of None \<Rightarrow> ret () | Some v \<Rightarrow> modify (\<lambda>env. env(name \<mapsto> v)))"

text \<open>\<open>_read_secret_value(x, f) or x\<close>.\<close>

definition secret_or :: "string list \<Rightarrow> disk \<Rightarrow> string \<Rightarrow> string option \<Rightarrow> (environ, string) op" where
  "secret_or cwd d x file_field =
     bnd (look (\<lambda>env. read_secret_value cwd d env (Some x) file_field)) (\<lambda>r.
     bnd (pure_op r) (\<lambda>v. ret (if blank v then x else the v)))"

definition get_settings :: "(real \<Rightarrow> string) \<Rightarrow> (json \<Rightarrow> string) \<Rightarrow> (string \<Rightarrow> json option) \<Rightarrow> (environ \<Rightarrow> exn + settings) \<Rightarrow>
    string list \<Rightarrow> disk \<Rightarrow> (environ, settings) op" where
  "get_settings fr repr loads raw cwd d =
     bnd (normalize_env_list_settings fr) (\<lambda>_.
     bnd (look env_paths) (\<lambda>paths.
     bnd (for_each paths (load_env_file cwd d)) (\<lambda>_.
     bnd (map_each secret_names (resolved_secret cwd d)) (\<lambda>resolved.
     bnd (for_each (zip secret_names resolved) put_secret) (\<lambda>_.
     bnd (look (\<lambda>env. bind_sum (raw env) make_settings)) (\<lambda>r.
     bnd (pure_op r) (\<lambda>c.
     bnd (look (\<lambda>env. if env ''APP_ENV'' = None \<and> app_env c = ''dev'' then c\<lparr>app_env := environment c\<rparr> else c)) (\<lambda>c.
     bnd (secret_or cwd d (database_url c) (database_url_file c)) (\<lambda>du.
     bnd (secret_or cwd d (redis_url c) (redis_url_file c)) (\<lambda>ru.
     bnd (secret_or cwd d (secret_key c) (secret_key_file c)) (\<lambda>sk.
     ret (c\<lparr>database_url := du, redis_url := ru, secret_key := sk,
       cors_origins := parse_string_list repr loads (JList (map JStr (cors_origins c))),
       trusted_proxy_ips := parse_string_list repr loads (JList (map JStr (trusted_proxy_ips c)))\<rparr>))))))))))))"

section \<open>Environment files: the first definition wins\<close>

definition env_definitions :: "string list \<Rightarrow> disk \<Rightarrow> string \<Rightarrow> (string \<times> string) list" where
  "env_definitions cwd d p = (case file_at cwd d p of
     Some (File text) \<Rightarrow> List.map_filter env_line (split_lines text) | _ \<Rightarrow> [])"

text \<open>The environment with definitions added where it has none.\<close>

definition filled :: "environ \<Rightarrow> (string \<times> string) list \<Rightarrow> environ" where
  "filled env defs = (\<lambda>k. case env k of Some v \<Rightarrow> Some v | None \<Rightarrow> map_of defs k)"

lemma filled_Nil [simp]: "filled env [] = env"
  by (auto simp: filled_def split: option.split)

lemma filled_append: "filled (filled env xs) ys = filled env (xs @ ys)"
  by (auto simp: filled_def fun_eq_iff map_add_def split: option.split)

lemma set_default_filled: "k \<noteq> [] \<Longrightarrow> set_default k v env = (Inr (), filled env [(k, v)])"
  by (auto simp: set_default_def filled_def fun_eq_iff split: option.split)

lemma load_lines:
  assumes "\<forall>(k, v) \<in> set (List.map_filter env_line ls). k \<noteq> []"
  shows "for_each ls load_env_line env = (Inr (), filled env (List.map_filter env_line ls))"
  using assms
proof (induction ls arbitrary: env)
  case Nil
  then show ?case by (simp add: ret_apply map_filter_def)
next
  case (Cons l ls)
  show ?case
  proof (cases "env_line l")
    case None
    then show ?thesis using Cons by (simp add: load_env_line_def bnd_apply ret_apply map_filter_simps)
  next
    case (Some kv)
    then show ?thesis using Cons
      by (cases kv) (simp add: load_env_line_def bnd_apply set_default_filled map_filter_simps filled_append)
  qed
qed

lemma load_file:
  assumes "file_at cwd d p \<noteq> Some Folder" "\<forall>(k, v) \<in> set (env_definitions cwd d p). k \<noteq> []"
  shows "load_env_file cwd d p env = (Inr (), filled env (env_definitions cwd d p))"
proof (cases "file_at cwd d p")
  case (Some n)
  then show ?thesis using assms load_lines
    by (cases n) (simp_all add: load_env_file_def env_definitions_def bnd_apply pure_op_apply read_text_def)
qed (simp add: load_env_file_def env_definitions_def ret_apply)

lemma load_files:
  assumes "\<forall>p \<in> set ps. file_at cwd d p \<noteq> Some Folder \<and> (\<forall>(k, v) \<in> set (env_definitions cwd d p). k \<noteq> [])"
  shows "for_each ps (load_env_file cwd d) env = (Inr (), filled env (concat (map (env_definitions cwd d) ps)))"
  using assms by (induction ps arbitrary: env) (simp_all add: ret_apply bnd_apply load_file filled_append)

text \<open>
  Loading the environment files leaves every variable that was set as it was, and gives
  every other the value of its first definition: of the first file that defines it, in the order of
  the files, on its first line there.
\<close>

theorem first_definition_wins:
  assumes "\<forall>p \<in> set ps. file_at cwd d p \<noteq> Some Folder \<and> (\<forall>(k, v) \<in> set (env_definitions cwd d p). k \<noteq> [])"
  shows "\<exists>env'. for_each ps (load_env_file cwd d) env = (Inr (), env') \<and>
    (\<forall>k. env' k = (if env k \<noteq> None then env k else map_of (concat (map (env_definitions cwd d) ps)) k))"
  unfolding load_files [OF assms] by (auto simp: filled_def split: option.split)

section \<open>Production secrets\<close>

lemma make_settings_is:
  assumes "make_settings c = Inr d"
  shows "secret_key d = secret_key c \<and> secret_key_file d = secret_key_file c"
proof -
  from assms obtain e a c1 c2 where c1: "reject_insecure_prod_defaults (c\<lparr>environment := e, app_env := a\<rparr>) = Inr c1"
    and c2: "validate_upload_backend_configuration c1 = Inr c2"
    and d: "reject_wildcard_origin_with_credentials c2 = Inr d"
    unfolding make_settings_def bind_sum_Inr by blast
  have "c1 = c\<lparr>environment := e, app_env := a\<rparr>"
    using c1 unfolding reject_insecure_prod_defaults_def by (metis Inl_Inr_False sum.inject(2))
  moreover have "c2 = c1"
    using c2 unfolding validate_upload_backend_configuration_def Let_def by (metis Inl_Inr_False sum.inject(2))
  moreover have "d = c2"
    using d unfolding reject_wildcard_origin_with_credentials_def by (metis Inl_Inr_False sum.inject(2))
  ultimately show ?thesis by simp
qed

lemma same_file_value:
  assumes "env' ''SECRETS_DIR'' = env ''SECRETS_DIR''"
  shows "read_secret_value cwd d env' v f = read_secret_value cwd d env v f"
  unfolding read_secret_value_def resolve_secret_path_def assms by (rule refl)

text \<open>Reading a secret again, once it is in the environment, changes nothing.\<close>

lemma read_again:
  assumes "read_secret_value cwd d env v f = Inr r" and "\<And>w. r = Some w \<Longrightarrow> x = w"
    and "read_secret_value cwd d env (Some x) f = Inr r'"
  shows "(if blank r' then x else the r') = x"
proof -
  obtain found where "read_secret_value cwd d env v f = (case found of
      Some n \<Rightarrow> map_sum id (\<lambda>b. Some (strip b)) (read_text n) | None \<Rightarrow> Inr (if blank v then None else v))" for v
    unfolding read_secret_value_def Let_def by blast
  with assms show ?thesis by (cases found) (auto simp: blank_def split: if_splits)
qed

definition after_secrets :: "environ \<Rightarrow> string option list \<Rightarrow> environ" where
  "after_secrets env rs = fold (\<lambda>(n, r) e. case r of None \<Rightarrow> e | Some v \<Rightarrow> e(n \<mapsto> v)) (zip secret_names rs) env"

lemma put_secrets: "for_each xs put_secret env = (Inr (), fold (\<lambda>(n, r) e. case r of None \<Rightarrow> e | Some v \<Rightarrow> e(n \<mapsto> v)) xs env)"
  by (induction xs arbitrary: env) (auto simp: ret_apply put_secret_def bnd_apply modify_apply split: option.split)

lemma resolved_secrets:
  assumes "map_each secret_names (resolved_secret cwd d) env = (Inr rs, env')"
  shows "env' = env \<and> (\<exists>a b r. rs = [a, b, r] \<and>
    read_secret_value cwd d env (env ''SECRET_KEY'') (env ''SECRET_KEY_FILE'') = Inr r)"
  using assms by (auto simp: secret_names_def resolved_secret_def ret_apply look_apply pure_op_apply bnd_apply split: sum.splits)

lemma after_secrets_apply:
  "after_secrets env [a, b, r] ''SECRET_KEY'' = (case r of None \<Rightarrow> env ''SECRET_KEY'' | Some v \<Rightarrow> Some v)"
  "after_secrets env [a, b, r] ''SECRET_KEY_FILE'' = env ''SECRET_KEY_FILE''"
  "after_secrets env [a, b, r] ''SECRETS_DIR'' = env ''SECRETS_DIR''"
  by (auto simp: after_secrets_def secret_names_def split: option.split)

lemma secret_or_apply:
  assumes "secret_or cwd d x f env = (Inr y, env')"
  shows "env' = env \<and> (\<exists>r. read_secret_value cwd d env (Some x) f = Inr r \<and> y = (if blank r then x else the r))"
  using assms by (auto simp: secret_or_def bnd_apply look_apply pure_op_apply ret_apply split: sum.splits)

text \<open>What the settings class takes from the environment for the secret.\<close>

definition takes_secret :: "(environ \<Rightarrow> exn + settings) \<Rightarrow> bool" where
  "takes_secret raw \<longleftrightarrow> (\<forall>env c. raw env = Inr c \<longrightarrow> secret_key_file c = env ''SECRET_KEY_FILE'' \<and>
     secret_key c = (case env ''SECRET_KEY'' of None \<Rightarrow> ''change-me-in-production'' | Some v \<Rightarrow> v))"



section \<open>Witnesses\<close>

definition demo_disk :: disk where
  "demo_disk = [[''srv''] \<mapsto> Folder, [''srv'', ''.env''] \<mapsto> File (''A=1'' @ [CHR 0x0A] @ ''A=2''),
     [''srv'', ''key''] \<mapsto> File ''s3cret '']"

lemma demo_definitions: "env_definitions [''srv''] demo_disk ''.env'' = [(''A'', ''1''), (''A'', ''2'')]"
  by code_simp

theorem first_definition_wins_witness:
  "\<exists>env'. for_each [''.env'', ''.env.local''] (load_env_file [''srv''] demo_disk) [''B'' \<mapsto> ''b''] = (Inr (), env') \<and> env' ''A'' = Some ''1''"
proof -
  have l: "file_at [''srv''] demo_disk ''.env.local'' = None" "file_at [''srv''] demo_disk ''.env'' \<noteq> Some Folder"
    by code_simp+
  then have "\<forall>p \<in> set [''.env'', ''.env.local'']. file_at [''srv''] demo_disk p \<noteq> Some Folder \<and>
      (\<forall>(k, v) \<in> set (env_definitions [''srv''] demo_disk p). k \<noteq> [])"
    by (simp add: demo_definitions) (simp add: env_definitions_def)
  from first_definition_wins [OF this, of "[''B'' \<mapsto> ''b'']"] show ?thesis
    by (auto simp: demo_definitions)
qed

definition demo_raw :: "environ \<Rightarrow> exn + settings" where
  "demo_raw env = Inr (default_settings\<lparr>environment := ''prod'', default_admin_password := ''Adm1n!xyz'',
     secret_key_file := env ''SECRET_KEY_FILE'',
     secret_key := (case env ''SECRET_KEY'' of None \<Rightarrow> ''change-me-in-production'' | Some v \<Rightarrow> v)\<rparr>)"

lemma demo_takes_secret: "takes_secret demo_raw"
  by (simp add: takes_secret_def demo_raw_def)

lemma demo_loaded:
  "(case get_settings (\<lambda>_. []) (\<lambda>_. []) (\<lambda>_. None) demo_raw [''srv''] demo_disk [''SECRET_KEY_FILE'' \<mapsto> ''key''] of
     (Inr c, _) \<Rightarrow> secret_key c = ''s3cret'' \<and> environment c = ''prod'' | _ \<Rightarrow> False)"
  by code_simp


end
