(* ===== verification/Routing.thy ===== *)
theory Routing
  imports PyStr
begin

text \<open>
  Which handler a request reaches: the routes of the routers under \<open>backend/app/api/v1\<close> with the prefixes
  of their \<open>APIRouter\<close>s, in the order in which \<open>backend/app/api/v1/router.py\<close> includes them and
  \<open>register_api_routers\<close> and \<open>main.py\<close> add to them. A path is the list of its parts between slashes. What
  FastAPI documents of its router is used: a path parameter stands for one non-empty part, and the first
  route that fits the method and the path gets the request. The documentation pages of \<open>dev\<close>, the mounted
  Socket.IO application and the websocket are not in the table.
\<close>

section \<open>Routes\<close>

datatype part = Lit string | Param

text \<open>Method, path template, name of the handler.\<close>

type_synonym route = "string \<times> part list \<times> string"

definition route_method :: "route \<Rightarrow> string" where
  "route_method r = fst r"

definition route_path :: "route \<Rightarrow> part list" where
  "route_path r = fst (snd r)"

definition handler :: "route \<Rightarrow> string" where
  "handler r = snd (snd r)"

fun part_fits :: "part \<Rightarrow> string \<Rightarrow> bool" where
  "part_fits (Lit l) p = (p = l)"
| "part_fits Param p = (p \<noteq> [])"

definition path_fits :: "part list \<Rightarrow> string list \<Rightarrow> bool" where
  "path_fits t p = list_all2 part_fits t p"

definition url_parts :: "string \<Rightarrow> string list" where
  "url_parts url = tl (PyStr.split_on (CHR 0x2F) url)"

definition auth_routes :: "route list" where
  "auth_routes = [
     (''POST'', [Lit ''auth'', Lit ''login''], ''login''),
     (''POST'', [Lit ''auth'', Lit ''refresh''], ''refresh_token''),
     (''POST'', [Lit ''auth'', Lit ''logout''], ''logout''),
     (''GET'', [Lit ''auth'', Lit ''password-policy''], ''password_policy''),
     (''POST'', [Lit ''auth'', Lit ''email-verification'', Lit ''request''], ''request_email_verification''),
     (''POST'', [Lit ''auth'', Lit ''email-verification'', Lit ''confirm''], ''confirm_email_verification''),
     (''POST'', [Lit ''auth'', Lit ''password-reset'', Lit ''request''], ''request_password_reset''),
     (''POST'', [Lit ''auth'', Lit ''password-reset'', Lit ''confirm''], ''confirm_password_reset''),
     (''GET'', [Lit ''auth'', Lit ''me''], ''read_me'')]"

definition users_routes :: "route list" where
  "users_routes = [
     (''GET'', [Lit ''users'', Lit ''''], ''list_users''),
     (''GET'', [Lit ''users'', Lit ''me''], ''read_current_user''),
     (''GET'', [Lit ''users'', Param], ''read_user''),
     (''GET'', [Lit ''users'', Lit ''me'', Lit ''export''], ''export_user_data''),
     (''POST'', [Lit ''users'', Lit ''''], ''create_user''),
     (''PUT'', [Lit ''users'', Param], ''update_user''),
     (''DELETE'', [Lit ''users'', Param], ''delete_user'')]"

definition products_routes :: "route list" where
  "products_routes = [
     (''GET'', [Lit ''products'', Lit ''''], ''list_products''),
     (''GET'', [Lit ''products'', Param], ''read_product''),
     (''POST'', [Lit ''products'', Lit ''''], ''create_product''),
     (''PUT'', [Lit ''products'', Param], ''update_product''),
     (''DELETE'', [Lit ''products'', Param], ''delete_product'')]"

definition uploads_routes :: "route list" where
  "uploads_routes = [
     (''POST'', [Lit ''uploads'', Lit ''''], ''upload_file''),
     (''GET'', [Lit ''uploads'', Param], ''download_file'')]"

definition admin_routes :: "route list" where
  "admin_routes = [
     (''GET'', [Lit ''admin'', Lit ''users''], ''list_admin_users''),
     (''PATCH'', [Lit ''admin'', Lit ''users'', Param, Lit ''role''], ''set_user_role''),
     (''PATCH'', [Lit ''admin'', Lit ''system'', Lit ''subscriptions-enabled''], ''toggle_subscriptions_enabled''),
     (''PATCH'', [Lit ''admin'', Lit ''users'', Lit ''roles''], ''bulk_set_user_roles'')]"

definition rbac_routes :: "route list" where
  "rbac_routes = [
     (''POST'', [Lit ''admin'', Lit ''roles''], ''create_role''),
     (''POST'', [Lit ''admin'', Lit ''permissions''], ''create_permission''),
     (''PUT'', [Lit ''admin'', Lit ''roles'', Param, Lit ''permissions''], ''set_role_permissions''),
     (''POST'', [Lit ''admin'', Lit ''users'', Param, Lit ''roles''], ''assign_roles_to_user''),
     (''GET'', [Lit ''rbac'', Lit ''check-permission''], ''check_permission'')]"

definition billing_routes :: "route list" where
  "billing_routes = [
     (''POST'', [Lit ''billing'', Lit ''admin'', Lit ''plans''], ''create_plan''),
     (''POST'', [Lit ''billing'', Lit ''admin'', Lit ''features''], ''create_feature''),
     (''POST'', [Lit ''billing'', Lit ''admin'', Lit ''plans'', Param, Lit ''features''], ''map_plan_features''),
     (''PATCH'', [Lit ''billing'', Lit ''admin'', Lit ''settings''], ''update_billing_settings''),
     (''GET'', [Lit ''billing'', Lit ''admin'', Lit ''billing'', Lit ''metrics''], ''get_billing_metrics''),
     (''POST'', [Lit ''billing'', Lit ''subscriptions'', Lit ''assign''], ''assign_subscription''),
     (''POST'', [Lit ''billing'', Lit ''subscriptions'', Lit ''change-plan''], ''change_plan''),
     (''GET'', [Lit ''billing'', Lit ''invoices'', Lit ''me''], ''get_my_invoices''),
     (''GET'', [Lit ''billing'', Lit ''admin'', Lit ''invoices''], ''list_all_invoices''),
     (''GET'', [Lit ''billing'', Lit ''notifications'', Lit ''me''], ''list_my_notifications''),
     (''POST'', [Lit ''billing'', Lit ''notifications'', Lit ''me'', Param, Lit ''read''], ''mark_notification_read''),
     (''POST'', [Lit ''billing'', Lit ''checkout''], ''create_checkout''),
     (''POST'', [Lit ''billing'', Lit ''subscriptions'', Lit ''cancel''], ''cancel_subscription''),
     (''GET'', [Lit ''billing'', Lit ''plans''], ''list_plans''),
     (''GET'', [Lit ''billing'', Lit ''subscriptions'', Lit ''me''], ''get_my_subscription''),
     (''GET'', [Lit ''billing'', Lit ''feature-check''], ''feature_check''),
     (''POST'', [Lit ''billing'', Lit ''webhooks'', Lit ''stripe''], ''stripe_webhook'')]"

definition api_keys_routes :: "route list" where
  "api_keys_routes = [
     (''POST'', [Lit ''api-keys'', Lit ''''], ''create_api_key''),
     (''GET'', [Lit ''api-keys'', Lit ''''], ''list_api_keys''),
     (''DELETE'', [Lit ''api-keys'', Param], ''revoke_api_key'')]"

definition webhooks_routes :: "route list" where
  "webhooks_routes = [
     (''POST'', [Lit ''webhooks'', Lit ''endpoints''], ''create_webhook_endpoint''),
     (''GET'', [Lit ''webhooks'', Lit ''endpoints''], ''list_webhook_endpoints''),
     (''DELETE'', [Lit ''webhooks'', Lit ''endpoints'', Param], ''delete_webhook_endpoint''),
     (''GET'', [Lit ''webhooks'', Lit ''endpoints'', Param, Lit ''deliveries''], ''list_webhook_deliveries'')]"

definition audit_log_routes :: "route list" where
  "audit_log_routes = [
     (''GET'', [Lit ''audit-log'', Lit ''''], ''list_audit_entries'')]"

definition health_routes :: "route list" where
  "health_routes = [(''GET'', [Lit ''health'', Lit ''ready''], ''readiness_check'')]"

definition main_routes :: "route list" where
  "main_routes = [(''GET'', [Lit ''health''], ''health_check''),
     (''GET'', [Lit ''metrics''], ''metrics''),
     (''GET'', [Lit ''runtime''], ''runtime_snapshot'')]"

definition api_router :: "route list" where
  "api_router = auth_routes @ users_routes @ products_routes @ uploads_routes @ admin_routes @ rbac_routes @
     billing_routes @ api_keys_routes @ webhooks_routes @ audit_log_routes"

text \<open>\<open>include_router(router, prefix=...)\<close>.\<close>

definition under :: "string list \<Rightarrow> route \<Rightarrow> route" where
  "under pre r = (route_method r, map Lit pre @ route_path r, handler r)"

definition app_routes :: "string list \<Rightarrow> route list" where
  "app_routes pre = map (under pre) api_router @ health_routes @ main_routes"

definition fits :: "string \<Rightarrow> string list \<Rightarrow> route \<Rightarrow> bool" where
  "fits m p r \<longleftrightarrow> route_method r = m \<and> path_fits (route_path r) p"

fun first_fit :: "string \<Rightarrow> string list \<Rightarrow> route list \<Rightarrow> route option" where
  "first_fit m p [] = None"
| "first_fit m p (r # rs) = (if fits m p r then Some r else first_fit m p rs)"

definition route_request :: "string \<Rightarrow> string \<Rightarrow> string \<Rightarrow> route option" where
  "route_request api_v1_str m url = first_fit m (url_parts url) (app_routes (url_parts api_v1_str))"

section \<open>No route hides another\<close>

text \<open>Two templates overlap when a path may fit both.\<close>

fun parts_overlap :: "part \<Rightarrow> part \<Rightarrow> bool" where
  "parts_overlap (Lit a) (Lit b) = (a = b)"
| "parts_overlap (Lit a) Param = (a \<noteq> [])"
| "parts_overlap Param (Lit b) = (b \<noteq> [])"
| "parts_overlap Param Param = True"

definition overlap :: "route \<Rightarrow> route \<Rightarrow> bool" where
  "overlap r r' \<longleftrightarrow> route_method r = route_method r' \<and> list_all2 parts_overlap (route_path r) (route_path r')"

lemma part_overlap: "part_fits a p \<Longrightarrow> part_fits b p \<Longrightarrow> parts_overlap a b"
  by (cases a; cases b) auto

lemma fits_overlap:
  assumes "fits m p r" "fits m p r'"
  shows "overlap r r'"
proof -
  have "list_all2 parts_overlap (route_path r) (route_path r')"
    using assms part_overlap
    by (auto simp: fits_def path_fits_def list_all2_conv_all_nth)
  then show ?thesis using assms by (simp add: overlap_def fits_def)
qed

text \<open>The one pair that overlaps: \<open>/users/me\<close>, declared before \<open>/users/{user_id}\<close>.\<close>

definition me_route :: route where
  "me_route = (''GET'', [Lit ''users'', Lit ''me''], ''read_current_user'')"

definition user_route :: route where
  "user_route = (''GET'', [Lit ''users'', Param], ''read_user'')"

definition clear :: "route \<Rightarrow> route \<Rightarrow> bool" where
  "clear r r' \<longleftrightarrow> overlap r r' \<longrightarrow> r = me_route \<and> r' = user_route"

lemma api_router_clear: "sorted_wrt clear api_router"
  by code_simp

lemma overlap_under [simp]: "overlap (under pre r) (under pre r') = overlap r r'"
proof -
  have "list_all2 parts_overlap (map Lit pre) (map Lit pre)" by (induction pre) auto
  then show ?thesis by (auto simp: overlap_def under_def route_method_def route_path_def handler_def list_all2_append)
qed

lemma api_paths: "list_all (\<lambda>r. 2 \<le> length (route_path r) \<and> (case route_path r of Lit l # t \<Rightarrow> l \<noteq> ''health'' | _ \<Rightarrow> False)) api_router"
  by code_simp

lemma api_health_apart:
  assumes "r \<in> set api_router" "h \<in> set (health_routes @ main_routes)"
  shows "\<not> overlap (under pre r) h"
proof
  assume over: "overlap (under pre r) h"
  have "2 \<le> length (route_path r) \<and> (case route_path r of Lit l # t \<Rightarrow> l \<noteq> ''health'' | _ \<Rightarrow> False)"
    using api_paths assms(1) by (simp add: list_all_iff)
  then obtain l t where r: "route_path r = Lit l # t" "l \<noteq> ''health''" "t \<noteq> []"
    by (cases "route_path r") (fastforce split: part.splits)+
  have len: "length pre + length (route_path r) = length (route_path h)"
    using over by (auto simp: overlap_def under_def route_path_def dest: list_all2_lengthD)
  from assms(2) have h: "route_path h = [Lit ''health'', Lit ''ready''] \<or> length (route_path h) = 1"
    by (auto simp: health_routes_def main_routes_def route_path_def)
  with len r have "pre = []" "route_path h = [Lit ''health'', Lit ''ready'']" by (auto simp: neq_Nil_conv)
  then show False using over r by (simp add: overlap_def under_def route_path_def)
qed

lemma others_clear: "sorted_wrt (\<lambda>r r'. \<not> overlap r r') (health_routes @ main_routes)"
  by code_simp

lemma app_routes_clear:
  "sorted_wrt (\<lambda>r r'. overlap r r' \<longrightarrow> r = under pre me_route \<and> r' = under pre user_route) (app_routes pre)"
proof -
  have "sorted_wrt (\<lambda>r r'. overlap r r' \<longrightarrow> r = under pre me_route \<and> r' = under pre user_route) (map (under pre) api_router)"
    unfolding sorted_wrt_map by (rule sorted_wrt_mono_rel [OF _ api_router_clear]) (auto simp: clear_def)
  moreover have "sorted_wrt (\<lambda>r r'. overlap r r' \<longrightarrow> r = under pre me_route \<and> r' = under pre user_route) (health_routes @ main_routes)"
    by (rule sorted_wrt_mono_rel [OF _ others_clear]) simp
  ultimately show ?thesis using api_health_apart [of _ _ pre]
    unfolding app_routes_def sorted_wrt_append by (auto simp: sorted_wrt_append)
qed

lemma path_fits_below: "path_fits (map Lit pre @ t) p = (\<exists>q. p = pre @ q \<and> path_fits t q)"
  by (induction pre arbitrary: p) (auto simp: path_fits_def list_all2_Cons1)

lemma first_fit_clear:
  assumes "sorted_wrt C rs" "r \<in> set rs" "fits m p r"
  shows "first_fit m p rs = Some r \<or> (\<exists>r0. first_fit m p rs = Some r0 \<and> fits m p r0 \<and> C r0 r)"
  using assms by (induction rs) auto

text \<open>
  Property C28. No route hides another. Under any API prefix, a request that fits a route's method and path
  reaches that route's handler; the one exception is \<open>GET /users/me\<close>, which fits the route of a single user
  too and is given to \<open>read_current_user\<close>.
\<close>

theorem routes_are_reached:
  assumes "r \<in> set (app_routes (url_parts api_v1_str))" and "fits m (url_parts url) r"
  shows "route_request api_v1_str m url = Some r \<or>
    (handler r = ''read_user'' \<and> m = ''GET'' \<and> url_parts url = url_parts api_v1_str @ [''users'', ''me''] \<and>
     map_option handler (route_request api_v1_str m url) = Some ''read_current_user'')"
proof -
  let ?pre = "url_parts api_v1_str"
  from first_fit_clear [OF app_routes_clear assms] consider
    "route_request api_v1_str m url = Some r"
  | r0 where "route_request api_v1_str m url = Some r0" "fits m (url_parts url) r0" "r0 = under ?pre me_route" "r = under ?pre user_route"
    using fits_overlap [OF _ assms(2)] by (auto simp: route_request_def)
  then show ?thesis
  proof cases
    case 2
    from 2 have "url_parts url = ?pre @ [''users'', ''me'']" "m = ''GET''"
      by (auto simp: fits_def under_def route_path_def route_method_def me_route_def path_fits_below)
        (auto simp: path_fits_def list_all2_Cons1)
    then show ?thesis using 2 by (simp add: under_def handler_def me_route_def user_route_def)
  qed simp
qed

theorem routes_are_reached_witness:
  "map_option handler (route_request ''/api/v1'' ''PATCH'' ''/api/v1/admin/users/roles'') = Some ''bulk_set_user_roles''"
proof -
  let ?r = "(''PATCH'', [Lit ''api'', Lit ''v1'', Lit ''admin'', Lit ''users'', Lit ''roles''], ''bulk_set_user_roles'')"
  have "?r \<in> set (app_routes (url_parts ''/api/v1''))" "fits ''PATCH'' (url_parts ''/api/v1/admin/users/roles'') ?r"
    by code_simp+
  from routes_are_reached [OF this] show ?thesis by (auto simp: handler_def)
qed

end
