(* ===== verification/Startup.thy ===== *)
theory Startup
  imports Billing Webhooks Files RateLimit Routing
begin

text \<open>
  Starting and stopping the application: the hook registry of \<open>backend/common/bootstrap.py\<close>, the
  infrastructure registry of \<open>backend/infrastructure/runtime.py\<close>, the lifespan of
  \<open>backend/app/lifespan.py\<close>, the metrics exporter of \<open>backend/common/exporters.py\<close>, the static assets of
  \<open>backend/app/bootstrap\<close> and the seed script \<open>backend/scripts/seed_data.py\<close>.

  The clients of the remote stores are made by a parameter \<open>connect_remote\<close>, which may raise;
  \<open>create_all\<close> is a parameter too, of which only whether it raises matters. Log lines are not modelled.
\<close>

section \<open>State\<close>

text \<open>The bus of \<open>platform_runtime\<close> as the list of its subscriptions, and what it does.\<close>

datatype bus_handler = LogDomainEvent | DispatchWebhooks

definition bus_of :: "bool \<Rightarrow> int \<Rightarrow> (string \<times> bus_handler) list \<Rightarrow> 'r app event_bus" where
  "bus_of in_request now subs = fold (\<lambda>(event_type, h). subscribe event_type (case h of
     LogDomainEvent \<Rightarrow> (\<lambda>ev. ret ()) | DispatchWebhooks \<Rightarrow> handle_event in_request now)) subs (\<lambda>_. [])"

text \<open>An attribute of \<open>app.state\<close>: a named object of the program, a dict of such, the storage, or \<open>None\<close>.\<close>

datatype state_attr = NoneAttr | ObjectAttr string | DictAttr "(string \<times> string) list" | StorageAttr upload_storage

record ('r, 'c) process =
  pr_app :: "'r app"
  pr_jobs :: "job job_manager"
  pr_stores :: "'c stores"
  pr_state :: "string \<rightharpoonup> state_attr"
  pr_subs :: "(string \<times> bus_handler) list"
  pr_tables :: bool
  pr_exported :: "(string \<times> (int \<times> (string \<rightharpoonup> int) \<times> (string \<rightharpoonup> int) \<times> (string \<rightharpoonup> int))) list"

definition in_process :: "('r app, 'a) op \<Rightarrow> (('r, 'c) process, 'a) op" where
  "in_process m = zoom pr_app (\<lambda>a s. s\<lparr>pr_app := a\<rparr>) m"

definition in_files :: "('c stores, 'a) op \<Rightarrow> (('r, 'c) process, 'a) op" where
  "in_files m = zoom pr_stores (\<lambda>c s. s\<lparr>pr_stores := c\<rparr>) m"

section \<open>Hooks\<close>

record 's hook_registry =
  startup_hooks :: "('s, unit) op list"
  shutdown_hooks :: "('s, unit) op list"

definition new_hook_registry :: "'s hook_registry" where
  "new_hook_registry = \<lparr>startup_hooks = [], shutdown_hooks = []\<rparr>"

definition register_startup_hook :: "('s, unit) op \<Rightarrow> 's hook_registry \<Rightarrow> 's hook_registry" where
  "register_startup_hook hook r = r\<lparr>startup_hooks := startup_hooks r @ [hook]\<rparr>"

definition register_shutdown_hook :: "('s, unit) op \<Rightarrow> 's hook_registry \<Rightarrow> 's hook_registry" where
  "register_shutdown_hook hook r = r\<lparr>shutdown_hooks := shutdown_hooks r @ [hook]\<rparr>"

definition run_startup_hooks :: "'s hook_registry \<Rightarrow> ('s, unit) op" where
  "run_startup_hooks r = for_each (startup_hooks r) (\<lambda>hook. hook)"

definition run_shutdown_hooks :: "'s hook_registry \<Rightarrow> ('s, unit) op" where
  "run_shutdown_hooks r = for_each (shutdown_hooks r) (\<lambda>hook. hook)"

section \<open>The infrastructure registry\<close>

definition default_subs :: "(string \<times> bus_handler) list" where
  "default_subs = [(''user.registered'', LogDomainEvent)]"

definition reset_event_bus :: "(('r, 'c) process, unit) op" where
  "reset_event_bus = modify (\<lambda>s. s\<lparr>pr_subs := default_subs\<rparr>)"

definition build_upload_storage :: "string list \<Rightarrow> (settings \<Rightarrow> exn + unit) \<Rightarrow> settings \<Rightarrow> ('c stores, upload_storage) op" where
  "build_upload_storage cwd connect_remote c = (case upload_backend c of
     S3Backend \<Rightarrow> bnd (pure_op (connect_remote c)) (\<lambda>_. ret (S3UploadStorage (text_or_empty (s3_bucket c))))
   | AzureBackend \<Rightarrow> bnd (pure_op (connect_remote c)) (\<lambda>_. ret (AzureBlobUploadStorage (text_or_empty (azure_storage_container c))))
   | LocalBackend \<Rightarrow> new_local_storage cwd (upload_dir c))"

definition app_attributes :: "upload_storage \<Rightarrow> string \<rightharpoonup> state_attr" where
  "app_attributes st = [
     ''runtime'' \<mapsto> DictAttr [(''rate_limiter'', ''rate_limiter''), (''database_engine'', ''engine''), (''session_factory'', ''SessionLocal'')],
     ''persistence'' \<mapsto> DictAttr [(''engine'', ''engine''), (''session_factory'', ''SessionLocal'')],
     ''services'' \<mapsto> DictAttr [(''logger'', ''logger''), (''cache'', ''redis_client''), (''background_jobs'', ''background_job_manager''),
       (''email'', ''email_delivery_service''), (''rate_limiter'', ''rate_limiter''), (''upload_storage'', ''upload_storage'')],
     ''logger'' \<mapsto> ObjectAttr ''logger'', ''cache'' \<mapsto> ObjectAttr ''redis_client'',
     ''background_jobs'' \<mapsto> ObjectAttr ''background_job_manager'', ''email_service'' \<mapsto> ObjectAttr ''email_delivery_service'',
     ''rate_limiter'' \<mapsto> ObjectAttr ''rate_limiter'', ''upload_storage'' \<mapsto> StorageAttr st]"

definition register_runtime_state :: "string list \<Rightarrow> (settings \<Rightarrow> exn + unit) \<Rightarrow> (('r, 'c) process, unit) op" where
  "register_runtime_state cwd connect_remote =
     bnd (look (\<lambda>s. conf (pr_app s))) (\<lambda>c.
     bnd (in_files (build_upload_storage cwd connect_remote c)) (\<lambda>st.
     bnd (modify (\<lambda>s. s\<lparr>pr_state := pr_state s ++ app_attributes st\<rparr>)) (\<lambda>_.
     bnd reset_event_bus (\<lambda>_.
     modify (\<lambda>s. s\<lparr>pr_subs := pr_subs s @ [(''*'', DispatchWebhooks)]\<rparr>)))))"

definition clear_runtime_state :: "(('r, 'c) process, unit) op" where
  "clear_runtime_state = modify (\<lambda>s. s\<lparr>pr_state := pr_state s ++ [
     ''runtime'' \<mapsto> DictAttr [], ''persistence'' \<mapsto> DictAttr [], ''services'' \<mapsto> DictAttr [], ''logger'' \<mapsto> NoneAttr, ''cache'' \<mapsto> NoneAttr,
     ''background_jobs'' \<mapsto> NoneAttr, ''email_service'' \<mapsto> NoneAttr, ''rate_limiter'' \<mapsto> NoneAttr, ''upload_storage'' \<mapsto> NoneAttr]\<rparr>)"

definition build_infrastructure_registry :: "string list \<Rightarrow> (settings \<Rightarrow> exn + unit) \<Rightarrow> ('r, 'c) process hook_registry" where
  "build_infrastructure_registry cwd connect_remote =
     register_shutdown_hook clear_runtime_state
       (register_startup_hook (register_runtime_state cwd connect_remote) new_hook_registry)"

section \<open>The metrics exporter\<close>

text \<open>\<open>Exporter.export\<close>: without an endpoint nothing happens; \<open>post\<close> tells whether the call raised, which is swallowed.\<close>

definition export_metrics :: "string option \<Rightarrow> (string \<Rightarrow> exn + unit) \<Rightarrow> (('r, 'c) process, unit) op" where
  "export_metrics endpoint post = (if blank endpoint then ret ()
     else bnd (look (\<lambda>s. snapshot (lim_counts (pr_app s)))) (\<lambda>m.
       try_except (bnd (pure_op (post (the endpoint))) (\<lambda>_.
         modify (\<lambda>s. s\<lparr>pr_exported := pr_exported s @ [(the endpoint, m)]\<rparr>))) (\<lambda>e. ret ())))"

section \<open>The lifespan\<close>

definition application_limiter :: "settings \<Rightarrow> limiter_kind" where
  "application_limiter c = (if environment c \<noteq> ''dev'' then RedisLimiter else SharedLimiter)"

text \<open>\<open>rate_limiter.reset()\<close>: only the in-process limiter has that method.\<close>

definition reset_rate_limiter :: "limiter_kind \<Rightarrow> ('r app, unit) op" where
  "reset_rate_limiter l = (case l of
     SharedLimiter \<Rightarrow> modify (\<lambda>s. s\<lparr>lim := reset_limiter (lim s)\<rparr>)
   | RedisLimiter \<Rightarrow> throw (AttributeError ''reset''))"

definition create_tables :: "exn + unit \<Rightarrow> (('r, 'c) process, unit) op" where
  "create_tables create_all = bnd (look (\<lambda>s. environment (conf (pr_app s)))) (\<lambda>e.
     when_op (e = ''dev'') (try_except (bnd (pure_op create_all) (\<lambda>_. modify (\<lambda>s. s\<lparr>pr_tables := True\<rparr>))) (\<lambda>e. ret ())))"

text \<open>The seeds run in a session of their own, committed at its end or rolled back.\<close>

definition startup_seed :: "('r app, unit) op" where
  "startup_seed = bnd (in_db rollback) (\<lambda>_. with_db (bnd ensure_seed_data (\<lambda>_. ensure_billing_seed)))"

record startup_env =
  se_loop :: nat
  se_create_all :: "exn + unit"
  se_endpoint :: "string option"
  se_post :: "string \<Rightarrow> exn + unit"

definition lifespan_start :: "startup_env \<Rightarrow> limiter_kind \<Rightarrow> ('r, 'c) process hook_registry option \<Rightarrow> (('r, 'c) process, unit) op" where
  "lifespan_start env limiter registry =
     bnd (in_process (reset_rate_limiter limiter)) (\<lambda>_.
     bnd (modify (\<lambda>s. s\<lparr>pr_jobs := start (Some (se_loop env)) (pr_jobs s)\<rparr>)) (\<lambda>_.
     bnd (create_tables (se_create_all env)) (\<lambda>_.
     bnd (case registry of None \<Rightarrow> ret () | Some r \<Rightarrow> run_startup_hooks r) (\<lambda>_.
     bnd (in_process startup_seed) (\<lambda>_.
     export_metrics (se_endpoint env) (se_post env))))))"

definition lifespan_stop :: "startup_env \<Rightarrow> ('r, 'c) process hook_registry option \<Rightarrow> (('r, 'c) process, unit) op" where
  "lifespan_stop env registry =
     bnd (case registry of None \<Rightarrow> ret () | Some r \<Rightarrow> run_shutdown_hooks r) (\<lambda>_.
     bnd (export_metrics (se_endpoint env) (se_post env)) (\<lambda>_.
     modify (\<lambda>s. s\<lparr>pr_jobs := stop (pr_jobs s)\<rparr>)))"

text \<open>The application of \<open>main.py\<close>: its limiter, and the infrastructure registry.\<close>

definition start_application :: "startup_env \<Rightarrow> string list \<Rightarrow> (settings \<Rightarrow> exn + unit) \<Rightarrow> (('r, 'c) process, unit) op" where
  "start_application env cwd connect_remote = (\<lambda>s.
     lifespan_start env (application_limiter (conf (pr_app s))) (Some (build_infrastructure_registry cwd connect_remote)) s)"

definition stop_application :: "startup_env \<Rightarrow> string list \<Rightarrow> (settings \<Rightarrow> exn + unit) \<Rightarrow> (('r, 'c) process, unit) op" where
  "stop_application env cwd connect_remote = lifespan_stop env (Some (build_infrastructure_registry cwd connect_remote))"

section \<open>Static assets\<close>

definition register_static_assets :: "string list \<Rightarrow> settings \<Rightarrow> ('c stores, unit) op" where
  "register_static_assets cwd c = when_op (upload_backend c = LocalBackend) (in_disk (mkdir (resolve cwd (path_of (upload_dir c)))))"

section \<open>The seed script\<close>

definition seed_admin :: "settings \<Rightarrow> string \<Rightarrow> int \<Rightarrow> user" where
  "seed_admin c hashed now = \<lparr>user_id = 0, user_email = default_admin_email c, user_username = default_admin_username c,
     user_hashed_password = hashed, user_is_active = True, user_is_verified = True, user_is_superuser = True,
     user_failed_login_attempts = 0, user_locked_until = None, user_role = ''admin'',
     user_permissions = Some [''manage:users'', ''manage:products''], user_created_at = Aware now, user_updated_at = Aware now,
     user_deleted_at = None\<rparr>"

definition seed_product :: "string \<Rightarrow> int \<Rightarrow> int \<Rightarrow> product" where
  "seed_product name cents now = \<lparr>product_id = 0, product_name = name, product_description = Some ''Seeded product'',
     product_price_cents = cents, product_created_at = Aware now, product_updated_at = Aware now, product_deleted_at = None\<rparr>"

text \<open>
  \<open>await session.get(User, 1)\<close> decides about the administrator, \<open>not (any product)\<close> about the products;
  9.99 and 19.99 are stored in cents.
\<close>

definition seed_database :: "crypto \<Rightarrow> string \<Rightarrow> int \<Rightarrow> ('r app, unit) op" where
  "seed_database cr salt now = bnd (in_db rollback) (\<lambda>_. with_db (
     bnd (look conf) (\<lambda>c.
     bnd (in_db (db_get User 1)) (\<lambda>found.
     bnd (if found = None then bnd (in_db (db_insert User (seed_admin c (hash_password cr salt (default_admin_password c)) now))) (\<lambda>_. ret ())
          else ret ()) (\<lambda>_.
     bnd ensure_billing_seed (\<lambda>_.
     bnd (in_db (scalar Product (\<lambda>p. True))) (\<lambda>any.
     if any = None then bnd (in_db (db_insert Product (seed_product ''Seed Product One'' 999 now))) (\<lambda>_.
       bnd (in_db (db_insert Product (seed_product ''Seed Product Two'' 1999 now))) (\<lambda>_. ret ()))
     else ret ())))))))"

section \<open>Seeding\<close>

lemma billing_seed_run:
  obtains t where "ensure_billing_seed s = (Inr (), t)" and "billing_seeded t"
    and "\<not> billing_seeded s \<Longrightarrow> \<exists>p \<in> set (plans (work (sess t))). plan_key p = ''free''"
    and "users (work (sess t)) = users (work (sess s))" and "products (work (sess t)) = products (work (sess s))"
    and "roles (work (sess t)) = roles (work (sess s))" and "permissions (work (sess t)) = permissions (work (sess s))"
    and "conf t = conf s" and "stored (sess t) = stored (sess s)"
proof (cases "billing_seeded s")
  case True
  then show ?thesis by (intro that [of s]) (simp_all add: ensure_billing_seed_def bnd_apply look_apply ret_apply)
next
  case False
  show ?thesis
  proof (cases "find_row (\<lambda>p. plan_key p = ''free'') (plans (work (sess s)))")
    case None
    let ?p = "free_plan\<lparr>plan_id := fresh_id (map plan_id (plans (work (sess s))))\<rparr>"
    have "db_insert Plan free_plan (sess s) = (Inr ?p, (sess s)\<lparr>work := (work (sess s))\<lparr>plans := plans (work (sess s)) @ [?p]\<rparr>\<rparr>)"
      using None by (auto simp: db_insert_def violates_def Plan_def free_plan_def Let_def find_row_None)
    then show ?thesis using False None
      by (intro that [of "s\<lparr>sess := (sess s)\<lparr>work := (work (sess s))\<lparr>plans := plans (work (sess s)) @ [?p]\<rparr>\<rparr>, billing_seeded := True\<rparr>"])
        (simp_all add: ensure_billing_seed_def bnd_apply look_apply ret_apply in_db_apply scalar_def modify_apply Plan_def free_plan_def)
  next
    case (Some p)
    then show ?thesis using False find_row_Some [OF Some]
      by (intro that [of "s\<lparr>billing_seeded := True\<rparr>"])
        (auto simp: ensure_billing_seed_def bnd_apply look_apply ret_apply in_db_apply scalar_def modify_apply Plan_def)
  qed
qed

lemma rbac_seed_run:
  obtains t where "ensure_seed_data s = (Inr (), t)" and "rbac_seeded t"
    and "\<not> rbac_seeded s \<Longrightarrow> role_key ` set seed_roles \<subseteq> role_keys (work (sess t)) \<and> perm_key ` set seed_permissions \<subseteq> permission_keys (work (sess t))"
    and "users (work (sess t)) = users (work (sess s))" and "conf t = conf s" and "billing_seeded t = billing_seeded s"
proof (cases "rbac_seeded s")
  case True
  then show ?thesis by (intro that [of s]) (simp_all add: ensure_seed_done)
next
  case False
  obtain rs ps where *: "ensure_seed_data s = (Inr (), seeded_with rs ps s)"
    "role_key ` set seed_roles \<subseteq> role_keys (work (sess (seeded_with rs ps s)))"
    "perm_key ` set seed_permissions \<subseteq> permission_keys (work (sess (seeded_with rs ps s)))"
    using ensure_seed_run [OF False] by (elim exE conjE) (rule that)
  then show ?thesis by (intro that [of "seeded_with rs ps s"]) (simp_all add: seeded_with_def)
qed

definition seeds_there :: "db \<Rightarrow> bool" where
  "seeds_there d \<longleftrightarrow> role_key ` set seed_roles \<subseteq> role_keys d \<and> perm_key ` set seed_permissions \<subseteq> permission_keys d \<and>
     (\<exists>p \<in> set (plans d). plan_key p = ''free'')"

lemma startup_seed_run:
  obtains t where "startup_seed s = (Inr (), t)" and "stored (sess t) = work (sess t)" and "conf t = conf s"
    and "rbac_seeded t" and "billing_seeded t"
    and "users (work (sess t)) = users (stored (sess s))"
    and "\<not> rbac_seeded s \<Longrightarrow> \<not> billing_seeded s \<Longrightarrow> seeds_there (stored (sess t))"
proof -
  let ?s = "s\<lparr>sess := (sess s)\<lparr>work := stored (sess s)\<rparr>\<rparr>"
  obtain t where t: "ensure_seed_data ?s = (Inr (), t)" "rbac_seeded t"
    "\<not> rbac_seeded s \<Longrightarrow> role_key ` set seed_roles \<subseteq> role_keys (work (sess t)) \<and> perm_key ` set seed_permissions \<subseteq> permission_keys (work (sess t))"
    "users (work (sess t)) = users (stored (sess s))" "conf t = conf s" "billing_seeded t = billing_seeded s"
    by (rule rbac_seed_run [of ?s]) auto
  obtain u where u: "ensure_billing_seed t = (Inr (), u)" "billing_seeded u"
    "\<not> billing_seeded t \<Longrightarrow> \<exists>p \<in> set (plans (work (sess u))). plan_key p = ''free''"
    "users (work (sess u)) = users (work (sess t))" "roles (work (sess u)) = roles (work (sess t))"
    "permissions (work (sess u)) = permissions (work (sess t))" "conf u = conf t"
    by (rule billing_seed_run [of t]) (rule that; blast)
  have flag: "rbac_seeded u"
    using u(1) t(2) by (auto simp: ensure_billing_seed_def bnd_apply look_apply ret_apply in_db_apply modify_apply split: if_splits sum.splits prod.splits)
  have run: "startup_seed s = (Inr (), u\<lparr>sess := (sess u)\<lparr>stored := work (sess u)\<rparr>\<rparr>)"
    by (simp add: startup_seed_def bnd_apply in_db_apply rollback_apply with_db_apply t(1) u(1))
  show ?thesis
    by (rule that [OF run]) (use t u flag in \<open>auto simp: seeds_there_def role_keys_def permission_keys_def\<close>)
qed


section \<open>Starting and restarting\<close>

text \<open>
  Property C20. Outside \<open>dev\<close> the application cannot start: the first thing the lifespan does is to reset
  its rate limiter, which there is the Redis one and has no \<open>reset\<close>. Nothing is started, seeded or
  registered.
\<close>

theorem startup_fails_outside_dev:
  assumes "environment (conf (pr_app s)) \<noteq> ''dev''"
  shows "start_application env cwd connect_remote s = (Inl (AttributeError ''reset''), s)"
  using assms by (simp add: start_application_def application_limiter_def lifespan_start_def reset_rate_limiter_def bnd_apply
      in_process_def zoom_apply throw_apply)

lemma bus_after_registration: "bus_of in_request now (default_subs @ [(''*'', DispatchWebhooks)]) = platform_bus in_request now"
  by (simp add: bus_of_def default_subs_def platform_bus_def subscribe_webhook_dispatcher_def)

lemma in_process_apply: "in_process m s = (fst (m (pr_app s)), s\<lparr>pr_app := snd (m (pr_app s))\<rparr>)"
  by (simp add: in_process_def zoom_apply)

lemma in_files_apply: "in_files m s = (fst (m (pr_stores s)), s\<lparr>pr_stores := snd (m (pr_stores s))\<rparr>)"
  by (simp add: in_files_def zoom_apply)

lemma create_tables_run:
  obtains b where "create_tables r s = (Inr (), s\<lparr>pr_tables := b\<rparr>)"
  by (rule that [of "pr_tables s \<or> (environment (conf (pr_app s)) = ''dev'' \<and> r = Inr ())"], cases r; cases "environment (conf (pr_app s)) = ''dev''")
    (simp_all add: create_tables_def bnd_apply look_apply when_op_apply try_except_apply pure_op_apply modify_apply ret_apply)

lemma export_run:
  obtains xs where "export_metrics e post s = (Inr (), s\<lparr>pr_exported := xs\<rparr>)"
  by (rule that [of "if blank e \<or> post (the e) \<noteq> Inr () then pr_exported s
      else pr_exported s @ [(the e, snapshot (lim_counts (pr_app s)))]"], cases "blank e"; cases "post (the e)")
    (simp_all add: export_metrics_def bnd_apply look_apply try_except_apply pure_op_apply modify_apply ret_apply)

lemma preserves_lim: "preserves (\<lambda>a. lim a = l) (in_db m)"
  by (rule preservesI) (simp add: in_db_apply)

lemma startup_seed_lim:
  assumes "startup_seed s = (r, t)"
  shows "lim t = lim s"
proof -
  have "preserves (\<lambda>a. lim a = lim s) startup_seed"
    unfolding startup_seed_def with_db_def ensure_seed_data_def ensure_billing_seed_def
    by (intro preserves_intros preserves_lim preserves_modify) auto
  from preserves_result [OF this _ assms] show ?thesis by simp
qed

lemma startup_hooks_run:
  assumes "build_upload_storage cwd connect_remote (conf (pr_app s)) (pr_stores s) = (Inr st, x)"
  shows "run_startup_hooks (build_infrastructure_registry cwd connect_remote) s = (Inr (), s\<lparr>pr_stores := x,
    pr_state := pr_state s ++ app_attributes st, pr_subs := default_subs @ [(''*'', DispatchWebhooks)]\<rparr>)"
  using assms by (simp add: run_startup_hooks_def build_infrastructure_registry_def register_startup_hook_def register_shutdown_hook_def
      new_hook_registry_def register_runtime_state_def reset_event_bus_def bnd_apply look_apply in_files_apply modify_apply ret_apply)


text \<open>After a stop the handlers find no storage, and no worker is left.\<close>

theorem stop_clears:
  "\<exists>t. stop_application env cwd connect_remote s = (Inr (), t) \<and> pr_state t ''upload_storage'' = Some NoneAttr \<and>
     pr_state t ''services'' = Some (DictAttr []) \<and> task (pr_jobs t) = None"
proof -
  obtain xs where e: "export_metrics (se_endpoint env) (se_post env) (snd (clear_runtime_state s)) =
      (Inr (), (snd (clear_runtime_state s))\<lparr>pr_exported := xs\<rparr>)" by (rule export_run)
  then show ?thesis
    by (auto simp: stop_application_def lifespan_stop_def run_shutdown_hooks_def build_infrastructure_registry_def register_startup_hook_def
        register_shutdown_hook_def new_hook_registry_def bnd_apply ret_apply clear_runtime_state_def modify_apply stop_def cancel_task_def
        map_add_def Let_def)
qed


section \<open>The seed script\<close>

lemma seed_database_run:
  assumes "users (stored (sess s)) = []"
  obtains t u where "seed_database cr salt now s = (Inr (), t)" and "stored (sess t) = work (sess t)" and "users (stored (sess t)) = [u]"
    and "u = (seed_admin (conf s) (hash_password cr salt (default_admin_password (conf s))) now)\<lparr>user_id := 1\<rparr>"
    and "products (stored (sess t)) \<noteq> []" and "conf t = conf s" and "billing_seeded t"
proof -
  let ?u = "(seed_admin (conf s) (hash_password cr salt (default_admin_password (conf s))) now)\<lparr>user_id := 1\<rparr>"
  let ?s0 = "s\<lparr>sess := (sess s)\<lparr>work := stored (sess s)\<rparr>\<rparr>"
  let ?s1 = "s\<lparr>sess := (sess s)\<lparr>work := (stored (sess s))\<lparr>users := [?u]\<rparr>\<rparr>\<rparr>"
  have u: "db_insert User (seed_admin (conf s) (hash_password cr salt (default_admin_password (conf s))) now) (sess ?s0) = (Inr ?u, sess ?s1)"
    using assms by (simp add: db_insert_def violates_def User_def fresh_id_def seed_admin_def Let_def)
  obtain t where t: "ensure_billing_seed ?s1 = (Inr (), t)" "billing_seeded t" "users (work (sess t)) = [?u]"
    "products (work (sess t)) = products (stored (sess s))" "conf t = conf s"
    by (rule billing_seed_run [of ?s1]) (erule that; simp)
  obtain d where d: "(bnd (in_db (scalar Product (\<lambda>p. True))) (\<lambda>any.
      if any = None then bnd (in_db (db_insert Product (seed_product ''Seed Product One'' 999 now))) (\<lambda>_.
        bnd (in_db (db_insert Product (seed_product ''Seed Product Two'' 1999 now))) (\<lambda>_. ret ())) else ret ())) t =
      (Inr (), t\<lparr>sess := (sess t)\<lparr>work := d\<rparr>\<rparr>)" "users d = [?u]" "products d \<noteq> []"
  proof (cases "products (work (sess t))")
    case Nil
    show ?thesis
      by (rule that [of "(work (sess t))\<lparr>products := [(seed_product ''Seed Product One'' 999 now)\<lparr>product_id := 1\<rparr>,
            (seed_product ''Seed Product Two'' 1999 now)\<lparr>product_id := 2\<rparr>]\<rparr>"])
        (simp_all add: Nil t(3) bnd_apply in_db_apply scalar_def look_apply ret_apply Product_def find_row_def db_insert_def violates_def
          fresh_id_def Let_def)
  next
    case (Cons p ps)
    show ?thesis
      by (rule that [of "work (sess t)"])
        (simp_all add: Cons t(3) bnd_apply in_db_apply scalar_def look_apply ret_apply Product_def find_row_def)
  qed
  have run: "seed_database cr salt now s = (Inr (), t\<lparr>sess := (sess t)\<lparr>work := d, stored := d\<rparr>\<rparr>)"
    using u t(1) d(1) assms
    by (simp add: seed_database_def bnd_apply in_db_apply rollback_apply with_db_apply look_apply ret_apply db_get_def scalar_def User_def
        find_row_def)
  show ?thesis by (rule that [OF run]) (use d t in simp_all)
qed

text \<open>
  On an empty user table the seed script makes an administrator who can log in with the
  configured address and password; and running the script again changes nothing.
\<close>

theorem seeded_admin_logs_in:
  assumes "users (stored (sess s)) = []" and "crypto_ok cr" and "CHR ''$'' \<notin> set salt"
  shows "\<exists>t u. seed_database cr salt now s = (Inr (), t) \<and> users (stored (sess t)) = [u] \<and> user_is_superuser u \<and> user_role u = ''admin'' \<and>
    fst (authenticate cr salt now (default_admin_email (conf s)) (default_admin_password (conf s)) t) = Inr (Some (after_success u)) \<and>
    seed_database cr salt' later t = (Inr (), t)"
proof -
  obtain t u where t: "seed_database cr salt now s = (Inr (), t)" "stored (sess t) = work (sess t)" "users (stored (sess t)) = [u]"
    and u: "u = (seed_admin (conf s) (hash_password cr salt (default_admin_password (conf s))) now)\<lparr>user_id := 1\<rparr>"
    and p: "products (stored (sess t)) \<noteq> []" "conf t = conf s" "billing_seeded t"
    by (rule seed_database_run [OF assms(1)])
  have "account t u" using t(2,3) by (simp add: account_def users_ok_def u seed_admin_def)
  moreover have "\<not> is_locked now u" by (simp add: is_locked_def normalize_datetime_def u seed_admin_def)
  moreover have "verify_password cr (default_admin_password (conf s)) (user_hashed_password u) = Inr True"
    using verify_own_hash [OF assms(2,3)] by (simp add: u seed_admin_def)
  moreover have "user_email u = default_admin_email (conf s)" by (simp add: u seed_admin_def)
  ultimately have "fst (authenticate cr salt now (default_admin_email (conf s)) (default_admin_password (conf s)) t) = Inr (Some (after_success u))"
    using authenticate_succeeds by (metis fst_conv)
  moreover have "seed_database cr salt' later t = (Inr (), t)"
    using t(2,3) p
    by (cases "products (stored (sess t))") (simp_all add: seed_database_def bnd_apply in_db_apply rollback_apply with_db_apply look_apply ret_apply
        db_get_def scalar_def User_def Product_def find_row_def u ensure_billing_seed_def)
  ultimately show ?thesis using t(1,3) by (intro exI [of _ t] exI [of _ u]) (simp add: u seed_admin_def)
qed

section \<open>Witnesses\<close>

definition demo_process :: "settings \<Rightarrow> (string \<Rightarrow> pyval option, string \<times> string \<Rightarrow> string option) process" where
  "demo_process c = \<lparr>pr_app = (demo_app empty_db)\<lparr>conf := c\<rparr>, pr_jobs = new_job_manager, pr_stores = demo_stores,
     pr_state = Map.empty, pr_subs = default_subs, pr_tables = False, pr_exported = []\<rparr>"

definition demo_env :: startup_env where
  "demo_env = \<lparr>se_loop = 1, se_create_all = Inr (), se_endpoint = None, se_post = \<lambda>_. Inr ()\<rparr>"

theorem startup_fails_outside_dev_witness:
  "fst (start_application demo_env [] (\<lambda>_. Inr ()) (demo_process (default_settings\<lparr>environment := ''prod''\<rparr>))) = Inl (AttributeError ''reset'')"
  using startup_fails_outside_dev [of "demo_process (default_settings\<lparr>environment := ''prod''\<rparr>)" demo_env "[]" "\<lambda>_. Inr ()"]
  by (simp add: demo_process_def)


theorem seeded_admin_logs_in_witness:
  "\<exists>t. seed_database demo_crypto ''s'' 5 (demo_app empty_db) = (Inr (), t) \<and> seed_database demo_crypto ''s'' 6 t = (Inr (), t)"
proof -
  have "users (stored (sess (demo_app empty_db))) = []" "CHR ''$'' \<notin> set ''s''" by (simp_all add: demo_app_def empty_db_def)
  from seeded_admin_logs_in [OF this(1) crypto_ok_demo this(2), of 5 "''s''" 6] show ?thesis by blast
qed

section \<open>The application object\<close>

text \<open>
  What \<open>create_app\<close> (\<open>backend/app/factory.py\<close>) gives FastAPI: the addresses of its documentation, the
  limiter of the lifespan, the CORS settings (\<open>register_middlewares\<close>), the routes of the routers
  (\<open>register_api_routers\<close>, over \<open>Routing\<close>'s table), and the mounted Socket.IO application.
\<close>

record fastapi_app =
  fa_title :: string
  fa_docs_url :: "string option"
  fa_redoc_url :: "string option"
  fa_openapi_url :: "string option"
  fa_limiter :: limiter_kind
  fa_allow_origins :: "string list"
  fa_routes :: "route list"
  fa_mounts :: "string list"

definition register_middlewares :: "settings \<Rightarrow> fastapi_app \<Rightarrow> fastapi_app" where
  "register_middlewares c app = app\<lparr>fa_allow_origins := cors_origins c\<rparr>"

definition register_api_routers :: "settings \<Rightarrow> fastapi_app \<Rightarrow> fastapi_app" where
  "register_api_routers c app = app\<lparr>fa_routes := fa_routes app @
     map (under (url_parts (api_v1_str c))) api_router @ health_routes\<rparr>"

definition create_app :: "string list \<Rightarrow> settings \<Rightarrow> limiter_kind option \<Rightarrow> ('c stores, fastapi_app) op" where
  "create_app cwd c rate_limiter =
     (let is_dev = (environment c = ''dev'');
          app = \<lparr>fa_title = project_name c,
            fa_docs_url = (if is_dev then Some ''/docs'' else None),
            fa_redoc_url = (if is_dev then Some ''/redoc'' else None),
            fa_openapi_url = (if is_dev then Some ''/openapi.json'' else None),
            fa_limiter = (case rate_limiter of None \<Rightarrow> SharedLimiter | Some l \<Rightarrow> l),
            fa_allow_origins = [], fa_routes = [], fa_mounts = []\<rparr>;
          app = register_api_routers c (register_middlewares c app)
      in bnd (register_static_assets cwd c) (\<lambda>_.
         ret (app\<lparr>fa_mounts := [''/socket.io'']\<rparr>)))"

text \<open>
  Outside \<open>dev\<close> the application publishes no documentation; whatever the environment, its routes, with
  those that \<open>main.py\<close> adds, are the table under the configured prefix.
\<close>

theorem documentation_is_for_dev:
  assumes "create_app cwd c limiter s = (Inr app, t)"
  shows "(environment c \<noteq> ''dev'' \<longrightarrow> fa_docs_url app = None \<and> fa_redoc_url app = None \<and> fa_openapi_url app = None) \<and>
    fa_routes app @ main_routes = app_routes (url_parts (api_v1_str c))"
  using assms
  by (auto simp: create_app_def register_api_routers_def register_middlewares_def app_routes_def Let_def bnd_apply ret_apply
      split: prod.splits sum.splits)

theorem documentation_is_for_dev_witness:
  "\<exists>app. fst (create_app [] (default_settings\<lparr>environment := ''prod'', upload_backend := S3Backend\<rparr>) None
      \<lparr>disk = (\<lambda>_. None), remote = ()\<rparr>) = Inr app \<and> fa_docs_url app = None"
proof -
  let ?c = "default_settings\<lparr>environment := ''prod'', upload_backend := S3Backend\<rparr>"
  let ?s = "\<lparr>disk = (\<lambda>_. None), remote = ()\<rparr>"
  obtain app t where run: "create_app [] ?c None ?s = (Inr app, t)"
    by (simp add: create_app_def Let_def bnd_apply register_static_assets_def when_op_def ret_apply)
  with documentation_is_for_dev [OF run] show ?thesis by (intro exI [of _ app]) simp
qed

end
