(* ===== verification/Observability.thy ===== *)
theory Observability
  imports Config
begin

text \<open>
  \<open>backend/observability/logging.py\<close> (the request context and the filter that stamps log records with
  it) and \<open>backend/observability/tracing.py\<close> (which tracer the process gets, and the span around a
  piece of work). The spans themselves are OpenTelemetry's and not modelled: a span is its two log lines.
\<close>

section \<open>The request context\<close>

type_synonym log_fields = "(string \<times> string) list"

record log_line =
  line_message :: string
  line_extra :: log_fields

record obs =
  request_context :: "log_fields option"
  log_lines :: "log_line list"

definition context_get :: "string \<Rightarrow> obs \<Rightarrow> string option" where
  "context_get k s = (case request_context s of None \<Rightarrow> None | Some ctx \<Rightarrow> map_of ctx k)"

definition get_request_id :: "obs \<Rightarrow> string option" where
  "get_request_id = context_get ''request_id''"

definition get_trace_id :: "obs \<Rightarrow> string option" where
  "get_trace_id = context_get ''trace_id''"

text \<open>\<open>ContextVar.set\<close> returns a token with the old value, \<open>reset\<close> puts that back.\<close>

definition bind_request_context :: "log_fields \<Rightarrow> (obs, log_fields option) op" where
  "bind_request_context vals = (\<lambda>s. (Inr (request_context s), s\<lparr>request_context := Some vals\<rparr>))"

definition reset_request_context :: "log_fields option \<Rightarrow> (obs, unit) op" where
  "reset_request_context token = modify (\<lambda>s. s\<lparr>request_context := token\<rparr>)"

section \<open>Log records\<close>

definition or_dash :: "string option \<Rightarrow> string" where
  "or_dash v = text_or_empty (or_text v (Some ''-''))"

text \<open>\<open>RequestIdFilter.filter\<close>: the record's own id, else the context's, else a dash.\<close>

definition stamp_field :: "string \<Rightarrow> string option \<Rightarrow> log_fields \<Rightarrow> log_fields" where
  "stamp_field k from_context extra = (k, or_dash (or_text (map_of extra k) from_context)) # filter (\<lambda>f. fst f \<noteq> k) extra"

definition request_id_filter :: "obs \<Rightarrow> log_fields \<Rightarrow> log_fields" where
  "request_id_filter s extra = stamp_field ''trace_id'' (get_trace_id s) (stamp_field ''request_id'' (get_request_id s) extra)"

definition log_info :: "string \<Rightarrow> log_fields \<Rightarrow> (obs, unit) op" where
  "log_info message extra = modify (\<lambda>s. s\<lparr>log_lines := log_lines s @ [\<lparr>line_message = message, line_extra = request_id_filter s extra\<rparr>]\<rparr>)"

section \<open>The tracer\<close>

datatype span_exporter = OTLPSpanExporter string | ConsoleSpanExporter

datatype tracer = NullTracer | ServiceTracer string span_exporter

definition choose_tracer :: "settings \<Rightarrow> tracer" where
  "choose_tracer c = (if \<not> enable_tracing c then NullTracer
     else let mode = lower (text_or_empty (or_text (Some (otel_mode c)) (Some ''basic''))) in
       ServiceTracer (otel_service_name c)
         (if mode \<in> {''production'', ''otlp''} \<and> \<not> blank (otel_exporter_otlp_endpoint c)
          then OTLPSpanExporter (the (otel_exporter_otlp_endpoint c)) else ConsoleSpanExporter))"

text \<open>\<open>_get_tracer\<close>: made once, from the settings of that moment.\<close>

record traced = obs +
  the_tracer :: "tracer option"

definition get_tracer :: "settings \<Rightarrow> (traced, tracer) op" where
  "get_tracer c = (\<lambda>s. case the_tracer s of
     Some t \<Rightarrow> (Inr t, s)
   | None \<Rightarrow> (Inr (choose_tracer c), s\<lparr>the_tracer := Some (choose_tracer c)\<rparr>))"

definition in_obs :: "(obs, 'a) op \<Rightarrow> (traced, 'a) op" where
  "in_obs m = zoom (\<lambda>s. \<lparr>request_context = request_context s, log_lines = log_lines s\<rparr>)
     (\<lambda>l s. s\<lparr>request_context := request_context l, log_lines := log_lines l\<rparr>) m"

definition finally_op :: "('s, 'a) op \<Rightarrow> ('s, unit) op \<Rightarrow> ('s, 'a) op" where
  "finally_op m f = (\<lambda>s. case m s of (r, t) \<Rightarrow> (case f t of (Inl e, u) \<Rightarrow> (Inl e, u) | (Inr _, u) \<Rightarrow> (r, u)))"

definition trace_span :: "settings \<Rightarrow> string \<Rightarrow> log_fields \<Rightarrow> (traced, 'a) op \<Rightarrow> (traced, 'a) op" where
  "trace_span c name attributes body =
     bnd (get_tracer c) (\<lambda>_.
     bnd (in_obs (look get_trace_id)) (\<lambda>trace_id.
     bnd (in_obs (log_info ''span_started'' ([(''span'', name)] @ attributes @
       (if blank trace_id then [] else [(''trace_id'', the trace_id)])))) (\<lambda>_.
     finally_op body (in_obs (log_info ''span_finished'' ([(''span'', name)] @
       (case trace_id of None \<Rightarrow> [] | Some t \<Rightarrow> [(''trace_id'', t)])))))))"

text \<open>\<open>get_tracing_configuration\<close>: the environment before the settings.\<close>

definition tracing_configuration :: "environ \<Rightarrow> settings \<Rightarrow> bool \<times> string option \<times> string option" where
  "tracing_configuration env c = (
     (case env ''ENABLE_TRACING'' of None \<Rightarrow> enable_tracing c | Some v \<Rightarrow> lower v \<in> {''1'', ''true'', ''yes'', ''on''}),
     or_text (env ''OTEL_MODE'') (Some (otel_mode c)),
     or_text (env ''OTEL_EXPORTER_OTLP_ENDPOINT'') (otel_exporter_otlp_endpoint c))"

text \<open>\<open>_SafeConsoleSpanExporter\<close>: after \<open>shutdown\<close>, and when the stream is gone, an export is a success that did nothing.\<close>

record console_exporter =
  console_closed :: bool
  console_written :: "string list"

definition swallowed :: "exn \<Rightarrow> bool" where
  "swallowed e \<longleftrightarrow> (case e of AttributeError _ \<Rightarrow> True | TypeError \<Rightarrow> True | ValueError _ \<Rightarrow> True
     | RemoteError n \<Rightarrow> n \<in> {''BrokenPipeError'', ''OSError''} | _ \<Rightarrow> False)"

definition safe_export :: "(string \<Rightarrow> exn + unit) \<Rightarrow> string \<Rightarrow> (console_exporter, string) op" where
  "safe_export write spans = bnd (look console_closed) (\<lambda>closed.
     if closed then ret ''SUCCESS''
     else try_except (bnd (pure_op (write spans)) (\<lambda>_. bnd (modify (\<lambda>s. s\<lparr>console_written := console_written s @ [spans]\<rparr>)) (\<lambda>_. ret ''SUCCESS'')))
       (\<lambda>e. if swallowed e then ret ''SUCCESS'' else throw e))"

definition safe_shutdown :: "(exn + unit) \<Rightarrow> (console_exporter, unit) op" where
  "safe_shutdown r = bnd (modify (\<lambda>s. s\<lparr>console_closed := True\<rparr>)) (\<lambda>_. try_except (pure_op r) (\<lambda>e. ret ()))"

section \<open>Properties\<close>

lemma or_dash_nonempty: "or_dash v \<noteq> []"
  by (auto simp: or_dash_def or_text_def text_or_empty_def split: option.split)

lemma or_text_nonempty: "v = Some t \<Longrightarrow> t \<noteq> [] \<Longrightarrow> or_text v w = v"
  by (simp add: or_text_def)

lemma or_dash_some: "t \<noteq> [] \<Longrightarrow> or_dash (Some t) = t"
  by (simp add: or_dash_def or_text_def text_or_empty_def)

text \<open>
  The filter gives every record both ids, and the ids it gave stay: a record filtered again, by
  the logger's and then by the handlers' filter, even under another request's context, keeps them.
\<close>

theorem filter_stamps_once:
  shows "\<exists>r t. map_of (request_id_filter s extra) ''request_id'' = Some r \<and> r \<noteq> [] \<and>
    map_of (request_id_filter s extra) ''trace_id'' = Some t \<and> t \<noteq> [] \<and>
    map_of (request_id_filter s' (request_id_filter s extra)) ''request_id'' = Some r \<and>
    map_of (request_id_filter s' (request_id_filter s extra)) ''trace_id'' = Some t"
proof -
  have map: "map_of (stamp_field k c e) k' = (if k' = k then Some (or_dash (or_text (map_of e k) c)) else map_of e k')" for k k' c e
  proof -
    have "map_of (filter (\<lambda>f. fst f \<noteq> k) e) k' = map_of e k'" if "k' \<noteq> k" using that by (induction e) auto
    then show ?thesis by (simp add: stamp_field_def)
  qed
  show ?thesis
    by (simp add: request_id_filter_def map or_dash_nonempty or_text_nonempty [OF refl or_dash_nonempty] or_dash_some [OF or_dash_nonempty])
qed

text \<open>Binding and resetting nest: after the reset the context is what it was before the binding.\<close>

theorem context_restored:
  assumes "\<And>s. request_context (snd (m s)) = request_context s"
  shows "request_context (snd (bnd (bind_request_context vals) (\<lambda>token. finally_op m (reset_request_context token)) s)) = request_context s"
  by (auto simp: bind_request_context_def reset_request_context_def finally_op_def bnd_apply modify_apply split: prod.split)

lemma span_starts:
  obtains s0 extra where "trace_span c name attributes body s = finally_op body (in_obs (log_info ''span_finished'' extra)) s0"
    and "the_tracer s0 \<noteq> None" and "request_context s0 = request_context s"
    and "line_message (last (log_lines s0)) = ''span_started''"
proof -
  obtain x s1 where t: "get_tracer c s = (Inr x, s1)" "the_tracer s1 \<noteq> None" "request_context s1 = request_context s"
    by (cases "the_tracer s") (auto simp: get_tracer_def)
  let ?tid = "get_trace_id \<lparr>request_context = request_context s1, log_lines = log_lines s1\<rparr>"
  define logged where "logged msg extra s = s\<lparr>log_lines := log_lines s @ [\<lparr>line_message = msg,
      line_extra = request_id_filter \<lparr>request_context = request_context s, log_lines = log_lines s\<rparr> extra\<rparr>]\<rparr>"
    for msg extra and s :: traced
  have log: "in_obs (log_info msg extra) s = (Inr (), logged msg extra s)" for msg extra s
    by (simp add: in_obs_def zoom_apply log_info_def modify_apply logged_def)
  let ?s0 = "logged ''span_started'' ([(''span'', name)] @ attributes @ (if blank ?tid then [] else [(''trace_id'', the ?tid)])) s1"
  have tid: "in_obs (look get_trace_id) s1 = (Inr ?tid, s1)"
    by (simp add: in_obs_def zoom_apply look_apply)
  have "trace_span c name attributes body s = finally_op body (in_obs (log_info ''span_finished''
      ([(''span'', name)] @ (case ?tid of None \<Rightarrow> [] | Some t \<Rightarrow> [(''trace_id'', t)])))) ?s0"
    unfolding trace_span_def by (simp only: bnd_apply t(1) tid log prod.case sum.case)
  then show ?thesis
    by (rule that) (use t in \<open>simp_all add: logged_def\<close>)
qed

text \<open>
  A span is transparent: what it is around returns or raises as it would by itself after
  the first log line, and the last line says that the span is finished, with an exception too.
\<close>

theorem span_is_transparent:
  "\<exists>s0. the_tracer s0 \<noteq> None \<and> request_context s0 = request_context s \<and>
    line_message (last (log_lines s0)) = ''span_started'' \<and>
    fst (trace_span c name attributes body s) = fst (body s0) \<and>
    line_message (last (log_lines (snd (trace_span c name attributes body s)))) = ''span_finished'' \<and>
    butlast (log_lines (snd (trace_span c name attributes body s))) = log_lines (snd (body s0))"
proof -
  obtain s0 extra where s0: "trace_span c name attributes body s = finally_op body (in_obs (log_info ''span_finished'' extra)) s0"
    "the_tracer s0 \<noteq> None" "request_context s0 = request_context s" "line_message (last (log_lines s0)) = ''span_started''"
    by (rule span_starts)
  then show ?thesis
    by (intro exI [of _ s0]) (simp add: finally_op_def in_obs_def zoom_apply log_info_def modify_apply split: prod.split)
qed

text \<open>The tracer is the one of the first span: settings read later do not change it.\<close>

theorem tracer_is_fixed:
  assumes "get_tracer c s = (Inr t, s')"
  shows "get_tracer c' s' = (Inr t, s')"
  using assms by (auto simp: get_tracer_def split: option.splits)

end
