(* ===== verification/AuditFile.thy ===== *)
theory AuditFile
  imports App
begin

text \<open>
  The file side of \<open>AuditLogger\<close> (\<open>backend/observability/audit.py\<close>): the JSON line that \<open>_persist\<close>
  writes, the \<open>RotatingFileHandler\<close> of the standard library it writes with, and \<open>log\<close> as a whole.
  A write runs in an executor thread; the handler's lock makes the writes one sequence, the order in
  which the threads run, and that sequence is what the theorems speak of. Each write comes with
  what the disk does to it: nothing, an \<open>OSError\<close> while the files are renamed, or one while the line is written.
\<close>

section \<open>The rotating file\<close>

text \<open>Number 0 is \<open>audit.jsonl\<close>, number \<open>i\<close> is \<open>audit.jsonl.i\<close>.\<close>

type_synonym numbered_files = "nat \<Rightarrow> string option"

definition max_bytes :: nat where
  "max_bytes = 10 * 1024 * 1024"

definition backup_count :: nat where
  "backup_count = 5"

definition newline :: char where
  "newline = CHR 0x0A"

text \<open>\<open>os.rename\<close> of a file to the next number, whose file is removed first.\<close>

definition rename_up :: "nat \<Rightarrow> numbered_files \<Rightarrow> numbered_files" where
  "rename_up i fs = (if fs i = None then fs else fs(Suc i := fs i, i := None))"

text \<open>\<open>doRollover\<close>: the backups move up from the oldest, the current file after them, and a new one opens.\<close>

definition do_rollover :: "numbered_files \<Rightarrow> numbered_files" where
  "do_rollover fs = (rename_up 0 (fold rename_up (rev [1..<backup_count]) fs))(0 := Some [])"

text \<open>\<open>shouldRollover\<close>: never for an empty file.\<close>

definition should_rollover :: "string \<Rightarrow> numbered_files \<Rightarrow> bool" where
  "should_rollover line fs = (case fs 0 of None \<Rightarrow> False
     | Some c \<Rightarrow> c \<noteq> [] \<and> max_bytes \<le> length c + length line)"

definition write_line :: "string \<Rightarrow> numbered_files \<Rightarrow> numbered_files" where
  "write_line line fs = fs(0 := Some ((case fs 0 of None \<Rightarrow> [] | Some c \<Rightarrow> c) @ line))"

text \<open>Opening for appending creates the file.\<close>

definition open_handler :: "numbered_files \<Rightarrow> numbered_files" where
  "open_handler fs = (if fs 0 = None then fs(0 := Some []) else fs)"

datatype disk_fault = NoFault | RenameFault | WriteFault

text \<open>
  The file logger's state: its files, how many errors its handler reported on \<open>stderr\<close>, and the
  \<open>audit_persist_failed\<close> lines of the logger \<open>tier4.audit\<close>.
\<close>

record audit_files =
  log_files :: numbered_files
  handler_errors :: nat
  persist_failed :: "string list"

text \<open>\<open>AuditLogger.__init__\<close> on a directory with the given files.\<close>

definition new_audit_files :: "numbered_files \<Rightarrow> audit_files" where
  "new_audit_files fs = \<lparr>log_files = open_handler fs, handler_errors = 0, persist_failed = []\<rparr>"

definition os_error :: exn where
  "os_error = RemoteError ''OSError''"

definition roll_and_write :: "disk_fault \<Rightarrow> string \<Rightarrow> (audit_files, unit) op" where
  "roll_and_write fault line =
     bnd (look (\<lambda>s. should_rollover line (log_files s))) (\<lambda>due.
     bnd (when_op due (if fault = RenameFault then throw os_error
            else modify (\<lambda>s. s\<lparr>log_files := do_rollover (log_files s)\<rparr>))) (\<lambda>_.
     if fault = WriteFault then throw os_error
     else modify (\<lambda>s. s\<lparr>log_files := write_line line (log_files s)\<rparr>)))"

text \<open>\<open>emit\<close>, behind \<open>_file_logger.info\<close>: every exception goes to \<open>handleError\<close>.\<close>

definition emit :: "disk_fault \<Rightarrow> string \<Rightarrow> (audit_files, unit) op" where
  "emit fault msg = try_except (roll_and_write fault (msg @ [newline]))
     (\<lambda>e. modify (\<lambda>s. s\<lparr>handler_errors := handler_errors s + 1\<rparr>))"

section \<open>The entry\<close>

definition opt_json :: "('a \<Rightarrow> json) \<Rightarrow> 'a option \<Rightarrow> json" where
  "opt_json f v = (case v of None \<Rightarrow> JNull | Some a \<Rightarrow> f a)"

text \<open>The dict that \<open>log\<close> builds; \<open>isofmt\<close> is \<open>isoformat\<close>.\<close>

definition entry_json :: "(datetime \<Rightarrow> string) \<Rightarrow> audit_log_entry \<Rightarrow> json" where
  "entry_json isofmt e = JObj [
     (''timestamp'', JStr (isofmt (audit_created_at e))),
     (''actor_id'', opt_json JInt (audit_actor_id e)),
     (''actor_username'', opt_json JStr (audit_actor_username e)),
     (''action'', JStr (audit_action e)),
     (''resource'', JStr (audit_resource e)),
     (''details'', audit_details e),
     (''request_id'', opt_json JStr (audit_request_id e)),
     (''trace_id'', opt_json JStr (audit_trace_id e)),
     (''method'', opt_json JStr (audit_method e)),
     (''path'', opt_json JStr (audit_path e)),
     (''status_code'', opt_json JInt (audit_status_code e)),
     (''success'', JBool (audit_success e)),
     (''error'', opt_json JStr (audit_error e))]"

text \<open>\<open>_persist\<close>.\<close>

definition persist_line :: "(real \<Rightarrow> string) \<Rightarrow> disk_fault \<Rightarrow> json \<Rightarrow> (audit_files, unit) op" where
  "persist_line fr fault entry = try_except (emit fault (json_dumps fr entry))
     (\<lambda>e. if e = os_error
        then modify (\<lambda>s. s\<lparr>persist_failed := persist_failed s @ [''audit_persist_failed'']\<rparr>) else throw e)"

text \<open>\<open>log\<close> as a whole, on the program's state and the files: the entry goes to the file and to the queue.\<close>

record 'r audited =
  aud_app :: "'r app"
  aud_files :: audit_files

definition in_audited_app :: "('r app, 'a) op \<Rightarrow> ('r audited, 'a) op" where
  "in_audited_app m = zoom aud_app (\<lambda>a s. s\<lparr>aud_app := a\<rparr>) m"

definition in_audit_files :: "(audit_files, 'a) op \<Rightarrow> ('r audited, 'a) op" where
  "in_audit_files m = zoom aud_files (\<lambda>f s. s\<lparr>aud_files := f\<rparr>) m"

definition log_everywhere :: "(real \<Rightarrow> string) \<Rightarrow> (datetime \<Rightarrow> string) \<Rightarrow> disk_fault \<Rightarrow> actor \<Rightarrow> string \<Rightarrow> string \<Rightarrow> json \<Rightarrow>
    request option \<Rightarrow> int option \<Rightarrow> bool \<Rightarrow> int \<Rightarrow> ('r audited, audit_log_entry) op" where
  "log_everywhere fr isofmt fault who action resource details req status_code success now =
     (let e = audit_entry None who action resource details req status_code success None (Aware now) in
      bnd (in_audit_files (persist_line fr fault (entry_json isofmt e))) (\<lambda>_.
      bnd (in_audited_app (audit_log who action resource details req status_code success now)) (\<lambda>_.
      ret e)))"

section \<open>The files as a bounded list\<close>

text \<open>
  The contents from the newest file to the oldest, while the numbers go on; the files are well-formed
  when exactly the numbers up to some \<open>m \<le> backup_count\<close> exist.
\<close>

definition contents :: "numbered_files \<Rightarrow> string list" where
  "contents fs = map (\<lambda>i. the (fs i)) (takeWhile (\<lambda>i. fs i \<noteq> None) [0..<backup_count + 1])"

definition files_of :: "string list \<Rightarrow> numbered_files" where
  "files_of cs = (\<lambda>i. if i < length cs then Some (cs ! i) else None)"

definition files_ok :: "numbered_files \<Rightarrow> bool" where
  "files_ok fs \<longleftrightarrow> (\<exists>cs. fs = files_of cs \<and> cs \<noteq> [] \<and> length cs \<le> backup_count + 1)"

lemma contents_files_of [simp]:
  assumes "length cs \<le> backup_count + 1"
  shows "contents (files_of cs) = cs"
proof -
  let ?P = "\<lambda>i. files_of cs i \<noteq> None"
  have split: "[0..<backup_count + 1] = [0..<length cs] @ [length cs..<backup_count + 1]"
    using assms by (metis le_add1 le_add_diff_inverse upt_add_eq_append zero_le)
  have stop: "takeWhile ?P [length cs..<backup_count + 1] = []"
    using hd_upt [of "length cs" "backup_count + 1"]
    by (cases "length cs < backup_count + 1") (simp_all add: takeWhile_eq_Nil_iff files_of_def del: upt_Suc)
  have "takeWhile ?P ([0..<length cs] @ ys) = [0..<length cs] @ takeWhile ?P ys" for ys
    by (rule takeWhile_append2) (simp add: files_of_def)
  from this [of "[length cs..<backup_count + 1]"]
  have "takeWhile ?P [0..<backup_count + 1] = [0..<length cs]" by (simp only: split stop append_Nil2)
  then have "contents (files_of cs) = map (\<lambda>i. the (files_of cs i)) [0..<length cs]" by (simp only: contents_def)
  also have "\<dots> = map ((!) cs) [0..<length cs]" by (simp add: files_of_def)
  finally show ?thesis by (simp add: map_nth)
qed

lemma files_okE:
  assumes "files_ok fs"
  obtains c cs where "fs = files_of (c # cs)" "length cs \<le> backup_count" "contents fs = c # cs"
  using assms by (auto simp: files_ok_def neq_Nil_conv)

text \<open>What the renaming loop does, when no number above an absent one exists.\<close>

lemma rename_loop:
  assumes "\<forall>i. 0 < i \<and> i \<le> n \<and> fs i = None \<longrightarrow> fs (Suc i) = None"
  shows "fold rename_up (rev [1..<Suc n]) fs =
    (\<lambda>i. if n = 0 then fs i else if i = 1 then None else if 2 \<le> i \<and> i \<le> Suc n then fs (i - 1) else fs i)"
  using assms
proof (induction n arbitrary: fs)
  case 0
  then show ?case by simp
next
  case (Suc n)
  let ?g = "rename_up (Suc n) fs"
  have "\<forall>i. 0 < i \<and> i \<le> n \<and> ?g i = None \<longrightarrow> ?g (Suc i) = None"
    using Suc.prems by (auto simp: rename_up_def)
  from Suc.IH [OF this] have "fold rename_up (rev [1..<Suc (Suc n)]) fs =
      (\<lambda>i. if n = 0 then ?g i else if i = 1 then None else if 2 \<le> i \<and> i \<le> Suc n then ?g (i - 1) else ?g i)"
    by (simp add: upt_Suc_append)
  also have "\<dots> = (\<lambda>i. if i = 1 then None else if 2 \<le> i \<and> i \<le> Suc (Suc n) then fs (i - 1) else fs i)"
    using Suc.prems [rule_format, of "Suc n"]
    by (cases n) (auto simp: fun_eq_iff rename_up_def le_Suc_eq)
  finally show ?case by simp
qed

text \<open>So a rollover pushes a new file on the list, and drops the file beyond the last backup.\<close>

lemma do_rollover_push:
  assumes "length cs \<le> backup_count"
  shows "do_rollover (files_of (c # cs)) = files_of (take (backup_count + 1) ([] # c # cs))"
proof -
  let ?fs = "files_of (c # cs)"
  have five: "backup_count = Suc 4" by (simp add: backup_count_def)
  have "fold rename_up (rev [1..<backup_count]) ?fs =
      (\<lambda>i. if i = 1 then None else if 2 \<le> i \<and> i \<le> Suc 4 then ?fs (i - 1) else ?fs i)"
    unfolding five by (subst rename_loop) (auto simp: files_of_def)
  then show ?thesis
    using assms by (auto simp: do_rollover_def rename_up_def files_of_def five fun_eq_iff nth_Cons' nth_take)
qed

lemma write_line_head: "write_line line (files_of (c # cs)) = files_of ((c @ line) # cs)"
  by (auto simp: write_line_def files_of_def fun_eq_iff nth_Cons')

text \<open>One write, on the list.\<close>

definition push_line :: "string \<Rightarrow> string list \<Rightarrow> string list" where
  "push_line line cs = (case cs of [] \<Rightarrow> []
   | c # r \<Rightarrow> if c \<noteq> [] \<and> max_bytes \<le> length c + length line then take (backup_count + 1) (line # cs)
       else (c @ line) # r)"

lemma emit_pushes:
  assumes "files_ok (log_files d)"
  shows "\<exists>fs. emit NoFault msg d = (Inr (), d\<lparr>log_files := fs\<rparr>) \<and> files_ok fs \<and>
    contents fs = push_line (msg @ [newline]) (contents (log_files d))"
proof -
  let ?line = "msg @ [newline]"
  obtain c cs where fs: "log_files d = files_of (c # cs)" and len: "length cs \<le> backup_count"
    and con: "contents (log_files d) = c # cs" using files_okE [OF assms] .
  show ?thesis
  proof (cases "should_rollover ?line (log_files d)")
    case True
    then have due: "c \<noteq> [] \<and> max_bytes \<le> length c + length ?line"
      by (simp add: fs should_rollover_def files_of_def)
    let ?t = "files_of (?line # take backup_count (c # cs))"
    have "emit NoFault msg d = (Inr (), d\<lparr>log_files := ?t\<rparr>)"
      using True do_rollover_push [OF len, of c] write_line_head [of ?line "[]"]
      by (simp add: emit_def try_except_def roll_and_write_def when_op_def op_simps fs)
    moreover have "files_ok ?t" by (auto simp: files_ok_def)
    moreover have "contents ?t = push_line ?line (c # cs)"
      using due by (simp add: push_line_def)
    ultimately show ?thesis unfolding con by blast
  next
    case False
    then have due: "\<not> (c \<noteq> [] \<and> max_bytes \<le> length c + length ?line)"
      by (simp add: fs should_rollover_def files_of_def)
    let ?t = "files_of ((c @ ?line) # cs)"
    have "emit NoFault msg d = (Inr (), d\<lparr>log_files := ?t\<rparr>)"
      using False write_line_head [of ?line c cs]
      by (simp add: emit_def try_except_def roll_and_write_def when_op_def op_simps fs)
    moreover have "files_ok ?t" using len by (auto simp: files_ok_def)
    moreover have "contents ?t = push_line ?line (c # cs)"
      using due len by (auto simp: push_line_def)
    ultimately show ?thesis unfolding con by blast
  qed
qed

section \<open>What the files hold\<close>

definition line_of :: "(real \<Rightarrow> string) \<Rightarrow> json \<Rightarrow> string" where
  "line_of fr e = json_dumps fr e @ [newline]"

definition text_of :: "(real \<Rightarrow> string) \<Rightarrow> json list \<Rightarrow> string" where
  "text_of fr es = concat (map (line_of fr) es)"

text \<open>The specification: a bounded list of groups of entries, the newest group first.\<close>

definition push_entry :: "(real \<Rightarrow> string) \<Rightarrow> json \<Rightarrow> json list list \<Rightarrow> json list list" where
  "push_entry fr e gs = (case gs of [] \<Rightarrow> []
   | g # r \<Rightarrow> if g \<noteq> [] \<and> max_bytes \<le> length (text_of fr g) + length (line_of fr e)
       then take (backup_count + 1) ([e] # gs) else (g @ [e]) # r)"

definition groups :: "(real \<Rightarrow> string) \<Rightarrow> json list \<Rightarrow> json list list" where
  "groups fr es = fold (push_entry fr) es [[]]"

definition persist_all :: "(real \<Rightarrow> string) \<Rightarrow> json list \<Rightarrow> (audit_files, unit) op" where
  "persist_all fr es = for_each es (persist_line fr NoFault)"

lemma text_of_Nil_iff [simp]: "text_of fr g = [] \<longleftrightarrow> g = []"
  by (cases g) (simp_all add: text_of_def line_of_def)

lemma push_line_groups:
  "push_line (line_of fr e) (map (text_of fr) gs) = map (text_of fr) (push_entry fr e gs)"
proof -
  have one: "text_of fr [e] = line_of fr e" "text_of fr (g @ [e]) = text_of fr g @ line_of fr e" for g
    by (simp_all add: text_of_def)
  show ?thesis
    by (cases gs) (simp_all add: push_line_def push_entry_def one flip: take_map)
qed

text \<open>The writes refine the specification.\<close>

lemma persist_line_refines:
  assumes "files_ok (log_files d)" and "contents (log_files d) = map (text_of fr) gs"
  shows "\<exists>fs. persist_line fr NoFault e d = (Inr (), d\<lparr>log_files := fs\<rparr>) \<and> files_ok fs \<and>
    contents fs = map (text_of fr) (push_entry fr e gs)"
  using emit_pushes [OF assms(1), of "json_dumps fr e"] push_line_groups [of fr e gs]
  by (auto simp: persist_line_def try_except_def assms(2) line_of_def)

lemma persist_all_refines:
  assumes "files_ok (log_files d)" and "contents (log_files d) = map (text_of fr) gs"
  shows "\<exists>fs. persist_all fr es d = (Inr (), d\<lparr>log_files := fs\<rparr>) \<and> files_ok fs \<and>
    contents fs = map (text_of fr) (fold (push_entry fr) es gs)"
  using assms
proof (induction es arbitrary: d gs)
  case Nil
  then show ?case by (intro exI [of _ "log_files d"]) (simp add: persist_all_def op_simps)
next
  case (Cons e es)
  obtain fs where fs: "persist_line fr NoFault e d = (Inr (), d\<lparr>log_files := fs\<rparr>)" "files_ok fs"
    "contents fs = map (text_of fr) (push_entry fr e gs)"
    using persist_line_refines [OF Cons.prems, of e] by blast
  show ?case
    using Cons.IH [of "d\<lparr>log_files := fs\<rparr>" "push_entry fr e gs"] fs
    by (simp add: persist_all_def bnd_apply)
qed

text \<open>What the specification keeps: the last entries, in order; all of them while fewer than six files were filled.\<close>

definition kept :: "(real \<Rightarrow> string) \<Rightarrow> json list \<Rightarrow> nat \<Rightarrow> json list list \<Rightarrow> bool" where
  "kept fr es k gs \<longleftrightarrow> gs \<noteq> [] \<and> length gs \<le> backup_count + 1 \<and> concat (rev gs) = drop k es \<and>
     k \<le> length es \<and> (es \<noteq> [] \<longrightarrow> k < length es) \<and> (k \<noteq> 0 \<longrightarrow> length gs = backup_count + 1) \<and>
     (\<forall>g \<in> set gs. length g \<le> 1 \<or> length (text_of fr g) < max_bytes)"

lemma kept_push:
  assumes "kept fr es k gs"
  shows "\<exists>k'. kept fr (es @ [e]) k' (push_entry fr e gs)"
proof -
  obtain g r where gs: "gs = g # r" using assms by (cases gs) (auto simp: kept_def)
  note facts = assms [unfolded kept_def]
  show ?thesis
  proof (cases "g \<noteq> [] \<and> max_bytes \<le> length (text_of fr g) + length (line_of fr e)")
    case False
    then have push: "push_entry fr e gs = (g @ [e]) # r" by (simp add: push_entry_def gs)
    have "length (g @ [e]) \<le> 1 \<or> length (text_of fr (g @ [e])) < max_bytes"
      using False by (auto simp: text_of_def)
    then have "kept fr (es @ [e]) k (push_entry fr e gs)"
      using facts unfolding push by (auto simp: kept_def gs)
    then show ?thesis ..
  next
    case True
    then have push: "push_entry fr e gs = take (backup_count + 1) ([e] # gs)" by (simp add: push_entry_def gs)
    show ?thesis
    proof (cases "length gs = backup_count + 1")
      case False
      then have "push_entry fr e gs = [e] # gs" using facts by (simp add: push)
      then have "kept fr (es @ [e]) k (push_entry fr e gs)" using facts False by (auto simp: kept_def)
      then show ?thesis ..
    next
      case len: True
      obtain front old where split: "gs = front @ [old]" using facts by (metis rev_exhaust)
      have new: "push_entry fr e gs = [e] # front" unfolding push using len by (simp add: split)
      have eq: "drop k es = old @ concat (rev front)" using facts by (simp add: split)
      have "concat (rev front) = drop (length old) (drop k es)" by (simp add: eq)
      then have rest: "concat (rev front) = drop (k + length old) es" by (simp add: add.commute)
      have "length old \<le> length (drop k es)" by (simp add: eq)
      then have "length old \<le> length es - k" by simp
      with rest have "kept fr (es @ [e]) (k + length old) (push_entry fr e gs)"
        using facts len unfolding new by (auto simp: kept_def split)
      then show ?thesis ..
    qed
  qed
qed

lemma kept_groups: "\<exists>k. kept fr es k (groups fr es)"
proof (induction es rule: rev_induct)
  case Nil
  show ?case by (intro exI [of _ 0]) (simp add: kept_def groups_def backup_count_def)
next
  case (snoc e es)
  then show ?case using kept_push by (fastforce simp: groups_def)
qed

section \<open>Reading the file back\<close>

fun cut_lines :: "string \<Rightarrow> string \<Rightarrow> string list" where
  "cut_lines acc [] = (if acc = [] then [] else [acc])"
| "cut_lines acc (c # cs) = (if c = newline then acc # cut_lines [] cs else cut_lines (acc @ [c]) cs)"

definition lines_of :: "string \<Rightarrow> string list" where
  "lines_of t = cut_lines [] t"

lemma cut_lines_line: "newline \<notin> set l \<Longrightarrow> cut_lines acc (l @ newline # r) = (acc @ l) # cut_lines [] r"
  by (induction l arbitrary: acc) auto

lemma newline_char_of: "n < 256 \<Longrightarrow> n \<noteq> 10 \<Longrightarrow> char_of (n :: nat) \<noteq> newline"
proof
  assume "n < 256" "n \<noteq> 10" "char_of n = newline"
  then have "of_char (char_of n :: char) = (of_char newline :: nat)" by simp
  then show False using \<open>n < 256\<close> \<open>n \<noteq> 10\<close> by (simp add: newline_def)
qed

lemmas newline_chars = newline_char_of newline_char_of [THEN not_sym]

lemma newline_hex: "d < 16 \<Longrightarrow> newline \<noteq> hex_digit d"
  by (simp add: hex_digit_def newline_chars)

lemma newline_escape: "newline \<notin> set (escape_char c)"
proof -
  have "(of_char c :: nat) < 16 * 16" using nat_of_char_less_256 [of c] by simp
  then have "of_char c div 16 < (16::nat)" by (rule less_mult_imp_div_less)
  then have "newline \<noteq> hex_digit (of_char c div 16)" "newline \<noteq> hex_digit (of_char c mod 16)"
    by (simp_all add: newline_hex)
  moreover have "newline \<noteq> c" if "32 \<le> (of_char c :: nat)" using that by (auto simp: newline_def)
  ultimately show ?thesis
    by (auto simp: escape_char_def Let_def newline_chars) (simp_all add: newline_def)
qed

lemma newline_dump_string: "newline \<notin> set (dump_string s)"
  using newline_escape by (auto simp: dump_string_def newline_chars)

lemma newline_show_int: "newline \<notin> set (show_int n)"
  using show_int_no_space [of newline n] by (auto simp: is_space_def newline_def)

lemma newline_join: "newline \<notin> set sep \<Longrightarrow> \<forall>x \<in> set xs. newline \<notin> set x \<Longrightarrow> newline \<notin> set (join sep xs)"
  by (induction sep xs rule: join.induct) auto

lemma newline_dumps:
  assumes "newline \<notin> set i" "newline \<notin> set k" "plain v"
  shows "newline \<notin> set (dumps fr i k v)"
  using assms
proof (induction v)
  case (JList xs)
  then show ?case using newline_join [of i "map (dumps fr i k) xs"] by (auto simp: newline_def)
next
  case (JObj kvs)
  then show ?case
    using newline_join [of i "map (\<lambda>kv. dump_string (fst kv) @ k @ dumps fr i k (snd kv)) kvs"]
      newline_dump_string by (fastforce simp: newline_def)
qed (use newline_dump_string newline_show_int in \<open>auto simp: newline_def\<close>)

lemma lines_of_text: "\<forall>e \<in> set es. plain e \<Longrightarrow> lines_of (text_of fr es) = map (json_dumps fr) es"
proof (induction es)
  case (Cons e es)
  then have "newline \<notin> set (json_dumps fr e)"
    unfolding json_dumps_def by (intro newline_dumps) (auto simp: newline_def)
  then show ?case using Cons cut_lines_line [of "json_dumps fr e" "[]" "text_of fr es"]
    by (simp add: lines_of_def text_of_def line_of_def)
qed (simp add: lines_of_def text_of_def)

lemma text_of_concat: "text_of fr (concat gs) = concat (map (text_of fr) gs)"
  by (induction gs) (simp_all add: text_of_def)

text \<open>The oldest file first: the whole trail.\<close>

definition trail :: "numbered_files \<Rightarrow> string" where
  "trail fs = concat (rev (contents fs))"



section \<open>A call of the logger\<close>

text \<open>The handler swallows every error of the disk: \<open>_persist\<close> never raises, and its own \<open>except OSError\<close> is never reached.\<close>

lemma roll_and_write_files:
  obtains r fs where "roll_and_write fault line d = (r, d\<lparr>log_files := fs, handler_errors := handler_errors d\<rparr>)"
proof -
  have "\<exists>r fs. roll_and_write fault line d = (r, d\<lparr>log_files := fs, handler_errors := handler_errors d\<rparr>)"
    by (cases d; cases fault) (auto simp: roll_and_write_def when_op_def op_simps bnd_apply)
  then show ?thesis using that by blast
qed

lemma emit_never_raises: "\<exists>fs n. emit fault msg d = (Inr (), d\<lparr>log_files := fs, handler_errors := n\<rparr>)"
proof -
  obtain r fs where "roll_and_write fault (msg @ [newline]) d = (r, d\<lparr>log_files := fs, handler_errors := handler_errors d\<rparr>)"
    by (rule roll_and_write_files)
  then show ?thesis by (cases r; cases d) (auto simp: emit_def try_except_def op_simps)
qed

text \<open>
  Logging cannot fail a request: whatever the disk does, the call returns the entry, leaves the
  program's state as the queueing alone would, and reports a lost line on \<open>stderr\<close> only.
\<close>

theorem logging_never_fails:
  "\<exists>f. log_everywhere fr isofmt fault who action resource details req st ok now s =
    (Inr (audit_entry None who action resource details req st ok None (Aware now)),
      \<lparr>aud_app = snd (audit_log who action resource details req st ok now (aud_app s)), aud_files = f\<rparr>) \<and>
    persist_failed f = persist_failed (aud_files s)"
proof -
  let ?e = "audit_entry None who action resource details req st ok None (Aware now)"
  obtain fs n where emit: "emit fault (json_dumps fr (entry_json isofmt ?e)) (aud_files s) =
      (Inr (), (aud_files s)\<lparr>log_files := fs, handler_errors := n\<rparr>)"
    using emit_never_raises by blast
  then show ?thesis
    by (intro exI [of _ "(aud_files s)\<lparr>log_files := fs, handler_errors := n\<rparr>"])
      (simp add: log_everywhere_def Let_def bnd_apply in_audit_files_def in_audited_app_def zoom_apply
        persist_line_def try_except_def audit_log_def op_simps)
qed

text \<open>The entry is plain JSON when its details are, so the trail property applies to what \<open>log\<close> writes.\<close>

lemma plain_entry_json [simp]: "plain (entry_json isofmt e) = plain (audit_details e)"
  by (simp add: entry_json_def opt_json_def split: option.split)

text \<open>A write that fails is lost from the file: nothing retries it.\<close>

lemma failed_write_is_lost:
  "log_files (snd (persist_line fr RenameFault e d)) \<in> {log_files d, write_line (line_of fr e) (log_files d)}"
  by (auto simp: persist_line_def emit_def roll_and_write_def when_op_def try_except_def op_simps bnd_apply line_of_def)

end
