(* ===== verification/Worker.thy ===== *)
theory Worker
  imports Webhooks Billing Auth
begin

text \<open>
  The jobs the handlers enqueue, run by the in-process manager (\<open>_run\<close> and \<open>_execute_job\<close> of
  \<open>backend/common/background_jobs.py\<close>): each job is tried at most three times, and a job that fails three
  times goes to the dead letters, of which the last fifty are kept. Each round comes with its outside world:
  the clock, the SMTP server, the HTTP client. The 50 and 100 milliseconds between the attempts of
  a job are not seen by that clock.
\<close>

section \<open>A round\<close>

record worker_env =
  wk_now :: int
  wk_db_now :: datetime
  wk_server :: smtp_server
  wk_hmac :: "string \<Rightarrow> string \<Rightarrow> string"
  wk_float :: "real \<Rightarrow> string"
  wk_post :: http_post

record 'r worker =
  wk_app :: "'r app"
  wk_dead :: "(job \<times> exn) list"

text \<open>A mail goes through the transport of the settings.\<close>

definition send_mail :: "worker_env \<Rightarrow> mail \<Rightarrow> ('r app, unit) op" where
  "send_mail env m = bnd (look conf) (\<lambda>c.
     zoom mail_service (\<lambda>b s. s\<lparr>mail_service := b\<rparr>) (send (wk_server env) c (wk_now env) m))"

definition handle_job :: "worker_env \<Rightarrow> job \<Rightarrow> ('r app, unit) op" where
  "handle_job env j = (case j of
     SendVerificationEmail to token \<Rightarrow> send_mail env (verification_mail to token)
   | SendPasswordResetEmail to token \<Rightarrow> send_mail env (password_reset_mail to token)
   | LogInfo line \<Rightarrow> ret ()
   | PersistAuditLogEntry e \<Rightarrow> in_db (persist_audit_log_entry (wk_db_now env) e)
   | BillingNotification uid kind title body \<Rightarrow> in_db (billing_notification uid kind title body)
   | DeliverWebhook i \<Rightarrow> deliver_webhook (wk_hmac env) (wk_float env) (wk_post env) (wk_now env) i)"

definition work_one :: "worker_env \<Rightarrow> 'r worker \<Rightarrow> 'r worker" where
  "work_one env w = (case jobs (wk_app w) of
     [] \<Rightarrow> w
   | j # js \<Rightarrow> (case run_job (handle_job env j) ((wk_app w)\<lparr>jobs := js\<rparr>) of
       (Inr _, s) \<Rightarrow> w\<lparr>wk_app := s\<rparr>
     | (Inl e, s) \<Rightarrow> w\<lparr>wk_app := s, wk_dead := last_of 50 (wk_dead w @ [(j, e)])\<rparr>))"

fun work_all :: "worker_env list \<Rightarrow> 'r worker \<Rightarrow> 'r worker" where
  "work_all [] w = w"
| "work_all (env # envs) w = work_all envs (work_one env w)"

section \<open>Attempts\<close>

lemma preserves_retry_loop:
  assumes "preserves P f"
  shows "preserves P (retry_loop n f (\<lambda>_. ret ()) no_sleep d b le)"
  by (induction n arbitrary: d le)
    (auto simp: no_sleep_def split: option.split intro!: preserves_intros assms)

lemma preserves_run_job: "preserves P f \<Longrightarrow> preserves P (run_job f)"
  by (simp add: run_job_def retry_async_def preserves_retry_loop)

lemma run_job_Inr: "f s = (Inr a, t) \<Longrightarrow> run_job f s = (Inr a, t)"
  by (simp add: run_job_def retry_async_def try_except_def eval_nat_numeral)

section \<open>Audit entries\<close>

definition recorded :: "audit_log_entry \<Rightarrow> audit_log_entry" where
  "recorded e = e\<lparr>audit_id := 0, audit_created_at := Naive 0\<rparr>"

fun audited :: "job \<Rightarrow> audit_log_entry list" where
  "audited (PersistAuditLogEntry e) = [recorded e]"
| "audited j = []"

definition audit_rows :: "'r app \<Rightarrow> audit_log_entry list" where
  "audit_rows s = map recorded (audit_log_entries (stored (sess s)))"

text \<open>What the other jobs keep: the audit rows, and the jobs already queued.\<close>

definition keeps :: "audit_log_entry list \<Rightarrow> job list \<Rightarrow> 'r app \<Rightarrow> bool" where
  "keeps rows js s \<longleftrightarrow> audit_rows s = rows \<and> \<not> fk_on (sess s) \<and> (\<exists>new. jobs s = js @ new \<and> concat (map audited new) = [])"

lemma preserves_session_local:
  assumes "\<And>rows. preserves (\<lambda>t. audit_log_entries (work t) = rows \<and> audit_log_entries (stored t) = rows \<and> \<not> fk_on t) m"
  shows "preserves (keeps rows js) (in_db (session_local m))"
proof (rule preservesI)
  fix s :: "'r app"
  assume s: "keeps rows js s"
  let ?t = "snd (m ((sess s)\<lparr>work := stored (sess s)\<rparr>))"
  have "audit_log_entries (stored ?t) = audit_log_entries (stored (sess s)) \<and> \<not> fk_on ?t"
    using preservesD [OF assms [of "audit_log_entries (stored (sess s))"], of "(sess s)\<lparr>work := stored (sess s)\<rparr>"] s
    by (simp add: keeps_def)
  then show "keeps rows js (snd (in_db (session_local m) s))"
    using s by (cases "m ((sess s)\<lparr>work := stored (sess s)\<rparr>)")
      (auto simp: keeps_def audit_rows_def in_db_apply session_local_def)
qed

lemma same_audit_save:
  "preserves (\<lambda>t. audit_log_entries (work t) = rows \<and> audit_log_entries (stored t) = rows \<and> \<not> fk_on t) (db_save WebhookDelivery d)"
  "preserves (\<lambda>t. audit_log_entries (work t) = rows \<and> audit_log_entries (stored t) = rows \<and> \<not> fk_on t) commit"
  by (rule preservesI, simp add: db_save_def Let_def WebhookDelivery_def split: sum.split)
    (rule preservesI, simp add: commit_apply)

lemma keeps_other:
  "preserves (keeps rows js) (send_mail env m)" "preserves (keeps rows js) (queue_job (DeliverWebhook i))"
  by (auto simp: preserves_def keeps_def audit_rows_def send_mail_def bnd_look zoom_apply queue_job_apply queued_job_def
      split: queue_kind.split)

lemma keeps_other_jobs:
  assumes "audited j = []"
  shows "preserves (keeps rows js) (handle_job env j)"
proof (cases j)
  case (BillingNotification uid kind title body)
  have "preserves (keeps rows js) (in_db (billing_notification uid kind title body))"
    unfolding billing_notification_def
    by (rule preserves_session_local)
      (auto simp: preserves_def bnd_apply db_insert_def Let_def Notification_def commit_apply split: sum.split)
  then show ?thesis by (simp add: handle_job_def BillingNotification)
next
  case (DeliverWebhook i)
  have "preserves (keeps rows js) (in_db (session_local (attempt_delivery hm fr post now i)))" for hm fr post now
    by (rule preserves_session_local)
      (auto simp: attempt_delivery_def Let_def intro!: preserves_intros same_audit_save)
  then show ?thesis
    by (auto simp: handle_job_def DeliverWebhook deliver_webhook_def intro!: preserves_intros keeps_other)
qed (use assms in \<open>auto simp: handle_job_def intro!: preserves_intros keeps_other\<close>)

lemma persist_run:
  assumes "\<not> fk_on (sess s)"
  shows "\<exists>u. in_db (persist_audit_log_entry t e) s = (Inr (), s\<lparr>sess := u\<rparr>) \<and> \<not> fk_on u \<and>
    map recorded (audit_log_entries (stored u)) = audit_rows s @ [recorded e]"
proof -
  have "\<exists>u. persist_audit_log_entry t e (sess s) = (Inr (), u) \<and> \<not> fk_on u \<and>
      map recorded (audit_log_entries (stored u)) = audit_rows s @ [recorded e]"
    using assms by (simp add: persist_audit_log_entry_def session_local_def bnd_apply db_insert_def violates_def AuditLogEntry_def
        commit_apply Let_def audit_rows_def recorded_def)
  then show ?thesis by (auto simp: in_db_apply)
qed

lemma work_one_audit:
  assumes "jobs (wk_app w) = j # js" and "\<not> fk_on (sess (wk_app w))"
  shows "audit_rows (wk_app (work_one env w)) = audit_rows (wk_app w) @ audited j \<and>
    \<not> fk_on (sess (wk_app (work_one env w))) \<and>
    (\<exists>new. jobs (wk_app (work_one env w)) = js @ new \<and> concat (map audited new) = [])"
proof (cases "audited j")
  case Nil
  let ?s = "(wk_app w)\<lparr>jobs := js\<rparr>"
  have "keeps (audit_rows (wk_app w)) js ?s" using assms(2) by (simp add: keeps_def audit_rows_def)
  from preservesD [OF preserves_run_job [OF keeps_other_jobs [OF Nil]] this]
  have "keeps (audit_rows (wk_app w)) js (snd (run_job (handle_job env j) ?s))" .
  moreover have "wk_app (work_one env w) = snd (run_job (handle_job env j) ?s)"
    using assms(1) by (auto simp: work_one_def split: prod.split sum.split)
  ultimately show ?thesis using Nil by (simp add: keeps_def)
next
  case (Cons a as)
  then obtain e where j: "j = PersistAuditLogEntry e" by (cases j) auto
  let ?s = "(wk_app w)\<lparr>jobs := js\<rparr>"
  obtain u where u: "in_db (persist_audit_log_entry (wk_db_now env) e) ?s = (Inr (), ?s\<lparr>sess := u\<rparr>)" "\<not> fk_on u"
    "map recorded (audit_log_entries (stored u)) = audit_rows ?s @ [recorded e]"
    using persist_run [of ?s "wk_db_now env" e] assms(2) by auto
  have "run_job (handle_job env j) ?s = (Inr (), ?s\<lparr>sess := u\<rparr>)"
    by (rule run_job_Inr) (simp add: handle_job_def j u(1))
  then have "work_one env w = w\<lparr>wk_app := ?s\<lparr>sess := u\<rparr>\<rparr>" using assms(1) by (simp add: work_one_def)
  then show ?thesis using u(2,3) by (simp add: audit_rows_def j)
qed

lemma work_all_audit:
  assumes "jobs (wk_app w) = js @ queued_after" and "length envs = length js" and "\<not> fk_on (sess (wk_app w))"
  shows "audit_rows (wk_app (work_all envs w)) = audit_rows (wk_app w) @ concat (map audited js)"
  using assms
proof (induction js arbitrary: envs w queued_after)
  case Nil
  then show ?case by simp
next
  case (Cons j js)
  obtain env rest where envs: "envs = env # rest" "length rest = length js" using Cons.prems(2) by (cases envs) auto
  have q: "jobs (wk_app w) = j # js @ queued_after" using Cons.prems(1) by simp
  note one = work_one_audit [OF q Cons.prems(3), of env]
  from one obtain new where "jobs (wk_app (work_one env w)) = js @ queued_after @ new" by auto
  from Cons.IH [OF this envs(2)] one show ?case by (simp add: envs(1))
qed


section \<open>Mails\<close>

text \<open>
  An outage of the mail server costs more than the mails sent during it: the three attempts of one job
  open the breaker, and for the next minute every mail is given up without a connection, even though
  the server may be back. Nothing sends a dead letter again.
\<close>

lemma mail_job_fails_once:
  assumes "opened_at (smtp_breaker (mail_service s)) = Some t" "wk_now env - t < reset_timeout (smtp_breaker (mail_service s))"
    and "transport_of (conf s) = SMTPTransport"
  shows "send_mail env m s = (Inl CircuitBreakerOpenError, s)"
  using smtp_send_open [OF assms(1,2)] assms(3) by (simp add: send_mail_def bnd_look zoom_apply send_def)

lemma run_job_throws: "f s = (Inl e, s) \<Longrightarrow> run_job f s = (Inl e, s)"
  by (simp add: run_job_def retry_async_def try_except_def eval_nat_numeral no_sleep_def op_simps bnd_apply)

definition mail_of :: "job \<Rightarrow> mail option" where
  "mail_of j = (case j of SendVerificationEmail to token \<Rightarrow> Some (verification_mail to token)
   | SendPasswordResetEmail to token \<Rightarrow> Some (password_reset_mail to token) | _ \<Rightarrow> None)"

lemma handle_mail: "mail_of j = Some m \<Longrightarrow> handle_job env j = send_mail env m"
  by (auto simp: mail_of_def handle_job_def split: job.splits)

lemma mail_job_opens:
  assumes "smtp_breaker (mail_service s) = new_breaker 3 60000000"
    and "transport_of (conf s) = SMTPTransport" "wk_server env (smtp_config_of (conf s)) m = Some e"
  shows "run_job (send_mail env m) s = (Inl e, s\<lparr>mail_service := (mail_service s)\<lparr>smtp_breaker :=
    \<lparr>failure_threshold = 3, reset_timeout = 60000000, failure_count = 3, opened_at = Some (wk_now env)\<rparr>\<rparr>\<rparr>)"
  using assms
  by (simp add: run_job_def retry_async_def try_except_def eval_nat_numeral no_sleep_def op_simps bnd_apply send_mail_def
      bnd_look zoom_apply send_def smtp_send_def before_call_def is_open_def record_failure_def Let_def new_breaker_def)

lemma work_one_fails:
  assumes "jobs (wk_app w) = j # js" "mail_of j = Some m" "run_job (send_mail env m) ((wk_app w)\<lparr>jobs := js\<rparr>) = (Inl e, s)"
  shows "work_one env w = w\<lparr>wk_app := s, wk_dead := last_of 50 (wk_dead w @ [(j, e)])\<rparr>"
  using assms by (simp add: work_one_def handle_mail [OF assms(2)])

theorem outage_loses_later_mails:
  assumes "jobs (wk_app w) = [first, later]" and "mail_of first = Some m1" and "mail_of later = Some m2"
    and "smtp_breaker (mail_service (wk_app w)) = new_breaker 3 60000000"
    and "transport_of (conf (wk_app w)) = SMTPTransport" and "wk_server env1 (smtp_config_of (conf (wk_app w))) m1 = Some e"
    and "wk_now env2 < wk_now env1 + 60000000" and "length (wk_dead w) \<le> 48"
  shows "map fst (wk_dead (work_all [env1, env2] w)) = map fst (wk_dead w) @ [first, later] \<and>
    outbox (mail_service (wk_app (work_all [env1, env2] w))) = outbox (mail_service (wk_app w)) \<and>
    jobs (wk_app (work_all [env1, env2] w)) = []"
proof -
  let ?s = "(wk_app w)\<lparr>jobs := [later]\<rparr>"
  let ?b = "\<lparr>failure_threshold = 3, reset_timeout = 60000000, failure_count = 3, opened_at = Some (wk_now env1)\<rparr>"
  have 1: "run_job (send_mail env1 m1) ?s = (Inl e, ?s\<lparr>mail_service := (mail_service ?s)\<lparr>smtp_breaker := ?b\<rparr>\<rparr>)"
    using assms(4,5,6) by (intro mail_job_opens) simp_all
  let ?t = "(wk_app w)\<lparr>jobs := [], mail_service := (mail_service (wk_app w))\<lparr>smtp_breaker := ?b\<rparr>\<rparr>"
  have 2: "run_job (send_mail env2 m2) ?t = (Inl CircuitBreakerOpenError, ?t)"
    by (rule run_job_throws, rule mail_job_fails_once [where t = "wk_now env1"]) (use assms(5,7) in simp_all)
  let ?w = "w\<lparr>wk_app := ?t\<lparr>jobs := [later]\<rparr>, wk_dead := last_of 50 (wk_dead w @ [(first, e)])\<rparr>"
  have one: "work_one env1 w = ?w"
    using work_one_fails [OF assms(1,2) 1] by simp
  have two: "work_one env2 ?w = ?w\<lparr>wk_app := ?t, wk_dead := last_of 50 (wk_dead ?w @ [(later, CircuitBreakerOpenError)])\<rparr>"
  proof (rule work_one_fails [OF _ assms(3)])
    have eq: "(wk_app ?w)\<lparr>jobs := []\<rparr> = ?t" by (cases "wk_app w") simp
    show "run_job (send_mail env2 m2) ((wk_app ?w)\<lparr>jobs := []\<rparr>) = (Inl CircuitBreakerOpenError, ?t)"
      unfolding eq by (rule 2)
  qed simp
  show ?thesis unfolding work_all.simps one two using assms(8) by (simp add: last_of_def)
qed

section \<open>A password reset from the request to the new password\<close>

lemma send_Inr:
  assumes "fst (send server c now m s) = Inr ()"
  obtains b where "send server c now m s = (Inr (), s\<lparr>smtp_breaker := b, outbox := outbox s @ [m]\<rparr>)"
proof -
  have "\<exists>b. send server c now m s = (Inr (), s\<lparr>smtp_breaker := b, outbox := outbox s @ [m]\<rparr>)"
    using assms
    by (cases s; cases "transport_of c")
      (auto simp: send_def console_send_def smtp_send_def deliver_def modify_apply bnd_apply zoom_apply split: prod.splits sum.splits option.splits)
  then show ?thesis using that by blast
qed

lemma mail_job_sends:
  assumes "jobs (wk_app w) = j # js" "mail_of j = Some m"
    and "fst (send (wk_server env) (conf (wk_app w)) (wk_now env) m (mail_service (wk_app w))) = Inr ()"
  shows "\<exists>b. work_one env w = w\<lparr>wk_app := (wk_app w)\<lparr>jobs := js, mail_service := b\<rparr>\<rparr> \<and>
    outbox b = outbox (mail_service (wk_app w)) @ [m]"
proof -
  obtain b where b: "send (wk_server env) (conf (wk_app w)) (wk_now env) m (mail_service (wk_app w)) =
      (Inr (), (mail_service (wk_app w))\<lparr>smtp_breaker := b, outbox := outbox (mail_service (wk_app w)) @ [m]\<rparr>)"
    using assms(3) by (rule send_Inr)
  let ?b = "(mail_service (wk_app w))\<lparr>smtp_breaker := b, outbox := outbox (mail_service (wk_app w)) @ [m]\<rparr>"
  have "run_job (send_mail env m) ((wk_app w)\<lparr>jobs := js\<rparr>) = (Inr (), (wk_app w)\<lparr>jobs := js, mail_service := ?b\<rparr>)"
    by (rule run_job_Inr) (simp add: send_mail_def bnd_look zoom_apply b)
  then have "work_one env w = w\<lparr>wk_app := (wk_app w)\<lparr>jobs := js, mail_service := ?b\<rparr>\<rparr>"
    using assms(1) by (simp add: work_one_def handle_mail [OF assms(2)])
  then show ?thesis by (intro exI [of _ ?b]) simp
qed

lemma log_job: "jobs (wk_app w) = LogInfo l # js \<Longrightarrow> work_one env w = w\<lparr>wk_app := (wk_app w)\<lparr>jobs := js\<rparr>\<rparr>"
  by (simp add: work_one_def handle_job_def run_job_def retry_async_def try_except_def ret_apply eval_nat_numeral)

context redis_service
begin

lemma request_reset_run:
  assumes "account s u" and "0 < password_reset_token_ttl_minutes (conf s)"
  shows "\<exists>t. request_password_reset rc fresh (user_email u) s =
      (Inr ''If the account exists, a reset link has been sent'', s\<lparr>toks := t,
        jobs := jobs s @ [SendPasswordResetEmail (user_email u) fresh, LogInfo ''password_reset_requested'']\<rparr>) \<and>
    view (redis t) = (view (redis (toks s)))(key PasswordResetStore fresh \<mapsto> PStr (show_int (user_id u)))"
proof -
  let ?ttl = "password_reset_token_ttl_minutes (conf s) * 60"
  obtain t where t: "set_token rc (conf s) PasswordResetStore fresh (show_int (user_id u)) ?ttl (toks s) = (Inr (), t)"
    "view (redis t) = (view (redis (toks s)))(key PasswordResetStore fresh \<mapsto> PStr (show_int (user_id u)))"
    using backend.set_law [of ?ttl "conf s" PasswordResetStore fresh "show_int (user_id u)" "toks s"] assms(2) by auto
  have "in_db (get_by_email (user_email u)) s = (Inr (Some u), s)"
    using get_by_email_found assms(1) by (simp add: account_def in_db_apply)
  then show ?thesis
    using t by (intro exI [of _ t]) (simp add: request_password_reset_def bnd_apply in_toks_apply add_password_reset_token_def ret_apply op_simps)
qed

lemma mailed_reset_run:
  assumes "crypto_ok cr" "CHR ''$'' \<notin> set salt" "account (wk_app w) u" "jobs (wk_app w) = []"
    and "0 < password_reset_token_ttl_minutes (conf (wk_app w))"
    and "view (redis (toks (wk_app w))) (user_index_key RefreshStore (user_id u)) = Some (PSet ts)"
    and "view (redis (toks (wk_app w))) (access_index_key RevocationStore (user_id u)) = Some (PSet js)"
    and "fst (send (wk_server env1) (conf (wk_app w)) (wk_now env1) (password_reset_mail (user_email u) fresh)
      (mail_service (wk_app w))) = Inr ()"
  shows "\<exists>s1 w2 s3 u'. request_password_reset rc fresh (user_email u) (wk_app w) =
      (Inr ''If the account exists, a reset link has been sent'', s1) \<and>
    work_all [env1, env2] (w\<lparr>wk_app := s1\<rparr>) = w2 \<and> jobs (wk_app w2) = [] \<and>
    outbox (mail_service (wk_app w2)) = outbox (mail_service (wk_app w)) @ [password_reset_mail (user_email u) fresh] \<and>
    confirm_password_reset rc cr salt fresh new (wk_app w2) = (Inr ''Password updated successfully'', s3) \<and>
    u' \<in> set (users (work (sess s3))) \<and> user_id u' = user_id u \<and>
    verify_password cr new (user_hashed_password u') = Inr True"
proof -
  let ?mail = "password_reset_mail (user_email u) fresh"
  obtain t where t: "request_password_reset rc fresh (user_email u) (wk_app w) =
      (Inr ''If the account exists, a reset link has been sent'', (wk_app w)\<lparr>toks := t,
        jobs := [SendPasswordResetEmail (user_email u) fresh, LogInfo ''password_reset_requested'']\<rparr>)"
    "view (redis t) = (view (redis (toks (wk_app w))))(key PasswordResetStore fresh \<mapsto> PStr (show_int (user_id u)))"
    using request_reset_run [OF assms(3,5), of fresh] assms(4) by auto
  let ?s1 = "(wk_app w)\<lparr>toks := t, jobs := [SendPasswordResetEmail (user_email u) fresh, LogInfo ''password_reset_requested'']\<rparr>"
  let ?w1 = "w\<lparr>wk_app := ?s1\<rparr>"
  obtain b where b: "work_one env1 ?w1 = ?w1\<lparr>wk_app := ?s1\<lparr>jobs := [LogInfo ''password_reset_requested''], mail_service := b\<rparr>\<rparr>"
    "outbox b = outbox (mail_service (wk_app w)) @ [?mail]"
    using mail_job_sends [of ?w1 "SendPasswordResetEmail (user_email u) fresh" _ ?mail env1] assms(8) by (auto simp: mail_of_def)
  let ?w2 = "?w1\<lparr>wk_app := ?s1\<lparr>jobs := [], mail_service := b\<rparr>\<rparr>"
  have "work_one env2 (work_one env1 ?w1) = ?w2"
    unfolding b(1) by (subst log_job, simp) (cases "wk_app w"; simp)
  then have run: "work_all [env1, env2] ?w1 = ?w2" by simp
  have acc: "account (wk_app ?w2) u" using assms(3) by (simp add: account_def)
  obtain s3 u' where 3: "confirm_password_reset rc cr salt fresh new (wk_app ?w2) = (Inr ''Password updated successfully'', s3)"
    "u' \<in> set (users (work (sess s3)))" "user_id u' = user_id u" "verify_password cr new (user_hashed_password u') = Inr True"
    using reset_run [OF assms(1,2) _ acc, of fresh "user_id u" ts js new] t(2) assms(6,7) by (auto simp: key_stores_differ)
  show ?thesis using t(1) run b(2) 3 by (intro exI [of _ ?s1] exI [of _ ?w2] exI [of _ s3] exI [of _ u']) simp
qed

end



section \<open>Witnesses\<close>

definition calm :: worker_env where
  "calm = \<lparr>wk_now = 9, wk_db_now = Naive 9, wk_server = \<lambda>_ _. None, wk_hmac = \<lambda>k m. m, wk_float = \<lambda>_. [],
     wk_post = \<lambda>_ _ _. Inr 200\<rparr>"

definition down :: worker_env where
  "down = calm\<lparr>wk_server := \<lambda>_ _. Some (RemoteError ''refused'')\<rparr>"


theorem outage_loses_later_mails_witness:
  "\<exists>w :: (string \<Rightarrow> pyval option) worker. jobs (wk_app w) \<noteq> [] \<and>
    outbox (mail_service (wk_app (work_all [down, calm] w))) = [] \<and> jobs (wk_app (work_all [down, calm] w)) = []"
proof -
  let ?c = "default_settings\<lparr>email_backend := ''smtp''\<rparr>"
  let ?w = "\<lparr>wk_app = (demo_app empty_db)\<lparr>conf := ?c, jobs := [SendVerificationEmail ''a@b.c'' ''t'', SendPasswordResetEmail ''d@e.f'' ''u'']\<rparr>, wk_dead = []\<rparr>"
  have smtp: "transport_of ?c = SMTPTransport" by (simp add: transport_of_def lower_def lower_char_def)
  have "outbox (mail_service (wk_app (work_all [down, calm] ?w))) = outbox (mail_service (wk_app ?w)) \<and>
      jobs (wk_app (work_all [down, calm] ?w)) = []"
    using outage_loses_later_mails [of ?w "SendVerificationEmail ''a@b.c'' ''t''" "SendPasswordResetEmail ''d@e.f'' ''u''"
        "verification_mail ''a@b.c'' ''t''" "password_reset_mail ''d@e.f'' ''u''" down "RemoteError ''refused''" calm] smtp
    by (simp add: mail_of_def demo_app_def new_mailer_def down_def calm_def)
  then show ?thesis by (intro exI [of _ ?w]) (simp add: demo_app_def new_mailer_def)
qed


end
