(* ===== verification/AuthApi.thy ===== *)
theory AuthApi
  imports Auth Schema
begin

text \<open>
  The bodies of the requests to \<open>backend/app/api/v1/auth/router.py\<close> (the schemas of
  \<open>backend/common/schema.py\<close>) and the routes as FastAPI runs them: the body is validated first, with
  the answer 422 where it is refused; then the route runs in its database session.
\<close>

section \<open>Bodies\<close>

text \<open>\<open>Field(min_length=1)\<close>.\<close>

definition check_nonempty :: "string \<Rightarrow> string \<Rightarrow> exn + string" where
  "check_nonempty name v = (if v = [] then Inl (invalid_field name) else Inr v)"

record reset_confirm =
  rc_token :: string
  rc_new_password :: string

definition make_email_request :: "(string \<Rightarrow> string option) \<Rightarrow> string \<Rightarrow> exn + string" where
  "make_email_request ev email = check_email ev email"

definition make_email_verification_confirm :: "string \<Rightarrow> exn + string" where
  "make_email_verification_confirm token = check_nonempty ''token'' token"

definition make_refresh_request :: "string \<Rightarrow> exn + string" where
  "make_refresh_request token = check_nonempty ''refresh_token'' token"

definition make_password_reset_confirm :: "settings \<Rightarrow> string \<Rightarrow> string \<Rightarrow> exn + reset_confirm" where
  "make_password_reset_confirm c token new_password =
     bind_sum (check_nonempty ''token'' token) (\<lambda>t.
     bind_sum (check_password c new_password) (\<lambda>p.
     Inr \<lparr>rc_token = t, rc_new_password = p\<rparr>))"

section \<open>Endpoints\<close>

definition with_body :: "(settings \<Rightarrow> exn + 'b) \<Rightarrow> ('b \<Rightarrow> ('r app, 'a) op) \<Rightarrow> ('r app, 'a) op" where
  "with_body build route = bnd (look conf) (\<lambda>c. bnd (pure_op (build c)) (\<lambda>body. with_db (route body)))"

definition post_password_reset_request :: "(string \<Rightarrow> string option) \<Rightarrow> 'r limiter_env \<Rightarrow> 'r redis_ops \<Rightarrow> int \<Rightarrow> string \<Rightarrow> request \<Rightarrow>
    string \<Rightarrow> ('r app, string) op" where
  "post_password_reset_request ev le rc now fresh req email =
     with_body (\<lambda>c. make_email_request ev email) (request_password_reset_route le rc now fresh req)"

definition post_password_reset_confirm :: "'r redis_ops \<Rightarrow> crypto \<Rightarrow> string \<Rightarrow> string \<Rightarrow> string \<Rightarrow> ('r app, string) op" where
  "post_password_reset_confirm rc cr salt token new_password =
     with_body (\<lambda>c. make_password_reset_confirm c token new_password)
       (\<lambda>p. confirm_password_reset_route rc cr salt (rc_token p) (rc_new_password p))"

definition post_email_verification_request :: "(string \<Rightarrow> string option) \<Rightarrow> 'r limiter_env \<Rightarrow> 'r redis_ops \<Rightarrow> int \<Rightarrow> string \<Rightarrow> request \<Rightarrow>
    string \<Rightarrow> ('r app, string) op" where
  "post_email_verification_request ev le rc now fresh req email =
     with_body (\<lambda>c. make_email_request ev email) (request_email_verification_route le rc now fresh req)"

definition post_email_verification_confirm :: "'r redis_ops \<Rightarrow> int \<Rightarrow> string \<Rightarrow> ('r app, string) op" where
  "post_email_verification_confirm rc now token =
     with_body (\<lambda>c. make_email_verification_confirm token) (confirm_email_verification_route rc now)"

definition post_refresh :: "'r redis_ops \<Rightarrow> crypto \<Rightarrow> int \<Rightarrow> string \<Rightarrow> string \<Rightarrow> request \<Rightarrow> string \<Rightarrow> ('r app, token_pair) op" where
  "post_refresh rc cr now jti fresh req token =
     with_body (\<lambda>c. make_refresh_request token) (refresh_route rc cr now jti fresh req)"

text \<open>\<open>GET /auth/me\<close>: the caller as \<open>UserOut\<close>.\<close>

definition read_me :: "'r redis_ops \<Rightarrow> crypto \<Rightarrow> int \<Rightarrow> string option \<Rightarrow> string option \<Rightarrow> ('r app, user_out) op" where
  "read_me rc cr now api_key credentials = with_db
     (bnd (get_current_active_user rc cr now api_key credentials) (\<lambda>current_user. pure_op (to_public current_user)))"

section \<open>What the validation guards\<close>

lemma with_body_refused: "build (conf s) = Inl e \<Longrightarrow> with_body build route s = (Inl e, s)"
  by (simp add: with_body_def bnd_apply look_apply pure_op_apply)

lemma with_body_accepted: "build (conf s) = Inr b \<Longrightarrow> with_body build route s = with_db (route b) s"
  by (simp add: with_body_def bnd_apply look_apply pure_op_apply)

text \<open>
  A new password that is too short or does not match the pattern is refused with 422 before anything
  happens: the token stays good for another try. A reset that succeeds had a password that passes both.
\<close>

theorem weak_password_never_reset:
  "(length new < password_min_length (conf s) \<or> \<not> password_matches (conf s) new \<longrightarrow>
     (\<exists>e. post_password_reset_confirm rc cr salt token new s = (Inl e, s))) \<and>
   (\<forall>a t. post_password_reset_confirm rc cr salt token new s = (Inr a, t) \<longrightarrow>
     token \<noteq> [] \<and> password_min_length (conf s) \<le> length new \<and> password_matches (conf s) new)"
proof -
  have refused: "\<exists>e. post_password_reset_confirm rc cr salt token new s = (Inl e, s)"
    if "token = [] \<or> length new < password_min_length (conf s) \<or> \<not> password_matches (conf s) new"
  proof -
    have "\<exists>e. make_password_reset_confirm (conf s) token new = Inl e"
      using that by (auto simp: make_password_reset_confirm_def check_nonempty_def check_password_def validate_password_strength_def bind_sum_def)
    then obtain e where "make_password_reset_confirm (conf s) token new = Inl e" ..
    then show ?thesis unfolding post_password_reset_confirm_def by (intro exI) (rule with_body_refused)
  qed
  then show ?thesis by fastforce
qed

text \<open>
  The address of a reset request is looked up as it was typed, while registration stores it in lower case:
  with any capital letter left in it no mail is sent, and the answer says nothing of it.
\<close>

theorem reset_request_is_case_sensitive:
  assumes "\<forall>u \<in> set (users (work (sess s))). user_email u = lower (user_email u)" and "email \<noteq> lower email"
  shows "request_password_reset rc fresh email s = (Inr ''If the account exists, a reset link has been sent'', s)"
proof -
  have "filter (\<lambda>u. user_email u = email \<and> user_deleted_at u = None) (users (work (sess s))) = []"
    using assms by (auto simp: filter_empty_conv)
  then have "in_db (get_by_email email) s = (Inr None, s)"
    by (simp add: in_db_apply get_by_email_def op_simps User_def one_or_none_def)
  then show ?thesis by (simp add: request_password_reset_def bnd_apply ret_apply)
qed

end
