(* ===== verification/Races.thy ===== *)
theory Races
  imports Auth
begin

text \<open>
  Two requests that use the same token at the same time. The handlers are coroutines: at each
  \<open>await\<close> of a Redis command another request may run, so a handler that reads a token and then changes it
  (\<open>consume_password_reset_token\<close>, and the refresh of \<open>backend/application/auth/use_cases.py\<close>) is two steps. The theorems compare
  the runs one after the other with the run in which both read before either writes.
\<close>

section \<open>Two steps each\<close>

text \<open>What is left of \<open>consume_password_reset_token\<close> once the value is read.\<close>

definition consume_read :: "'r redis_ops \<Rightarrow> settings \<Rightarrow> store \<Rightarrow> string \<Rightarrow> pyval option \<Rightarrow> ('r token_state, int option) op" where
  "consume_read rc c self token v = (case v of
     None \<Rightarrow> ret None
   | Some x \<Rightarrow> bnd (pure_op (is_used_value v)) (\<lambda>used.
       if used then ret None
       else bnd (delete_token rc c self token) (\<lambda>_.
         bnd (pure_op (int_value x)) (\<lambda>n. ret (Some n)))))"

text \<open>What is left of \<open>RefreshTokenUseCase.execute\<close> once the value is read.\<close>

definition refresh_read :: "'r redis_ops \<Rightarrow> crypto \<Rightarrow> int \<Rightarrow> string \<Rightarrow> string \<Rightarrow> string \<Rightarrow> pyval option \<Rightarrow> ('r app, token_pair) op" where
  "refresh_read rc cr now jti fresh token stored_value =
     (if falsy stored_value then throw (unauthorized ''Invalid refresh token'')
      else if is_used_marker (the stored_value) then
        bnd (pure_op (used_token_user_id stored_value)) (\<lambda>uid.
        bnd (case uid of Some i \<Rightarrow> revoke_family rc i | None \<Rightarrow> ret ()) (\<lambda>_.
        bnd (audit_log Nobody ''security.refresh_token_replay_detected'' ''session''
          (JObj [(''user_id'', case uid of Some i \<Rightarrow> JInt i | None \<Rightarrow> JNull)]) None None True now) (\<lambda>_.
        throw (unauthorized ''Invalid refresh token''))))
      else
        bnd (pure_op (int_value (the stored_value))) (\<lambda>uid.
        bnd (in_db (get_by_id User uid)) (\<lambda>found. case found of
          None \<Rightarrow> throw (not_found ''user'')
        | Some u \<Rightarrow>
            bnd (issue_access_token rc cr now jti u) (\<lambda>access.
            bnd (in_toks (\<lambda>c. rotate_refresh_token rc c RefreshStore fresh token (user_id u) (refresh_ttl c))) (\<lambda>refresh.
            ret \<lparr>access_token = access, refresh_token = refresh\<rparr>)))))"

lemma refresh_is_two_steps:
  "refresh_use_case rc cr now jti fresh token =
    bnd (in_toks (\<lambda>c. get_token rc c RefreshStore token)) (refresh_read rc cr now jti fresh token)"
  by (simp add: refresh_use_case_def refresh_read_def [abs_def])

lemma consume_is_two_steps:
  "consume_password_reset_token rc c self token = bnd (get_token rc c self token) (consume_read rc c self token)"
  by (simp add: consume_password_reset_token_def consume_read_def [abs_def])

text \<open>One request after the other, and both reads before both writes.\<close>

definition in_turn :: "('s, 'v) op \<Rightarrow> ('v \<Rightarrow> ('s, 'a) op) \<Rightarrow> ('v \<Rightarrow> ('s, 'a) op) \<Rightarrow> ('s, 'a \<times> 'a) op" where
  "in_turn m f g = bnd m (\<lambda>v. bnd (f v) (\<lambda>a. bnd m (\<lambda>w. bnd (g w) (\<lambda>b. ret (a, b)))))"

definition overlapping :: "('s, 'v) op \<Rightarrow> ('v \<Rightarrow> ('s, 'a) op) \<Rightarrow> ('v \<Rightarrow> ('s, 'a) op) \<Rightarrow> ('s, 'a \<times> 'a) op" where
  "overlapping m f g = bnd m (\<lambda>v. bnd m (\<lambda>w. bnd (f v) (\<lambda>a. bnd (g w) (\<lambda>b. ret (a, b)))))"

section \<open>A one-time token\<close>

context token_backend
begin

lemma consume_read_run:
  "\<exists>s'. consume_read rc c self t (Some (PStr (show_int uid))) s = (Inr (Some uid), s') \<and> look_up s' = (look_up s)(key self t := None)"
proof -
  obtain s' where d: "delete_token rc c self t s = (Inr (), s')" "look_up s' = (look_up s)(key self t := None)"
    using delete_law [of t s] by blast
  then show ?thesis by (intro exI [of _ s']) (simp add: consume_read_def bnd_apply op_simps)
qed

lemma consume_race:
  assumes live: "look_up s (key self t) = Some (PStr (show_int uid))"
  shows "(\<exists>s1. in_turn (get_token rc c self t) (consume_read rc c self t) (consume_read rc c self t) s = (Inr (Some uid, None), s1)) \<and>
    (\<exists>s2. overlapping (get_token rc c self t) (consume_read rc c self t) (consume_read rc c self t) s = (Inr (Some uid, Some uid), s2))"
proof
  have get: "get_token rc c self t s = (Inr (Some (PStr (show_int uid))), s)" using get_law [of s t] live by simp
  obtain s1 where 1: "consume_read rc c self t (Some (PStr (show_int uid))) s = (Inr (Some uid), s1)"
    "look_up s1 = (look_up s)(key self t := None)" using consume_read_run by blast
  have "get_token rc c self t s1 = (Inr None, s1)" using get_law [of s1 t] 1(2) by simp
  then show "\<exists>s1. in_turn (get_token rc c self t) (consume_read rc c self t) (consume_read rc c self t) s = (Inr (Some uid, None), s1)"
    using get 1(1) by (simp add: in_turn_def bnd_apply ret_apply consume_read_def [of _ _ _ _ None])
  obtain s2 where "consume_read rc c self t (Some (PStr (show_int uid))) s1 = (Inr (Some uid), s2)"
    using consume_read_run by blast
  then show "\<exists>s2. overlapping (get_token rc c self t) (consume_read rc c self t) (consume_read rc c self t) s = (Inr (Some uid, Some uid), s2)"
    using get 1(1) by (simp add: overlapping_def bnd_apply ret_apply)
qed

end

text \<open>
  Property C40. A one-time token is one-time only for requests that follow one another: then the second gets
  nothing. Of two requests that both read it before either deletes it, each gets the user, so a
  password-reset token may set two passwords.
\<close>

theorem one_time_token_race:
  assumes "token_backend rc c self look_up" and "look_up s (key self t) = Some (PStr (show_int uid))"
  shows "(\<exists>s1. in_turn (get_token rc c self t) (consume_read rc c self t) (consume_read rc c self t) s = (Inr (Some uid, None), s1)) \<and>
    (\<exists>s2. overlapping (get_token rc c self t) (consume_read rc c self t) (consume_read rc c self t) s = (Inr (Some uid, Some uid), s2))"
  by (rule token_backend.consume_race [OF assms])

theorem one_time_token_race_witness:
  "\<exists>s2. overlapping (get_token redis_map default_settings PasswordResetStore ''r'')
      (consume_read redis_map default_settings PasswordResetStore ''r'') (consume_read redis_map default_settings PasswordResetStore ''r'') demo_tokens =
    (Inr (Some 7, Some 7), s2)"
  using one_time_token_race [OF live.backend.token_backend_axioms, of demo_tokens PasswordResetStore "''r''" 7 default_settings]
  by (simp add: demo_tokens_at)

section \<open>A refresh token\<close>

lemma index_stores_differ:
  "access_index_key RevocationStore i \<noteq> user_index_key RefreshStore k" "user_index_key RefreshStore k \<noteq> access_index_key RevocationStore i"
  by (simp_all add: access_index_key_def user_index_key_def prefix_of_def)

context redis_service
begin

lemma issue_run:
  assumes "jti_of cr (create_access_token cr (conf s) now jti u) = Inr j" and "0 < access_token_expire_minutes (conf s)"
    and "keys s (access_index_key RevocationStore (user_id u)) = Some (PSet js)"
  shows "\<exists>t xs. issue_access_token rc cr now jti u s = (Inr (create_access_token cr (conf s) now jti u), s\<lparr>toks := t\<rparr>) \<and>
    view (redis t) = (keys s)(access_index_key RevocationStore (user_id u) \<mapsto> PSet xs)"
proof -
  obtain t xs where "track_at rc (conf s) RevocationStore (access_index_key RevocationStore (user_id u)) j
      (access_token_expire_minutes (conf s) * 60) (toks s) = (Inr (), t)"
    "view (redis t) = (keys s)(access_index_key RevocationStore (user_id u) \<mapsto> PSet xs)"
    using backend.track_law [of "access_token_expire_minutes (conf s) * 60" "toks s"
        "access_index_key RevocationStore (user_id u)" "conf s" RevocationStore j] assms(2,3) by auto
  then show ?thesis
    by (intro exI [of _ t] exI [of _ xs])
      (simp add: issue_access_token_def bnd_apply look_apply Let_def assms(1) pure_op_apply in_toks_apply track_access_token_def ret_apply)
qed

text \<open>A refresh with a value read when the token was live goes through, whatever the token has become.\<close>

lemma refresh_read_run:
  assumes "account s u" and "jti_of cr (create_access_token cr (conf s) now jti u) = Inr j"
    and "0 < access_token_expire_minutes (conf s)" "0 < refresh_ttl (conf s)"
    and "CHR '':'' \<notin> set fresh" "CHR '':'' \<notin> set old" "fresh \<noteq> old"
    and "keys s (user_index_key RefreshStore (user_id u)) = Some (PSet ts)"
    and "keys s (access_index_key RevocationStore (user_id u)) = Some (PSet js)"
  shows "\<exists>t xs ys. refresh_read rc cr now jti fresh old (Some (PStr (show_int (user_id u)))) s =
      (Inr \<lparr>access_token = create_access_token cr (conf s) now jti u, refresh_token = fresh\<rparr>, s\<lparr>toks := t\<rparr>) \<and>
    view (redis t) = (keys s)(access_index_key RevocationStore (user_id u) \<mapsto> PSet xs,
      key RefreshStore old \<mapsto> PStr (used_token_value (user_id u)), key RefreshStore fresh \<mapsto> PStr (show_int (user_id u)),
      user_index_key RefreshStore (user_id u) \<mapsto> PSet ys) \<and> fresh \<in> set ys"
proof -
  have live: "\<not> falsy (Some (PStr (show_int (user_id u))))" "\<not> is_used_marker (PStr (show_int (user_id u)))"
    using show_int_not_used [of "user_id u"] by (simp_all add: falsy_def is_used_marker_def is_used_value_def)
  obtain t xs where 1: "issue_access_token rc cr now jti u s = (Inr (create_access_token cr (conf s) now jti u), s\<lparr>toks := t\<rparr>)"
    "view (redis t) = (keys s)(access_index_key RevocationStore (user_id u) \<mapsto> PSet xs)"
    using issue_run [OF assms(2,3,9)] by blast
  have idx: "\<forall>v. view (redis t) (user_index_key RefreshStore (user_id u)) \<noteq> Some (PStr v)"
    using 1(2) assms(8) by (simp add: key_stores_differ)
  obtain t' ys where 2: "rotate_refresh_token rc (conf s) RefreshStore fresh old (user_id u) (refresh_ttl (conf s)) t = (Inr fresh, t')"
    "view (redis t') = (view (redis t))(key RefreshStore old \<mapsto> PStr (used_token_value (user_id u)),
      key RefreshStore fresh \<mapsto> PStr (show_int (user_id u)), user_index_key RefreshStore (user_id u) \<mapsto> PSet ys)" "fresh \<in> set ys"
    using backend.rotate [OF assms(4-7) idx, of "conf s"] by auto
  show ?thesis
    using live get_account [OF assms(1)] 1(1) 2
    by (intro exI [of _ t'] exI [of _ xs] exI [of _ ys])
      (simp add: refresh_read_def bnd_apply pure_op_apply in_toks_apply ret_apply 1(2))
qed

lemma refresh_race:
  assumes acc: "account s u" and j: "jti_of cr (create_access_token cr (conf s) now j1 u) = Inr k1"
      "jti_of cr (create_access_token cr (conf s) now j2 u) = Inr k2"
    and ttl: "0 < access_token_expire_minutes (conf s)" "0 < refresh_ttl (conf s)"
    and colon: "CHR '':'' \<notin> set f1" "CHR '':'' \<notin> set f2" "CHR '':'' \<notin> set old" and ne: "f1 \<noteq> old" "f2 \<noteq> old" "f1 \<noteq> f2"
    and live: "keys s (key RefreshStore old) = Some (PStr (show_int (user_id u)))"
    and idx: "keys s (user_index_key RefreshStore (user_id u)) = Some (PSet ts)"
      "keys s (access_index_key RevocationStore (user_id u)) = Some (PSet js)"
  shows "(\<exists>p1 s1 s3. refresh_use_case rc cr now j1 f1 old s = (Inr p1, s1) \<and> refresh_token p1 = f1 \<and>
      refresh_use_case rc cr now j2 f2 old s1 = (Inl (unauthorized ''Invalid refresh token''), s3) \<and> keys s3 (key RefreshStore f1) = None) \<and>
    (\<exists>p1 p2 s2. overlapping (in_toks (\<lambda>c. get_token rc c RefreshStore old)) (refresh_read rc cr now j1 f1 old)
        (refresh_read rc cr now j2 f2 old) s = (Inr (p1, p2), s2) \<and> refresh_token p1 = f1 \<and> refresh_token p2 = f2 \<and>
      keys s2 (key RefreshStore f1) = Some (PStr (show_int (user_id u))) \<and> keys s2 (key RefreshStore f2) = Some (PStr (show_int (user_id u))))"
    (is "?in_turn \<and> ?overlapping")
proof
  let ?old = "Some (PStr (show_int (user_id u)))"
  have get: "in_toks (\<lambda>c. get_token rc c RefreshStore old) s = (Inr ?old, s)"
    using backend.get_law [of "toks s" RefreshStore old "conf s"] live by (simp add: in_toks_apply)
  obtain t1 xs ys where 1: "refresh_read rc cr now j1 f1 old ?old s =
      (Inr \<lparr>access_token = create_access_token cr (conf s) now j1 u, refresh_token = f1\<rparr>, s\<lparr>toks := t1\<rparr>)"
    "view (redis t1) = (keys s)(access_index_key RevocationStore (user_id u) \<mapsto> PSet xs,
      key RefreshStore old \<mapsto> PStr (used_token_value (user_id u)), key RefreshStore f1 \<mapsto> PStr (show_int (user_id u)),
      user_index_key RefreshStore (user_id u) \<mapsto> PSet ys)" "f1 \<in> set ys"
    using refresh_read_run [OF acc j(1) ttl colon(1,3) ne(1) idx] by blast
  let ?s1 = "s\<lparr>toks := t1\<rparr>"
  have at1: "keys ?s1 (key RefreshStore old) = Some (PStr (used_token_value (user_id u)))"
    "keys ?s1 (user_index_key RefreshStore (user_id u)) = Some (PSet ys)"
    "keys ?s1 (access_index_key RevocationStore (user_id u)) = Some (PSet xs)"
    using 1(2) colon ne by (simp_all add: key_stores_differ index_stores_differ)
  have "refresh_use_case rc cr now j1 f1 old s = (Inr \<lparr>access_token = create_access_token cr (conf s) now j1 u, refresh_token = f1\<rparr>, ?s1)"
    using get 1(1) by (simp add: refresh_is_two_steps bnd_apply)
  then show ?in_turn
    using replay_run [OF at1, of cr now j2 f2] 1(3) by fastforce
  have acc1: "account ?s1 u" using acc by (simp add: account_def)
  obtain t2 xs' ys' where 2: "refresh_read rc cr now j2 f2 old ?old ?s1 =
      (Inr \<lparr>access_token = create_access_token cr (conf s) now j2 u, refresh_token = f2\<rparr>, ?s1\<lparr>toks := t2\<rparr>)"
    "view (redis t2) = (keys ?s1)(access_index_key RevocationStore (user_id u) \<mapsto> PSet xs',
      key RefreshStore old \<mapsto> PStr (used_token_value (user_id u)), key RefreshStore f2 \<mapsto> PStr (show_int (user_id u)),
      user_index_key RefreshStore (user_id u) \<mapsto> PSet ys')"
    using refresh_read_run [OF acc1 _ _ _ colon(2,3) ne(2) at1(2,3), of cr now j2 k2] j(2) ttl by auto
  have "view (redis t2) (key RefreshStore f1) = ?old" "view (redis t2) (key RefreshStore f2) = ?old"
    using 1(2) 2(2) colon ne by (simp_all add: key_stores_differ index_stores_differ)
  then show ?overlapping
    using get 1(1) 2(1) by (simp add: overlapping_def bnd_apply ret_apply)
qed

end



end
