(* ===== verification/Spec2Isabelle.thy ===== *)
theory Spec2Isabelle
  imports Prelude PyStr Exceptions Json JsonLoads Models Database Repository Config TokenStore RateLimit Retry
    Idempotency Jobs Email App Users ApiKeys Rbac Auth Billing Payments BillingApi PaymentEvents
    SubscriptionChanges Webhooks Schema UsersApi Admin
    Products
    Web
    Files
    Uploads
    Migration
    Sockets
    AuditTrail
    SettingsLoad
    Startup
    Observability
    AuditFile
    Worker
    Routing
    AuthApi
    Races
begin

text \<open>
  A model of the backend of this repository (\<open>src/backend\<close> and the migration under \<open>src/alembic\<close>), and the
  theorems that make it correct, or that say where it is not.

  \<^bold>\<open>The program.\<close> A FastAPI application in four tiers. A request passes the edge (\<open>main.py\<close>,
  \<open>web/\<close>): the size limit, the request middleware with its rate limiter, HTTPS redirection, security headers and
  audit entry. FastAPI gives it to the first route that fits (\<open>app/api/v1/*/router.py\<close>); the route's
  dependencies open a database session (\<open>database/session.py\<close>), find out who calls (a JWT or an API key,
  \<open>core/security/dependencies.py\<close>) and whether the caller may (\<open>core/security/rbac.py\<close>, \<open>entitlements.py\<close>).
  The handler calls use cases (\<open>application/\<close>), they call services and repositories (\<open>domain/\<close>),
  and domain errors come back as HTTP errors (\<open>web/exceptions.py\<close>). Beside the database there is state in
  Redis or in memory (tokens, limiter, idempotency records), in the process (background jobs, circuit breakers,
  event bus, seed flags, metrics) and on disk (uploads, audit file). Jobs run after the request: mails, webhook deliveries,
  notifications, audit rows. A Socket.IO server shares the token store.

  \<^bold>\<open>How code becomes definitions.\<close> A Python function that may raise and that changes state is an operation
  \<open>('s, 'a) op\<close> (\<open>Prelude\<close>): from a state to an exception or a value, and the state it leaves. A class is a record, its
  methods are definitions on it; an ORM row is a record (\<open>Models\<close>), a table a list of rows, and a
  session holds its own view of the tables and the committed one (\<open>Database\<close>). \<open>App\<close> puts the state that handlers
  share in one record, and \<open>in_db\<close>, \<open>in_toks\<close> and the like run a component's operation on its part of
  it. Definitions keep the names of the source, or carry the class's name where two would clash.
  The clock, fresh identifiers and salts are arguments; times are microseconds.

  \<^bold>\<open>Theories and what they show.\<close>

  \<^item> Foundations. \<open>Prelude\<close> (operations, the rules that evaluate them, \<open>preserves\<close> for invariants), \<open>PyStr\<close>
    (\<open>str\<close> operations), \<open>Json\<close> and \<open>JsonLoads\<close> (\<open>json.dumps\<close> and \<open>json.loads\<close>; reading back what was printed gives the
    value), \<open>Exceptions\<close>, \<open>Models\<close>, \<open>Database\<close>, \<open>Repository\<close> (the base repository, with its contract as the locale
    \<open>repository\<close>, and \<open>soft_delete\<close> on top of it, interpreted for every table).
  \<^item> Settings. \<open>Config\<close> (\<open>core/config.py\<close>: fields, validators) and \<open>SettingsLoad\<close> (environment files, secret
    files; a production secret is never the default).
  \<^item> Stores and resilience. \<open>TokenStore\<close> (refresh, one-time and revoked tokens; the locale \<open>token_backend\<close> is given by a
    working Redis, \<open>redis_service\<close>, and by the memory of a process in \<open>dev\<close> without one, \<open>redis_outage\<close>), \<open>RateLimit\<close> (the sliding
    window never admits more than the limit; the Redis limiter's fallback raises), \<open>Retry\<close> (breaker invariant, retry
    schedule and termination, the synchronous and asynchronous loops agree), \<open>Idempotency\<close>, \<open>Jobs\<close> (the job manager as a step relation: first
    in, first out, and idle exactly when nothing is pending), \<open>Email\<close>, \<open>Worker\<close> (the queued jobs run to their effects: audit
    rows survive failing neighbours, a mailed reset token resets the password, an outage costs later mails too).
  \<^item> Identity. \<open>Users\<close> (\<open>domain/users\<close>: hashes, login, lockout after five failures), \<open>ApiKeys\<close>, \<open>Rbac\<close> (who holds a
    permission; a grant never exceeds the granter), \<open>Auth\<close> (who a request acts as; login, refresh with replay detection,
    verification, password reset), \<open>AuthApi\<close> (the bodies of those requests) and \<open>Races\<close> (two requests with one token:
    in turn the second is refused; when both read before either writes, both succeed).
  \<^item> The API. \<open>Schema\<close>, \<open>UsersApi\<close> (registration and update), \<open>Admin\<close>, \<open>Products\<close>, \<open>Uploads\<close> over \<open>Files\<close> (an upload comes
    back, a download stays in the upload directory, the local storage refines a map from names to contents),
    \<open>AuditTrail\<close> and \<open>AuditFile\<close> (what is logged can be found; the rotating JSON-lines file holds the last
    entries), \<open>Sockets\<close>, \<open>Web\<close>, \<open>Routing\<close> (no route hides another).
  \<^item> Money. \<open>Billing\<close> (entitlement equals what the subscriptions say, trials), \<open>Payments\<close> (the two gateways as
    interpretations of the locale \<open>payment_gateway\<close>), \<open>BillingApi\<close>, \<open>PaymentEvents\<close> (a payment event takes effect at most once,
    and only an authentic call has an effect), \<open>SubscriptionChanges\<close>.
  \<^item> Events. \<open>Webhooks\<close> (the event bus, dispatch to exactly the interested endpoints, at most three attempts).
  \<^item> Life of the process. \<open>Startup\<close> (hooks, lifespan, seeds, \<open>create_app\<close>), \<open>Observability\<close>, and \<open>Migration\<close> (the schema migration
    on two kinds of database).

  \<^bold>\<open>Parameters and hypotheses.\<close> What is not in the repository is an argument: the JWT library, bcrypt and PBKDF2 (the
  record \<open>crypto\<close>; \<open>crypto_ok\<close> says a hash accepts its own password), HMAC-SHA256, the Redis client (\<open>redis_ops\<close>;
  \<open>redis_service\<close> states the documented effect of each command), SMTP and HTTP clients, boto3 and Azure
  (\<open>remote_api\<close>), e-mail validation, the printing and reading of floats, the rounding of floating point
  operations (\<open>rounds_well\<close>), and the ORM class \<open>UploadRecord\<close>, whose module the repository lacks. Each theorem with a hypothesis has
  a witness, a concrete input at which it is applied; the parameters are concrete there (\<open>redis_map\<close>, \<open>demo_crypto\<close>).

  \<^bold>\<open>Bounds.\<close> Recursion is structural throughout, but for the JSON parser, whose fuel is one more than the length of
  the text (every nested value and every item takes characters of its own; that it is enough for every
  printed value is part of the round trip). A retry loop runs at most \<open>retries + 1\<close> times, a delivery is tried at most
  three times, and loops that wait for ever in the source (the job manager's, the worker's) are step relations or
  take one element of a list of rounds each, so that a theorem over all lists covers every length of
  run. The audit file's bounds are the source's: six files of 10 MiB.

  \<^bold>\<open>What the model showed.\<close> Several theorems state defects rather than guarantees: the application does not start outside
  \<open>dev\<close> (\<open>Startup\<close>), the migration fails on PostgreSQL in both directions (\<open>Migration\<close>), the Redis queue runs
  nothing (\<open>Jobs\<close>), a user who holds a permission or feature twice gets an error (\<open>Rbac\<close>, \<open>Billing\<close>), a plan can
  be changed without a payment (\<open>SubscriptionChanges\<close>), an idempotency key is not tied to its payload (\<open>UsersApi\<close>), and others,
  each named in its theory.

  \<^bold>\<open>Not modelled.\<close> Log lines (but for the context they are stamped with), durations, the Prometheus text,
  OpenTelemetry's spans, and CORS answers. String column lengths and the 32-bit range of integer columns. \<open>onupdate\<close>
  timestamps: \<open>updated_at\<close> keeps the value it had. Transactions of two requests are not interleaved: but for the
  tokens of \<open>Races\<close>, a handler runs to its end on the committed state, so races between requests (two registrations of one
  address, two uses of one idempotency key) are outside the model. Characters above \<open>\u00ff\<close>. \<open>alembic/env.py\<close>, the response contracts and the
  package re-exports have no behaviour of their own. The trailing-slash redirect and the documentation pages belong to FastAPI.
\<close>

end
